(* ===== verification/Prelude.thy ===== *)
theory Prelude
  imports Main "HOL-Library.Word" "HOL-Library.AList" "HOL-Library.Sublist" "HOL-Library.Char_ord" "HOL-Library.Log_Nat"
begin

text \<open>
  Shared vocabulary of the development: machine types, results, the state-passing
  shape of the code's methods, loops, and the string, number and map helpers of the
  Rust standard library that the source uses.

  A Rust \<open>String\<close> or byte vector is a list of \<open>char\<close>, one per byte.  A
  method that reads or writes shared state is an \<open>act\<close>: it takes the state and
  returns a result and the state it leaves, so that the effects of a method that
  fails half way are kept, as they are in Rust.
\<close>

section \<open>Machine types\<close>

type_synonym u8 = "8 word"
type_synonym u16 = "16 word"
type_synonym u32 = "32 word"
type_synonym u64 = "64 word"

type_synonym bytes = "char list"

text \<open>Nanoseconds since the Unix epoch, UTC (\<open>chrono::DateTime<Utc>\<close>).\<close>
type_synonym datetime = int

text \<open>Nanoseconds of the monotonic clock (\<open>std::time::Instant\<close>).\<close>
type_synonym instant = int

abbreviation secs :: "int \<Rightarrow> int" where
  "secs n \<equiv> n * 1000000000"

text \<open>\<open>DateTime::timestamp\<close>: whole seconds, rounded towards minus infinity.\<close>
definition timestamp :: "datetime \<Rightarrow> int" where
  "timestamp t = t div 1000000000"

text \<open>\<open>u64::saturating_sub\<close>, \<open>u64::saturating_add\<close> and their 32-bit kin.\<close>
definition sat_sub :: "'a::len word \<Rightarrow> 'a word \<Rightarrow> 'a word" where
  "sat_sub a b = (if a \<le> b then 0 else a - b)"

definition sat_add :: "'a::len word \<Rightarrow> 'a word \<Rightarrow> 'a word" where
  "sat_add a b = of_int (min (uint a + uint b) (2 ^ LENGTH('a) - 1))"

definition sat_mul :: "'a::len word \<Rightarrow> 'a word \<Rightarrow> 'a word" where
  "sat_mul a b = of_int (min (uint a * uint b) (2 ^ LENGTH('a) - 1))"

lemma uint_sat_sub: "uint (sat_sub a b) = max 0 (uint a - uint b)"
  by (auto simp: sat_sub_def word_le_def uint_sub_if_size)

lemma uint_of_int_bounded: "0 \<le> i \<Longrightarrow> i < 2 ^ LENGTH('a) \<Longrightarrow> uint (of_int i :: 'a::len word) = i"
  by (simp add: uint_word_of_int)

lemma uint_sat_add:
  "uint (sat_add (a :: 'a::len word) b) = min (uint a + uint b) (2 ^ LENGTH('a) - 1)"
  unfolding sat_add_def by (rule uint_of_int_bounded) (auto simp: min_def)

lemma uint_sat_mul:
  "uint (sat_mul (a :: 'a::len word) b) = min (uint a * uint b) (2 ^ LENGTH('a) - 1)"
  unfolding sat_mul_def by (rule uint_of_int_bounded) (auto simp: min_def)

section \<open>Results\<close>

text \<open>
  An \<open>anyhow::Error\<close> is its chain of messages, the outermost context first;
  \<open>to_string\<close> prints the outermost one only.  A panic is a third outcome: it
  unwinds past every \<open>match\<close> on a \<open>Result\<close>.
\<close>

type_synonym err = "string list"

datatype 'a res = Ok 'a | Err err | Panic string

definition err_to_string :: "err \<Rightarrow> string" where
  "err_to_string e = (case e of [] \<Rightarrow> '''' | m # _ \<Rightarrow> m)"

primrec is_ok :: "'a res \<Rightarrow> bool" where
  "is_ok (Ok x) = True"
| "is_ok (Err e) = False"
| "is_ok (Panic p) = False"

primrec res_ok :: "'a res \<Rightarrow> 'a option" where
  "res_ok (Ok x) = Some x"
| "res_ok (Err e) = None"
| "res_ok (Panic p) = None"

lemma is_ok_iff: "is_ok r \<longleftrightarrow> (\<exists>x. r = Ok x)"
  by (cases r) auto

text \<open>\<open>Result::context\<close>.\<close>
primrec with_context :: "string \<Rightarrow> 'a res \<Rightarrow> 'a res" where
  "with_context c (Ok x) = Ok x"
| "with_context c (Err e) = Err (c # e)"
| "with_context c (Panic p) = Panic p"

text \<open>\<open>Option::context\<close>: a missing value becomes an error.\<close>
definition some_or :: "string \<Rightarrow> 'a option \<Rightarrow> 'a res" where
  "some_or c x = (case x of None \<Rightarrow> Err [c] | Some v \<Rightarrow> Ok v)"

primrec res_bind :: "'a res \<Rightarrow> ('a \<Rightarrow> 'b res) \<Rightarrow> 'b res" where
  "res_bind (Ok x) f = f x"
| "res_bind (Err e) f = Err e"
| "res_bind (Panic p) f = Panic p"

lemma res_bind_Ok_iff: "res_bind r f = Ok y \<longleftrightarrow> (\<exists>x. r = Ok x \<and> f x = Ok y)"
  by (cases r) auto

lemma res_bind_Err_iff:
  "res_bind r f = Err e \<longleftrightarrow> r = Err e \<or> (\<exists>x. r = Ok x \<and> f x = Err e)"
  by (cases r) auto

lemma res_bind_Panic_iff:
  "res_bind r f = Panic p \<longleftrightarrow> r = Panic p \<or> (\<exists>x. r = Ok x \<and> f x = Panic p)"
  by (cases r) auto

section \<open>Methods that read and write state\<close>

type_synonym ('s, 'a) act = "'s \<Rightarrow> 'a res \<times> 's"

definition ret :: "'a \<Rightarrow> ('s, 'a) act" where
  "ret x = (\<lambda>s. (Ok x, s))"

definition bail :: "string \<Rightarrow> ('s, 'a) act" where
  "bail m = (\<lambda>s. (Err [m], s))"

definition lift_res :: "'a res \<Rightarrow> ('s, 'a) act" where
  "lift_res r = (\<lambda>s. (r, s))"

definition gets :: "('s \<Rightarrow> 'a) \<Rightarrow> ('s, 'a) act" where
  "gets f = (\<lambda>s. (Ok (f s), s))"

definition modify :: "('s \<Rightarrow> 's) \<Rightarrow> ('s, unit) act" where
  "modify f = (\<lambda>s. (Ok (), f s))"

text \<open>The \<open>?\<close> operator: go on with the value, or return the error.\<close>
definition bnd :: "('s, 'a) act \<Rightarrow> ('a \<Rightarrow> ('s, 'b) act) \<Rightarrow> ('s, 'b) act" where
  "bnd m f = (\<lambda>s. case m s of
       (Ok x, t) \<Rightarrow> f x t
     | (Err e, t) \<Rightarrow> (Err e, t)
     | (Panic p, t) \<Rightarrow> (Panic p, t))"

definition seq :: "('s, 'a) act \<Rightarrow> ('s, 'b) act \<Rightarrow> ('s, 'b) act" where
  "seq m k = bnd m (\<lambda>_. k)"

text \<open>A \<open>match\<close> on the result of a call: the error is a value, a panic is not caught.\<close>
definition attempt :: "('s, 'a) act \<Rightarrow> ('s, 'a res) act" where
  "attempt m = (\<lambda>s. case m s of
       (Ok x, t) \<Rightarrow> (Ok (Ok x), t)
     | (Err e, t) \<Rightarrow> (Ok (Err e), t)
     | (Panic p, t) \<Rightarrow> (Panic p, t))"

definition with_ctx :: "string \<Rightarrow> ('s, 'a) act \<Rightarrow> ('s, 'a) act" where
  "with_ctx c m = (\<lambda>s. case m s of (r, t) \<Rightarrow> (with_context c r, t))"

definition run_if :: "bool \<Rightarrow> ('s, unit) act \<Rightarrow> ('s, unit) act" where
  "run_if b m = (if b then m else ret ())"

text \<open>
  A \<open>for\<close> loop over a vector with an accumulator.  The body says whether the loop goes
  on; an error of the body leaves the loop and the method.
\<close>

datatype 'b flow = Continue 'b | Break 'b

primrec for_loop :: "('a \<Rightarrow> 'b \<Rightarrow> ('s, 'b flow) act) \<Rightarrow> 'a list \<Rightarrow> 'b \<Rightarrow> ('s, 'b) act" where
  "for_loop body [] acc = ret acc"
| "for_loop body (x # xs) acc =
     bnd (body x acc) (\<lambda>r. case r of Continue acc' \<Rightarrow> for_loop body xs acc' | Break acc' \<Rightarrow> ret acc')"

text \<open>A loop that has no \<open>break\<close>.\<close>
primrec for_each :: "('a \<Rightarrow> 'b \<Rightarrow> ('s, 'b) act) \<Rightarrow> 'a list \<Rightarrow> 'b \<Rightarrow> ('s, 'b) act" where
  "for_each body [] acc = ret acc"
| "for_each body (x # xs) acc = bnd (body x acc) (\<lambda>acc'. for_each body xs acc')"

subsection \<open>Evaluation rules\<close>

named_theorems act_simps \<open>evaluation of the elementary actions\<close>
named_theorems run_simps \<open>evaluation of the combinators\<close>
named_theorems ok_iffs \<open>when a composed action returns a value\<close>

lemma ret_apply [act_simps]: "ret x s = (Ok x, s)"
  by (simp add: ret_def)

lemma bail_apply [act_simps]: "bail m s = (Err [m], s)"
  by (simp add: bail_def)

lemma lift_res_apply [act_simps]: "lift_res r s = (r, s)"
  by (simp add: lift_res_def)

lemma gets_apply [act_simps]: "gets f s = (Ok (f s), s)"
  by (simp add: gets_def)

lemma modify_apply [act_simps]: "modify f s = (Ok (), f s)"
  by (simp add: modify_def)

lemma bnd_apply [run_simps]:
  "bnd m f s = (case m s of
       (Ok x, t) \<Rightarrow> f x t
     | (Err e, t) \<Rightarrow> (Err e, t)
     | (Panic p, t) \<Rightarrow> (Panic p, t))"
  by (simp add: bnd_def)

lemma seq_apply [run_simps]: "seq m k s = bnd m (\<lambda>_. k) s"
  by (simp add: seq_def)

lemma attempt_apply [run_simps]:
  "attempt m s = (case m s of
       (Ok x, t) \<Rightarrow> (Ok (Ok x), t)
     | (Err e, t) \<Rightarrow> (Ok (Err e), t)
     | (Panic p, t) \<Rightarrow> (Panic p, t))"
  by (simp add: attempt_def)

lemma with_ctx_apply [run_simps]:
  "with_ctx c m s = (case m s of (r, t) \<Rightarrow> (with_context c r, t))"
  by (simp add: with_ctx_def)

lemma run_if_apply [run_simps]: "run_if b m s = (if b then m s else (Ok (), s))"
  by (simp add: run_if_def ret_def)

lemma bnd_Ok_iff [ok_iffs]:
  "bnd m f s = (Ok y, u) \<longleftrightarrow> (\<exists>x t. m s = (Ok x, t) \<and> f x t = (Ok y, u))"
  by (auto simp: bnd_def split: prod.splits res.splits)

lemma seq_Ok_iff [ok_iffs]:
  "seq m k s = (Ok y, u) \<longleftrightarrow> (\<exists>x t. m s = (Ok x, t) \<and> k t = (Ok y, u))"
  by (simp add: seq_def bnd_Ok_iff)

lemma attempt_Ok_iff [ok_iffs]:
  "attempt m s = (Ok r, t) \<longleftrightarrow> m s = (r, t) \<and> (\<forall>p. r \<noteq> Panic p)"
  by (auto simp: attempt_def split: prod.splits res.splits)

lemma with_ctx_Ok_iff [ok_iffs]: "with_ctx c m s = (Ok x, t) \<longleftrightarrow> m s = (Ok x, t)"
  by (cases "m s"; cases "fst (m s)") (auto simp: with_ctx_def)

lemma run_if_Ok_iff [ok_iffs]:
  "run_if b m s = (Ok x, t) \<longleftrightarrow> (if b then m s = (Ok x, t) else t = s)"
  by (auto simp: run_if_def ret_def)

lemma snd_with_ctx [simp]: "snd (with_ctx c m s) = snd (m s)"
  by (simp add: with_ctx_def split: prod.splits)

lemma not_in_by_key: "map f xs = ys \<Longrightarrow> f x \<notin> set ys \<Longrightarrow> x \<notin> set xs"
  by auto

subsection \<open>Loop invariants\<close>

text \<open>An invariant of the state holds after a loop, however the loop ends.\<close>
lemma for_each_inv:
  assumes "for_each body xs acc s = (r, t)" "P s"
    and "\<And>x acc s r t. x \<in> set xs \<Longrightarrow> P s \<Longrightarrow> body x acc s = (r, t) \<Longrightarrow> P t"
  shows "P t"
  using assms
proof (induction xs arbitrary: acc s)
  case (Cons x xs)
  obtain r1 s1 where b: "body x acc s = (r1, s1)" by (cases "body x acc s")
  with Cons.prems have P1: "P s1" by (metis list.set_intros(1))
  show ?case
  proof (cases r1)
    case (Ok acc')
    with b Cons.prems(1) have "for_each body xs acc' s1 = (r, t)" by (simp add: bnd_apply)
    with Cons.IH P1 Cons.prems(3) show ?thesis by (metis list.set_intros(2))
  qed (use b P1 Cons.prems(1) in \<open>simp_all add: bnd_apply\<close>)
qed (simp add: ret_def)

text \<open>The same with an invariant of the accumulator, for loops that return.\<close>
lemma for_each_Ok_inv:
  assumes "for_each body xs acc s = (Ok y, t)" "P acc s"
    and "\<And>x acc s acc' t. x \<in> set xs \<Longrightarrow> P acc s \<Longrightarrow> body x acc s = (Ok acc', t) \<Longrightarrow> P acc' t"
  shows "P y t"
  using assms
proof (induction xs arbitrary: acc s)
  case (Cons x xs)
  then show ?case by (auto simp: bnd_Ok_iff) (metis)
qed (simp add: ret_def)

text \<open>What a loop with breaks returns.\<close>
primrec flow_val :: "'b flow \<Rightarrow> 'b" where
  "flow_val (Continue x) = x"
| "flow_val (Break x) = x"

lemma for_loop_Ok_inv:
  assumes "for_loop body xs acc s = (Ok y, t)" "P acc"
    and "\<And>x acc s r t. x \<in> set xs \<Longrightarrow> P acc \<Longrightarrow> body x acc s = (Ok r, t) \<Longrightarrow> P (flow_val r)"
  shows "P y"
  using assms
proof (induction xs arbitrary: acc s)
  case (Cons x xs)
  obtain r u where b: "body x acc s = (Ok r, u)"
    and k: "(case r of Continue acc' \<Rightarrow> for_loop body xs acc' | Break acc' \<Rightarrow> ret acc') u = (Ok y, t)"
    using Cons.prems(1) by (auto simp: bnd_Ok_iff)
  have P: "P (flow_val r)" using Cons.prems(2,3) b by (meson list.set_intros(1))
  show ?case
  proof (cases r)
    case (Continue acc')
    with k P have "for_loop body xs acc' u = (Ok y, t)" "P acc'" by simp_all
    then show ?thesis by (rule Cons.IH) (use Cons.prems(3) in force)
  qed (use k P in \<open>simp add: ret_def\<close>)
qed (simp add: ret_def)

subsection \<open>What a run returns\<close>

text \<open>
  \<open>yields Q m\<close>: whenever \<open>m\<close> returns a value, from whatever state, the value
  satisfies \<open>Q\<close>.
\<close>

definition yields :: "('a \<Rightarrow> bool) \<Rightarrow> ('s, 'a) act \<Rightarrow> bool" where
  "yields Q m \<longleftrightarrow> (\<forall>s x t. m s = (Ok x, t) \<longrightarrow> Q x)"

lemma yieldsI: "(\<And>s x t. m s = (Ok x, t) \<Longrightarrow> Q x) \<Longrightarrow> yields Q m"
  by (auto simp: yields_def)

lemma yieldsD: "yields Q m \<Longrightarrow> m s = (Ok x, t) \<Longrightarrow> Q x"
  by (auto simp: yields_def)

lemma yields_any: "yields (\<lambda>_. True) m"
  by (simp add: yields_def)

lemma yields_mono: "yields P m \<Longrightarrow> (\<And>x. P x \<Longrightarrow> Q x) \<Longrightarrow> yields Q m"
  by (auto simp: yields_def)

lemma yields_ret: "Q x \<Longrightarrow> yields Q (ret x)"
  by (simp add: yields_def ret_def)

lemma yields_bail: "yields Q (bail m)"
  by (simp add: yields_def bail_def)

lemma yields_lift: "(\<And>x. r = Ok x \<Longrightarrow> Q x) \<Longrightarrow> yields Q (lift_res r)"
  by (simp add: yields_def lift_res_def)

lemma yields_bnd: "yields P m \<Longrightarrow> (\<And>x. P x \<Longrightarrow> yields Q (f x)) \<Longrightarrow> yields Q (bnd m f)"
  by (fastforce simp: yields_def bnd_Ok_iff)

lemma yields_then: "(\<And>x. yields Q (f x)) \<Longrightarrow> yields Q (bnd m f)"
  by (fastforce simp: yields_def bnd_Ok_iff)

lemma yields_for_loop:
  assumes "P acc" "\<And>x acc. x \<in> set xs \<Longrightarrow> P acc \<Longrightarrow> yields (\<lambda>r. P (flow_val r)) (body x acc)"
  shows "yields P (for_loop body xs acc)"
  by (rule yieldsI, erule for_loop_Ok_inv) (use assms in \<open>auto dest: yieldsD\<close>)

lemma yields_for_each:
  assumes "P acc" "\<And>x acc. x \<in> set xs \<Longrightarrow> P acc \<Longrightarrow> yields P (body x acc)"
  shows "yields P (for_each body xs acc)"
  by (rule yieldsI, erule for_each_Ok_inv [where P = "\<lambda>y t. P y"]) (use assms in \<open>auto dest: yieldsD\<close>)

subsection \<open>Relations every run respects\<close>

text \<open>
  \<open>moves R m\<close>: whatever \<open>m\<close> returns, the state it leaves is \<open>R\<close>-related to the
  state it found.  For a preorder \<open>R\<close> (a frame condition, a monotone log, an invariant
  that is kept) the property is closed under the combinators; the locale states that
  once, and the component theories interpret it at the relations of the model.
\<close>

definition moves :: "('s \<Rightarrow> 's \<Rightarrow> bool) \<Rightarrow> ('s, 'a) act \<Rightarrow> bool" where
  "moves R m \<longleftrightarrow> (\<forall>s. R s (snd (m s)))"

lemma movesI: "(\<And>s r t. m s = (r, t) \<Longrightarrow> R s t) \<Longrightarrow> moves R m"
  unfolding moves_def by (metis prod.collapse)

lemma movesD: "moves R m \<Longrightarrow> m s = (r, t) \<Longrightarrow> R s t"
  unfolding moves_def by (metis snd_conv)

lemma moves_snd: "moves R m \<Longrightarrow> R s (snd (m s))"
  by (simp add: moves_def)

locale act_rel =
  fixes R :: "'s \<Rightarrow> 's \<Rightarrow> bool"
  assumes refl: "R s s"
    and trans: "R s t \<Longrightarrow> R t u \<Longrightarrow> R s u"
begin

lemma then_moves: "R s t \<Longrightarrow> moves R m \<Longrightarrow> R s (snd (m t))"
  by (rule trans, assumption, erule moves_snd)

lemma pure_ret: "moves R (ret x)"
  by (simp add: moves_def act_simps run_simps refl)

lemma pure_bail: "moves R (bail m)"
  by (simp add: moves_def act_simps run_simps refl)

lemma pure_lift: "moves R (lift_res r)"
  by (simp add: moves_def act_simps run_simps refl)

lemma pure_gets: "moves R (gets f)"
  by (simp add: moves_def act_simps run_simps refl)

lemma step_modify: "(\<And>s. R s (f s)) \<Longrightarrow> moves R (modify f)"
  by (simp add: moves_def act_simps run_simps)

lemma step_bnd: "moves R m \<Longrightarrow> (\<And>x. moves R (f x)) \<Longrightarrow> moves R (bnd m f)"
  unfolding moves_def
  by (auto simp: act_simps run_simps intro: trans split: prod.split res.split) (metis snd_conv trans)+

lemma step_bnd_gets: "(\<And>s. R s (snd (k (f s) s))) \<Longrightarrow> moves R (bnd (gets f) k)"
  by (simp add: moves_def act_simps run_simps)

lemma step_bnd_when:
  assumes "moves R m" "\<And>s x t. m s = (Ok x, t) \<Longrightarrow> R s t \<Longrightarrow> R s (snd (f x t))"
  shows "moves R (bnd m f)"
  unfolding moves_def
  using assms by (auto simp: bnd_apply dest: movesD split: prod.split res.split)

lemma step_bnd_yields:
  assumes "moves R m" "yields Q m" "\<And>x. Q x \<Longrightarrow> moves R (f x)"
  shows "moves R (bnd m f)"
proof (rule step_bnd_when [OF assms(1)])
  show "R s (snd (f x t))" if "m s = (Ok x, t)" "R s t" for s x t
    using that moves_snd [OF assms(3)] yieldsD [OF assms(2)] trans by metis
qed

lemma step_seq: "moves R m \<Longrightarrow> moves R k \<Longrightarrow> moves R (seq m k)"
  unfolding seq_def by (rule step_bnd)

lemma step_attempt: "moves R m \<Longrightarrow> moves R (attempt m)"
  unfolding moves_def
  by (auto simp: act_simps run_simps split: prod.split res.split) (metis snd_conv)+

lemma step_with_ctx: "moves R m \<Longrightarrow> moves R (with_ctx c m)"
  by (simp add: moves_def)

lemma step_run_if: "moves R m \<Longrightarrow> moves R (run_if b m)"
  by (simp add: run_if_def pure_ret)

lemma step_for_each:
  assumes "\<And>x acc. x \<in> set xs \<Longrightarrow> moves R (body x acc)"
  shows "moves R (for_each body xs acc)"
  using assms
  by (induction xs arbitrary: acc) (auto intro: pure_ret step_bnd)

lemma step_for_loop:
  assumes "\<And>x acc. x \<in> set xs \<Longrightarrow> moves R (body x acc)"
  shows "moves R (for_loop body xs acc)"
  using assms
  by (induction xs arbitrary: acc) (auto intro!: pure_ret step_bnd split: flow.split)

lemmas rules = pure_ret pure_bail pure_lift pure_gets step_bnd step_seq step_attempt
  step_with_ctx step_run_if step_for_each step_for_loop

end

end
