(* ===== verification/Rust_Text.thy ===== *)
theory Rust_Text
  imports Prelude
begin

text \<open>
  The string and number operations of the Rust standard library that the source uses,
  on byte strings: trimming, case, prefixes, splitting, joining, decimal printing and
  parsing.  Case and white space are those of ASCII.
\<close>

section \<open>Characters and substrings\<close>

definition code_of :: "char \<Rightarrow> int" where
  "code_of c = of_char c"

definition is_ws :: "char \<Rightarrow> bool" where
  "is_ws c \<longleftrightarrow> code_of c = 32 \<or> 9 \<le> code_of c \<and> code_of c \<le> 13"

definition is_digit :: "char \<Rightarrow> bool" where
  "is_digit c \<longleftrightarrow> 48 \<le> code_of c \<and> code_of c \<le> 57"

definition is_hex_digit :: "char \<Rightarrow> bool" where
  "is_hex_digit c \<longleftrightarrow> is_digit c \<or> 65 \<le> code_of c \<and> code_of c \<le> 70
     \<or> 97 \<le> code_of c \<and> code_of c \<le> 102"

definition lower_char :: "char \<Rightarrow> char" where
  "lower_char c = (if 65 \<le> code_of c \<and> code_of c \<le> 90 then char_of (code_of c + 32) else c)"

definition to_lower :: "string \<Rightarrow> string" where
  "to_lower s = map lower_char s"

definition upper_char :: "char \<Rightarrow> char" where
  "upper_char c = (if 97 \<le> code_of c \<and> code_of c \<le> 122 then char_of (code_of c - 32) else c)"

definition to_upper :: "string \<Rightarrow> string" where
  "to_upper s = map upper_char s"

definition eq_ignore_case :: "string \<Rightarrow> string \<Rightarrow> bool" where
  "eq_ignore_case a b \<longleftrightarrow> to_lower a = to_lower b"

definition trim_start :: "string \<Rightarrow> string" where
  "trim_start s = dropWhile is_ws s"

definition trim_end :: "string \<Rightarrow> string" where
  "trim_end s = rev (dropWhile is_ws (rev s))"

definition trim :: "string \<Rightarrow> string" where
  "trim s = trim_end (trim_start s)"

definition trim_end_char :: "char \<Rightarrow> string \<Rightarrow> string" where
  "trim_end_char c s = rev (dropWhile (\<lambda>d. d = c) (rev s))"

definition starts_with :: "string \<Rightarrow> string \<Rightarrow> bool" where
  "starts_with s p = (take (length p) s = p)"

definition ends_with :: "string \<Rightarrow> string \<Rightarrow> bool" where
  "ends_with s p = starts_with (rev s) (rev p)"

definition strip_prefix :: "string \<Rightarrow> string \<Rightarrow> string option" where
  "strip_prefix s p = (if starts_with s p then Some (drop (length p) s) else None)"

primrec str_contains :: "string \<Rightarrow> string \<Rightarrow> bool" where
  "str_contains [] p = (p = [])"
| "str_contains (c # s) p = (starts_with (c # s) p \<or> str_contains s p)"

primrec split_on :: "char \<Rightarrow> string \<Rightarrow> string list" where
  "split_on c [] = [[]]"
| "split_on c (d # s) =
     (if d = c then [] # split_on c s
      else case split_on c s of [] \<Rightarrow> [[d]] | w # ws \<Rightarrow> (d # w) # ws)"

definition split_once :: "char \<Rightarrow> string \<Rightarrow> (string \<times> string) option" where
  "split_once c s = (case dropWhile (\<lambda>d. d \<noteq> c) s of
     [] \<Rightarrow> None | _ # r \<Rightarrow> Some (takeWhile (\<lambda>d. d \<noteq> c) s, r))"

definition rsplit_once :: "char \<Rightarrow> string \<Rightarrow> (string \<times> string) option" where
  "rsplit_once c s = (case split_once c (rev s) of
     None \<Rightarrow> None | Some (a, b) \<Rightarrow> Some (rev b, rev a))"

fun join :: "string \<Rightarrow> string list \<Rightarrow> string" where
  "join sep [] = []"
| "join sep [x] = x"
| "join sep (x # y # xs) = x @ sep @ join sep (y # xs)"

definition find_char :: "char \<Rightarrow> string \<Rightarrow> nat option" where
  "find_char c s = (let n = length (takeWhile (\<lambda>d. d \<noteq> c) s) in
     if n < length s then Some n else None)"

lemma starts_with_prefix: "starts_with s p \<longleftrightarrow> prefix p s"
  unfolding starts_with_def prefix_def
  by (metis append_eq_conv_conj)

lemma str_contains_append: "str_contains (a @ p @ b) p"
proof (induction a)
  case Nil
  have "starts_with (p @ b) p" by (simp add: starts_with_def)
  then show ?case by (cases "p @ b") auto
next
  case (Cons c a)
  then show ?case by simp
qed

lemma str_contains_iff: "str_contains s p \<longleftrightarrow> (\<exists>a b. s = a @ p @ b)"
proof
  show "str_contains s p \<Longrightarrow> \<exists>a b. s = a @ p @ b"
  proof (induction s)
    case (Cons c s)
    then show ?case
      by (auto simp: starts_with_prefix prefix_def) (metis append_Cons append_Nil)+
  qed simp
qed (auto simp: str_contains_append)

lemma to_lower_idem [simp]: "to_lower (to_lower s) = to_lower s"
proof -
  have "lower_char (lower_char c) = lower_char c" for c
    by (simp add: lower_char_def code_of_def)
  then show ?thesis by (simp add: to_lower_def)
qed

lemma split_on_join: "join [c] (split_on c s) = s"
proof (induction s)
  case (Cons d s)
  show ?case
  proof (cases "split_on c s")
    case (Cons w ws)
    with Cons.IH show ?thesis by (cases ws) auto
  qed (use Cons.IH in auto)
qed simp

lemma split_on_not_Nil [simp]: "split_on c s \<noteq> []"
  by (induction s) (auto split: list.split)

lemma split_on_parts: "w \<in> set (split_on c s) \<Longrightarrow> c \<notin> set w"
proof (induction s arbitrary: w)
  case (Cons d s)
  then show ?case by (cases "split_on c s") (auto split: if_splits)
qed simp

lemma split_on_no_sep: "c \<notin> set x \<Longrightarrow> split_on c x = [x]"
  by (induction x) auto

lemma split_on_append_sep: "c \<notin> set x \<Longrightarrow> split_on c (x @ c # s) = x # split_on c s"
  by (induction x) auto

lemma split_on_join_parts:
  assumes "xs \<noteq> []" "\<And>x. x \<in> set xs \<Longrightarrow> c \<notin> set x"
  shows "split_on c (join [c] xs) = xs"
  using assms
  by (induction "[c]" xs rule: join.induct)
     (auto simp: split_on_no_sep split_on_append_sep)

lemma count_list_join:
  "xs \<noteq> [] \<Longrightarrow> count_list (join [c] xs) c = (\<Sum>x\<leftarrow>xs. count_list x c) + length xs - 1"
  by (induction "[c]" xs rule: join.induct) auto

text \<open>
  With as many parts on both sides, only one side has to be free of the separator for
  the joined text to determine the parts.
\<close>
lemma join_inject:
  assumes eq: "join [c] xs = join [c] ys" and len: "length xs = length ys"
    and free: "\<And>x. x \<in> set xs \<Longrightarrow> c \<notin> set x"
  shows "xs = ys"
proof (cases "xs = []")
  case False
  with len have ys: "ys \<noteq> []" by auto
  have "(\<Sum>x\<leftarrow>xs. count_list x c) = 0"
    using free by (simp add: count_list_0_iff )
  moreover have "(\<Sum>x\<leftarrow>xs. count_list x c) + length xs = (\<Sum>y\<leftarrow>ys. count_list y c) + length ys"
    using count_list_join [OF False, of c] count_list_join [OF ys, of c] eq len ys False
    by (cases xs; cases ys) auto
  ultimately have "(\<Sum>y\<leftarrow>ys. count_list y c) = 0" using len by linarith
  then have "c \<notin> set y" if "y \<in> set ys" for y
    using that by (auto simp: count_list_0_iff)
  then show ?thesis
    by (metis False ys eq free split_on_join_parts)
qed (use len in auto)

lemma find_char_Some:
  assumes "find_char c s = Some n"
  shows "n < length s \<and> s ! n = c \<and> c \<notin> set (take n s)"
proof -
  have n: "n = length (takeWhile (\<lambda>d. d \<noteq> c) s)" "n < length s"
    using assms by (auto simp: find_char_def Let_def split: if_splits)
  have "s ! n = c" using n nth_length_takeWhile [of "\<lambda>d. d \<noteq> c" s] by auto
  moreover have "take n s = takeWhile (\<lambda>d. d \<noteq> c) s"
    using n by (simp add: takeWhile_eq_take [symmetric])
  ultimately show ?thesis using n by (auto dest: set_takeWhileD)
qed


section \<open>Decimal numbers\<close>

definition digit_char :: "int \<Rightarrow> char" where
  "digit_char d = char_of (48 + d)"

definition digit_val :: "char \<Rightarrow> int" where
  "digit_val c = code_of c - 48"

text \<open>The digits of a natural number given as an \<open>int\<close>.\<close>
function show_digits :: "int \<Rightarrow> string" where
  "show_digits n = (if n < 10 then [digit_char n] else show_digits (n div 10) @ [digit_char (n mod 10)])"
  by auto
termination by (relation "measure nat") auto

declare show_digits.simps [simp del]

definition show_int :: "int \<Rightarrow> string" where
  "show_int i = (if i < 0 then CHR ''-'' # show_digits (- i) else show_digits i)"

definition show_nat :: "nat \<Rightarrow> string" where
  "show_nat n = show_digits (int n)"

definition digits_val :: "string \<Rightarrow> int" where
  "digits_val s = foldl (\<lambda>v c. 10 * v + digit_val c) 0 s"

definition all_digits :: "string \<Rightarrow> bool" where
  "all_digits s \<longleftrightarrow> s \<noteq> [] \<and> list_all is_digit s"

text \<open>\<open>str::parse\<close> for an unsigned type whose largest value is \<open>limit\<close>.\<close>
definition parse_unsigned :: "int \<Rightarrow> string \<Rightarrow> int option" where
  "parse_unsigned limit s =
     (let ds = (case s of [] \<Rightarrow> [] | c # r \<Rightarrow> if c = CHR ''+'' then r else s) in
      if all_digits ds \<and> digits_val ds \<le> limit then Some (digits_val ds) else None)"

definition parse_u64 :: "string \<Rightarrow> u64 option" where
  "parse_u64 s = map_option of_int (parse_unsigned (2 ^ 64 - 1) s)"

definition parse_u16 :: "string \<Rightarrow> u16 option" where
  "parse_u16 s = map_option of_int (parse_unsigned (2 ^ 16 - 1) s)"

lemma digit_char_props:
  assumes "0 \<le> d" "d < 10"
  shows "is_digit (digit_char d)" "digit_val (digit_char d) = d"
  using assms by (simp_all add: digit_char_def digit_val_def is_digit_def code_of_def)

lemma digits_val_snoc [simp]: "digits_val (s @ [c]) = 10 * digits_val s + digit_val c"
  by (simp add: digits_val_def)

lemma digits_val_Nil [simp]: "digits_val [] = 0"
  by (simp add: digits_val_def)

lemma show_digits_digits: "0 \<le> n \<Longrightarrow> show_digits n \<noteq> [] \<and> list_all is_digit (show_digits n)"
proof (induction n rule: show_digits.induct)
  case (1 n)
  then show ?case
    by (subst (1 2) show_digits.simps) (auto simp: digit_char_props)
qed

lemma digits_val_show_digits [simp]: "0 \<le> n \<Longrightarrow> digits_val (show_digits n) = n"
proof (induction n rule: show_digits.induct)
  case (1 n)
  show ?case
  proof (cases "n < 10")
    case True
    then show ?thesis using 1(2)
      by (subst show_digits.simps) (simp add: digits_val_def digit_char_props)
  next
    case False
    with 1 show ?thesis
      by (subst show_digits.simps) (simp add: digit_char_props)
  qed
qed

lemma show_digits_inject: "0 \<le> m \<Longrightarrow> 0 \<le> n \<Longrightarrow> show_digits m = show_digits n \<longleftrightarrow> m = n"
  by (metis digits_val_show_digits)

lemma show_digits_chars: "0 \<le> n \<Longrightarrow> c \<in> set (show_digits n) \<Longrightarrow> is_digit c"
  using show_digits_digits [of n] by (auto simp: list_all_iff)

lemma show_nat_inject: "show_nat m = show_nat n \<longleftrightarrow> m = n"
  by (simp add: show_nat_def show_digits_inject)

lemma show_int_inject: "show_int i = show_int j \<longleftrightarrow> i = j"
proof -
  have minus: "CHR ''-'' \<notin> set (show_digits n)" if "0 \<le> n" for n
    using show_digits_chars [OF that, of "CHR ''-''"] by (auto simp: is_digit_def code_of_def)
  then have "CHR ''-'' # a \<noteq> show_digits n" if "0 \<le> n" for a n
    using that by (metis list.set_intros(1))
  then show ?thesis
    using show_digits_inject [of "- i" "- j"] show_digits_inject [of i j]
    by (auto simp: show_int_def) (metis linorder_not_le)+
qed

lemma show_int_chars: "c \<in> set (show_int i) \<Longrightarrow> is_digit c \<or> c = CHR ''-''"
  by (auto simp: show_int_def dest: show_digits_chars [rotated] split: if_splits)

lemma parse_show_digits:
  assumes "0 \<le> n" "n \<le> limit"
  shows "parse_unsigned limit (show_digits n) = Some n"
proof -
  obtain c r where cr: "show_digits n = c # r"
    using show_digits_digits [OF assms(1)] by (cases "show_digits n") auto
  then have "c \<noteq> CHR ''+''"
    using show_digits_chars [OF assms(1), of c] by (auto simp: is_digit_def code_of_def)
  with cr show ?thesis
    using assms show_digits_digits [of n] digits_val_show_digits [of n]
    by (auto simp: parse_unsigned_def all_digits_def Let_def)
qed

lemma parse_unsigned_bound: "parse_unsigned limit s = Some n \<Longrightarrow> n \<le> limit"
  by (auto simp: parse_unsigned_def Let_def split: if_splits list.splits)

lemma parse_u64_show: "parse_u64 (show_int (uint (w :: u64))) = Some w"
proof -
  have "uint w \<le> 2 ^ 64 - 1" using uint_lt2p [of w] by simp
  then show ?thesis by (simp add: parse_u64_def show_int_def parse_show_digits)
qed

end
