(* ===== verification/Rust_Float.thy ===== *)
theory Rust_Float
  imports Rust_Text
begin

text \<open>
  The \<open>f64\<close> of Rust: IEEE 754 double precision with round to nearest, ties to even.
  A value is its 64 bits, so a column, a field and a comparison see what the program
  sees.  The theory has the comparisons, the four operations and the casts the source
  uses, and the shortest decimal that reads back (\<open>Display\<close>).
\<close>

type_synonym f64 = u64

section \<open>Classification and order\<close>

definition f64_magnitude :: "f64 \<Rightarrow> int" where
  "f64_magnitude x = uint x mod 2 ^ 63"

definition f64_negative :: "f64 \<Rightarrow> bool" where
  "f64_negative x \<longleftrightarrow> uint x \<ge> 2 ^ 63"

text \<open>The bits of infinity; every larger magnitude is a NaN.\<close>
definition inf_bits :: int where
  "inf_bits = 2047 * 2 ^ 52"

definition f64_is_nan :: "f64 \<Rightarrow> bool" where
  "f64_is_nan x \<longleftrightarrow> f64_magnitude x > inf_bits"

definition f64_is_finite :: "f64 \<Rightarrow> bool" where
  "f64_is_finite x \<longleftrightarrow> f64_magnitude x < inf_bits"

definition f64_key :: "f64 \<Rightarrow> int" where
  "f64_key x = (if f64_negative x then - f64_magnitude x else f64_magnitude x)"

definition f64_le :: "f64 \<Rightarrow> f64 \<Rightarrow> bool" where
  "f64_le x y \<longleftrightarrow> \<not> f64_is_nan x \<and> \<not> f64_is_nan y \<and> f64_key x \<le> f64_key y"

definition f64_lt :: "f64 \<Rightarrow> f64 \<Rightarrow> bool" where
  "f64_lt x y \<longleftrightarrow> \<not> f64_is_nan x \<and> \<not> f64_is_nan y \<and> f64_key x < f64_key y"

definition f64_eq :: "f64 \<Rightarrow> f64 \<Rightarrow> bool" where
  "f64_eq x y \<longleftrightarrow> \<not> f64_is_nan x \<and> \<not> f64_is_nan y \<and> f64_key x = f64_key y"

text \<open>\<open>f64::max\<close>: a NaN loses against a number.\<close>
definition f64_max :: "f64 \<Rightarrow> f64 \<Rightarrow> f64" where
  "f64_max x y = (if f64_is_nan x then y else if f64_is_nan y then x
                  else if f64_key x < f64_key y then y else x)"

definition f64_neg :: "f64 \<Rightarrow> f64" where
  "f64_neg x = x + 2 ^ 63"

definition f64_abs :: "f64 \<Rightarrow> f64" where
  "f64_abs x = of_int (f64_magnitude x)"

lemma f64_le_trans: "f64_le x y \<Longrightarrow> f64_le y z \<Longrightarrow> f64_le x z"
  by (auto simp: f64_le_def)

lemma f64_le_linear: "\<not> f64_is_nan x \<Longrightarrow> \<not> f64_is_nan y \<Longrightarrow> f64_le x y \<or> f64_lt y x"
  by (auto simp: f64_le_def f64_lt_def)

section \<open>Rounding\<close>

text \<open>The largest \<open>k\<close> with \<open>2 ^ k \<le> n\<close>.\<close>
function floor_log2 :: "int \<Rightarrow> int" where
  "floor_log2 n = (if n \<le> 1 then 0 else 1 + floor_log2 (n div 2))"
  by auto
termination by (relation "measure nat") auto

declare floor_log2.simps [simp del]

text \<open>\<open>num / den\<close> to the nearest integer, ties to even.\<close>
definition round_half_even :: "int \<Rightarrow> int \<Rightarrow> int" where
  "round_half_even num den =
     (let q = num div den; r = num mod den in
      if 2 * r < den \<or> 2 * r = den \<and> even q then q else q + 1)"

text \<open>\<open>num / (den * 2 ^ e)\<close> as a numerator and a denominator.\<close>
definition scale2 :: "int \<Rightarrow> int \<Rightarrow> int \<Rightarrow> int \<times> int" where
  "scale2 num den e = (if e \<ge> 0 then (num, den * 2 ^ nat e) else (num * 2 ^ nat (- e), den))"

text \<open>The bits of the double nearest to \<open>num / den\<close>.\<close>
definition round_bits :: "int \<Rightarrow> int \<Rightarrow> int" where
  "round_bits num den =
     (if num = 0 then 0 else
      let e0 = floor_log2 num - floor_log2 den - 53;
          wide = (let (a, b) = scale2 num den e0 in a \<ge> b * 2 ^ 53);
          e = max (if wide then e0 + 1 else e0) (-1074);
          (a, b) = scale2 num den e
      in min inf_bits ((e + 1074) * 2 ^ 52 + round_half_even a b))"

definition f64_of_frac :: "bool \<Rightarrow> int \<Rightarrow> int \<Rightarrow> f64" where
  "f64_of_frac neg num den = of_int ((if neg then 2 ^ 63 else 0) + round_bits num den)"

datatype fval = NaN | Inf bool | Fin bool int int

definition f64_val :: "f64 \<Rightarrow> fval" where
  "f64_val x =
     (let m = f64_magnitude x; s = f64_negative x; ex = m div 2 ^ 52; fr = m mod 2 ^ 52 in
      if m > inf_bits then NaN
      else if m = inf_bits then Inf s
      else let mant = (if ex = 0 then fr else fr + 2 ^ 52); e = max ex 1 in
           if e \<ge> 1075 then Fin s (mant * 2 ^ nat (e - 1075)) 1 else Fin s mant (2 ^ nat (1075 - e)))"

definition f64_nan :: f64 where
  "f64_nan = of_int (inf_bits + 2 ^ 51)"

definition f64_inf :: "bool \<Rightarrow> f64" where
  "f64_inf s = of_int ((if s then 2 ^ 63 else 0) + inf_bits)"

definition f64_mul :: "f64 \<Rightarrow> f64 \<Rightarrow> f64" where
  "f64_mul x y = (case (f64_val x, f64_val y) of
      (Fin s a b, Fin t c d) \<Rightarrow> f64_of_frac (s \<noteq> t) (a * c) (b * d)
    | (Inf s, Inf t) \<Rightarrow> f64_inf (s \<noteq> t)
    | (Inf s, Fin t c d) \<Rightarrow> if c = 0 then f64_nan else f64_inf (s \<noteq> t)
    | (Fin s a b, Inf t) \<Rightarrow> if a = 0 then f64_nan else f64_inf (s \<noteq> t)
    | _ \<Rightarrow> f64_nan)"

definition f64_div :: "f64 \<Rightarrow> f64 \<Rightarrow> f64" where
  "f64_div x y = (case (f64_val x, f64_val y) of
      (Fin s a b, Fin t c d) \<Rightarrow>
        if c = 0 then (if a = 0 then f64_nan else f64_inf (s \<noteq> t))
        else f64_of_frac (s \<noteq> t) (a * d) (b * c)
    | (Inf s, Fin t c d) \<Rightarrow> f64_inf (s \<noteq> t)
    | (Fin s a b, Inf t) \<Rightarrow> f64_of_frac (s \<noteq> t) 0 1
    | _ \<Rightarrow> f64_nan)"

definition f64_add :: "f64 \<Rightarrow> f64 \<Rightarrow> f64" where
  "f64_add x y = (case (f64_val x, f64_val y) of
      (Fin s a b, Fin t c d) \<Rightarrow>
        (let p = (if s then - (a * d) else a * d); q = (if t then - (c * b) else c * b) in
         if p + q = 0 then f64_of_frac (s \<and> t) 0 1
         else f64_of_frac (p + q < 0) \<bar>p + q\<bar> (b * d))
    | (Inf s, Inf t) \<Rightarrow> if s = t then f64_inf s else f64_nan
    | (Inf s, Fin t c d) \<Rightarrow> f64_inf s
    | (Fin s a b, Inf t) \<Rightarrow> f64_inf t
    | _ \<Rightarrow> f64_nan)"

definition f64_sub :: "f64 \<Rightarrow> f64 \<Rightarrow> f64" where
  "f64_sub x y = f64_add x (f64_neg y)"

text \<open>Casts: \<open>n as f64\<close> rounds, \<open>x as u64\<close> truncates and saturates, NaN gives 0.\<close>
definition f64_of_int :: "int \<Rightarrow> f64" where
  "f64_of_int n = f64_of_frac (n < 0) \<bar>n\<bar> 1"

definition f64_to_u64 :: "f64 \<Rightarrow> u64" where
  "f64_to_u64 x = (case f64_val x of
      NaN \<Rightarrow> 0
    | Inf s \<Rightarrow> if s then 0 else - 1
    | Fin s a b \<Rightarrow> if s then 0 else of_int (min (a div b) (2 ^ 64 - 1)))"

text \<open>\<open>f64::round\<close>: half away from zero.\<close>
definition f64_round :: "f64 \<Rightarrow> f64" where
  "f64_round x = (case f64_val x of
      Fin s a b \<Rightarrow> f64_of_frac s ((2 * a + b) div (2 * b)) 1
    | _ \<Rightarrow> x)"

section \<open>Printing\<close>

text \<open>
  \<open>Display\<close> prints the shortest decimal that reads back as the same bits.  With
  \<open>n\<close> significant digits the candidate is the nearest \<open>n\<close>-digit decimal; the first
  \<open>n\<close> that reads back is taken, and 17 digits always do.
\<close>

text \<open>The largest \<open>p\<close> with \<open>10 ^ p \<le> num / den\<close>.\<close>
definition dec_exponent :: "int \<Rightarrow> int \<Rightarrow> int" where
  "dec_exponent num den =
     (if num \<ge> den then int (length (show_digits (num div den))) - 1
      else let small = takeWhile (\<lambda>i. num * 10 ^ (i + 1) < den) [0..<400]
           in - int (length small) - 1)"

definition scale10 :: "int \<Rightarrow> int \<Rightarrow> int \<Rightarrow> int \<times> int" where
  "scale10 num den e = (if e \<ge> 0 then (num * 10 ^ nat e, den) else (num, den * 10 ^ nat (- e)))"

fun shortest_digits :: "int \<Rightarrow> int \<Rightarrow> int \<Rightarrow> int list \<Rightarrow> int \<times> int" where
  "shortest_digits bits num den [] = (0, 0)"
| "shortest_digits bits num den (n # ns) =
     (let x = n - 1 - dec_exponent num den;
          (a, b) = scale10 num den x;
          d = round_half_even a b;
          (p, q) = scale10 d 1 (- x)
      in if round_bits p q = bits \<or> ns = [] then (d, - x) else shortest_digits bits num den ns)"

text \<open>\<open>d * 10 ^ e\<close> in positional notation.\<close>
definition show_scaled :: "int \<Rightarrow> int \<Rightarrow> string" where
  "show_scaled d e =
     (if e \<ge> 0 then show_digits (d * 10 ^ nat e)
      else let n = nat (- e); w = d div 10 ^ n; f = show_digits (d mod 10 ^ n);
               pad = replicate (n - length f) (CHR ''0'') @ f;
               trimmed = rev (dropWhile (\<lambda>c. c = CHR ''0'') (rev pad)) in
           if trimmed = [] then show_digits w else show_digits w @ ''.'' @ trimmed)"

definition show_f64 :: "f64 \<Rightarrow> string" where
  "show_f64 x = (case f64_val x of
      NaN \<Rightarrow> ''NaN''
    | Inf s \<Rightarrow> if s then ''-inf'' else ''inf''
    | Fin s a b \<Rightarrow> (if s then ''-'' else []) @
        (if a = 0 then ''0''
         else case shortest_digits (f64_magnitude x) a b [1..17] of (d, e) \<Rightarrow> show_scaled d e))"

section \<open>Reading\<close>

text \<open>
  \<open>str::parse::<f64>\<close>: a sign, then \<open>inf\<close>, \<open>infinity\<close>, \<open>nan\<close> in any case, or
  digits with an optional point and an optional exponent, at least one digit before it.
\<close>

definition split_sign :: "string \<Rightarrow> bool \<times> string" where
  "split_sign s = (case s of [] \<Rightarrow> (False, []) | c # r \<Rightarrow>
     if c = CHR ''-'' then (True, r) else if c = CHR ''+'' then (False, r) else (False, s))"

definition parse_exponent :: "string \<Rightarrow> int option" where
  "parse_exponent s = (case s of [] \<Rightarrow> Some 0 | c # r \<Rightarrow>
     if lower_char c \<noteq> CHR ''e'' then None
     else case split_sign r of (neg, ds) \<Rightarrow>
       if all_digits ds then Some (if neg then - digits_val ds else digits_val ds) else None)"

definition parse_f64 :: "string \<Rightarrow> f64 option" where
  "parse_f64 s = (case split_sign s of (neg, t) \<Rightarrow>
     if to_lower t \<in> {''inf'', ''infinity''} then Some (f64_inf neg)
     else if to_lower t = ''nan'' then Some (if neg then f64_neg f64_nan else f64_nan)
     else
       let whole = takeWhile is_digit t; rest = dropWhile is_digit t;
           frac = (case rest of [] \<Rightarrow> [] | c # r \<Rightarrow> if c = CHR ''.'' then takeWhile is_digit r else []);
           tail = (case rest of [] \<Rightarrow> [] | c # r \<Rightarrow> if c = CHR ''.'' then dropWhile is_digit r else rest)
       in if whole @ frac = [] then None
          else map_option (\<lambda>e. case scale10 (digits_val (whole @ frac)) 1 (e - int (length frac)) of
              (num, den) \<Rightarrow> f64_of_frac neg num den) (parse_exponent tail))"

end
