(* ===== verification/Models.thy ===== *)
theory Models
  imports Rust_Float
begin

text \<open>
  The data of \<open>src/src/db/models.rs\<close> and \<open>src/src/config.rs\<close>: the
  transaction as the pool hands it out, the statuses, the plans, and the configuration
  with its sections, and the small pure functions on them.
\<close>

section \<open>Statuses\<close>

datatype tx_status = Pending | Scheduled | Broadcast | Confirmed | Expired | Failed

primrec tx_status_as_str :: "tx_status \<Rightarrow> string" where
  "tx_status_as_str Pending = ''pending''"
| "tx_status_as_str Scheduled = ''scheduled''"
| "tx_status_as_str Broadcast = ''broadcast''"
| "tx_status_as_str Confirmed = ''confirmed''"
| "tx_status_as_str Expired = ''expired''"
| "tx_status_as_str Failed = ''failed''"

definition tx_status_from_str :: "string \<Rightarrow> tx_status" where
  "tx_status_from_str s =
     (if s = ''pending'' then Pending
      else if s = ''scheduled'' then Scheduled
      else if s = ''broadcast'' then Broadcast
      else if s = ''confirmed'' then Confirmed
      else if s = ''expired'' then Expired
      else if s = ''failed'' then Failed
      else Pending)"

lemma tx_status_str_roundtrip [simp]: "tx_status_from_str (tx_status_as_str s) = s"
  by (cases s) (simp_all add: tx_status_from_str_def)

lemma tx_status_as_str_inject [simp]: "tx_status_as_str a = tx_status_as_str b \<longleftrightarrow> a = b"
  by (metis tx_status_str_roundtrip)

text \<open>The life cycle as an order: a transaction is pending before it is scheduled, and so on.\<close>

primrec status_rank :: "tx_status \<Rightarrow> nat" where
  "status_rank Pending = 0"
| "status_rank Scheduled = 1"
| "status_rank Broadcast = 2"
| "status_rank Confirmed = 3"
| "status_rank Expired = 4"
| "status_rank Failed = 5"

instantiation tx_status :: linorder
begin

definition less_eq_tx_status :: "tx_status \<Rightarrow> tx_status \<Rightarrow> bool" where
  "less_eq_tx_status a b \<longleftrightarrow> status_rank a \<le> status_rank b"

definition less_tx_status :: "tx_status \<Rightarrow> tx_status \<Rightarrow> bool" where
  "less_tx_status a b \<longleftrightarrow> status_rank a < status_rank b"

instance
proof
  fix a b c :: tx_status
  show "(a < b) = (a \<le> b \<and> \<not> b \<le> a)"
    by (auto simp: less_eq_tx_status_def less_tx_status_def)
  show "a \<le> a" by (simp add: less_eq_tx_status_def)
  show "a \<le> b \<Longrightarrow> b \<le> c \<Longrightarrow> a \<le> c" by (simp add: less_eq_tx_status_def)
  show "a \<le> b \<Longrightarrow> b \<le> a \<Longrightarrow> a = b"
    by (cases a; cases b) (simp_all add: less_eq_tx_status_def)
  show "a \<le> b \<or> b \<le> a" by (auto simp: less_eq_tx_status_def)
qed

end

datatype plan_status = Draft | Active | Paused | Completed

primrec plan_status_as_str :: "plan_status \<Rightarrow> string" where
  "plan_status_as_str Draft = ''draft''"
| "plan_status_as_str Active = ''active''"
| "plan_status_as_str Paused = ''paused''"
| "plan_status_as_str Completed = ''completed''"

definition plan_status_from_str :: "string \<Rightarrow> plan_status" where
  "plan_status_from_str s =
     (if s = ''draft'' then Draft
      else if s = ''active'' then Active
      else if s = ''paused'' then Paused
      else if s = ''completed'' then Completed
      else Draft)"

lemma plan_status_str_roundtrip [simp]: "plan_status_from_str (plan_status_as_str s) = s"
  by (cases s) (simp_all add: plan_status_from_str_def)

section \<open>Pool transactions\<close>

record broadcast_tx =
  t_id :: string
  t_tx_hex :: string
  t_txid :: "string option"
  t_status :: tx_status
  t_network :: string
  t_nlocktime :: "u64 option"
  t_broadcast_mode :: "string option"
  t_scheduled_time :: "datetime option"
  t_broadcast_at :: "datetime option"
  t_confirmed_at :: "datetime option"
  t_block_height :: "u64 option"
  t_target_fee_rate :: "f64 option"
  t_actual_fee_rate :: "f64 option"
  t_source_label :: "string option"
  t_destination_address :: "string option"
  t_utxo_count :: int
  t_total_value_btc :: f64
  t_replacement_of :: "string option"
  t_error_message :: "string option"
  t_retry_count :: int
  t_broadcast_missed_at :: "datetime option"
  t_original_scheduled_time :: "datetime option"
  t_defer_until :: "datetime option"
  t_schedule_trigger :: "string option"
  t_target_price :: "f64 option"
  t_price_currency :: "string option"
  t_price_condition :: "string option"
  t_created_at :: datetime
  t_updated_at :: datetime
  t_locktime_waiting :: "bool option"
  t_locktime_deferred :: "bool option"
  t_can_reschedule :: "bool option"
  t_chain_mtp :: "u64 option"
  t_locktime_target :: "u64 option"
  t_locktime_remaining_secs :: "int option"
  t_locktime_kind :: "string option"
  t_locktime_remaining_blocks :: "int option"
  t_locktime_satisfied :: "bool option"
  t_current_btc_price :: "f64 option"
  t_tampered :: "bool option"

text \<open>\<open>NewBroadcastTx\<close>: what an ingest path hands to the store.\<close>

record new_broadcast_tx =
  n_tx_hex :: string
  n_network :: string
  n_nlocktime :: "u64 option"
  n_broadcast_mode :: "string option"
  n_scheduled_time :: "datetime option"
  n_target_fee_rate :: "f64 option"
  n_source_label :: "string option"
  n_destination_address :: "string option"
  n_utxo_count :: "int option"
  n_total_value_btc :: "f64 option"
  n_replacement_of :: "string option"

record pool_stats =
  total_transactions :: nat
  st_pending :: nat
  st_scheduled :: nat
  st_broadcast :: nat
  st_confirmed :: nat
  st_failed :: nat
  st_total_value_btc :: f64

record mempool_status =
  ms_available :: bool
  ms_tx_count :: "int option"
  ms_fee_rate :: "f64 option"
  ms_congestion :: "string option"
  ms_reliable :: bool

section \<open>Migration plans\<close>

record migration_plan =
  p_id :: string
  p_name :: string
  p_source_wallet :: "string option"
  p_destination_wallet :: "string option"
  p_network :: string
  p_status :: plan_status
  p_min_delay_hours :: int
  p_max_delay_hours :: int
  p_min_fee_rate :: f64
  p_max_fee_rate :: f64
  p_total_transactions :: int
  p_completed_transactions :: int
  p_total_value_migrated_btc :: f64
  p_created_at :: datetime
  p_updated_at :: datetime

record new_migration_plan =
  np_name :: string
  np_source_wallet :: "string option"
  np_destination_wallet :: "string option"
  np_network :: string
  np_min_delay_hours :: "int option"
  np_max_delay_hours :: "int option"
  np_min_fee_rate :: "f64 option"
  np_max_fee_rate :: "f64 option"

record migration_utxo =
  u_id :: string
  u_plan_id :: string
  u_txid :: string
  u_vout :: int
  u_value_btc :: f64
  u_address :: "string option"
  u_label :: "string option"
  u_source_label :: "string option"
  u_broadcast_pool_id :: "string option"
  u_created_at :: datetime

record new_migration_utxo =
  nu_txid :: string
  nu_vout :: int
  nu_value_btc :: f64
  nu_address :: "string option"
  nu_label :: "string option"
  nu_source_label :: "string option"

record archive_meta =
  am_id :: string
  am_network :: string
  am_archived_at :: string

section \<open>Configuration\<close>

datatype bcast_mode = Immediate | BmScheduled | ByBlock | Manual

primrec show_bcast_mode :: "bcast_mode \<Rightarrow> string" where
  "show_bcast_mode Immediate = ''immediate''"
| "show_bcast_mode BmScheduled = ''scheduled''"
| "show_bcast_mode ByBlock = ''by_block''"
| "show_bcast_mode Manual = ''manual''"

definition bcast_mode_from_str :: "string \<Rightarrow> bcast_mode option" where
  "bcast_mode_from_str s =
     (let l = to_lower s in
      if l = ''immediate'' then Some Immediate
      else if l = ''scheduled'' then Some BmScheduled
      else if l = ''by_block'' then Some ByBlock
      else if l = ''manual'' then Some Manual
      else None)"

datatype network_type = Mainnet | Testnet4 | Signet

record network_config =
  network_type :: network_type
  resolved_genesis :: "string option"

record bitcoin_rpc_config =
  rpc_url :: string
  rpc_user :: string
  rpc_password :: string

record indexer_config =
  ix_url :: string
  manual_override :: bool

record pool_config =
  max_size_kb :: u64
  rebroadcast_interval_minutes :: u64
  expiry_days :: u64

record liana_virtual_block =
  vb_enabled :: bool
  vb_target_height :: u64
  vb_armed_at_height :: u64

record schedule_config =
  sc_broadcast_mode :: bcast_mode
  default_delay_hours :: u64
  scheduled_datetime :: "string option"
  sc_virtual_block :: liana_virtual_block
  min_delay_hours :: u64
  max_delay_hours :: u64
  min_fee_rate :: f64
  max_fee_rate :: f64

record privacy_config =
  use_tor :: bool
  tor_socks_port :: u16
  rotate_identity_per_tx :: bool

record web_config =
  web_host :: string
  web_port :: u16

record electrum_server_config =
  es_host :: string
  es_port :: u16
  liana_port :: "u16 option"
  lan_connect_host :: "string option"

record nostr_config =
  nostr_enabled :: bool
  recipient_npub :: string
  relays :: "string list"
  app_nsec :: string
  tor_socks :: string

record notifications_config =
  notif_enabled :: bool
  notif_language :: string
  notif_nostr :: nostr_config

record config =
  cf_network :: network_config
  cf_bitcoin_rpc :: "bitcoin_rpc_config option"
  cf_indexer :: "indexer_config option"
  cf_pool :: pool_config
  cf_schedule :: schedule_config
  cf_privacy :: privacy_config
  cf_web :: web_config
  cf_electrum :: electrum_server_config
  cf_notifications :: notifications_config

end
