(* ===== verification/Environment.thy ===== *)
theory Environment
  imports Models
begin

text \<open>
  What the program runs against: the crates it links, the clock, the random number
  generator, the disk and the network.  None of that code is in the repository, so it is
  one record of functions, a parameter \<open>E\<close> of every definition that uses it.  What a
  theorem needs of a crate is a named hypothesis on \<open>E\<close>.

  A value that changes from call to call (a clock reading, a random draw, a reply, a
  statement that fails) is a function of the number of the call.
\<close>

section \<open>JSON values\<close>

datatype json =
    JNull
  | JBool bool
  | JInt int
  | JFloat f64
  | JStr string
  | JArr "json list"
  | JObj "(string \<times> json) list"

definition jget :: "string \<Rightarrow> json \<Rightarrow> json option" where
  "jget k v = (case v of JObj kvs \<Rightarrow> map_of kvs k | _ \<Rightarrow> None)"

definition jidx :: "nat \<Rightarrow> json \<Rightarrow> json option" where
  "jidx n v = (case v of JArr xs \<Rightarrow> if n < length xs then Some (xs ! n) else None | _ \<Rightarrow> None)"

primrec as_str :: "json \<Rightarrow> string option" where
  "as_str JNull = None"
| "as_str (JBool b) = None"
| "as_str (JInt i) = None"
| "as_str (JFloat x) = None"
| "as_str (JStr s) = Some s"
| "as_str (JArr xs) = None"
| "as_str (JObj kvs) = None"

definition as_u64 :: "json \<Rightarrow> u64 option" where
  "as_u64 v = (case v of JInt i \<Rightarrow> if 0 \<le> i \<and> i < 2 ^ 64 then Some (of_int i) else None
     | _ \<Rightarrow> None)"

text \<open>An \<open>i64\<close> is an integer in its range.\<close>
definition as_i64 :: "json \<Rightarrow> int option" where
  "as_i64 v = (case v of JInt i \<Rightarrow> if - (2 ^ 63) \<le> i \<and> i < 2 ^ 63 then Some i else None
     | _ \<Rightarrow> None)"

definition as_f64 :: "json \<Rightarrow> f64 option" where
  "as_f64 v = (case v of
       JInt i \<Rightarrow> Some (f64_of_int i)
     | JFloat x \<Rightarrow> Some x
     | _ \<Rightarrow> None)"

definition as_bool :: "json \<Rightarrow> bool option" where
  "as_bool v = (case v of JBool b \<Rightarrow> Some b | _ \<Rightarrow> None)"

definition as_array :: "json \<Rightarrow> json list option" where
  "as_array v = (case v of JArr xs \<Rightarrow> Some xs | _ \<Rightarrow> None)"

definition as_object :: "json \<Rightarrow> (string \<times> json) list option" where
  "as_object v = (case v of JObj kvs \<Rightarrow> Some kvs | _ \<Rightarrow> None)"

definition opt_bind :: "'a option \<Rightarrow> ('a \<Rightarrow> 'b option) \<Rightarrow> 'b option" where
  "opt_bind x f = (case x of None \<Rightarrow> None | Some v \<Rightarrow> f v)"

definition unwrap_or :: "'a \<Rightarrow> 'a option \<Rightarrow> 'a" where
  "unwrap_or d x = (case x of None \<Rightarrow> d | Some v \<Rightarrow> v)"

definition or_else :: "'a option \<Rightarrow> 'a option \<Rightarrow> 'a option" where
  "or_else x y = (case x of None \<Rightarrow> y | Some v \<Rightarrow> Some v)"

lemma opt_bind_simps [simp]: "opt_bind None f = None" "opt_bind (Some v) f = f v"
  by (simp_all add: opt_bind_def)

lemma unwrap_or_simps [simp]: "unwrap_or d None = d" "unwrap_or d (Some v) = v"
  by (simp_all add: unwrap_or_def)

lemma or_else_simps [simp]: "or_else None y = y" "or_else (Some v) y = Some v"
  by (simp_all add: or_else_def)

lemma jget_simps [simp]:
  "jget k (JObj kvs) = map_of kvs k" "jget k (JArr xs) = None" "jget k JNull = None"
  "jget k (JStr s) = None" "jget k (JInt i) = None"
  by (simp_all add: jget_def)

lemma jidx_simps [simp]: "jidx n (JArr xs) = (if n < length xs then Some (xs ! n) else None)"
  by (simp add: jidx_def)

lemma as_array_simps [simp]: "as_array (JArr xs) = Some xs" "as_array JNull = None"
  by (simp_all add: as_array_def)

section \<open>Transactions as the bitcoin crate decodes them\<close>

text \<open>A transaction id is its 32 bytes in internal order; \<open>to_string\<close> shows them reversed.\<close>

record btc_input =
  in_txid :: bytes
  in_vout :: u32
  in_script_sig :: bytes
  in_witness :: "bytes list"

record btc_output =
  out_value :: u64
  out_script :: bytes

record btc_tx =
  bt_version :: int
  bt_lock_time :: u32
  bt_inputs :: "btc_input list"
  bt_outputs :: "btc_output list"

text \<open>A block header; the two hashes in internal order.\<close>

record btc_header =
  bh_version :: int
  bh_prev :: bytes
  bh_merkle :: bytes
  bh_time :: u32
  bh_bits :: u32
  bh_nonce :: u32

section \<open>The environment\<close>

text \<open>What one \<open>getblockchaininfo\<close> of Bitcoin Core returns, as far as the code reads it.\<close>
record core_info =
  ci_blocks :: u64
  ci_median_time :: u64
  ci_ibd :: bool
  ci_progress :: f64
  ci_chain :: string

record core_mempool =
  cm_size :: int
  cm_bytes :: int
  cm_min_fee_btc :: f64
  cm_relay_fee_btc :: f64

text \<open>An HTTP GET: no reply, an error status, a body that is not JSON, or the JSON body.\<close>
datatype http_reply = HttpFailed err | HttpStatus err | HttpNotJson err | HttpBody json

text \<open>One private message for the Nostr client, with its time limits in seconds.\<close>
record nostr_msg =
  nm_nsec :: string
  nm_recipient :: string
  nm_relays :: "string list"
  nm_proxy :: "string option"
  nm_connect_secs :: int
  nm_send_secs :: int
  nm_text :: string

text \<open>What sending it to the relays reports: who took it, who failed and why.\<close>
record nostr_outcome =
  no_success :: "string list"
  no_connect_failed :: "(string \<times> string) list"
  no_publish_failed :: "(string \<times> string) list"

datatype nostr_reply = NostrTimedOut err | NostrError err | NostrDone nostr_outcome

record env =
  \<comment> \<open>clocks and randomness\<close>
  now_at :: "nat \<Rightarrow> datetime"
  instant_at :: "nat \<Rightarrow> instant"
  uuid_at :: "nat \<Rightarrow> string"
  nonce_at :: "nat \<Rightarrow> bytes"
  rand_u64_at :: "nat \<Rightarrow> u64 \<Rightarrow> u64 \<Rightarrow> u64"
  rand_f64_at :: "nat \<Rightarrow> f64 \<Rightarrow> f64 \<Rightarrow> f64"
  \<comment> \<open>chrono\<close>
  to_rfc3339 :: "datetime \<Rightarrow> string"
  parse_rfc3339 :: "string \<Rightarrow> datetime option"
  datetime_ok :: "datetime \<Rightarrow> bool"
  \<comment> \<open>crypto crates\<close>
  aead_encrypt :: "bytes \<Rightarrow> bytes \<Rightarrow> bytes \<Rightarrow> bytes \<Rightarrow> bytes"
  aead_decrypt :: "bytes \<Rightarrow> bytes \<Rightarrow> bytes \<Rightarrow> bytes \<Rightarrow> bytes option"
  argon2id :: "bytes \<Rightarrow> bytes \<Rightarrow> bytes"
  password_hash :: "bytes \<Rightarrow> bytes \<Rightarrow> string res"
  password_verify :: "string \<Rightarrow> bytes \<Rightarrow> bool res"
  salt_at :: "nat \<Rightarrow> bytes"
  hmac_sha256 :: "bytes \<Rightarrow> bytes \<Rightarrow> bytes"
  sha256 :: "bytes \<Rightarrow> bytes"
  utf8_valid :: "bytes \<Rightarrow> bool"
  hex_encode :: "bytes \<Rightarrow> string"
  hex_decode :: "string \<Rightarrow> bytes option"
  \<comment> \<open>bitcoin crate\<close>
  tx_consensus_decode :: "bytes \<Rightarrow> (btc_tx \<times> bytes) option"
  compute_txid_bytes :: "btc_tx \<Rightarrow> bytes"
  tx_weight :: "btc_tx \<Rightarrow> nat"
  header_decode :: "bytes \<Rightarrow> (btc_header \<times> bytes) option"
  header_encode :: "btc_header \<Rightarrow> bytes"
  header_block_hash :: "btc_header \<Rightarrow> bytes"
  electrum_script_hash :: "bytes \<Rightarrow> bytes"
  \<comment> \<open>serde_json, toml\<close>
  json_parse :: "string \<Rightarrow> json option"
  json_print :: "json \<Rightarrow> string"
  tx_to_json :: "broadcast_tx \<Rightarrow> bytes"
  config_to_toml :: "config \<Rightarrow> string option"
  config_of_toml :: "string \<Rightarrow> config option"
  \<comment> \<open>SQLite\<close>
  sql_fault_at :: "nat \<Rightarrow> string option"
  sql_real_of_text :: "string \<Rightarrow> f64"
  sql_real_sum :: "f64 list \<Rightarrow> f64"
  \<comment> \<open>process environment and disk\<close>
  env_var :: "string \<Rightarrow> string option"
  write_fault_at :: "nat \<Rightarrow> string option"
  read_file_at :: "nat \<Rightarrow> string \<Rightarrow> string res"
  \<comment> \<open>the indexer: the reply to one request line on a connection to a URL\<close>
  wire_at :: "nat \<Rightarrow> string \<Rightarrow> string \<Rightarrow> string res"
  \<comment> \<open>Bitcoin Core\<close>
  core_info_at :: "nat \<Rightarrow> core_info res"
  core_mempool_at :: "nat \<Rightarrow> core_mempool res"
  core_block_count_at :: "nat \<Rightarrow> u64 res"
  core_send_at :: "nat \<Rightarrow> string \<Rightarrow> string res"
  core_raw_tx_at :: "nat \<Rightarrow> string \<Rightarrow> (string option) res"
  core_txid_parses :: "string \<Rightarrow> bool"
  core_fee_at :: "nat \<Rightarrow> u16 \<Rightarrow> (f64 option) res"
  core_genesis_at :: "nat \<Rightarrow> string res"
  \<comment> \<open>HTTP price providers: a GET of a URL\<close>
  http_at :: "nat \<Rightarrow> string \<Rightarrow> http_reply"
  \<comment> \<open>the local network: an open port, the source address of a route or of a UDP socket\<close>
  tcp_open_at :: "nat \<Rightarrow> string \<Rightarrow> u16 \<Rightarrow> bool"
  route_ip_at :: "nat \<Rightarrow> string option"
  udp_ip_at :: "nat \<Rightarrow> string \<Rightarrow> string option"
  \<comment> \<open>Nostr\<close>
  nsec_ok :: "string \<Rightarrow> bool"
  npub_ok :: "string \<Rightarrow> bool"
  relay_url_ok :: "string \<Rightarrow> bool"
  socks_addr_at :: "nat \<Rightarrow> string \<Rightarrow> (string option) res"
  nsec_at :: "nat \<Rightarrow> string"
  npub_of :: "string \<Rightarrow> string"
  nostr_dm_at :: "nat \<Rightarrow> nostr_msg \<Rightarrow> nostr_reply"
  format_minute :: "datetime \<Rightarrow> string"
  \<comment> \<open>tokio: a write to a wallet's socket that fails, a blocking task that misses its time limit\<close>
  client_fault_at :: "nat \<Rightarrow> string option"
  task_late_at :: "nat \<Rightarrow> bool"
  \<comment> \<open>chrono: a date and time of day without a zone\<close>
  parse_naive_minute :: "string \<Rightarrow> datetime option"

text \<open>\<open>BlockHash::to_string\<close>.\<close>
definition header_hash :: "env \<Rightarrow> btc_header \<Rightarrow> string" where
  "header_hash E h = hex_encode E (rev (header_block_hash E h))"

end
