(* ===== verification/World.thy ===== *)
theory World
  imports Environment
begin

text \<open>
  The state the components share: the tables of the database, the fields of the pool
  manager, and what has left the process.  Every row keeps its columns as they are
  stored, encrypted fields and text time stamps included.
\<close>

section \<open>Tables\<close>

text \<open>\<open>broadcast_pool\<close>, the columns of \<open>BROADCAST_SELECT\<close>; \<open>None\<close> is NULL.\<close>

record pool_row =
  c_id :: string
  c_tx_hex :: string
  c_txid :: "string option"
  c_status :: string
  c_network :: string
  c_nlocktime :: "int option"
  c_broadcast_mode :: "string option"
  c_scheduled_time :: "string option"
  c_broadcast_at :: "string option"
  c_confirmed_at :: "string option"
  c_block_height :: "int option"
  c_target_fee_rate :: "f64 option"
  c_actual_fee_rate :: "f64 option"
  c_source_label :: "string option"
  c_destination_address :: "string option"
  c_utxo_count :: int
  c_total_value_btc :: "f64 option"
  c_replacement_of :: "string option"
  c_error_message :: "string option"
  c_retry_count :: int
  c_broadcast_missed_at :: "string option"
  c_original_scheduled_time :: "string option"
  c_defer_until :: "string option"
  c_schedule_trigger :: "string option"
  c_target_price :: "f64 option"
  c_price_currency :: "string option"
  c_price_condition :: "string option"
  c_created_at :: string
  c_updated_at :: string
  c_row_mac :: "string option"

record archive_row =
  ar_id :: string
  ar_network :: string
  ar_archived_at :: string
  ar_blob :: bytes

record plan_row =
  pr_id :: string
  pr_name :: string
  pr_source_wallet :: "string option"
  pr_destination_wallet :: "string option"
  pr_network :: string
  pr_status :: string
  pr_min_delay_hours :: int
  pr_max_delay_hours :: int
  pr_min_fee_rate :: f64
  pr_max_fee_rate :: f64
  pr_total_transactions :: int
  pr_completed_transactions :: int
  pr_total_value_migrated_btc :: f64
  pr_created_at :: string
  pr_updated_at :: string

record utxo_row =
  ur_id :: string
  ur_plan_id :: string
  ur_txid :: string
  ur_vout :: int
  ur_value_btc :: f64
  ur_address :: "string option"
  ur_label :: "string option"
  ur_source_label :: "string option"
  ur_broadcast_pool_id :: "string option"
  ur_created_at :: string

record config_row =
  cr_key :: string
  cr_value :: string
  cr_updated_at :: string

section \<open>The pool manager's memory\<close>

record pending_output =
  po_index :: u32
  po_value :: u64
  po_scripthash :: string

record pending_info =
  pi_tx_hex :: string
  pi_scripthashes :: "string list"
  pi_outputs :: "pending_output list"

datatype chain_source = Indexer | BitcoinCore | NoSource

record chain_health =
  indexer_up :: bool
  core_up :: bool
  core_ibd :: bool
  core_sync_pct :: "f64 option"
  ch_height :: "u64 option"
  ch_mtp :: "u64 option"
  indexer_software :: "string option"
  ch_source :: chain_source
  polled :: bool

record price_snapshot =
  ps_prices :: "(string \<times> f64) list"
  ps_source :: string
  ps_stale :: bool
  ps_fetched_at :: datetime

record electrum_client =
  ec_server :: string
  ec_resolved :: "string option"

record broadcast_event =
  be_txid :: string
  be_amount_sats :: u64
  be_source_label :: "string option"
  be_created_at :: "datetime option"
  be_broadcast_at :: datetime
  be_network :: string

text \<open>
  What leaves the process: a request to the indexer, a call of Bitcoin Core, a private
  message to Nostr relays.
\<close>

datatype outmsg = ToIndexer string string json | ToCore string "string list" | ToNostr nostr_msg

text \<open>Raw transactions among it.\<close>

definition is_tx_send :: "outmsg \<Rightarrow> bool" where
  "is_tx_send m = (case m of
       ToIndexer url method params \<Rightarrow> method = ''blockchain.transaction.broadcast''
     | ToCore method args \<Rightarrow> method = ''sendrawtransaction''
     | ToNostr m \<Rightarrow> False)"

section \<open>The state\<close>

record world =
  w_clock :: nat
  w_pool :: "pool_row list"
  w_archive :: "archive_row list"
  w_plans :: "plan_row list"
  w_utxos :: "utxo_row list"
  w_config_store :: "config_row list"
  w_db_key :: bytes
  w_rpc :: bool
  w_indexer :: "electrum_client option"
  w_config :: config
  w_disk_config :: "string option"
  w_pending :: "(string \<times> pending_info) list"
  w_mtp_cache :: "(instant \<times> u64) option"
  w_chain_tip :: "(u64 \<times> string) option"
  w_health :: chain_health
  w_refresh_in_flight :: bool
  w_price_cache :: "(price_snapshot \<times> instant) option"
  w_price_lkg :: "price_snapshot option"
  w_safe_mode :: bool
  w_tampered_ids :: "string list"
  w_watched :: "string list"
  w_archive_key :: "(bytes \<times> instant) option"
  w_sh_events :: "string list"
  w_tip_events :: "(u64 \<times> string) list"
  w_bcast_events :: "broadcast_event list"
  w_rpc_id :: u64
  w_umbrel_discovery :: "instant option"
  w_outbox :: "outmsg list"

type_synonym 'a wact = "(world, 'a) act"

definition tick :: "world \<Rightarrow> world" where
  "tick w = w\<lparr>w_clock := Suc (w_clock w)\<rparr>"

text \<open>Read the environment: each reading has the number of the call.\<close>
definition draw :: "(nat \<Rightarrow> 'a) \<Rightarrow> 'a wact" where
  "draw f = (\<lambda>w. (Ok (f (w_clock w)), tick w))"

definition draw_res :: "(nat \<Rightarrow> 'a res) \<Rightarrow> 'a wact" where
  "draw_res f = (\<lambda>w. (f (w_clock w), tick w))"

definition put_outbox :: "outmsg \<Rightarrow> unit wact" where
  "put_outbox m = modify (\<lambda>w. w\<lparr>w_outbox := w_outbox w @ [m]\<rparr>)"

text \<open>One SQL statement: it fails as a whole, or does what \<open>m\<close> does.\<close>
definition sql :: "env \<Rightarrow> 'a wact \<Rightarrow> 'a wact" where
  "sql E m = (\<lambda>w. case sql_fault_at E (w_clock w) of
      Some e \<Rightarrow> (Err [e], tick w)
    | None \<Rightarrow> m (tick w))"

lemma draw_apply [act_simps]: "draw f w = (Ok (f (w_clock w)), tick w)"
  by (simp add: draw_def)

lemma draw_res_apply [act_simps]: "draw_res f w = (f (w_clock w), tick w)"
  by (simp add: draw_res_def)

lemma put_outbox_apply [act_simps]:
  "put_outbox m w = (Ok (), w\<lparr>w_outbox := w_outbox w @ [m]\<rparr>)"
  by (simp add: put_outbox_def act_simps)

lemma sql_Ok_iff [ok_iffs]:
  "sql E m w = (Ok x, v) \<longleftrightarrow> sql_fault_at E (w_clock w) = None \<and> m (tick w) = (Ok x, v)"
  by (auto simp: sql_def split: option.splits)

text \<open>Everything but the clock is untouched.\<close>
definition only_clock :: "world \<Rightarrow> world \<Rightarrow> bool" where
  "only_clock w v \<longleftrightarrow> (\<exists>n. v = w\<lparr>w_clock := n\<rparr>)"

lemma only_clock_tick [simp]: "only_clock w (tick w)"
  by (auto simp: only_clock_def tick_def)

lemma only_clock_proj:
  assumes "only_clock w v"
  shows "w_pool v = w_pool w" "w_archive v = w_archive w" "w_plans v = w_plans w"
    "w_utxos v = w_utxos w" "w_config_store v = w_config_store w" "w_db_key v = w_db_key w"
    "w_rpc v = w_rpc w" "w_indexer v = w_indexer w" "w_config v = w_config w"
    "w_disk_config v = w_disk_config w" "w_pending v = w_pending w"
    "w_mtp_cache v = w_mtp_cache w" "w_chain_tip v = w_chain_tip w" "w_health v = w_health w"
    "w_refresh_in_flight v = w_refresh_in_flight w" "w_price_cache v = w_price_cache w"
    "w_price_lkg v = w_price_lkg w" "w_safe_mode v = w_safe_mode w"
    "w_tampered_ids v = w_tampered_ids w" "w_watched v = w_watched w"
    "w_archive_key v = w_archive_key w" "w_sh_events v = w_sh_events w"
    "w_tip_events v = w_tip_events w" "w_bcast_events v = w_bcast_events w"
    "w_rpc_id v = w_rpc_id w" "w_umbrel_discovery v = w_umbrel_discovery w" "w_outbox v = w_outbox w"
  using assms by (auto simp: only_clock_def)

interpretation quiet: act_rel only_clock
proof
  show "only_clock s s" for s :: world
    unfolding only_clock_def by (rule exI [of _ "w_clock s"]) simp
  show "only_clock s u" if "only_clock s t" "only_clock t u" for s t u :: world
    using that by (auto simp: only_clock_def)
qed

lemma quiet_draw: "moves only_clock (draw f)"
  by (simp add: moves_def act_simps)

lemma quiet_draw_res: "moves only_clock (draw_res f)"
  by (simp add: moves_def act_simps)

lemma quiet_sql: "moves only_clock m \<Longrightarrow> moves only_clock (sql E m)"
  unfolding moves_def sql_def
  by (auto split: option.split intro: quiet.trans only_clock_tick)

lemmas quiet_rules = quiet.rules quiet_draw quiet_draw_res quiet_sql

end
