(* ===== verification/Crypto.thy ===== *)
theory Crypto
  imports World
begin

text \<open>
  \<open>src/src/crypto/mod.rs\<close>: encryption at rest.  A blob is the nonce followed by what
  the AEAD returns, an encoded field is the hex of a blob behind a prefix, and text
  without the prefix is legacy plain text.  The ciphers, the KDF and the HMAC are
  functions of the environment.
\<close>

section \<open>Operations\<close>

definition field_prefix :: string where
  "field_prefix = ''enc:v1:''"

definition seal :: "env \<Rightarrow> bytes \<Rightarrow> bytes \<Rightarrow> bytes \<Rightarrow> bytes wact" where
  "seal E key plaintext aad =
     bnd (draw (nonce_at E)) (\<lambda>nonce.
     ret (nonce @ aead_encrypt E key nonce plaintext aad))"

definition open_blob :: "env \<Rightarrow> bytes \<Rightarrow> bytes \<Rightarrow> bytes \<Rightarrow> bytes res" where
  "open_blob E key blob aad =
     (if length blob < 12 then Err [''ciphertext blob too short'']
      else case aead_decrypt E key (take 12 blob) (drop 12 blob) aad of
          None \<Rightarrow> Err [''AEAD decryption/authentication failed'']
        | Some m \<Rightarrow> Ok m)"

definition derive_key :: "env \<Rightarrow> string \<Rightarrow> bytes \<Rightarrow> bytes" where
  "derive_key E password salt = argon2id E password salt"

definition mac :: "env \<Rightarrow> bytes \<Rightarrow> bytes \<Rightarrow> bytes" where
  "mac E key data = hmac_sha256 E key data"

definition is_encoded :: "string \<Rightarrow> bool" where
  "is_encoded s = starts_with s field_prefix"

definition encode_field :: "env \<Rightarrow> bytes \<Rightarrow> string \<Rightarrow> bytes \<Rightarrow> string wact" where
  "encode_field E key plaintext aad =
     bnd (seal E key plaintext aad) (\<lambda>blob.
     ret (field_prefix @ hex_encode E blob))"

definition decode_field :: "env \<Rightarrow> bytes \<Rightarrow> string \<Rightarrow> bytes \<Rightarrow> string res" where
  "decode_field E key s aad = (case strip_prefix s field_prefix of
       None \<Rightarrow> Ok s
     | Some h \<Rightarrow>
         (case hex_decode E h of
            None \<Rightarrow> Err [''invalid hex in encoded field'', ''hex'']
          | Some blob \<Rightarrow>
              res_bind (open_blob E key blob aad) (\<lambda>pt.
                if utf8_valid E pt then Ok pt
                else Err [''decrypted field is not valid UTF-8'', ''utf8''])))"

section \<open>What the crates promise\<close>

text \<open>
  Documented behaviour: decryption inverts encryption for the same key, nonce and
  associated data and refuses other associated data, hex decoding inverts encoding, a
  nonce has twelve bytes.
\<close>

definition aead_inverts :: "env \<Rightarrow> bool" where
  "aead_inverts E \<longleftrightarrow> (\<forall>key nonce m aad.
     aead_decrypt E key nonce (aead_encrypt E key nonce m aad) aad = Some m)"

definition aead_authenticates :: "env \<Rightarrow> bool" where
  "aead_authenticates E \<longleftrightarrow> (\<forall>key nonce m aad aad'. aad' \<noteq> aad \<longrightarrow>
     aead_decrypt E key nonce (aead_encrypt E key nonce m aad) aad' = None)"

definition hex_inverts :: "env \<Rightarrow> bool" where
  "hex_inverts E \<longleftrightarrow> (\<forall>b. hex_decode E (hex_encode E b) = Some b)"

text \<open>Hex text has no white space and no capital letters.\<close>
definition hex_canonical :: "env \<Rightarrow> bool" where
  "hex_canonical E \<longleftrightarrow> (\<forall>b. trim (hex_encode E b) = hex_encode E b
     \<and> to_lower (hex_encode E b) = hex_encode E b)"

definition nonce_fits :: "env \<Rightarrow> bool" where
  "nonce_fits E \<longleftrightarrow> (\<forall>n. length (nonce_at E n) = 12)"

text \<open>No two messages share a tag under one key (what an attacker without the key faces).\<close>
definition mac_collision_free :: "env \<Rightarrow> bool" where
  "mac_collision_free E \<longleftrightarrow> (\<forall>key a b. hmac_sha256 E key a = hmac_sha256 E key b \<longrightarrow> a = b)"

section \<open>Lemmas\<close>

lemma encode_field_run:
  "encode_field E key s aad w =
     (Ok (field_prefix @ hex_encode E (nonce_at E (w_clock w) @
        aead_encrypt E key (nonce_at E (w_clock w)) s aad)), tick w)"
  by (simp add: encode_field_def seal_def act_simps run_simps)

lemma quiet_seal: "moves only_clock (seal E key pt aad)"
  unfolding seal_def by (intro quiet_rules)

lemma quiet_encode_field: "moves only_clock (encode_field E key pt aad)"
  unfolding encode_field_def by (intro quiet_rules quiet_seal)

lemma is_encoded_encode_field:
  "encode_field E key s aad w = (Ok c, v) \<Longrightarrow> is_encoded c"
  by (auto simp: encode_field_run is_encoded_def starts_with_def)

lemma open_seal:
  assumes "aead_inverts E" "nonce_fits E" "seal E key pt aad w = (Ok blob, v)"
  shows "open_blob E key blob aad = Ok pt"
  using assms
  by (auto simp: seal_def act_simps run_simps open_blob_def aead_inverts_def nonce_fits_def)

lemma open_seal_other_aad:
  assumes "aead_authenticates E" "nonce_fits E" "seal E key pt aad w = (Ok blob, v)"
    and "aad' \<noteq> aad"
  shows "open_blob E key blob aad' = Err [''AEAD decryption/authentication failed'']"
  using assms
  by (auto simp: seal_def act_simps run_simps open_blob_def aead_authenticates_def nonce_fits_def)

lemma open_blob_never_panics: "open_blob E key blob aad \<noteq> Panic p"
  by (simp add: open_blob_def split: option.split)

lemma decode_field_plain: "\<not> is_encoded s \<Longrightarrow> decode_field E key s aad = Ok s"
  by (simp add: decode_field_def is_encoded_def strip_prefix_def)

lemma decode_field_never_panics: "decode_field E key s aad \<noteq> Panic p"
  by (auto simp: decode_field_def res_bind_Panic_iff open_blob_never_panics split: option.split)

lemma decode_encode:
  assumes "aead_inverts E" "hex_inverts E" "nonce_fits E" "utf8_valid E s"
    and "encode_field E key s aad w = (Ok c, v)"
  shows "decode_field E key c aad = Ok s"
  using assms
  by (auto simp: encode_field_run decode_field_def strip_prefix_def starts_with_def
      hex_inverts_def open_blob_def nonce_fits_def aead_inverts_def)

lemma decode_encode_other_aad:
  assumes "aead_authenticates E" "hex_inverts E" "nonce_fits E" "aad' \<noteq> aad"
    and "encode_field E key s aad w = (Ok c, v)"
  shows "\<exists>e. decode_field E key c aad' = Err e"
  using assms
  by (auto simp: encode_field_run decode_field_def strip_prefix_def starts_with_def
      hex_inverts_def open_blob_def nonce_fits_def aead_authenticates_def)

end
