(* ===== verification/Database_Rows.thy ===== *)
theory Database_Rows
  imports Crypto
begin

text \<open>
  The row level of \<open>src/src/db/mod.rs\<close>: the integrity MAC of a row and the map from
  a stored row to a \<open>broadcast_tx\<close>.
\<close>

section \<open>The integrity MAC\<close>

text \<open>The separator \<open>\x1f\<close>.\<close>
definition unit_sep :: char where
  "unit_sep = CHR 0x1F"

definition row_mac_input ::
  "string \<Rightarrow> string \<Rightarrow> string \<Rightarrow> string \<Rightarrow> int \<Rightarrow> string \<Rightarrow> string \<Rightarrow> string \<Rightarrow> string \<Rightarrow> string \<Rightarrow> bytes" where
  "row_mac_input i stat mode scheduled nlock target trigger condition enc_hex enc_dest =
     join [unit_sep] [i, stat, mode, scheduled, show_int nlock, target, trigger, condition,
       enc_hex, enc_dest]"

text \<open>\<open>Option::as_deref().unwrap_or("")\<close> on a nullable text column.\<close>
definition text_or_empty :: "string option \<Rightarrow> string" where
  "text_or_empty x = unwrap_or [] x"

definition price_text :: "f64 option \<Rightarrow> string" where
  "price_text p = (case p of None \<Rightarrow> [] | Some x \<Rightarrow> show_f64 x)"

text \<open>The MAC a row should carry, from its stored columns.\<close>
definition expected_mac :: "env \<Rightarrow> bytes \<Rightarrow> pool_row \<Rightarrow> string" where
  "expected_mac E key r = hex_encode E (mac E key
     (row_mac_input (c_id r) (c_status r) (text_or_empty (c_broadcast_mode r))
        (text_or_empty (c_scheduled_time r)) (unwrap_or 0 (c_nlocktime r))
        (price_text (c_target_price r)) (text_or_empty (c_schedule_trigger r))
        (text_or_empty (c_price_condition r)) (c_tx_hex r)
        (text_or_empty (c_destination_address r))))"

definition row_sealed :: "env \<Rightarrow> bytes \<Rightarrow> pool_row \<Rightarrow> bool" where
  "row_sealed E key r \<longleftrightarrow> c_row_mac r = Some (expected_mac E key r)"

section \<open>Reading a row\<close>

definition parse_datetime :: "env \<Rightarrow> string \<Rightarrow> datetime wact" where
  "parse_datetime E s = (case parse_rfc3339 E s of
       Some t \<Rightarrow> ret t
     | None \<Rightarrow> draw (now_at E))"

definition parse_optional_datetime :: "env \<Rightarrow> string option \<Rightarrow> datetime option wact" where
  "parse_optional_datetime E s = (case s of
       None \<Rightarrow> ret None
     | Some x \<Rightarrow> bnd (parse_datetime E x) (\<lambda>t. ret (Some t)))"

definition dec_column :: "env \<Rightarrow> bytes \<Rightarrow> string \<Rightarrow> string \<Rightarrow> string" where
  "dec_column E key i s = (case decode_field E key s i of
       Ok p \<Rightarrow> p
     | Err e \<Rightarrow> s
     | Panic p \<Rightarrow> s)"

text \<open>\<open>row.get::<_, i64>\<close> and friends: a NULL or a negative value where the type has none.\<close>
definition get_not_null :: "nat \<Rightarrow> string \<Rightarrow> 'a option \<Rightarrow> 'a res" where
  "get_not_null idx name x = (case x of
       Some v \<Rightarrow> Ok v
     | None \<Rightarrow> Err [''Invalid column type Null at index: '' @ show_nat idx @ '', name: '' @ name])"

definition get_opt_u64 :: "nat \<Rightarrow> int option \<Rightarrow> u64 option res" where
  "get_opt_u64 idx x = (case x of
       None \<Rightarrow> Ok None
     | Some v \<Rightarrow> if v < 0 then Err [''Integer '' @ show_int v @ '' out of range at index '' @ show_nat idx]
                else Ok (Some (of_int v)))"

definition map_broadcast_row :: "env \<Rightarrow> bytes \<Rightarrow> pool_row \<Rightarrow> broadcast_tx wact" where
  "map_broadcast_row E key r =
     bnd (lift_res (get_not_null 5 ''nlocktime'' (c_nlocktime r))) (\<lambda>nlock_raw.
     bnd (lift_res (get_opt_u64 5 (Some nlock_raw))) (\<lambda>nlock.
     bnd (parse_optional_datetime E (c_scheduled_time r)) (\<lambda>scheduled.
     bnd (parse_optional_datetime E (c_broadcast_at r)) (\<lambda>bcast.
     bnd (parse_optional_datetime E (c_confirmed_at r)) (\<lambda>confirmed.
     bnd (lift_res (get_opt_u64 10 (c_block_height r))) (\<lambda>height.
     bnd (lift_res (get_not_null 16 ''total_value_btc'' (c_total_value_btc r))) (\<lambda>total.
     bnd (parse_optional_datetime E (c_broadcast_missed_at r)) (\<lambda>missed.
     bnd (parse_optional_datetime E (c_original_scheduled_time r)) (\<lambda>original.
     bnd (parse_optional_datetime E (c_defer_until r)) (\<lambda>defer_to.
     bnd (parse_datetime E (c_created_at r)) (\<lambda>created.
     bnd (parse_datetime E (c_updated_at r)) (\<lambda>updated.
     ret \<lparr>t_id = c_id r, t_tx_hex = dec_column E key (c_id r) (c_tx_hex r), t_txid = c_txid r,
          t_status = tx_status_from_str (c_status r), t_network = c_network r,
          t_nlocktime = nlock, t_broadcast_mode = c_broadcast_mode r,
          t_scheduled_time = scheduled, t_broadcast_at = bcast, t_confirmed_at = confirmed,
          t_block_height = height, t_target_fee_rate = c_target_fee_rate r,
          t_actual_fee_rate = c_actual_fee_rate r,
          t_source_label = map_option (dec_column E key (c_id r)) (c_source_label r),
          t_destination_address =
            map_option (dec_column E key (c_id r)) (c_destination_address r),
          t_utxo_count = c_utxo_count r, t_total_value_btc = total,
          t_replacement_of = c_replacement_of r, t_error_message = c_error_message r,
          t_retry_count = c_retry_count r, t_broadcast_missed_at = missed,
          t_original_scheduled_time = original, t_defer_until = defer_to,
          t_schedule_trigger = c_schedule_trigger r, t_target_price = c_target_price r,
          t_price_currency = c_price_currency r, t_price_condition = c_price_condition r,
          t_created_at = created, t_updated_at = updated,
          t_locktime_waiting = None, t_locktime_deferred = None, t_can_reschedule = None,
          t_chain_mtp = None, t_locktime_target = None, t_locktime_remaining_secs = None,
          t_locktime_kind = None, t_locktime_remaining_blocks = None,
          t_locktime_satisfied = None, t_current_btc_price = None,
          t_tampered = Some (c_row_mac r \<noteq> Some (expected_mac E key r))\<rparr>))))))))))))"

section \<open>Lemmas\<close>

lemma quiet_parse_datetime: "moves only_clock (parse_datetime E s)"
  unfolding parse_datetime_def by (auto split: option.split intro: quiet_rules)

lemma quiet_parse_optional_datetime: "moves only_clock (parse_optional_datetime E s)"
  unfolding parse_optional_datetime_def
  by (auto split: option.split intro!: quiet_rules quiet_parse_datetime)

lemma quiet_map_broadcast_row: "moves only_clock (map_broadcast_row E key r)"
  unfolding map_broadcast_row_def
  by (intro quiet_rules quiet_parse_datetime quiet_parse_optional_datetime)

text \<open>A nullable time column: a text that does not parse is read as the current time.\<close>
definition reads_time :: "env \<Rightarrow> string option \<Rightarrow> datetime option \<Rightarrow> bool" where
  "reads_time E s t = (case s of
       None \<Rightarrow> t = None
     | Some x \<Rightarrow> (case parse_rfc3339 E x of Some d \<Rightarrow> t = Some d | None \<Rightarrow> \<exists>n. t = Some (now_at E n)))"

lemma parse_optional_datetime_Ok:
  "parse_optional_datetime E s w = (Ok t, v) \<Longrightarrow> reads_time E s t"
  by (auto simp: parse_optional_datetime_def parse_datetime_def reads_time_def ok_iffs act_simps
      split: option.splits)

text \<open>What a successful read says of the row: the columns the pool decides on.\<close>

definition tx_of_row :: "env \<Rightarrow> bytes \<Rightarrow> pool_row \<Rightarrow> broadcast_tx \<Rightarrow> bool" where
  "tx_of_row E key r tx \<longleftrightarrow>
     t_id tx = c_id r \<and> t_tx_hex tx = dec_column E key (c_id r) (c_tx_hex r)
     \<and> t_txid tx = c_txid r \<and> t_status tx = tx_status_from_str (c_status r)
     \<and> t_network tx = c_network r \<and> t_nlocktime tx = map_option of_int (c_nlocktime r)
     \<and> t_broadcast_mode tx = c_broadcast_mode r
     \<and> t_schedule_trigger tx = c_schedule_trigger r \<and> t_target_price tx = c_target_price r
     \<and> t_price_currency tx = c_price_currency r \<and> t_price_condition tx = c_price_condition r
     \<and> t_error_message tx = c_error_message r
     \<and> reads_time E (c_scheduled_time r) (t_scheduled_time tx)
     \<and> reads_time E (c_defer_until r) (t_defer_until tx)
     \<and> reads_time E (c_broadcast_missed_at r) (t_broadcast_missed_at tx)
     \<and> t_tampered tx = Some (\<not> row_sealed E key r)"

lemma map_broadcast_row_Ok:
  assumes "map_broadcast_row E key r w = (Ok tx, v)"
  shows "tx_of_row E key r tx"
  using assms
  by (auto simp: map_broadcast_row_def ok_iffs act_simps tx_of_row_def row_sealed_def
      get_not_null_def get_opt_u64_def dest: parse_optional_datetime_Ok split: option.splits if_splits)

lemma map_broadcast_row_only_clock:
  "map_broadcast_row E key r w = (x, v) \<Longrightarrow> only_clock w v"
  by (rule movesD [OF quiet_map_broadcast_row])

section \<open>What the MAC covers\<close>

definition mac_fields :: "pool_row \<Rightarrow> string list" where
  "mac_fields r = [c_id r, c_status r, text_or_empty (c_broadcast_mode r),
     text_or_empty (c_scheduled_time r), show_int (unwrap_or 0 (c_nlocktime r)),
     price_text (c_target_price r), text_or_empty (c_schedule_trigger r),
     text_or_empty (c_price_condition r), c_tx_hex r, text_or_empty (c_destination_address r)]"

text \<open>No covered column of the row holds the separator (true of everything the pool writes).\<close>
definition fields_clean :: "pool_row \<Rightarrow> bool" where
  "fields_clean r \<longleftrightarrow> (\<forall>f \<in> set (mac_fields r). unit_sep \<notin> set f)"

lemma expected_mac_alt:
  "expected_mac E key r = hex_encode E (mac E key (join [unit_sep] (mac_fields r)))"
  by (simp add: expected_mac_def row_mac_input_def mac_fields_def)

lemma hex_encode_inject: "hex_inverts E \<Longrightarrow> hex_encode E a = hex_encode E b \<longleftrightarrow> a = b"
  unfolding hex_inverts_def by (metis option.inject)

lemma expected_mac_inject:
  assumes "mac_collision_free E" "hex_inverts E" "fields_clean r"
  shows "expected_mac E key r = expected_mac E key r' \<longleftrightarrow> mac_fields r = mac_fields r'"
proof
  assume "expected_mac E key r = expected_mac E key r'"
  then have "join [unit_sep] (mac_fields r) = join [unit_sep] (mac_fields r')"
    using assms(1)
    by (simp add: expected_mac_alt mac_def hex_encode_inject [OF assms(2)] mac_collision_free_def)
  then show "mac_fields r = mac_fields r'"
    by (rule join_inject) (use assms(3) in \<open>auto simp: fields_clean_def mac_fields_def\<close>)
qed (simp add: expected_mac_alt)

text \<open>The columns the MAC does not look at.\<close>
lemma expected_mac_frame [simp]:
  "expected_mac E key (r\<lparr>c_row_mac := a\<rparr>) = expected_mac E key r"
  "expected_mac E key (r\<lparr>c_txid := b\<rparr>) = expected_mac E key r"
  "expected_mac E key (r\<lparr>c_broadcast_at := b\<rparr>) = expected_mac E key r"
  "expected_mac E key (r\<lparr>c_updated_at := d\<rparr>) = expected_mac E key r"
  "expected_mac E key (r\<lparr>c_broadcast_missed_at := b\<rparr>) = expected_mac E key r"
  "expected_mac E key (r\<lparr>c_original_scheduled_time := b\<rparr>) = expected_mac E key r"
  "expected_mac E key (r\<lparr>c_defer_until := b\<rparr>) = expected_mac E key r"
  "expected_mac E key (r\<lparr>c_network := d\<rparr>) = expected_mac E key r"
  "expected_mac E key (r\<lparr>c_total_value_btc := f\<rparr>) = expected_mac E key r"
  by (simp_all add: expected_mac_def)

end
