(* ===== verification/Database.thy ===== *)
theory Database
  imports Database_Rows
begin

text \<open>
  The statements of \<open>src/src/db/mod.rs\<close> on the table \<open>broadcast_pool\<close>: the
  inserts, updates and queries of the pool, each a method of \<open>Database\<close>, with the SQL
  text read as an operation on the list of rows.  Every statement may fail; a method that
  runs two statements can fail between them.
\<close>

section \<open>Statements\<close>

definition by_id :: "string \<Rightarrow> pool_row \<Rightarrow> bool" where
  "by_id i r \<longleftrightarrow> c_id r = i"

definition update_where :: "(pool_row \<Rightarrow> bool) \<Rightarrow> (pool_row \<Rightarrow> pool_row) \<Rightarrow> pool_row list \<Rightarrow> pool_row list" where
  "update_where p f rows = map (\<lambda>r. if p r then f r else r) rows"

text \<open>UPDATE: returns the number of rows changed.\<close>
definition sql_update :: "env \<Rightarrow> (pool_row \<Rightarrow> bool) \<Rightarrow> (pool_row \<Rightarrow> pool_row) \<Rightarrow> nat wact" where
  "sql_update E p f = sql E (\<lambda>w.
     (Ok (length (filter p (w_pool w))), w\<lparr>w_pool := update_where p f (w_pool w)\<rparr>))"

definition sql_select :: "env \<Rightarrow> (pool_row \<Rightarrow> bool) \<Rightarrow> pool_row list wact" where
  "sql_select E p = sql E (gets (\<lambda>w. filter p (w_pool w)))"

text \<open>
  DELETE.  Foreign keys are enforced, and \<open>migration_utxos.broadcast_pool_id\<close>
  references the pool without an ON DELETE action: a row that a UTXO is linked to cannot
  be deleted.
\<close>
definition linked_to_utxo :: "world \<Rightarrow> pool_row \<Rightarrow> bool" where
  "linked_to_utxo w r \<longleftrightarrow> Some (c_id r) \<in> set (map ur_broadcast_pool_id (w_utxos w))"

definition sql_delete :: "env \<Rightarrow> (pool_row \<Rightarrow> bool) \<Rightarrow> nat wact" where
  "sql_delete E p = sql E (\<lambda>w.
     if list_ex (linked_to_utxo w) (filter p (w_pool w))
     then (Err [''FOREIGN KEY constraint failed''], w)
     else (Ok (length (filter p (w_pool w))), w\<lparr>w_pool := filter (\<lambda>r. \<not> p r) (w_pool w)\<rparr>))"

text \<open>INSERT: the id is the primary key.\<close>
definition sql_insert :: "env \<Rightarrow> pool_row \<Rightarrow> unit wact" where
  "sql_insert E r = sql E (\<lambda>w.
     if c_id r \<in> set (map c_id (w_pool w))
     then (Err [''UNIQUE constraint failed: broadcast_pool.id''], w)
     else (Ok (), w\<lparr>w_pool := w_pool w @ [r]\<rparr>))"

text \<open>\<open>query_row\<close>: the first row, or the error of rusqlite.\<close>
definition first_row :: "'a list \<Rightarrow> 'a wact" where
  "first_row rows = (case rows of [] \<Rightarrow> bail ''Query returned no rows'' | r # _ \<Rightarrow> ret r)"

lemma first_row_Ok_iff [ok_iffs]:
  "first_row rows w = (Ok r, v) \<longleftrightarrow> v = w \<and> (\<exists>rs. rows = r # rs)"
  by (cases rows) (auto simp: first_row_def act_simps)

text \<open>A \<open>u64\<close> as a statement parameter: SQLite has signed 64-bit integers only.\<close>
definition param_u64 :: "u64 \<Rightarrow> int res" where
  "param_u64 n = (if uint n < 2 ^ 63 then Ok (uint n)
     else Err [''out of range integral type conversion attempted''])"

fun text_less :: "string \<Rightarrow> string \<Rightarrow> bool" where
  "text_less [] [] = False"
| "text_less [] (d # b) = True"
| "text_less (c # a) [] = False"
| "text_less (c # a) (d # b) = (code_of c < code_of d \<or> c = d \<and> text_less a b)"

fun insert_desc :: "('a \<Rightarrow> string) \<Rightarrow> 'a \<Rightarrow> 'a list \<Rightarrow> 'a list" where
  "insert_desc k x [] = [x]"
| "insert_desc k x (y # ys) = (if text_less (k x) (k y) then y # insert_desc k x ys else x # y # ys)"

text \<open>ORDER BY ... DESC; rows with the same key keep the order of the table.\<close>
definition order_desc :: "('a \<Rightarrow> string) \<Rightarrow> 'a list \<Rightarrow> 'a list" where
  "order_desc k xs = foldr (insert_desc k) xs []"

definition limit_rows :: "int \<Rightarrow> 'a list \<Rightarrow> 'a list" where
  "limit_rows n xs = (if n < 0 then xs else take (nat n) xs)"

text \<open>The loop that maps the rows of a query.\<close>
definition read_rows :: "env \<Rightarrow> bytes \<Rightarrow> pool_row list \<Rightarrow> broadcast_tx list wact" where
  "read_rows E key rows =
     for_each (\<lambda>r acc. bnd (with_ctx ''Failed to read row'' (map_broadcast_row E key r))
       (\<lambda>tx. ret (acc @ [tx]))) rows []"

section \<open>Integrity\<close>

definition reseal_row_mac :: "env \<Rightarrow> string \<Rightarrow> unit wact" where
  "reseal_row_mac E i =
     bnd (with_ctx ''Failed to load row for row_mac reseal''
       (bnd (sql_select E (by_id i)) (\<lambda>rows.
        bnd (first_row rows) (\<lambda>r.
        bnd (lift_res (get_not_null 3 ''nlocktime'' (c_nlocktime r))) (\<lambda>_.
        ret r))))) (\<lambda>r.
     bnd (gets w_db_key) (\<lambda>key.
     bnd (with_ctx ''Failed to reseal row_mac''
       (sql_update E (by_id i) (\<lambda>q. q\<lparr>c_row_mac := Some (expected_mac E key r)\<rparr>))) (\<lambda>_.
     ret ())))"

section \<open>Inserting and reading\<close>

definition get_broadcast_tx_by_id :: "env \<Rightarrow> string \<Rightarrow> broadcast_tx wact" where
  "get_broadcast_tx_by_id E i =
     with_ctx ''Failed to get broadcast tx''
       (bnd (gets w_db_key) (\<lambda>key.
        bnd (sql_select E (by_id i)) (\<lambda>rows.
        bnd (first_row rows) (\<lambda>r.
        map_broadcast_row E key r))))"

definition sum_sats :: "btc_output list \<Rightarrow> u64" where
  "sum_sats outs = foldl (\<lambda>s o'. s + out_value o') 0 outs"

definition output_value_btc_from_hex :: "env \<Rightarrow> string \<Rightarrow> f64 option" where
  "output_value_btc_from_hex E hex =
     opt_bind (hex_decode E (trim hex)) (\<lambda>raw.
       case tx_consensus_decode E raw of
         Some (tx, []) \<Rightarrow>
           Some (f64_div (f64_of_int (uint (sum_sats (bt_outputs tx)))) (f64_of_int 100000000))
       | _ \<Rightarrow> None)"

definition encode_optional :: "env \<Rightarrow> bytes \<Rightarrow> string option \<Rightarrow> bytes \<Rightarrow> string option wact" where
  "encode_optional E key s aad = (case s of
       None \<Rightarrow> ret None
     | Some d \<Rightarrow> bnd (encode_field E key d aad) (\<lambda>c. ret (Some c)))"

text \<open>The values of the INSERT, and the columns it leaves to their schema defaults.\<close>
definition new_pool_row ::
  "env \<Rightarrow> bytes \<Rightarrow> new_broadcast_tx \<Rightarrow> string \<Rightarrow> string \<Rightarrow> string \<Rightarrow> string option \<Rightarrow> string option \<Rightarrow> int \<Rightarrow> pool_row" where
  "new_pool_row E key tx i now enc_hex enc_dest enc_source nlock_sql =
     (let scheduled = map_option (to_rfc3339 E) (n_scheduled_time tx);
          nlock = unwrap_or 0 (n_nlocktime tx);
          mode = unwrap_or ''immediate'' (n_broadcast_mode tx);
          total = unwrap_or 0 (or_else (n_total_value_btc tx)
                    (output_value_btc_from_hex E (n_tx_hex tx)));
          row_mac = hex_encode E (mac E key
            (row_mac_input i (tx_status_as_str Pending) mode (unwrap_or [] scheduled)
               (sint nlock) [] ''datetime'' [] enc_hex (unwrap_or [] enc_dest)))
      in \<lparr>c_id = i, c_tx_hex = enc_hex, c_txid = None, c_status = tx_status_as_str Pending,
          c_network = n_network tx, c_nlocktime = Some nlock_sql,
          c_broadcast_mode = Some mode, c_scheduled_time = scheduled,
          c_broadcast_at = None, c_confirmed_at = None, c_block_height = None,
          c_target_fee_rate = n_target_fee_rate tx, c_actual_fee_rate = None,
          c_source_label = enc_source, c_destination_address = enc_dest,
          c_utxo_count = unwrap_or 1 (n_utxo_count tx), c_total_value_btc = Some total,
          c_replacement_of = n_replacement_of tx, c_error_message = None, c_retry_count = 0,
          c_broadcast_missed_at = None, c_original_scheduled_time = None,
          c_defer_until = None, c_schedule_trigger = Some ''datetime'',
          c_target_price = None, c_price_currency = None, c_price_condition = None,
          c_created_at = now, c_updated_at = now, c_row_mac = Some row_mac\<rparr>)"

definition insert_broadcast_tx :: "env \<Rightarrow> new_broadcast_tx \<Rightarrow> broadcast_tx wact" where
  "insert_broadcast_tx E tx =
     bnd (draw (uuid_at E)) (\<lambda>i.
     bnd (draw (\<lambda>n. to_rfc3339 E (now_at E n))) (\<lambda>now.
     bnd (gets w_db_key) (\<lambda>key.
     bnd (encode_field E key (n_tx_hex tx) i) (\<lambda>enc_hex.
     bnd (encode_optional E key (n_destination_address tx) i) (\<lambda>enc_dest.
     bnd (encode_optional E key (n_source_label tx) i) (\<lambda>enc_source.
     bnd (with_ctx ''Failed to insert broadcast tx''
       (bnd (lift_res (param_u64 (unwrap_or 0 (n_nlocktime tx)))) (\<lambda>nlock_sql.
        sql_insert E (new_pool_row E key tx i now enc_hex enc_dest enc_source nlock_sql)))) (\<lambda>_.
     get_broadcast_tx_by_id E i)))))))"

section \<open>Queries\<close>

definition list_broadcast_txs :: "env \<Rightarrow> string option \<Rightarrow> string \<Rightarrow> int \<Rightarrow> broadcast_tx list wact" where
  "list_broadcast_txs E filt net max_rows =
     bnd (gets w_db_key) (\<lambda>key.
     bnd (sql E (gets (\<lambda>w. limit_rows max_rows (order_desc c_created_at
       (filter (\<lambda>r. c_network r = net \<and> (case filt of None \<Rightarrow> True | Some st \<Rightarrow> c_status r = st))
          (w_pool w)))))) (\<lambda>rows.
     read_rows E key rows))"

definition get_tx_hex_by_txid :: "env \<Rightarrow> string \<Rightarrow> string option wact" where
  "get_tx_hex_by_txid E txid =
     bnd (with_ctx ''Failed to query tx_hex by txid''
       (sql_select E (\<lambda>r. c_txid r = Some txid \<and> c_status r \<in> {''pending'', ''scheduled''}))) (\<lambda>rows.
     case rows of
       [] \<Rightarrow> ret None
     | r # _ \<Rightarrow>
         bnd (gets w_db_key) (\<lambda>key.
         bnd (lift_res (with_context ''Failed to decrypt tx_hex''
           (decode_field E key (c_tx_hex r) (c_id r)))) (\<lambda>decoded.
         ret (Some decoded))))"

text \<open>A SELECT of whole rows, mapped.\<close>
definition query_txs :: "env \<Rightarrow> string \<Rightarrow> (pool_row \<Rightarrow> bool) \<Rightarrow> broadcast_tx list wact" where
  "query_txs E c p =
     bnd (gets w_db_key) (\<lambda>key.
     bnd (with_ctx c (sql_select E p)) (\<lambda>rows.
     read_rows E key rows))"

definition get_due_transactions :: "env \<Rightarrow> string \<Rightarrow> broadcast_tx list wact" where
  "get_due_transactions E net = query_txs E ''Failed to query due txs''
     (\<lambda>r. c_status r = ''scheduled'' \<and> c_network r = net)"

definition get_price_triggered_pending :: "env \<Rightarrow> string \<Rightarrow> broadcast_tx list wact" where
  "get_price_triggered_pending E net = query_txs E ''Failed to query price-triggered txs''
     (\<lambda>r. c_status r \<in> {''pending'', ''scheduled''} \<and> c_schedule_trigger r = Some ''price''
        \<and> c_target_price r \<noteq> None \<and> c_network r = net)"

definition sql_between :: "int option \<Rightarrow> int \<Rightarrow> int \<Rightarrow> bool" where
  "sql_between x lo hi = (case x of None \<Rightarrow> False | Some n \<Rightarrow> lo < n \<and> n < hi)"

definition get_pending_by_block_height :: "env \<Rightarrow> string \<Rightarrow> broadcast_tx list wact" where
  "get_pending_by_block_height E net =
     query_txs E ''Failed to query pending by block height txs''
     (\<lambda>r. c_status r = ''pending'' \<and> c_broadcast_mode r = Some ''by_block''
        \<and> sql_between (c_nlocktime r) 0 500000000 \<and> c_network r = net)"

definition get_pending_by_scheduled_time :: "env \<Rightarrow> string \<Rightarrow> broadcast_tx list wact" where
  "get_pending_by_scheduled_time E net =
     bnd (draw (now_at E)) (\<lambda>now.
     bnd (query_txs E ''Failed to query pending by scheduled time txs''
       (\<lambda>r. c_status r = ''pending''
          \<and> c_broadcast_mode r \<in> {Some ''scheduled'', Some ''manual'', Some ''imported''}
          \<and> c_scheduled_time r \<noteq> None \<and> c_network r = net)) (\<lambda>txs.
     ret (filter (\<lambda>tx. case t_scheduled_time tx of None \<Rightarrow> False | Some t \<Rightarrow> t \<le> now) txs)))"

definition get_pending_rebroadcast :: "env \<Rightarrow> int \<Rightarrow> string \<Rightarrow> broadcast_tx list wact" where
  "get_pending_rebroadcast E interval_minutes net =
     bnd (draw (now_at E)) (\<lambda>now.
     let cutoff = now - secs (60 * interval_minutes) in
     if \<not> datetime_ok E cutoff then bail ''Invalid rebroadcast interval''
     else query_txs E ''Failed to query rebroadcast txs''
       (\<lambda>r. c_status r = ''broadcast'' \<and> c_confirmed_at r = None
          \<and> (case c_broadcast_at r of None \<Rightarrow> True
             | Some t \<Rightarrow> text_less t (to_rfc3339 E cutoff))
          \<and> c_network r = net))"

section \<open>Updates\<close>

definition update_tx_status :: "env \<Rightarrow> string \<Rightarrow> tx_status \<Rightarrow> string option \<Rightarrow> unit wact" where
  "update_tx_status E i st error =
     bnd (draw (\<lambda>n. to_rfc3339 E (now_at E n))) (\<lambda>now.
     bnd (with_ctx ''Failed to update tx status'' (sql_update E (by_id i)
       (\<lambda>r. r\<lparr>c_status := tx_status_as_str st, c_error_message := error, c_updated_at := now\<rparr>))) (\<lambda>_.
     reseal_row_mac E i))"

definition reset_failed_to_scheduled :: "env \<Rightarrow> string \<Rightarrow> unit wact" where
  "reset_failed_to_scheduled E i =
     bnd (draw (\<lambda>n. to_rfc3339 E (now_at E n))) (\<lambda>now.
     bnd (with_ctx ''Failed to reset failed tx to scheduled''
       (sql_update E (\<lambda>r. by_id i r \<and> c_status r = ''failed'')
         (\<lambda>r. r\<lparr>c_status := ''scheduled'', c_error_message := None, c_updated_at := now\<rparr>))) (\<lambda>updated.
     if updated = 0 then bail (''Transaction '' @ i @ '' is not in failed state'')
     else reseal_row_mac E i))"

definition db_mark_broadcast :: "env \<Rightarrow> string \<Rightarrow> string \<Rightarrow> f64 \<Rightarrow> unit wact" where
  "db_mark_broadcast E i txid fee_rate =
     bnd (draw (\<lambda>n. to_rfc3339 E (now_at E n))) (\<lambda>now.
     bnd (with_ctx ''Failed to mark as broadcast'' (sql_update E (by_id i)
       (\<lambda>r. r\<lparr>c_status := ''broadcast'', c_txid := Some txid, c_actual_fee_rate := Some fee_rate,
              c_broadcast_at := Some now, c_updated_at := now, c_broadcast_missed_at := None,
              c_defer_until := None\<rparr>))) (\<lambda>_.
     reseal_row_mac E i))"

definition mark_confirmed :: "env \<Rightarrow> string \<Rightarrow> u64 \<Rightarrow> unit wact" where
  "mark_confirmed E i height =
     bnd (draw (\<lambda>n. to_rfc3339 E (now_at E n))) (\<lambda>now.
     bnd (with_ctx ''Failed to mark as confirmed''
       (bnd (lift_res (param_u64 height)) (\<lambda>h.
        sql_update E (by_id i)
         (\<lambda>r. r\<lparr>c_status := ''confirmed'', c_block_height := Some h, c_confirmed_at := Some now,
                c_updated_at := now\<rparr>)))) (\<lambda>_.
     reseal_row_mac E i))"

definition record_broadcast_miss :: "env \<Rightarrow> string \<Rightarrow> string \<Rightarrow> string option \<Rightarrow> unit wact" where
  "record_broadcast_miss E i missed_at original =
     bnd (draw (\<lambda>n. to_rfc3339 E (now_at E n))) (\<lambda>now.
     bnd (with_ctx ''Failed to record broadcast miss''
       (case original of
          Some orig \<Rightarrow> sql_update E (\<lambda>r. by_id i r \<and> c_broadcast_missed_at r = None)
            (\<lambda>r. r\<lparr>c_broadcast_missed_at := Some missed_at,
                   c_original_scheduled_time := or_else (c_original_scheduled_time r) (Some orig),
                   c_updated_at := now\<rparr>)
        | None \<Rightarrow> sql_update E (\<lambda>r. by_id i r \<and> c_broadcast_missed_at r = None)
            (\<lambda>r. r\<lparr>c_broadcast_missed_at := Some missed_at, c_updated_at := now\<rparr>))) (\<lambda>_.
     ret ()))"

definition update_reschedule :: "env \<Rightarrow> string \<Rightarrow> string \<Rightarrow> string option \<Rightarrow> f64 \<Rightarrow> unit wact" where
  "update_reschedule E i scheduled defer_to fee_rate =
     bnd (draw (\<lambda>n. to_rfc3339 E (now_at E n))) (\<lambda>now.
     bnd (with_ctx ''Failed to update reschedule'' (sql_update E (by_id i)
       (\<lambda>r. r\<lparr>c_status := ''scheduled'', c_scheduled_time := Some scheduled,
              c_defer_until := defer_to, c_target_fee_rate := Some fee_rate,
              c_error_message := None, c_schedule_trigger := Some ''datetime'',
              c_target_price := None, c_price_currency := None, c_price_condition := None,
              c_updated_at := now\<rparr>))) (\<lambda>_.
     reseal_row_mac E i))"

definition update_price_schedule ::
  "env \<Rightarrow> string \<Rightarrow> f64 \<Rightarrow> string \<Rightarrow> string \<Rightarrow> f64 \<Rightarrow> unit wact" where
  "update_price_schedule E i target currency condition fee_rate =
     bnd (draw (\<lambda>n. to_rfc3339 E (now_at E n))) (\<lambda>now.
     bnd (with_ctx ''Failed to update price schedule'' (sql_update E (by_id i)
       (\<lambda>r. r\<lparr>c_status := ''pending'', c_scheduled_time := None, c_defer_until := None,
              c_target_fee_rate := Some fee_rate, c_error_message := None,
              c_schedule_trigger := Some ''price'', c_target_price := Some target,
              c_price_currency := Some currency, c_price_condition := Some condition,
              c_updated_at := now\<rparr>))) (\<lambda>_.
     reseal_row_mac E i))"

definition mark_due :: "env \<Rightarrow> string \<Rightarrow> unit wact" where
  "mark_due E i =
     bnd (draw (\<lambda>n. to_rfc3339 E (now_at E n))) (\<lambda>now.
     bnd (with_ctx ''Failed to mark tx as due'' (sql_update E (by_id i)
       (\<lambda>r. r\<lparr>c_status := ''scheduled'', c_scheduled_time := Some now, c_updated_at := now\<rparr>))) (\<lambda>_.
     reseal_row_mac E i))"

definition mark_due_from_price_trigger :: "env \<Rightarrow> string \<Rightarrow> unit wact" where
  "mark_due_from_price_trigger E i =
     bnd (draw (\<lambda>n. to_rfc3339 E (now_at E n))) (\<lambda>now.
     bnd (with_ctx ''Failed to mark price-triggered tx as due'' (sql_update E (by_id i)
       (\<lambda>r. r\<lparr>c_status := ''scheduled'', c_scheduled_time := Some now,
              c_schedule_trigger := Some ''datetime'', c_updated_at := now\<rparr>))) (\<lambda>_.
     reseal_row_mac E i))"

definition mark_due_with_schedule :: "env \<Rightarrow> string \<Rightarrow> datetime \<Rightarrow> unit wact" where
  "mark_due_with_schedule E i due_time =
     bnd (draw (\<lambda>n. to_rfc3339 E (now_at E n))) (\<lambda>now.
     bnd (with_ctx ''Failed to mark tx as due with schedule'' (sql_update E (by_id i)
       (\<lambda>r. r\<lparr>c_status := ''scheduled'', c_scheduled_time := Some (to_rfc3339 E due_time),
              c_updated_at := now\<rparr>))) (\<lambda>_.
     reseal_row_mac E i))"

definition remove_broadcast_tx :: "env \<Rightarrow> string \<Rightarrow> nat wact" where
  "remove_broadcast_tx E i = with_ctx ''Failed to remove broadcast tx'' (sql_delete E (by_id i))"

definition delete_broadcast_tx :: "env \<Rightarrow> string \<Rightarrow> unit wact" where
  "delete_broadcast_tx E i =
     bnd (with_ctx ''Failed to delete broadcast tx'' (sql_delete E (by_id i))) (\<lambda>_. ret ())"

text \<open>\<open>execute_raw\<close> with the caller's UPDATE.\<close>
definition execute_raw :: "env \<Rightarrow> (pool_row \<Rightarrow> bool) \<Rightarrow> (pool_row \<Rightarrow> pool_row) \<Rightarrow> nat wact" where
  "execute_raw E p f = with_ctx ''Failed to execute raw SQL'' (sql_update E p f)"

text \<open>GROUP BY status: the statuses present, in text order.\<close>
definition status_groups :: "pool_row list \<Rightarrow> string list" where
  "status_groups rows = rev (order_desc (\<lambda>s. s) (remdups (map c_status rows)))"

definition add_group :: "env \<Rightarrow> pool_row list \<Rightarrow> string \<Rightarrow> pool_stats \<Rightarrow> pool_stats" where
  "add_group E rows st acc =
     (let grp = filter (\<lambda>r. c_status r = st) rows;
          n = length grp;
          v = sql_real_sum E (List.map_filter c_total_value_btc grp);
          acc = acc\<lparr>total_transactions := total_transactions acc + n\<rparr>;
          acc = (if st = ''failed'' then acc
                 else acc\<lparr>st_total_value_btc := f64_add (st_total_value_btc acc) v\<rparr>)
      in if st = ''pending'' then acc\<lparr>st_pending := n\<rparr>
         else if st = ''scheduled'' then acc\<lparr>st_scheduled := n\<rparr>
         else if st = ''broadcast'' then acc\<lparr>st_broadcast := n\<rparr>
         else if st = ''confirmed'' then acc\<lparr>st_confirmed := n\<rparr>
         else if st = ''failed'' then acc\<lparr>st_failed := n\<rparr>
         else acc)"

definition zero_stats :: pool_stats where
  "zero_stats = \<lparr>total_transactions = 0, st_pending = 0, st_scheduled = 0, st_broadcast = 0,
     st_confirmed = 0, st_failed = 0, st_total_value_btc = 0\<rparr>"

definition get_pool_stats :: "env \<Rightarrow> string \<Rightarrow> pool_stats wact" where
  "get_pool_stats E net =
     bnd (with_ctx ''Failed to query stats'' (sql_select E (\<lambda>r. c_network r = net))) (\<lambda>rows.
     ret (foldl (\<lambda>acc st. add_group E rows st acc) zero_stats (status_groups rows)))"

section \<open>Opening the database\<close>

text \<open>\<open>tx_hex NOT LIKE 'enc:%'\<close>: LIKE ignores ASCII case.\<close>
definition like_enc :: "string \<Rightarrow> bool" where
  "like_enc s = starts_with (to_lower s) ''enc:''"

definition backfill_output_values :: "env \<Rightarrow> nat wact" where
  "backfill_output_values E =
     bnd (sql_select E (\<lambda>r. case c_total_value_btc r of None \<Rightarrow> True | Some v \<Rightarrow> f64_eq v 0)) (\<lambda>rows.
     bnd (gets w_db_key) (\<lambda>key.
     for_each (\<lambda>r updated.
       let hex = dec_column E key (c_id r) (c_tx_hex r) in
       case output_value_btc_from_hex E hex of
         None \<Rightarrow> ret updated
       | Some btc \<Rightarrow>
           if f64_lt 0 btc then
             bnd (sql_update E (by_id (c_id r)) (\<lambda>q. q\<lparr>c_total_value_btc := Some btc\<rparr>)) (\<lambda>_.
             ret (updated + 1))
           else ret updated) rows 0))"

definition encode_if_plain :: "env \<Rightarrow> bytes \<Rightarrow> string \<Rightarrow> string \<Rightarrow> string wact" where
  "encode_if_plain E key i s = (if is_encoded s then ret s else encode_field E key s i)"

definition encode_optional_if_plain :: "env \<Rightarrow> bytes \<Rightarrow> string \<Rightarrow> string option \<Rightarrow> string option wact" where
  "encode_optional_if_plain E key i s = (case s of
       None \<Rightarrow> ret None
     | Some d \<Rightarrow> bnd (encode_if_plain E key i d) (\<lambda>c. ret (Some c)))"

definition encrypt_legacy_rows :: "env \<Rightarrow> nat wact" where
  "encrypt_legacy_rows E =
     bnd (sql_select E (\<lambda>r. \<not> like_enc (c_tx_hex r) \<or> c_row_mac r = None)) (\<lambda>rows.
     bnd (gets w_db_key) (\<lambda>key.
     for_each (\<lambda>r updated.
       bnd (encode_if_plain E key (c_id r) (c_tx_hex r)) (\<lambda>enc_hex.
       bnd (encode_optional_if_plain E key (c_id r) (c_destination_address r)) (\<lambda>enc_dest.
       bnd (encode_optional_if_plain E key (c_id r) (c_source_label r)) (\<lambda>enc_source.
       bnd (with_ctx ''Failed to encrypt legacy row'' (sql_update E (by_id (c_id r))
         (\<lambda>q. q\<lparr>c_tx_hex := enc_hex, c_destination_address := enc_dest,
                c_source_label := enc_source\<rparr>))) (\<lambda>_.
       bnd (reseal_row_mac E (c_id r)) (\<lambda>_.
       ret (updated + 1)))))))
       rows 0))"

text \<open>
  The migrations.  The tables of the model always have the columns of the current schema,
  so a DDL statement only succeeds or fails; 007 rewrites rows.  Only a failure of 001 is
  fatal.
\<close>
definition migration_007 :: "pool_row \<Rightarrow> pool_row" where
  "migration_007 r = r\<lparr>c_broadcast_mode := Some ''imported''\<rparr>"

definition run_migrations :: "env \<Rightarrow> unit wact" where
  "run_migrations E =
     bnd (with_ctx ''Failed to run migrations'' (sql E (ret ()))) (\<lambda>_.
     bnd (attempt (sql E (ret ()))) (\<lambda>_.
     bnd (attempt (sql E (ret ()))) (\<lambda>_.
     bnd (attempt (sql E (ret ()))) (\<lambda>_.
     bnd (attempt (sql E (ret ()))) (\<lambda>_.
     bnd (attempt (sql E (ret ()))) (\<lambda>_.
     bnd (attempt (sql_update E
       (\<lambda>r. c_broadcast_mode r = Some ''immediate'' \<and> c_status r = ''pending'') migration_007)) (\<lambda>_.
     bnd (attempt (sql E (ret ()))) (\<lambda>_.
     bnd (attempt (sql E (ret ()))) (\<lambda>_.
     ret ())))))))))"

text \<open>\<open>Database::open\<close> once the file is open and the key file is read.\<close>
definition open_database :: "env \<Rightarrow> bytes \<Rightarrow> unit wact" where
  "open_database E key =
     bnd (with_ctx ''Failed to set pragmas'' (sql E (ret ()))) (\<lambda>_.
     bnd (modify (\<lambda>w. w\<lparr>w_db_key := key\<rparr>)) (\<lambda>_.
     bnd (run_migrations E) (\<lambda>_.
     bnd (attempt (backfill_output_values E)) (\<lambda>_.
     bnd (attempt (encrypt_legacy_rows E)) (\<lambda>_.
     ret ())))))"

text \<open>\<open>keyfile::load_or_create\<close>: \<open>disk\<close> is the file's content, if there is one.\<close>
definition load_or_create :: "env \<Rightarrow> (nat \<Rightarrow> bytes) \<Rightarrow> bytes res option \<Rightarrow> bytes wact" where
  "load_or_create E key_at disk = (case disk of
       Some r \<Rightarrow>
         bnd (lift_res (with_context ''read keyfile'' r)) (\<lambda>b.
         if length b = 32 then ret b else bail ''keyfile is not 32 bytes'')
     | None \<Rightarrow>
         bnd (draw key_at) (\<lambda>key.
         bnd (draw (write_fault_at E)) (\<lambda>f.
         case f of Some e \<Rightarrow> lift_res (Err [''write keyfile'', e])
         | None \<Rightarrow>
             bnd (draw (write_fault_at E)) (\<lambda>g.
             case g of Some e \<Rightarrow> lift_res (Err [''chmod 600 keyfile'', e]) | None \<Rightarrow> ret key))))"

end
