(* ===== verification/Database_Laws.thy ===== *)
theory Database_Laws
  imports Database
begin

text \<open>
  What the store promises its callers: a write touches the row it names and no other,
  keeps the ids, and when it returns \<open>Ok\<close> leaves that row with a fresh MAC.  The
  locale \<open>row_writer\<close> states the contract once; every mutator of \<open>Database\<close> is an
  instance.
\<close>

section \<open>Well-formed tables\<close>

definition ids_unique :: "world \<Rightarrow> bool" where
  "ids_unique w \<longleftrightarrow> distinct (map c_id (w_pool w))"

definition all_sealed :: "env \<Rightarrow> world \<Rightarrow> bool" where
  "all_sealed E w \<longleftrightarrow> (\<forall>r \<in> set (w_pool w). row_sealed E (w_db_key w) r)"

definition resealed :: "env \<Rightarrow> bytes \<Rightarrow> pool_row \<Rightarrow> pool_row" where
  "resealed E key r = r\<lparr>c_row_mac := Some (expected_mac E key r)\<rparr>"

lemma row_sealed_resealed [simp]: "row_sealed E key (resealed E key r)"
  by (simp add: row_sealed_def resealed_def)

lemma c_id_resealed [simp]: "c_id (resealed E key r) = c_id r"
  by (simp add: resealed_def)

lemma update_where_simps [simp]:
  "update_where p f [] = []"
  "update_where p f (r # rows) = (if p r then f r else r) # update_where p f rows"
  "length (update_where p f rows) = length rows"
  by (simp_all add: update_where_def)

lemma set_update_where:
  "set (update_where p f rows) = (\<lambda>r. if p r then f r else r) ` set rows"
  by (simp add: update_where_def)

lemma ids_update_where [simp]:
  "(\<And>r. c_id (f r) = c_id r) \<Longrightarrow> map c_id (update_where p f rows) = map c_id rows"
  by (induction rows) auto

lemma update_where_update_where:
  "(\<And>r. c_id (f r) = c_id r) \<Longrightarrow>
   update_where (by_id i) g (update_where (by_id i) f rows) = update_where (by_id i) (\<lambda>r. g (f r)) rows"
  by (induction rows) (auto simp: by_id_def)

lemma filter_update_where_other:
  "(\<And>r. c_id (f r) = c_id r) \<Longrightarrow> (\<And>r. p r \<Longrightarrow> c_id r = i) \<Longrightarrow> j \<noteq> i \<Longrightarrow>
   filter (by_id j) (update_where p f rows) = filter (by_id j) rows"
  by (induction rows) (auto simp: by_id_def)

section \<open>A write to one row\<close>

text \<open>The state differs in the clock and in rows with the id \<open>i\<close> only; the ids stay.\<close>

definition rows_kept :: "string \<Rightarrow> pool_row list \<Rightarrow> pool_row list \<Rightarrow> bool" where
  "rows_kept i = list_all2 (\<lambda>r q. c_id q = c_id r \<and> (c_id r \<noteq> i \<longrightarrow> q = r))"

lemma rows_kept_refl: "rows_kept i rows rows"
  by (simp add: rows_kept_def list_all2_refl)

lemma rows_kept_trans: "rows_kept i a b \<Longrightarrow> rows_kept i b c \<Longrightarrow> rows_kept i a c"
  unfolding rows_kept_def by (auto simp: list_all2_conv_all_nth)

definition touches_row :: "string \<Rightarrow> world \<Rightarrow> world \<Rightarrow> bool" where
  "touches_row i w v \<longleftrightarrow> (\<exists>n rows. v = w\<lparr>w_clock := n, w_pool := rows\<rparr>
     \<and> rows_kept i (w_pool w) rows)"

interpretation touch: act_rel "touches_row i" for i
proof
  show "touches_row i s s" for s
    unfolding touches_row_def
    by (rule exI [of _ "w_clock s"], rule exI [of _ "w_pool s"]) (simp add: rows_kept_refl)
  show "touches_row i s u" if st: "touches_row i s t" and tu: "touches_row i t u" for s t u
  proof -
    obtain n a where t: "t = s\<lparr>w_clock := n, w_pool := a\<rparr>" "rows_kept i (w_pool s) a"
      using st unfolding touches_row_def by blast
    obtain m b where u: "u = t\<lparr>w_clock := m, w_pool := b\<rparr>" "rows_kept i (w_pool t) b"
      using tu unfolding touches_row_def by blast
    have "u = s\<lparr>w_clock := m, w_pool := b\<rparr>" using t u by simp
    moreover have "rows_kept i (w_pool s) b" using t u rows_kept_trans by simp
    ultimately show ?thesis unfolding touches_row_def by blast
  qed
qed

lemma touches_row_clock: "only_clock w v \<Longrightarrow> touches_row i w v"
proof -
  assume "only_clock w v"
  then obtain n where "v = w\<lparr>w_clock := n\<rparr>" unfolding only_clock_def by blast
  then have "v = w\<lparr>w_clock := n, w_pool := w_pool w\<rparr>" by simp
  then show ?thesis unfolding touches_row_def using rows_kept_refl by blast
qed

lemma touches_row_quiet: "moves only_clock m \<Longrightarrow> moves (touches_row i) m"
  by (simp add: moves_def touches_row_clock)

lemma rows_kept_update_where:
  "(\<And>r. p r \<Longrightarrow> c_id r = i) \<Longrightarrow> (\<And>r. c_id (f r) = c_id r) \<Longrightarrow>
   rows_kept i rows (update_where p f rows)"
  unfolding rows_kept_def by (induction rows) auto

lemma touches_row_update:
  assumes "\<And>r. p r \<Longrightarrow> c_id r = i" "\<And>r. c_id (f r) = c_id r"
  shows "moves (touches_row i) (sql_update E p f)"
proof (rule movesI)
  fix w r v
  assume "sql_update E p f w = (r, v)"
  then consider "v = tick w" | "v = (tick w)\<lparr>w_pool := update_where p f (w_pool w)\<rparr>"
    by (auto simp: sql_update_def sql_def tick_def split: option.splits)
  then show "touches_row i w v"
  proof cases
    case 2
    then show ?thesis
      unfolding touches_row_def tick_def
      using rows_kept_update_where [of p i f "w_pool w"] assms by force
  qed (simp add: touches_row_clock)
qed

lemma touches_row_same:
  assumes "touches_row i w v"
  shows "map c_id (w_pool v) = map c_id (w_pool w)" "w_db_key v = w_db_key w"
    "ids_unique v = ids_unique w"
    and "j \<noteq> i \<Longrightarrow> filter (by_id j) (w_pool v) = filter (by_id j) (w_pool w)"
proof -
  obtain n rows where v: "v = w\<lparr>w_clock := n, w_pool := rows\<rparr>"
    and all: "rows_kept i (w_pool w) rows"
    using assms unfolding touches_row_def by blast
  from all have "map c_id rows = map c_id (w_pool w)"
    unfolding rows_kept_def by (induction rule: list_all2_induct) auto
  then show "map c_id (w_pool v) = map c_id (w_pool w)" "w_db_key v = w_db_key w"
    "ids_unique v = ids_unique w"
    by (auto simp: v ids_unique_def)
  show "filter (by_id j) (w_pool v) = filter (by_id j) (w_pool w)" if "j \<noteq> i"
    using all that unfolding v rows_kept_def by (induction rule: list_all2_induct) (auto simp: by_id_def)
qed

lemma quiet_sql_select: "moves only_clock (sql_select E p)"
  unfolding sql_select_def by (intro quiet_rules)

lemma quiet_first_row: "moves only_clock (first_row rows)"
  unfolding first_row_def by (auto split: list.split intro: quiet_rules)

lemma touches_row_reseal: "moves (touches_row i) (reseal_row_mac E i)"
  unfolding reseal_row_mac_def
  by (intro touch.rules touches_row_update touches_row_quiet [OF quiet_sql_select]
      touches_row_quiet [OF quiet_first_row])
     (auto simp: by_id_def)

section \<open>Updating a row and sealing it\<close>

lemma sql_update_Ok:
  "sql_update E p f w = (Ok n, v) \<Longrightarrow>
   n = length (filter p (w_pool w))
   \<and> v = w\<lparr>w_clock := Suc (w_clock w), w_pool := update_where p f (w_pool w)\<rparr>"
  by (auto simp: sql_update_def sql_def tick_def split: option.splits)

lemma sql_select_Ok:
  "sql_select E p w = (Ok rows, v) \<Longrightarrow> filter p (w_pool w) = rows \<and> v = tick w"
  by (auto simp: sql_select_def sql_def act_simps tick_def split: option.splits)

text \<open>The state after a write of \<open>f\<close> to row \<open>i\<close> with a fresh MAC.\<close>
definition wrote_row :: "env \<Rightarrow> string \<Rightarrow> (pool_row \<Rightarrow> pool_row) \<Rightarrow> world \<Rightarrow> world \<Rightarrow> bool" where
  "wrote_row E i f w v \<longleftrightarrow> i \<in> set (map c_id (w_pool w))
     \<and> (\<exists>n. v = w\<lparr>w_clock := n,
           w_pool := update_where (by_id i) (\<lambda>r. resealed E (w_db_key w) (f r)) (w_pool w)\<rparr>)"

lemma reseal_Ok:
  assumes "ids_unique w" "reseal_row_mac E i w = (Ok u, v)"
  shows "wrote_row E i (\<lambda>r. r) w v"
proof -
  obtain r rows n where sel: "filter (by_id i) (w_pool w) = r # rows"
    and v: "v = w\<lparr>w_clock := n, w_pool := update_where (by_id i)
        (\<lambda>q. q\<lparr>c_row_mac := Some (expected_mac E (w_db_key w) r)\<rparr>) (w_pool w)\<rparr>"
    using assms(2)
    by (force simp: reseal_row_mac_def ok_iffs act_simps tick_def
        dest!: sql_select_Ok sql_update_Ok)
  have r: "r \<in> set (w_pool w)" "c_id r = i"
    using sel by (auto simp: by_id_def dest: filter_eq_ConsD)
  have uniq: "q = r" if "q \<in> set (w_pool w)" "c_id q = i" for q
    using that r assms(1) unfolding ids_unique_def distinct_map
    by (metis inj_on_contraD)
  have "update_where (by_id i)
        (\<lambda>q. q\<lparr>c_row_mac := Some (expected_mac E (w_db_key w) r)\<rparr>) (w_pool w)
      = update_where (by_id i) (resealed E (w_db_key w)) (w_pool w)"
    unfolding update_where_def by_id_def resealed_def
    by (intro map_cong refl) (metis uniq)
  moreover have "i \<in> set (map c_id (w_pool w))" using r by auto
  ultimately show ?thesis unfolding wrote_row_def v by auto
qed

lemma ids_unique_update:
  "(\<And>r. c_id (f r) = c_id r) \<Longrightarrow>
   ids_unique (w\<lparr>w_clock := n, w_pool := update_where p f (w_pool w)\<rparr>) = ids_unique w"
  by (simp add: ids_unique_def)

lemma update_reseal_Ok:
  assumes "ids_unique w" "\<And>r. c_id (f r) = c_id r"
    and "sql_update E (by_id i) f w = (Ok n, w1)" "reseal_row_mac E i w1 = (Ok u, v)"
  shows "wrote_row E i f w v"
proof -
  have w1: "w1 = w\<lparr>w_clock := Suc (w_clock w), w_pool := update_where (by_id i) f (w_pool w)\<rparr>"
    using sql_update_Ok [OF assms(3)] by simp
  then have "ids_unique w1" using assms(1,2) ids_unique_update by simp
  from reseal_Ok [OF this assms(4)] show ?thesis
    using assms(2)
    by (auto simp: wrote_row_def w1 update_where_update_where simp flip: set_map)
qed

lemma wrote_row_clock: "only_clock w w1 \<Longrightarrow> wrote_row E i f w1 v \<Longrightarrow> wrote_row E i f w v"
  by (auto simp: wrote_row_def only_clock_def)

lemma draw_Ok: "draw f w = (Ok x, v) \<Longrightarrow> x = f (w_clock w) \<and> v = tick w"
  by (auto simp: act_simps)

lemma ids_unique_tick [simp]: "ids_unique (tick w) = ids_unique w"
  by (simp add: ids_unique_def tick_def)

text \<open>What each mutator writes, when it returns \<open>Ok\<close>.\<close>

lemma mutator_Ok:
  assumes "ids_unique w" "\<And>now r. c_id (f now r) = c_id r"
    and "bnd (draw g) (\<lambda>now. bnd (with_ctx c (sql_update E (by_id i) (f now)))
           (\<lambda>_. reseal_row_mac E i)) w = (Ok u, v)"
  shows "wrote_row E i (f (g (w_clock w))) w v"
proof -
  obtain n w1 where "sql_update E (by_id i) (f (g (w_clock w))) (tick w) = (Ok n, w1)"
    "reseal_row_mac E i w1 = (Ok u, v)"
    using assms(3) by (auto simp: ok_iffs act_simps)
  then have "wrote_row E i (f (g (w_clock w))) (tick w) v"
    using assms(1,2) by (intro update_reseal_Ok) auto
  then show ?thesis by (rule wrote_row_clock [OF only_clock_tick])
qed

lemma touches_mutator:
  assumes "\<And>now r. c_id (f now r) = c_id r"
  shows "moves (touches_row i) (bnd (draw g) (\<lambda>now. bnd (with_ctx c (sql_update E (by_id i) (f now)))
           (\<lambda>_. reseal_row_mac E i)))"
  using assms
  by (intro touch.rules touches_row_quiet [OF quiet_draw] touches_row_update touches_row_reseal)
     (auto simp: by_id_def)

lemma wrote_row_sealed:
  assumes "wrote_row E i f w v" "\<And>r. c_id (f r) = c_id r" "r \<in> set (w_pool v)" "c_id r = i"
  shows "row_sealed E (w_db_key v) r"
  using assms by (auto simp: wrote_row_def set_update_where by_id_def split: if_splits)

lemma wrote_row_lookup:
  assumes "wrote_row E i f w v" "\<And>r. c_id (f r) = c_id r"
  shows "filter (by_id i) (w_pool v)
    = map (\<lambda>r. resealed E (w_db_key w) (f r)) (filter (by_id i) (w_pool w))"
proof -
  have "filter (by_id i) (update_where (by_id i) g rows) = map g (filter (by_id i) rows)"
    if "\<And>r. c_id (g r) = c_id r" for g and rows :: "pool_row list"
    using that by (induction rows) (auto simp: by_id_def)
  from this [of "\<lambda>r. resealed E (w_db_key w) (f r)"] assms show ?thesis
    by (auto simp: wrote_row_def)
qed

section \<open>The contract of a mutator\<close>

locale row_writer =
  fixes E :: env and i :: string and m :: "unit wact"
  assumes touches: "moves (touches_row i) m"
    and seals: "ids_unique w \<Longrightarrow> m w = (Ok u, v) \<Longrightarrow> r \<in> set (w_pool v) \<Longrightarrow> c_id r = i \<Longrightarrow>
      row_sealed E (w_db_key v) r"
begin

lemma keeps_ids: "m w = (x, v) \<Longrightarrow> map c_id (w_pool v) = map c_id (w_pool w)"
  using movesD [OF touches] touches_row_same(1) by blast

lemma keeps_ids_unique: "m w = (x, v) \<Longrightarrow> ids_unique v = ids_unique w"
  using movesD [OF touches] touches_row_same(3) by blast

lemma others_stay:
  "m w = (x, v) \<Longrightarrow> j \<noteq> i \<Longrightarrow> filter (by_id j) (w_pool v) = filter (by_id j) (w_pool w)"
  using movesD [OF touches] touches_row_same(4) by blast

lemma others_sealed:
  assumes "m w = (x, v)" "all_sealed E w" "r \<in> set (w_pool v)" "c_id r \<noteq> i"
  shows "row_sealed E (w_db_key v) r"
proof -
  have "r \<in> set (filter (by_id (c_id r)) (w_pool v))" using assms(3) by (simp add: by_id_def)
  then have "r \<in> set (w_pool w)" using others_stay [OF assms(1,4)] by simp
  then show ?thesis
    using assms(1,2) touches_row_same(2) [OF movesD [OF touches]]
    by (simp add: all_sealed_def)
qed

lemma keeps_all_sealed:
  "m w = (Ok u, v) \<Longrightarrow> ids_unique w \<Longrightarrow> all_sealed E w \<Longrightarrow> all_sealed E v"
  using others_sealed seals unfolding all_sealed_def by metis

end

lemma row_writer_mutator:
  assumes "\<And>now r. c_id (f now r) = c_id r"
  shows "row_writer E i (bnd (draw g) (\<lambda>now. bnd (with_ctx c (sql_update E (by_id i) (f now)))
           (\<lambda>_. reseal_row_mac E i)))"
proof
  fix w u v r
  assume "ids_unique w" and run: "bnd (draw g) (\<lambda>now. bnd (with_ctx c (sql_update E (by_id i) (f now)))
           (\<lambda>_. reseal_row_mac E i)) w = (Ok u, v)"
    and r: "r \<in> set (w_pool v)" "c_id r = i"
  then show "row_sealed E (w_db_key v) r"
    using wrote_row_sealed [OF mutator_Ok [where f = f, OF _ assms run] assms r] by simp
qed (rule touches_mutator [where f = f, OF assms])

interpretation update_tx_status: row_writer E i "update_tx_status E i st error" for E i st error
  unfolding update_tx_status_def by (rule row_writer_mutator) simp

interpretation db_mark_broadcast: row_writer E i "db_mark_broadcast E i txid fee" for E i txid fee
  unfolding db_mark_broadcast_def by (rule row_writer_mutator) simp

interpretation update_reschedule: row_writer E i "update_reschedule E i at_time defer_to fee"
  for E i at_time defer_to fee
  unfolding update_reschedule_def by (rule row_writer_mutator) simp

interpretation update_price_schedule: row_writer E i "update_price_schedule E i target cur cond fee"
  for E i target cur cond fee
  unfolding update_price_schedule_def by (rule row_writer_mutator) simp

interpretation mark_due: row_writer E i "mark_due E i" for E i
  unfolding mark_due_def by (rule row_writer_mutator) simp

interpretation mark_due_from_price_trigger: row_writer E i "mark_due_from_price_trigger E i" for E i
  unfolding mark_due_from_price_trigger_def by (rule row_writer_mutator) simp

interpretation mark_due_with_schedule: row_writer E i "mark_due_with_schedule E i due" for E i due
  unfolding mark_due_with_schedule_def by (rule row_writer_mutator) simp

lemma mark_confirmed_Ok:
  assumes "ids_unique w" "mark_confirmed E i h w = (Ok u, v)"
  shows "uint h < 2 ^ 63 \<and> wrote_row E i
    (\<lambda>r. r\<lparr>c_status := ''confirmed'', c_block_height := Some (uint h),
       c_confirmed_at := Some (to_rfc3339 E (now_at E (w_clock w))),
       c_updated_at := to_rfc3339 E (now_at E (w_clock w))\<rparr>) w v"
proof -
  let ?f = "\<lambda>r. r\<lparr>c_status := ''confirmed'', c_block_height := Some (uint h),
       c_confirmed_at := Some (to_rfc3339 E (now_at E (w_clock w))),
       c_updated_at := to_rfc3339 E (now_at E (w_clock w))\<rparr>"
  obtain n w1 where "uint h < 2 ^ 63" "sql_update E (by_id i) ?f (tick w) = (Ok n, w1)"
    "reseal_row_mac E i w1 = (Ok u, v)"
    using assms(2)
    by (auto simp: mark_confirmed_def ok_iffs act_simps param_u64_def split: if_splits)
  then have "uint h < 2 ^ 63" "wrote_row E i ?f (tick w) v"
    using update_reseal_Ok [of "tick w" ?f E i n w1 u v] assms(1) by simp_all
  then show ?thesis using wrote_row_clock [OF only_clock_tick] by blast
qed

interpretation mark_confirmed: row_writer E i "mark_confirmed E i h" for E i h
proof
  show "moves (touches_row i) (mark_confirmed E i h)"
    unfolding mark_confirmed_def
    by (intro touch.rules touches_row_quiet [OF quiet_draw] touches_row_update touches_row_reseal)
       (auto simp: by_id_def)
  fix w u v r
  assume "ids_unique w" "mark_confirmed E i h w = (Ok u, v)" "r \<in> set (w_pool v)" "c_id r = i"
  then show "row_sealed E (w_db_key v) r"
    using wrote_row_sealed [OF conjunct2 [OF mark_confirmed_Ok]] by simp
qed

lemma reset_failed_Ok:
  assumes "ids_unique w" "reset_failed_to_scheduled E i w = (Ok u, v)"
  shows "(\<forall>r \<in> set (w_pool w). c_id r = i \<longrightarrow> c_status r = ''failed'') \<and> wrote_row E i
    (\<lambda>r. r\<lparr>c_status := ''scheduled'', c_error_message := None,
       c_updated_at := to_rfc3339 E (now_at E (w_clock w))\<rparr>) w v"
proof -
  let ?f = "\<lambda>r. r\<lparr>c_status := ''scheduled'', c_error_message := None,
       c_updated_at := to_rfc3339 E (now_at E (w_clock w))\<rparr>"
  let ?p = "\<lambda>r. by_id i r \<and> c_status r = ''failed''"
  obtain n w1 where upd: "sql_update E ?p ?f (tick w) = (Ok n, w1)" and n: "n \<noteq> 0"
    and re: "reseal_row_mac E i w1 = (Ok u, v)"
    using assms(2)
    by (auto simp: reset_failed_to_scheduled_def ok_iffs act_simps split: if_splits)
  from sql_update_Ok [OF upd] n obtain r0 where r0: "r0 \<in> set (w_pool w)" "c_id r0 = i"
    "c_status r0 = ''failed''"
    by (auto simp: tick_def by_id_def filter_empty_conv)
  have uniq: "r = r0" if "r \<in> set (w_pool w)" "c_id r = i" for r
    using that r0 assms(1) unfolding ids_unique_def distinct_map by (metis inj_on_contraD)
  have "update_where ?p ?f (w_pool w) = update_where (by_id i) ?f (w_pool w)"
    unfolding update_where_def by_id_def
    by (intro map_cong refl) (use uniq r0 in metis)
  then have w1: "w1 = w\<lparr>w_clock := Suc (Suc (w_clock w)),
      w_pool := update_where (by_id i) ?f (w_pool w)\<rparr>"
    using sql_update_Ok [OF upd] by (simp add: tick_def)
  then have "ids_unique w1" using assms(1) by (simp add: ids_unique_def)
  from reseal_Ok [OF this re] have "wrote_row E i ?f w v"
    by (auto simp: wrote_row_def w1 update_where_update_where simp flip: set_map)
  then show ?thesis using uniq r0 by blast
qed

interpretation reset_failed: row_writer E i "reset_failed_to_scheduled E i" for E i
proof
  show "moves (touches_row i) (reset_failed_to_scheduled E i)"
    unfolding reset_failed_to_scheduled_def
    by (intro touch.rules touches_row_quiet [OF quiet_draw] touches_row_update)
       (auto simp: by_id_def intro: touch.rules touches_row_reseal)
  fix w u v r
  assume "ids_unique w" "reset_failed_to_scheduled E i w = (Ok u, v)" "r \<in> set (w_pool v)" "c_id r = i"
  then show "row_sealed E (w_db_key v) r"
    using wrote_row_sealed [OF conjunct2 [OF reset_failed_Ok]] by simp
qed

section \<open>Queries leave the tables alone\<close>

lemma quiet_read_rows: "moves only_clock (read_rows E key rows)"
  unfolding read_rows_def by (intro quiet_rules quiet_map_broadcast_row)

lemma quiet_query_txs: "moves only_clock (query_txs E c p)"
  unfolding query_txs_def by (intro quiet_rules quiet_read_rows quiet_sql_select)

lemma quiet_get_broadcast_tx_by_id: "moves only_clock (get_broadcast_tx_by_id E i)"
  unfolding get_broadcast_tx_by_id_def
  by (intro quiet_rules quiet_sql_select quiet_first_row quiet_map_broadcast_row)

lemma quiet_list_broadcast_txs: "moves only_clock (list_broadcast_txs E f net n)"
  unfolding list_broadcast_txs_def by (intro quiet_rules quiet_read_rows)

lemma quiet_get_due_transactions: "moves only_clock (get_due_transactions E net)"
  unfolding get_due_transactions_def by (rule quiet_query_txs)

lemma quiet_get_price_triggered_pending: "moves only_clock (get_price_triggered_pending E net)"
  unfolding get_price_triggered_pending_def by (rule quiet_query_txs)

lemma quiet_get_pending_by_block_height: "moves only_clock (get_pending_by_block_height E net)"
  unfolding get_pending_by_block_height_def by (rule quiet_query_txs)

lemma quiet_get_pending_by_scheduled_time: "moves only_clock (get_pending_by_scheduled_time E net)"
  unfolding get_pending_by_scheduled_time_def by (intro quiet_rules quiet_query_txs)

lemma quiet_get_pending_rebroadcast: "moves only_clock (get_pending_rebroadcast E n net)"
  unfolding get_pending_rebroadcast_def Let_def
  by (intro quiet_rules) (auto intro: quiet_rules quiet_query_txs)

lemma quiet_get_tx_hex_by_txid: "moves only_clock (get_tx_hex_by_txid E txid)"
  unfolding get_tx_hex_by_txid_def
  by (intro quiet_rules quiet_sql_select) (auto intro!: quiet_rules split: list.split)

lemma quiet_get_pool_stats: "moves only_clock (get_pool_stats E net)"
  unfolding get_pool_stats_def by (intro quiet_rules quiet_sql_select)

lemmas quiet_queries = quiet_sql_select quiet_read_rows quiet_query_txs
  quiet_get_broadcast_tx_by_id quiet_list_broadcast_txs quiet_get_due_transactions
  quiet_get_price_triggered_pending quiet_get_pending_by_block_height
  quiet_get_pending_by_scheduled_time quiet_get_pending_rebroadcast quiet_get_tx_hex_by_txid
  quiet_get_pool_stats

section \<open>What a query returns\<close>

lemma read_rows_Ok:
  assumes "read_rows E key rows w = (Ok txs, v)"
  shows "list_all2 (tx_of_row E key) rows txs"
proof -
  have "\<exists>out. txs = acc @ out \<and> list_all2 (tx_of_row E key) rows out"
    if "for_each (\<lambda>r acc. bnd (with_ctx ''Failed to read row'' (map_broadcast_row E key r))
       (\<lambda>tx. ret (acc @ [tx]))) rows acc w = (Ok txs, v)" for acc w
    using that
  proof (induction rows arbitrary: acc w)
    case (Cons r rows)
    then show ?case
      by (force simp: ok_iffs act_simps dest: map_broadcast_row_Ok)
  qed (simp add: act_simps)
  from this [of "[]"] assms show ?thesis by (auto simp: read_rows_def)
qed

lemma query_txs_Ok:
  assumes "query_txs E c p w = (Ok txs, v)"
  shows "list_all2 (tx_of_row E (w_db_key w)) (filter p (w_pool w)) txs"
  using assms
  by (auto simp: query_txs_def ok_iffs act_simps tick_def dest!: sql_select_Ok dest: read_rows_Ok)

lemma query_txs_member:
  assumes "query_txs E c p w = (Ok txs, v)" "tx \<in> set txs"
  obtains r where "r \<in> set (w_pool w)" "p r" "tx_of_row E (w_db_key w) r tx"
proof -
  let ?rows = "filter p (w_pool w)"
  from query_txs_Ok [OF assms(1)] assms(2) obtain k where
    k: "k < length ?rows" "tx_of_row E (w_db_key w) (?rows ! k) tx"
    by (auto simp: list_all2_conv_all_nth in_set_conv_nth)
  then have "?rows ! k \<in> set ?rows" by (intro nth_mem)
  then show ?thesis using that k(2) unfolding set_filter by blast
qed

lemma get_by_id_Ok:
  assumes "get_broadcast_tx_by_id E i w = (Ok tx, v)"
  obtains r rs where "filter (by_id i) (w_pool w) = r # rs" "tx_of_row E (w_db_key w) r tx"
  using assms
  by (auto simp: get_broadcast_tx_by_id_def ok_iffs act_simps tick_def
      dest!: sql_select_Ok map_broadcast_row_Ok)

section \<open>Inserting\<close>

lemma sql_insert_Ok:
  "sql_insert E r w = (Ok u, v) \<Longrightarrow> c_id r \<notin> set (map c_id (w_pool w))
   \<and> v = w\<lparr>w_clock := Suc (w_clock w), w_pool := w_pool w @ [r]\<rparr>"
  by (auto simp: sql_insert_def sql_def tick_def split: option.splits if_splits)

lemma sint_small:
  assumes "uint (n :: u64) < 2 ^ 63"
  shows "sint n = uint n"
proof -
  have "signed_take_bit 63 (uint n) = uint n"
    using assms by (intro signed_take_bit_int_eq_self) (simp_all add: order_trans [OF _ uint_ge_0])
  then show ?thesis by (simp add: sint_uint)
qed

lemma new_pool_row_props:
  fixes E :: env
  assumes "uint (unwrap_or 0 (n_nlocktime tx)) < 2 ^ 63"
    and "r = new_pool_row E key tx i now a b c (uint (unwrap_or 0 (n_nlocktime tx)))"
  shows "c_id r = i" "c_status r = ''pending''" "c_network r = n_network tx"
    "c_nlocktime r = Some (uint (unwrap_or 0 (n_nlocktime tx)))" "c_tx_hex r = a"
    "row_sealed E key r"
  by (simp_all add: assms(2) new_pool_row_def Let_def row_sealed_def expected_mac_def
      text_or_empty_def price_text_def sint_small [OF assms(1)])

lemma quiet_encode_optional: "moves only_clock (encode_optional E key s aad)"
  unfolding encode_optional_def
  by (auto intro!: quiet_rules quiet_encode_field split: option.split)

text \<open>A successful insert adds one row, sealed, with a new id, and returns it.\<close>
lemma insert_broadcast_tx_Ok:
  assumes "insert_broadcast_tx E tx w = (Ok out, v)"
  shows "\<exists>r. w_pool v = w_pool w @ [r] \<and> c_id r \<notin> set (map c_id (w_pool w))
    \<and> c_id r = uuid_at E (w_clock w) \<and> c_status r = ''pending'' \<and> c_network r = n_network tx
    \<and> c_nlocktime r = Some (uint (unwrap_or 0 (n_nlocktime tx)))
    \<and> row_sealed E (w_db_key w) r \<and> tx_of_row E (w_db_key w) r out"
proof -
  let ?i = "uuid_at E (w_clock w)" and ?key = "w_db_key w"
  obtain a b c wa wb wc w2 where
    wa: "encode_field E ?key (n_tx_hex tx) ?i (tick (tick w)) = (Ok a, wa)" and
    wb: "encode_optional E ?key (n_destination_address tx) ?i wa = (Ok b, wb)" and
    wc: "encode_optional E ?key (n_source_label tx) ?i wb = (Ok c, wc)" and
    small: "uint (unwrap_or 0 (n_nlocktime tx)) < 2 ^ 63" and
    ins: "sql_insert E (new_pool_row E ?key tx ?i (to_rfc3339 E (now_at E (w_clock (tick w)))) a b c
        (uint (unwrap_or 0 (n_nlocktime tx)))) wc = (Ok (), w2)" and
    get: "get_broadcast_tx_by_id E ?i w2 = (Ok out, v)"
    using assms
    by (auto simp: insert_broadcast_tx_def ok_iffs act_simps param_u64_def tick_def split: if_splits)
  let ?r = "new_pool_row E ?key tx ?i (to_rfc3339 E (now_at E (w_clock (tick w)))) a b c
        (uint (unwrap_or 0 (n_nlocktime tx)))"
  note r = new_pool_row_props [OF small refl]
  have "only_clock w wc"
    using movesD [OF quiet_encode_field wa] movesD [OF quiet_encode_optional wb]
      movesD [OF quiet_encode_optional wc] quiet.trans only_clock_tick by metis
  note same = only_clock_proj [OF this]
  have w2: "w_pool w2 = w_pool w @ [?r]" "?i \<notin> set (map c_id (w_pool w))" "w_db_key w2 = ?key"
    using sql_insert_Ok [OF ins] same r(1) by auto
  have v: "w_pool v = w_pool w2"
    using only_clock_proj(1) [OF movesD [OF quiet_get_broadcast_tx_by_id get]] .
  obtain r' rs where "filter (by_id ?i) (w_pool w2) = r' # rs" "tx_of_row E (w_db_key w2) r' out"
    using get_by_id_Ok [OF get] by metis
  moreover have "filter (by_id ?i) (w_pool w2) = [?r]"
    using w2(1,2) r(1) by (force simp: by_id_def filter_empty_conv)
  ultimately show ?thesis using r w2 v by auto
qed

text \<open>The key of the database never changes.\<close>
definition key_kept :: "world \<Rightarrow> world \<Rightarrow> bool" where
  "key_kept w v \<longleftrightarrow> w_db_key v = w_db_key w"

interpretation key_kept: act_rel key_kept
  by unfold_locales (simp_all add: key_kept_def)

lemma key_kept_quiet: "moves only_clock m \<Longrightarrow> moves key_kept m"
  by (simp add: moves_def key_kept_def only_clock_proj)

lemma key_kept_sql_insert: "moves key_kept (sql_insert E r)"
  by (auto simp: moves_def key_kept_def sql_insert_def sql_def tick_def split: option.split)

lemma insert_keeps_key:
  assumes "insert_broadcast_tx E tx w = (x, v)"
  shows "w_db_key v = w_db_key w"
proof -
  have "moves key_kept (insert_broadcast_tx E tx)"
    unfolding insert_broadcast_tx_def
    by (intro key_kept.rules key_kept_quiet [OF quiet_draw] key_kept_quiet [OF quiet_encode_field]
        key_kept_quiet [OF quiet_encode_optional] key_kept_sql_insert
        key_kept_quiet [OF quiet_get_broadcast_tx_by_id])
  then show ?thesis using assms by (auto dest: movesD simp: key_kept_def)
qed

end
