(* ===== verification/Sample.thy ===== *)
theory Sample
  imports Database_Rows
begin

text \<open>
  A concrete environment and a concrete state, for the examples that show the hypotheses
  of the theorems can hold: an AEAD that frames its inputs, a real hex codec, a clock that
  counts, a disk and statements that never fail, and a network that never answers.
\<close>

section \<open>Codecs\<close>

definition frame :: "bytes \<Rightarrow> bytes" where
  "frame x = replicate (length x) (CHR 0x01) @ CHR 0x00 # x"

definition frame_encrypt :: "bytes \<Rightarrow> bytes \<Rightarrow> bytes \<Rightarrow> bytes \<Rightarrow> bytes" where
  "frame_encrypt key nonce m aad = frame key @ frame nonce @ frame aad @ m"

definition frame_decrypt :: "bytes \<Rightarrow> bytes \<Rightarrow> bytes \<Rightarrow> bytes \<Rightarrow> bytes option" where
  "frame_decrypt key nonce c aad = strip_prefix c (frame key @ frame nonce @ frame aad)"

definition nibble :: "int \<Rightarrow> char" where
  "nibble n = (if n < 10 then char_of (48 + n) else char_of (87 + n))"

definition nibble_val :: "char \<Rightarrow> int option" where
  "nibble_val c = (let n = code_of c in
     if 48 \<le> n \<and> n \<le> 57 then Some (n - 48)
     else if 97 \<le> n \<and> n \<le> 102 then Some (n - 87)
     else if 65 \<le> n \<and> n \<le> 70 then Some (n - 55) else None)"

definition hex_enc :: "bytes \<Rightarrow> string" where
  "hex_enc b = concat (map (\<lambda>c. [nibble (code_of c div 16), nibble (code_of c mod 16)]) b)"

fun hex_dec :: "string \<Rightarrow> bytes option" where
  "hex_dec [] = Some []"
| "hex_dec [c] = None"
| "hex_dec (c # d # s) = (case (nibble_val c, nibble_val d, hex_dec s) of
     (Some a, Some b, Some r) \<Rightarrow> Some (char_of (16 * a + b) # r)
   | _ \<Rightarrow> None)"

lemma frame_head:
  "replicate n (CHR 0x01) @ CHR 0x00 # u = replicate m (CHR 0x01) @ CHR 0x00 # v
     \<longleftrightarrow> n = m \<and> u = v"
proof (induction n arbitrary: m)
  case 0
  show ?case by (cases m) auto
next
  case (Suc n)
  then show ?case by (cases m) auto
qed

lemma frame_inject: "frame x @ a = frame y @ b \<longleftrightarrow> x = y \<and> a = b"
  by (auto simp: frame_def frame_head)

lemma code_of_bounds [simp]: "0 \<le> code_of c" "code_of c < 256"
proof -
  have "code_of c = int (of_char c)"
    unfolding code_of_def by (rule of_nat_of_char [symmetric])
  moreover have "(of_char c :: nat) < 256" by (rule nat_of_char_less_256)
  ultimately show "0 \<le> code_of c" "code_of c < 256" by linarith+
qed

lemma char_of_code_of [simp]: "char_of (code_of c) = c"
  by (simp add: code_of_def)

lemma nibble_val_nibble [simp]: "0 \<le> n \<Longrightarrow> n < 16 \<Longrightarrow> nibble_val (nibble n) = Some n"
  by (auto simp: nibble_val_def nibble_def code_of_def Let_def)

lemma hex_dec_enc [simp]: "hex_dec (hex_enc b) = Some b"
proof (induction b)
  case (Cons c b)
  have "code_of c div 16 < 16" "0 \<le> code_of c div 16" "code_of c mod 16 < 16"
    "0 \<le> code_of c mod 16"
    using code_of_bounds [of c] by (linarith, linarith, simp_all)
  moreover have "16 * (code_of c div 16) + code_of c mod 16 = code_of c" by simp
  ultimately show ?case using Cons by (simp add: hex_enc_def del: char_of_nat)
qed (simp add: hex_enc_def)

lemma frame_decrypt_encrypt: "frame_decrypt key nonce (frame_encrypt key nonce m aad) aad = Some m"
  by (simp add: frame_decrypt_def frame_encrypt_def strip_prefix_def starts_with_def)

lemma frame_decrypt_other:
  "aad' \<noteq> aad \<Longrightarrow> frame_decrypt key nonce (frame_encrypt key nonce m aad) aad' = None"
  by (auto simp: frame_decrypt_def frame_encrypt_def strip_prefix_def starts_with_prefix prefix_def
      frame_inject)

section \<open>The sample environment\<close>

definition parse_int_text :: "string \<Rightarrow> int option" where
  "parse_int_text s = (if all_digits s then Some (digits_val s) else None)"

definition empty_tx :: btc_tx where
  "empty_tx = \<lparr>bt_version = 2, bt_lock_time = 0, bt_inputs = [], bt_outputs = []\<rparr>"

definition header0 :: btc_header where
  "header0 = \<lparr>bh_version = 1, bh_prev = ''p'', bh_merkle = [], bh_time = 0, bh_bits = 7, bh_nonce = 9\<rparr>"

definition env0 :: env where
  "env0 = \<lparr>now_at = (\<lambda>n. int n), instant_at = (\<lambda>n. int n), uuid_at = (\<lambda>n. ''u'' @ show_nat n),
     nonce_at = (\<lambda>n. replicate 12 (CHR 0x07)), rand_u64_at = (\<lambda>n lo hi. lo),
     rand_f64_at = (\<lambda>n lo hi. lo), to_rfc3339 = show_int, parse_rfc3339 = parse_int_text,
     datetime_ok = (\<lambda>t. True), aead_encrypt = frame_encrypt, aead_decrypt = frame_decrypt,
     argon2id = (\<lambda>p s. frame p @ s), password_hash = (\<lambda>p s. Ok (frame p @ s)),
     password_verify = (\<lambda>h p. Ok (starts_with h (frame p))), salt_at = (\<lambda>n. show_nat n),
     hmac_sha256 = (\<lambda>k d. frame k @ d), sha256 = (\<lambda>d. d), utf8_valid = (\<lambda>b. True),
     hex_encode = hex_enc, hex_decode = hex_dec,
     tx_consensus_decode = (\<lambda>b. Some (empty_tx, [])), compute_txid_bytes = (\<lambda>t. replicate 32 (CHR 0x05)),
     tx_weight = (\<lambda>t. 400), header_decode = (\<lambda>b. Some (header0, [])), header_encode = (\<lambda>h. bh_prev h), header_block_hash = (\<lambda>h. CHR 0x41 # bh_prev h), electrum_script_hash = (\<lambda>s. s),
     json_parse = (\<lambda>s. None), json_print = (\<lambda>v. []), tx_to_json = (\<lambda>t. t_id t),
     config_to_toml = (\<lambda>c. Some ''''), config_of_toml = (\<lambda>s. None),
     sql_fault_at = (\<lambda>n. None), sql_real_of_text = (\<lambda>s. 0), sql_real_sum = (\<lambda>xs. 0),
     env_var = (\<lambda>s. None), write_fault_at = (\<lambda>n. None), read_file_at = (\<lambda>n p. Err [''no such file'']),
     wire_at = (\<lambda>n url req. Err [''connection refused'']), core_info_at = (\<lambda>n. Err [''connection refused'']),
     core_mempool_at = (\<lambda>n. Err [''connection refused'']), core_block_count_at = (\<lambda>n. Err [''connection refused'']),
     core_send_at = (\<lambda>n t. Err [''connection refused'']), core_raw_tx_at = (\<lambda>n t. Err [''connection refused'']),
     core_txid_parses = (\<lambda>t. True), core_fee_at = (\<lambda>n b. Err [''connection refused'']),
     core_genesis_at = (\<lambda>n. Err [''connection refused'']), http_at = (\<lambda>n u. HttpFailed [''connection refused'']),
     tcp_open_at = (\<lambda>n h p. False), route_ip_at = (\<lambda>n. None), udp_ip_at = (\<lambda>n t. None),
     nsec_ok = (\<lambda>s. True), npub_ok = (\<lambda>s. True), relay_url_ok = (\<lambda>s. True),
     socks_addr_at = (\<lambda>n s. Ok (Some s)),
     nsec_at = (\<lambda>n. ''nsec'' @ show_nat n), npub_of = (\<lambda>s. s),
     nostr_dm_at = (\<lambda>n m. NostrError [''connection refused'']), format_minute = show_int,
     client_fault_at = (\<lambda>n. None), task_late_at = (\<lambda>n. False), parse_naive_minute = (\<lambda>s. None)\<rparr>"

lemma env0_laws:
  "aead_inverts env0" "aead_authenticates env0" "hex_inverts env0" "nonce_fits env0"
  "mac_collision_free env0"
  by (simp_all add: aead_inverts_def aead_authenticates_def hex_inverts_def nonce_fits_def
      mac_collision_free_def env0_def frame_decrypt_encrypt frame_decrypt_other)

lemma env0_canonical: "hex_canonical env0"
proof -
  have nib: "\<not> is_ws (nibble n) \<and> lower_char (nibble n) = nibble n" if "0 \<le> n" "n < 16" for n
    using that by (auto simp: nibble_def is_ws_def lower_char_def code_of_def)
  have all: "\<forall>c \<in> set (hex_enc b). \<not> is_ws c \<and> lower_char c = c" for b
  proof (induction b)
    case (Cons c b)
    have "0 \<le> code_of c div 16" "code_of c div 16 < 16" "0 \<le> code_of c mod 16" "code_of c mod 16 < 16"
      using code_of_bounds [of c] by (linarith, linarith, simp_all)
    then show ?case using Cons nib by (auto simp: hex_enc_def)
  qed (simp add: hex_enc_def)
  have drop: "dropWhile is_ws s = s" if "\<forall>c \<in> set s. \<not> is_ws c" for s
    using that by (cases s) auto
  have "trim (hex_enc b) = hex_enc b" for b
    using drop [of "hex_enc b"] drop [of "rev (hex_enc b)"] all [of b]
    by (simp add: trim_def trim_start_def trim_end_def)
  moreover have "to_lower (hex_enc b) = hex_enc b" for b
    using all [of b] by (simp add: to_lower_def map_idI)
  ultimately show ?thesis by (simp add: hex_canonical_def env0_def)
qed

section \<open>The sample state\<close>

definition config0 :: config where
  "config0 = \<lparr>cf_network = \<lparr>network_type = Testnet4, resolved_genesis = None\<rparr>,
     cf_bitcoin_rpc = None, cf_indexer = None,
     cf_pool = \<lparr>max_size_kb = 300, rebroadcast_interval_minutes = 30, expiry_days = 30\<rparr>,
     cf_schedule = \<lparr>sc_broadcast_mode = Immediate, default_delay_hours = 24,
       scheduled_datetime = None,
       sc_virtual_block = \<lparr>vb_enabled = False, vb_target_height = 0, vb_armed_at_height = 0\<rparr>,
       min_delay_hours = 2, max_delay_hours = 72, min_fee_rate = 0, max_fee_rate = 0\<rparr>,
     cf_privacy = \<lparr>use_tor = False, tor_socks_port = 9050, rotate_identity_per_tx = True\<rparr>,
     cf_web = \<lparr>web_host = ''h'', web_port = 8080\<rparr>,
     cf_electrum = \<lparr>es_host = ''h'', es_port = 50050, liana_port = None, lan_connect_host = None\<rparr>,
     cf_notifications = \<lparr>notif_enabled = False, notif_language = ''en'',
       notif_nostr = \<lparr>nostr_enabled = False, recipient_npub = [], relays = [], app_nsec = [],
         tor_socks = []\<rparr>\<rparr>\<rparr>"

definition health0 :: chain_health where
  "health0 = \<lparr>indexer_up = False, core_up = False, core_ibd = False, core_sync_pct = None,
     ch_height = None, ch_mtp = None, indexer_software = None, ch_source = NoSource,
     polled = False\<rparr>"

definition world0 :: world where
  "world0 = \<lparr>w_clock = 0, w_pool = [], w_archive = [], w_plans = [], w_utxos = [],
     w_config_store = [], w_db_key = ''k'', w_rpc = False, w_indexer = None,
     w_config = config0, w_disk_config = None, w_pending = [], w_mtp_cache = None,
     w_chain_tip = None, w_health = health0, w_refresh_in_flight = False,
     w_price_cache = None, w_price_lkg = None, w_safe_mode = False, w_tampered_ids = [],
     w_watched = [], w_archive_key = None, w_sh_events = [], w_tip_events = [],
     w_bcast_events = [], w_rpc_id = 1, w_umbrel_discovery = None, w_outbox = []\<rparr>"

text \<open>A row with the given id, status and schedule, not sealed.\<close>
definition row0 :: "string \<Rightarrow> string \<Rightarrow> string option \<Rightarrow> pool_row" where
  "row0 i st sched = \<lparr>c_id = i, c_tx_hex = ''00'', c_txid = None, c_status = st,
     c_network = ''testnet4'', c_nlocktime = Some 0, c_broadcast_mode = Some ''manual'',
     c_scheduled_time = sched, c_broadcast_at = None, c_confirmed_at = None,
     c_block_height = None, c_target_fee_rate = None, c_actual_fee_rate = None,
     c_source_label = None, c_destination_address = None, c_utxo_count = 1,
     c_total_value_btc = Some 0, c_replacement_of = None, c_error_message = None,
     c_retry_count = 0, c_broadcast_missed_at = None, c_original_scheduled_time = None,
     c_defer_until = None, c_schedule_trigger = Some ''datetime'', c_target_price = None,
     c_price_currency = None, c_price_condition = None, c_created_at = ''1'',
     c_updated_at = ''1'', c_row_mac = None\<rparr>"

definition seal0 :: "pool_row \<Rightarrow> pool_row" where
  "seal0 r = r\<lparr>c_row_mac := Some (expected_mac env0 ''k'' r)\<rparr>"

lemma row_sealed_seal0 [simp]: "row_sealed env0 ''k'' (seal0 r)"
  by (simp add: row_sealed_def seal0_def)

section \<open>A chain that answers\<close>

text \<open>
  An indexer at height 4 whose header at height \<open>h\<close> carries a time with low byte
  \<open>h\<close> (the wire echoes the method and the first parameter), and a Bitcoin Core that
  accepts every transaction under the id \<open>''id''\<close>.
\<close>

definition echo_print :: "json \<Rightarrow> string" where
  "echo_print v = (case (jget ''method'' v, jget ''params'' v) of
      (Some (JStr m), Some (JArr [JInt h])) \<Rightarrow> m @ [char_of (65 + h)]
    | (Some (JStr m), _) \<Rightarrow> m
    | _ \<Rightarrow> [])"

definition echo_parse :: "string \<Rightarrow> json option" where
  "echo_parse s =
     (if s = ''blockchain.headers.subscribe''
      then Some (JObj [(''result'', JObj [(''height'', JInt 4)])])
      else if s = ''blockchain.transaction.broadcast'' then Some (JObj [(''result'', JStr ''id'')])
      else case strip_prefix s ''blockchain.block.header'' of
          Some [c] \<Rightarrow> Some (JObj [(''result'', JStr (replicate 68 (CHR ''0'') @ [c] @ replicate 11 (CHR 0x00)))])
        | _ \<Rightarrow> Some (JObj [(''result'', JStr ''electrs/0.10'')]))"

definition env_chain :: env where
  "env_chain = env0\<lparr>wire_at := (\<lambda>n url req. Ok req), json_print := echo_print,
     json_parse := echo_parse, hex_decode := (\<lambda>s. Some s), hex_encode := (\<lambda>b. b),
     core_info_at := (\<lambda>n. Ok \<lparr>ci_blocks = 4, ci_median_time = 67, ci_ibd = False,
        ci_progress = 0, ci_chain = ''test''\<rparr>),
     core_block_count_at := (\<lambda>n. Ok 4), core_send_at := (\<lambda>n h. Ok ''id'')\<rparr>"

definition world_ix :: world where
  "world_ix = world0\<lparr>w_indexer := Some \<lparr>ec_server = ''tcp://h:1'', ec_resolved = Some ''tcp://h:1''\<rparr>\<rparr>"

end
