(* ===== verification/Database_Archive.thy ===== *)
theory Database_Archive
  imports Database_Laws Sample
begin

text \<open>
  The rest of \<open>src/src/db/mod.rs\<close>: the key/value store, the encrypted archive with
  its transaction, and the tables of migration plans.
\<close>

section \<open>Key/value store\<close>

definition get_config_value :: "env \<Rightarrow> string \<Rightarrow> string option wact" where
  "get_config_value E key =
     with_ctx ''Failed to read config value''
       (sql E (gets (\<lambda>w. map_option cr_value (find (\<lambda>r. cr_key r = key) (w_config_store w)))))"

definition upsert_config :: "config_row \<Rightarrow> config_row list \<Rightarrow> config_row list" where
  "upsert_config r rows =
     (if cr_key r \<in> set (map cr_key rows)
      then map (\<lambda>q. if cr_key q = cr_key r then r else q) rows
      else rows @ [r])"

definition set_config_value :: "env \<Rightarrow> string \<Rightarrow> string \<Rightarrow> unit wact" where
  "set_config_value E key value =
     bnd (draw (\<lambda>n. to_rfc3339 E (now_at E n))) (\<lambda>now.
     with_ctx ''Failed to upsert config value''
       (sql E (modify (\<lambda>w. w\<lparr>w_config_store := upsert_config
          \<lparr>cr_key = key, cr_value = value, cr_updated_at = now\<rparr> (w_config_store w)\<rparr>))))"

section \<open>Archive\<close>

definition sql_insert_archive :: "env \<Rightarrow> archive_row \<Rightarrow> unit wact" where
  "sql_insert_archive E r = sql E (\<lambda>w.
     if ar_id r \<in> set (map ar_id (w_archive w))
     then (Err [''UNIQUE constraint failed: archive_pool.id''], w)
     else (Ok (), w\<lparr>w_archive := w_archive w @ [r]\<rparr>))"

definition insert_archive :: "env \<Rightarrow> string \<Rightarrow> string \<Rightarrow> string \<Rightarrow> bytes \<Rightarrow> unit wact" where
  "insert_archive E i net archived_at blob =
     with_ctx ''Failed to insert archive row''
       (sql_insert_archive E
          \<lparr>ar_id = i, ar_network = net, ar_archived_at = archived_at, ar_blob = blob\<rparr>)"

definition list_archive :: "env \<Rightarrow> string \<Rightarrow> int \<Rightarrow> int \<Rightarrow> archive_meta list wact" where
  "list_archive E net max_rows offset =
     with_ctx ''Failed to query archive list''
       (sql E (gets (\<lambda>w.
          map (\<lambda>r. \<lparr>am_id = ar_id r, am_network = ar_network r, am_archived_at = ar_archived_at r\<rparr>)
            (limit_rows max_rows (drop (nat offset)
              (order_desc ar_archived_at (filter (\<lambda>r. ar_network r = net) (w_archive w))))))))"

definition get_archive_blob :: "env \<Rightarrow> string \<Rightarrow> bytes option wact" where
  "get_archive_blob E i =
     with_ctx ''Failed to read archive blob''
       (sql E (gets (\<lambda>w. map_option ar_blob (find (\<lambda>r. ar_id r = i) (w_archive w)))))"

definition select_terminal_older_than :: "env \<Rightarrow> string \<Rightarrow> string \<Rightarrow> broadcast_tx list wact" where
  "select_terminal_older_than E net cutoff =
     query_txs E ''Failed to query terminal-older-than txs''
       (\<lambda>r. c_status r \<in> {''confirmed'', ''failed'', ''broadcast''}
          \<and> text_less (c_updated_at r) cutoff \<and> c_network r = net)"

text \<open>A transaction: what fails before the commit is rolled back.\<close>
definition rollback_to :: "world \<Rightarrow> world \<Rightarrow> world" where
  "rollback_to w v = v\<lparr>w_pool := w_pool w, w_archive := w_archive w\<rparr>"

definition transaction :: "env \<Rightarrow> string \<Rightarrow> string \<Rightarrow> unit wact \<Rightarrow> unit wact" where
  "transaction E begin_ctx commit_ctx body =
     bnd (with_ctx begin_ctx (sql E (ret ()))) (\<lambda>_. \<lambda>w.
       case seq body (with_ctx commit_ctx (sql E (ret ()))) w of
         (Ok u, v) \<Rightarrow> (Ok u, v)
       | (Err e, v) \<Rightarrow> (Err e, rollback_to w v)
       | (Panic p, v) \<Rightarrow> (Panic p, rollback_to w v))"

text \<open>One pass of the loop of \<open>archive_terminal_older_than\<close>.\<close>
definition archive_one :: "env \<Rightarrow> bytes \<Rightarrow> string \<Rightarrow> broadcast_tx \<Rightarrow> nat \<Rightarrow> nat wact" where
  "archive_one E key net tx count =
     (if t_tampered tx = Some True then ret count
      else
        bnd (draw (uuid_at E)) (\<lambda>archive_id.
        bnd (seal E key (tx_to_json E tx) archive_id) (\<lambda>blob.
        bnd (draw (\<lambda>n. to_rfc3339 E (now_at E n))) (\<lambda>archived_at.
        bnd (transaction E ''Failed to start archive transaction''
               ''Failed to commit archive transaction''
               (seq (with_ctx ''Failed to insert archive row''
                       (sql_insert_archive E \<lparr>ar_id = archive_id, ar_network = net,
                          ar_archived_at = archived_at, ar_blob = blob\<rparr>))
                    (bnd (with_ctx ''Failed to delete broadcast tx''
                       (sql_delete E (by_id (t_id tx)))) (\<lambda>_. ret ())))) (\<lambda>_.
        ret (count + 1))))))"

definition archive_terminal_older_than :: "env \<Rightarrow> bytes \<Rightarrow> string \<Rightarrow> string \<Rightarrow> nat wact" where
  "archive_terminal_older_than E key net cutoff =
     bnd (select_terminal_older_than E net cutoff) (\<lambda>txs.
     for_each (\<lambda>tx count. archive_one E key net tx count) txs 0)"

section \<open>Migration plans\<close>

definition map_plan_row :: "env \<Rightarrow> plan_row \<Rightarrow> migration_plan wact" where
  "map_plan_row E r =
     bnd (parse_datetime E (pr_created_at r)) (\<lambda>created.
     bnd (parse_datetime E (pr_updated_at r)) (\<lambda>updated.
     ret \<lparr>p_id = pr_id r, p_name = pr_name r, p_source_wallet = pr_source_wallet r,
          p_destination_wallet = pr_destination_wallet r, p_network = pr_network r,
          p_status = plan_status_from_str (pr_status r),
          p_min_delay_hours = pr_min_delay_hours r, p_max_delay_hours = pr_max_delay_hours r,
          p_min_fee_rate = pr_min_fee_rate r, p_max_fee_rate = pr_max_fee_rate r,
          p_total_transactions = pr_total_transactions r,
          p_completed_transactions = pr_completed_transactions r,
          p_total_value_migrated_btc = pr_total_value_migrated_btc r,
          p_created_at = created, p_updated_at = updated\<rparr>))"

definition get_migration_plan_by_id :: "env \<Rightarrow> string \<Rightarrow> migration_plan wact" where
  "get_migration_plan_by_id E i =
     with_ctx ''Failed to get migration plan''
       (bnd (sql E (gets (\<lambda>w. filter (\<lambda>r. pr_id r = i) (w_plans w)))) (\<lambda>rows.
        bnd (first_row rows) (\<lambda>r.
        map_plan_row E r)))"

definition insert_migration_plan :: "env \<Rightarrow> new_migration_plan \<Rightarrow> migration_plan wact" where
  "insert_migration_plan E plan =
     bnd (draw (uuid_at E)) (\<lambda>i.
     bnd (draw (\<lambda>n. to_rfc3339 E (now_at E n))) (\<lambda>now.
     let r = \<lparr>pr_id = i, pr_name = np_name plan, pr_source_wallet = np_source_wallet plan,
              pr_destination_wallet = np_destination_wallet plan, pr_network = np_network plan,
              pr_status = plan_status_as_str Draft,
              pr_min_delay_hours = unwrap_or 2 (np_min_delay_hours plan),
              pr_max_delay_hours = unwrap_or 72 (np_max_delay_hours plan),
              pr_min_fee_rate = unwrap_or (f64_of_int 1) (np_min_fee_rate plan),
              pr_max_fee_rate = unwrap_or (f64_of_int 50) (np_max_fee_rate plan),
              pr_total_transactions = 0, pr_completed_transactions = 0,
              pr_total_value_migrated_btc = 0, pr_created_at = now, pr_updated_at = now\<rparr>
     in
     bnd (with_ctx ''Failed to insert migration plan'' (sql E (\<lambda>w.
       if i \<in> set (map pr_id (w_plans w))
       then (Err [''UNIQUE constraint failed: migration_plans.id''], w)
       else (Ok (), w\<lparr>w_plans := w_plans w @ [r]\<rparr>)))) (\<lambda>_.
     get_migration_plan_by_id E i)))"

definition list_migration_plans :: "env \<Rightarrow> string \<Rightarrow> migration_plan list wact" where
  "list_migration_plans E net =
     bnd (with_ctx ''Failed to query plans''
       (sql E (gets (\<lambda>w. order_desc pr_created_at (filter (\<lambda>r. pr_network r = net) (w_plans w)))))) (\<lambda>rows.
     for_each (\<lambda>r acc. bnd (with_ctx ''Failed to read row'' (map_plan_row E r)) (\<lambda>p.
       ret (acc @ [p]))) rows [])"

definition update_plan :: "string \<Rightarrow> (plan_row \<Rightarrow> plan_row) \<Rightarrow> unit wact" where
  "update_plan i f = modify (\<lambda>w. w\<lparr>w_plans := map (\<lambda>r. if pr_id r = i then f r else r) (w_plans w)\<rparr>)"

definition update_plan_status :: "env \<Rightarrow> string \<Rightarrow> plan_status \<Rightarrow> unit wact" where
  "update_plan_status E i st =
     bnd (draw (\<lambda>n. to_rfc3339 E (now_at E n))) (\<lambda>now.
     with_ctx ''Failed to update plan status''
       (sql E (update_plan i (\<lambda>r. r\<lparr>pr_status := plan_status_as_str st, pr_updated_at := now\<rparr>))))"

definition update_plan_total :: "env \<Rightarrow> string \<Rightarrow> int \<Rightarrow> unit wact" where
  "update_plan_total E i n_total =
     bnd (draw (\<lambda>n. to_rfc3339 E (now_at E n))) (\<lambda>now.
     with_ctx ''Failed to update plan total''
       (sql E (update_plan i (\<lambda>r. r\<lparr>pr_total_transactions := n_total, pr_updated_at := now\<rparr>))))"

definition map_utxo_row :: "env \<Rightarrow> utxo_row \<Rightarrow> migration_utxo wact" where
  "map_utxo_row E r =
     bnd (parse_datetime E (ur_created_at r)) (\<lambda>created.
     ret \<lparr>u_id = ur_id r, u_plan_id = ur_plan_id r, u_txid = ur_txid r, u_vout = ur_vout r,
          u_value_btc = ur_value_btc r, u_address = ur_address r, u_label = ur_label r,
          u_source_label = ur_source_label r, u_broadcast_pool_id = ur_broadcast_pool_id r,
          u_created_at = created\<rparr>)"

definition get_migration_utxo_by_id :: "env \<Rightarrow> string \<Rightarrow> migration_utxo wact" where
  "get_migration_utxo_by_id E i =
     with_ctx ''Failed to get migration utxo''
       (bnd (sql E (gets (\<lambda>w. filter (\<lambda>r. ur_id r = i) (w_utxos w)))) (\<lambda>rows.
        bnd (first_row rows) (\<lambda>r.
        map_utxo_row E r)))"

text \<open>The plan is a foreign key.\<close>
definition insert_migration_utxo :: "env \<Rightarrow> string \<Rightarrow> new_migration_utxo \<Rightarrow> migration_utxo wact" where
  "insert_migration_utxo E plan_id utxo =
     bnd (draw (uuid_at E)) (\<lambda>i.
     bnd (draw (\<lambda>n. to_rfc3339 E (now_at E n))) (\<lambda>now.
     bnd (with_ctx ''Failed to insert migration utxo'' (sql E (\<lambda>w.
       if i \<in> set (map ur_id (w_utxos w))
       then (Err [''UNIQUE constraint failed: migration_utxos.id''], w)
       else if plan_id \<notin> set (map pr_id (w_plans w))
       then (Err [''FOREIGN KEY constraint failed''], w)
       else (Ok (), w\<lparr>w_utxos := w_utxos w @
         [\<lparr>ur_id = i, ur_plan_id = plan_id, ur_txid = nu_txid utxo, ur_vout = nu_vout utxo,
           ur_value_btc = nu_value_btc utxo, ur_address = nu_address utxo,
           ur_label = nu_label utxo, ur_source_label = nu_source_label utxo,
           ur_broadcast_pool_id = None, ur_created_at = now\<rparr>]\<rparr>)))) (\<lambda>_.
     get_migration_utxo_by_id E i)))"

text \<open>ORDER BY created_at ASC.\<close>
definition list_migration_utxos :: "env \<Rightarrow> string \<Rightarrow> migration_utxo list wact" where
  "list_migration_utxos E plan_id =
     bnd (with_ctx ''Failed to query utxos''
       (sql E (gets (\<lambda>w. rev (order_desc ur_created_at
          (rev (filter (\<lambda>r. ur_plan_id r = plan_id) (w_utxos w)))))))) (\<lambda>rows.
     for_each (\<lambda>r acc. bnd (with_ctx ''Failed to read row'' (map_utxo_row E r)) (\<lambda>u.
       ret (acc @ [u]))) rows [])"

definition link_utxo_to_pool :: "env \<Rightarrow> string \<Rightarrow> string \<Rightarrow> unit wact" where
  "link_utxo_to_pool E utxo_id pool_id =
     with_ctx ''Failed to link utxo to pool'' (sql E (\<lambda>w.
       if utxo_id \<in> set (map ur_id (w_utxos w)) \<and> pool_id \<notin> set (map c_id (w_pool w))
       then (Err [''FOREIGN KEY constraint failed''], w)
       else (Ok (), w\<lparr>w_utxos := map (\<lambda>r. if ur_id r = utxo_id
               then r\<lparr>ur_broadcast_pool_id := Some pool_id\<rparr> else r) (w_utxos w)\<rparr>)))"

section \<open>The archive loses nothing\<close>

text \<open>
  \<open>v\<close> is \<open>w\<close> with some rows moved: a row is still there, or was an intact terminal
  row and a new archive blob opens to its JSON.
\<close>

definition moved_to_archive :: "env \<Rightarrow> bytes \<Rightarrow> world \<Rightarrow> world \<Rightarrow> pool_row \<Rightarrow> bool" where
  "moved_to_archive E key w v r \<longleftrightarrow> row_sealed E (w_db_key w) r
     \<and> c_status r \<in> {''confirmed'', ''failed'', ''broadcast''}
     \<and> (\<exists>tx. tx_of_row E (w_db_key w) r tx
         \<and> (\<exists>a \<in> set (drop (length (w_archive w)) (w_archive v)).
              open_blob E key (ar_blob a) (ar_id a) = Ok (tx_to_json E tx)))"

definition archive_inv :: "env \<Rightarrow> bytes \<Rightarrow> world \<Rightarrow> world \<Rightarrow> bool" where
  "archive_inv E key w v \<longleftrightarrow> (\<exists>added. w_archive v = w_archive w @ added)
     \<and> set (w_pool v) \<subseteq> set (w_pool w)
     \<and> (\<forall>r \<in> set (w_pool w). r \<in> set (w_pool v) \<or> moved_to_archive E key w v r)"

lemma archive_inv_refl: "archive_inv E key w w"
  by (simp add: archive_inv_def)

lemma archive_inv_clock: "archive_inv E key w v \<Longrightarrow> only_clock v u \<Longrightarrow> archive_inv E key w u"
  by (simp add: archive_inv_def moved_to_archive_def only_clock_proj)

text \<open>The two statements of the transaction happen together or not at all.\<close>
lemma transaction_atomic:
  assumes "transaction E c1 c2
      (seq (with_ctx c3 (sql_insert_archive E a)) (bnd (with_ctx c4 (sql_delete E p)) (\<lambda>_. ret ()))) w = (r, v)"
  shows "(is_ok r \<and> w_archive v = w_archive w @ [a]
            \<and> w_pool v = filter (\<lambda>q. \<not> p q) (w_pool w))
         \<or> (\<not> is_ok r \<and> w_archive v = w_archive w \<and> w_pool v = w_pool w)"
  using assms
  by (auto simp: transaction_def run_simps act_simps sql_def sql_insert_archive_def
      sql_delete_def rollback_to_def tick_def split: option.splits if_splits)

lemma archive_one_cases:
  assumes inv: "aead_inverts E" "nonce_fits E" and run: "archive_one E key net tx n w = (r, v)"
  shows "only_clock w v \<and> (t_tampered tx = Some True \<longrightarrow> r = Ok n) \<and> (is_ok r \<longrightarrow> t_tampered tx = Some True)
    \<or> (w_archive v = w_archive w \<and> w_pool v = w_pool w \<and> \<not> is_ok r)
    \<or> (\<exists>a. r = Ok (n + 1) \<and> t_tampered tx \<noteq> Some True \<and> w_archive v = w_archive w @ [a]
          \<and> w_pool v = filter (\<lambda>q. c_id q \<noteq> t_id tx) (w_pool w)
          \<and> open_blob E key (ar_blob a) (ar_id a) = Ok (tx_to_json E tx))"
proof (cases "t_tampered tx = Some True")
  case True
  then show ?thesis using run by (simp add: archive_one_def act_simps quiet.refl)
next
  case False
  let ?i = "uuid_at E (w_clock w)"
  obtain blob w2 where s: "seal E key (tx_to_json E tx) ?i (tick w) = (Ok blob, w2)"
    by (simp add: seal_def act_simps run_simps)
  have w2: "w_archive w2 = w_archive w" "w_pool w2 = w_pool w"
    using only_clock_proj [OF movesD [OF quiet_seal s]] by (simp_all add: tick_def)
  let ?a = "\<lparr>ar_id = ?i, ar_network = net,
     ar_archived_at = to_rfc3339 E (now_at E (w_clock w2)), ar_blob = blob\<rparr>"
  let ?t = "transaction E ''Failed to start archive transaction''
               ''Failed to commit archive transaction''
               (seq (with_ctx ''Failed to insert archive row'' (sql_insert_archive E ?a))
                    (bnd (with_ctx ''Failed to delete broadcast tx''
                       (sql_delete E (by_id (t_id tx)))) (\<lambda>_. ret ())))"
  obtain r' v' where t: "?t (tick w2) = (r', v')" by (cases "?t (tick w2)")
  have "v = v' \<and> (is_ok r' \<longrightarrow> r = Ok (n + 1)) \<and> (\<not> is_ok r' \<longrightarrow> \<not> is_ok r)"
    using run False s t by (cases r') (auto simp: archive_one_def run_simps act_simps)
  moreover have "open_blob E key (ar_blob ?a) (ar_id ?a) = Ok (tx_to_json E tx)"
    using open_seal [OF inv s] by simp
  ultimately show ?thesis
    using transaction_atomic [OF t] False w2 by (auto simp: tick_def by_id_def)
qed

lemma moved_mono:
  "moved_to_archive E key w v r \<Longrightarrow> w_archive u = w_archive v @ added
   \<Longrightarrow> moved_to_archive E key w u r"
  by (auto simp: moved_to_archive_def)

lemma archive_inv_step:
  assumes inv: "aead_inverts E" "nonce_fits E" and uniq: "ids_unique w"
    and iv: "archive_inv E key w v" and run: "archive_one E key net tx n v = (x, u)"
    and row: "r \<in> set (w_pool w)" "tx_of_row E (w_db_key w) r tx"
      "c_status r \<in> {''confirmed'', ''failed'', ''broadcast''}"
  shows "archive_inv E key w u"
  using archive_one_cases [OF inv run]
proof (elim disjE)
  assume "\<exists>a. x = Ok (n + 1) \<and> t_tampered tx \<noteq> Some True \<and> w_archive u = w_archive v @ [a]
    \<and> w_pool u = filter (\<lambda>q. c_id q \<noteq> t_id tx) (w_pool v)
    \<and> open_blob E key (ar_blob a) (ar_id a) = Ok (tx_to_json E tx)"
  then obtain a where a: "t_tampered tx \<noteq> Some True" "w_archive u = w_archive v @ [a]"
    "w_pool u = filter (\<lambda>q. c_id q \<noteq> t_id tx) (w_pool v)"
    "open_blob E key (ar_blob a) (ar_id a) = Ok (tx_to_json E tx)" by blast
  have arch: "\<exists>added. w_archive v = w_archive w @ added"
    and sub: "set (w_pool v) \<subseteq> set (w_pool w)"
    and each: "\<And>q. q \<in> set (w_pool w) \<Longrightarrow> q \<in> set (w_pool v) \<or> moved_to_archive E key w v q"
    using iv by (auto simp: archive_inv_def)
  have "row_sealed E (w_db_key w) r" using a(1) row(2) by (auto simp: tx_of_row_def)
  then have moved: "moved_to_archive E key w u r"
    using row(2,3) a(2,4) arch by (auto simp: moved_to_archive_def)
  have "q = r" if "q \<in> set (w_pool w)" "c_id q = t_id tx" for q
    using that row(1,2) uniq unfolding ids_unique_def distinct_map tx_of_row_def
    by (metis inj_on_contraD)
  then have "q \<in> set (w_pool u) \<or> moved_to_archive E key w u q" if "q \<in> set (w_pool w)" for q
    using each [OF that] moved a(3) moved_mono [OF _ a(2)] that by auto
  then show ?thesis using arch sub a(2,3) by (auto simp: archive_inv_def)
next
  assume "w_archive u = w_archive v \<and> w_pool u = w_pool v \<and> \<not> is_ok x"
  then show ?thesis using iv by (simp add: archive_inv_def moved_to_archive_def)
qed (use archive_inv_clock [OF iv] in blast)

end
