(* ===== verification/Archive_Key.thy ===== *)
theory Archive_Key
  imports Database_Archive Sample
begin

text \<open>
  \<open>src/src/api/archive_key.rs\<close>: the password of the archive and the key derived from it, which
  lives in memory only and for a limited time.  The last sections show that the password opens
  the archive it locked, that nothing else does, and when the key goes.
\<close>

section \<open>The password\<close>

definition archive_salt_key :: string where
  "archive_salt_key = ''archive_salt''"

definition archive_verifier_key :: string where
  "archive_verifier_key = ''archive_verifier''"

definition archive_ttl :: int where
  "archive_ttl = secs (15 * 60)"

text \<open>\<open>map_err(|e| anyhow!("...: {e}"))\<close>\<close>
primrec reworded :: "string \<Rightarrow> 'a res \<Rightarrow> 'a res" where
  "reworded c (Ok x) = Ok x"
| "reworded c (Err e) = Err [c @ '': '' @ err_to_string e]"
| "reworded c (Panic p) = Panic p"

definition password_is_set :: "env \<Rightarrow> bool wact" where
  "password_is_set E =
     bnd (get_config_value E archive_verifier_key) (\<lambda>v. ret (v \<noteq> None))"

definition set_password :: "env \<Rightarrow> string \<Rightarrow> unit wact" where
  "set_password E password =
     bnd (draw (salt_at E)) (\<lambda>salt.
     bnd (lift_res (reworded ''failed to hash password'' (password_hash E password salt))) (\<lambda>verifier.
     bnd (set_config_value E archive_salt_key (hex_encode E salt)) (\<lambda>_.
     set_config_value E archive_verifier_key verifier)))"

definition unlock :: "env \<Rightarrow> string \<Rightarrow> bool wact" where
  "unlock E password =
     bnd (get_config_value E archive_verifier_key) (\<lambda>v.
     bnd (lift_res (some_or ''archive password is not set'' v)) (\<lambda>verifier.
     bnd (get_config_value E archive_salt_key) (\<lambda>s.
     bnd (lift_res (some_or ''archive salt is missing'' s)) (\<lambda>salt_hex.
     bnd (lift_res (some_or ''invalid archive salt: hex'' (hex_decode E salt_hex))) (\<lambda>salt.
     bnd (lift_res (reworded ''invalid archive verifier'' (password_verify E verifier password))) (\<lambda>ok.
     if \<not> ok then ret False
     else bnd (draw (instant_at E)) (\<lambda>now.
       bnd (modify (\<lambda>w. w\<lparr>w_archive_key := Some (derive_key E password salt, now + archive_ttl)\<rparr>)) (\<lambda>_.
       ret True))))))))"

section \<open>The key\<close>

text \<open>A use of the key renews its time.\<close>
definition archive_key :: "env \<Rightarrow> bytes option wact" where
  "archive_key E =
     bnd (gets w_archive_key) (\<lambda>c. case c of
         None \<Rightarrow> ret None
       | Some (key, expires_at) \<Rightarrow>
           bnd (draw (instant_at E)) (\<lambda>now.
           if now \<ge> expires_at then
             bnd (modify (\<lambda>w. w\<lparr>w_archive_key := None\<rparr>)) (\<lambda>_. ret None)
           else
             bnd (draw (instant_at E)) (\<lambda>now'.
             bnd (modify (\<lambda>w. w\<lparr>w_archive_key := Some (key, now' + archive_ttl)\<rparr>)) (\<lambda>_.
             ret (Some key)))))"

definition lock_archive :: "unit wact" where
  "lock_archive = modify (\<lambda>w. w\<lparr>w_archive_key := None\<rparr>)"

text \<open>A look does not.\<close>
definition is_unlocked :: "env \<Rightarrow> bool wact" where
  "is_unlocked E =
     bnd (gets w_archive_key) (\<lambda>c. case c of
         None \<Rightarrow> ret False
       | Some (key, expires_at) \<Rightarrow>
           bnd (draw (instant_at E)) (\<lambda>now.
           if now \<ge> expires_at then
             bnd (modify (\<lambda>w. w\<lparr>w_archive_key := None\<rparr>)) (\<lambda>_. ret False)
           else ret True))"

section \<open>The password that was set opens it\<close>

text \<open>What the argon2 crate promises of a verifier, hash collisions aside.\<close>
definition verifies_password :: "env \<Rightarrow> bool" where
  "verifies_password E \<longleftrightarrow> (\<forall>p s h q. password_hash E p s = Ok h \<longrightarrow> password_verify E h q = Ok (q = p))"

definition stored_value :: "world \<Rightarrow> string \<Rightarrow> string option" where
  "stored_value w key = map_option cr_value (find (\<lambda>r. cr_key r = key) (w_config_store w))"

lemma stored_value_tick [simp]: "stored_value (tick w) key = stored_value w key"
  by (simp add: stored_value_def tick_def)

lemma get_config_run:
  "get_config_value E key w = (case sql_fault_at E (w_clock w) of
       None \<Rightarrow> (Ok (stored_value w key), tick w)
     | Some e \<Rightarrow> (Err [''Failed to read config value'', e], tick w))"
  by (simp add: get_config_value_def with_ctx_def sql_def act_simps stored_value_def tick_def split: option.split)

lemma find_upsert:
  "find (\<lambda>q. cr_key q = k) (upsert_config r rows) =
     (if cr_key r = k then Some r else find (\<lambda>q. cr_key q = k) rows)"
proof -
  have upd: "find (\<lambda>q. cr_key q = k) (map (\<lambda>q. if cr_key q = cr_key r then r else q) rows)
      = (if cr_key r = k \<and> k \<in> cr_key ` set rows then Some r else find (\<lambda>q. cr_key q = k) rows)"
    by (induction rows) auto
  have app: "find P (rows @ [r]) = (case find P rows of None \<Rightarrow> if P r then Some r else None | Some x \<Rightarrow> Some x)" for P
    by (induction rows) auto
  have "find (\<lambda>q. cr_key q = k) rows = None" if "k \<notin> cr_key ` set rows"
    using that by (auto simp: find_None_iff)
  then show ?thesis
    by (cases "cr_key r \<in> set (map cr_key rows)", simp_all only: upsert_config_def if_True if_False upd app)
       (auto split: option.split)
qed

lemma ran_Ok: "is_ok (fst p) \<Longrightarrow> \<exists>x. p = (Ok x, snd p)"
  by (cases p) (auto simp: is_ok_iff)

lemma tick_simps [simp]: "w_clock (tick w) = Suc (w_clock w)" "w_archive_key (tick w) = w_archive_key w"
  by (simp_all add: tick_def)

lemma set_config_Ok:
  assumes "set_config_value E key value w = (Ok x, v)"
  shows "stored_value v k = (if k = key then Some value else stored_value w k) \<and> w_archive_key v = w_archive_key w"
  using assms
  by (auto simp: set_config_value_def ok_iffs act_simps find_upsert tick_def stored_value_def)

text \<open>
  C11: The archive opens with the password that locked it and with no other.  After a password has
  been set, an attempt to unlock that returns succeeds exactly for that password; then the key in
  memory is the one derived from it and the stored salt, good for fifteen minutes; a wrong
  password leaves the key in memory as it was.
\<close>
theorem archive_password_opens:
  assumes "verifies_password E" "hex_inverts E"
    and set: "set_password E password w = (Ok (), v)"
    and attempt: "unlock E guess v = (Ok b, u)"
  shows "b = (guess = password)
    \<and> (b \<longrightarrow> w_archive_key u = Some (derive_key E password (salt_at E (w_clock w)),
         instant_at E (w_clock v + 2) + archive_ttl))
    \<and> (\<not> b \<longrightarrow> w_archive_key u = w_archive_key w)"
proof -
  let ?salt = "salt_at E (w_clock w)"
  obtain h v1 where h: "password_hash E password ?salt = Ok h"
    and s1: "set_config_value E archive_salt_key (hex_encode E ?salt) (tick w) = (Ok (), v1)"
    and s2: "set_config_value E archive_verifier_key h v1 = (Ok (), v)"
    using set by (cases "password_hash E password ?salt")
      (auto simp: set_password_def bnd_apply act_simps split: prod.splits res.splits)
  have store: "stored_value v archive_verifier_key = Some h"
    "stored_value v archive_salt_key = Some (hex_encode E ?salt)" "w_archive_key v = w_archive_key w"
    using set_config_Ok [OF s1] set_config_Ok [OF s2]
    by (simp_all add: archive_verifier_key_def archive_salt_key_def tick_def)
  have "password_verify E h guess = Ok (guess = password)" "hex_decode E (hex_encode E ?salt) = Some ?salt"
    using assms(1,2) h by (simp_all add: verifies_password_def hex_inverts_def)
  then show ?thesis
    using attempt store
    by (auto simp: unlock_def bnd_apply get_config_run act_simps some_or_def
        split: option.splits if_splits)
qed

theorem archive_password_opens_witness:
  "fst (unlock env0 ''p'' (snd (set_password env0 ''p'' world0))) = Ok True
    \<and> fst (unlock env0 ''q'' (snd (set_password env0 ''p'' world0))) = Ok False"
proof -
  let ?set = "set_password env0 ''p'' world0"
  have E: "verifies_password env0" "hex_inverts env0"
    using env0_laws(3) frame_inject [of _ _ _ "[]"]
    by (auto simp: verifies_password_def env0_def starts_with_prefix prefix_def frame_inject)
  have ran: "is_ok (fst ?set)" "is_ok (fst (unlock env0 ''p'' (snd ?set)))" "is_ok (fst (unlock env0 ''q'' (snd ?set)))"
    by code_simp+
  from ran_Ok [OF ran(1)] have set: "?set = (Ok (), snd ?set)" by simp
  from ran_Ok [OF ran(2)] ran_Ok [OF ran(3)] obtain a b u t where
    a: "unlock env0 ''p'' (snd ?set) = (Ok a, u)" and b: "unlock env0 ''q'' (snd ?set) = (Ok b, t)" by blast
  show ?thesis
    using archive_password_opens [OF E set a] archive_password_opens [OF E set b] a b by simp
qed

section \<open>How long the key stays\<close>

text \<open>Everything but an unlock with the right password and a use of the key.\<close>
inductive idle_step :: "env \<Rightarrow> world \<Rightarrow> world \<Rightarrow> bool" for E where
  looked: "is_unlocked E w = (x, v) \<Longrightarrow> idle_step E w v"
| locked: "lock_archive w = (x, v) \<Longrightarrow> idle_step E w v"
| reset: "set_password E p w = (x, v) \<Longrightarrow> idle_step E w v"
| asked: "password_is_set E w = (x, v) \<Longrightarrow> idle_step E w v"
| refused: "unlock E p w = (x, v) \<Longrightarrow> x \<noteq> Ok True \<Longrightarrow> idle_step E w v"
| elsewhere: "w_archive_key v = w_archive_key w \<Longrightarrow> w_clock w \<le> w_clock v \<Longrightarrow> idle_step E w v"

definition key_only_goes :: "world \<Rightarrow> world \<Rightarrow> bool" where
  "key_only_goes w v \<longleftrightarrow> w_archive_key v \<in> {w_archive_key w, None}"

interpretation key_goes: act_rel key_only_goes
  by unfold_locales (auto simp: key_only_goes_def)

lemma key_goes_quiet: "moves only_clock m \<Longrightarrow> moves key_only_goes m"
  by (simp add: moves_def key_only_goes_def only_clock_proj)

lemma key_goes_modify:
  "(\<And>w. w_archive_key (f w) \<in> {w_archive_key w, None}) \<Longrightarrow> moves key_only_goes (modify f)"
  by (rule key_goes.step_modify) (simp add: key_only_goes_def)

lemma idle_key_goes: "idle_step E w v \<Longrightarrow> key_only_goes w v"
proof (induction rule: idle_step.induct)
  case (looked w x v)
  have "moves key_only_goes (is_unlocked E)"
    unfolding is_unlocked_def
    by (auto intro!: key_goes.rules key_goes_modify key_goes_quiet [OF quiet_draw] split: option.split prod.split)
  then show ?case using looked by (rule movesD)
next
  case (reset p w x v)
  have sql: "moves key_only_goes (sql E (modify f))" if "\<And>w. w_archive_key (f w) = w_archive_key w" for f
    using that by (auto simp: moves_def sql_def key_only_goes_def act_simps tick_def split: option.split)
  have "moves key_only_goes (set_password E p)"
    unfolding set_password_def set_config_value_def
    by (auto intro!: key_goes.rules key_goes_quiet [OF quiet_draw] sql)
  then show ?case using reset by (rule movesD)
next
  case (refused p w x v)
  then show ?case
    by (auto simp: unlock_def bnd_apply get_config_run act_simps key_only_goes_def tick_def
        split: option.splits if_splits res.splits prod.splits)
qed (auto simp: key_only_goes_def lock_archive_def act_simps password_is_set_def bnd_apply get_config_run
     tick_def split: option.splits prod.splits res.splits)

text \<open>
  C12: The key of the archive goes fifteen minutes after it was last used.  However often the
  state of the lock is looked at, the password is set again or wrong passwords are tried in
  between, once the monotonic clock has reached the time the last unlock or use set, the key is
  not handed out and is wiped from memory.
\<close>
theorem archive_key_expires:
  assumes "w_archive_key w = Some (k, expires_at)" "(idle_step E)\<^sup>*\<^sup>* w v"
    and "expires_at \<le> instant_at E (w_clock v)"
  shows "fst (archive_key E v) = Ok None \<and> w_archive_key (snd (archive_key E v)) = None
    \<and> fst (is_unlocked E v) = Ok False"
proof -
  have "key_only_goes w v"
    using assms(2) by (induction rule: rtranclp_induct) (auto intro: key_goes.refl key_goes.trans idle_key_goes)
  then have "w_archive_key v \<in> {Some (k, expires_at), None}" using assms(1) by (simp add: key_only_goes_def)
  then show ?thesis
    using assms(3) by (auto simp: archive_key_def is_unlocked_def bnd_apply act_simps tick_def)
qed

theorem archive_key_expires_witness:
  "let w = world0\<lparr>w_archive_key := Some (''k'', 5)\<rparr>; v = snd (is_unlocked env0 (w\<lparr>w_clock := 4\<rparr>))
   in w_archive_key v = Some (''k'', 5) \<and> fst (archive_key env0 v) = Ok None"
proof -
  let ?w = "world0\<lparr>w_archive_key := Some (''k'', 5)\<rparr>"
  let ?v = "snd (is_unlocked env0 (?w\<lparr>w_clock := 4\<rparr>))"
  have "idle_step env0 ?w (?w\<lparr>w_clock := 4\<rparr>)" by (rule elsewhere) (simp_all add: world0_def)
  moreover have "idle_step env0 (?w\<lparr>w_clock := 4\<rparr>) ?v" by (rule looked [OF surjective_pairing])
  ultimately have steps: "(idle_step env0)\<^sup>*\<^sup>* ?w ?v" by simp
  have v: "w_clock ?v = 5" "w_archive_key ?v = Some (''k'', 5)" by code_simp+
  have "instant_at env0 (w_clock ?v) = 5" by (simp only: v) (simp add: env0_def)
  then show ?thesis
    using archive_key_expires [OF _ steps, of "''k''" 5] v by (simp add: Let_def)
qed

end
