(* ===== verification/Config_Model.thy ===== *)
theory Config_Model
  imports Sample
begin

text \<open>
  \<open>src/src/config.rs\<close>: defaults, the overrides from environment variables, the
  encryption of the two secrets in the file, the Tor proxy, the networks.
\<close>

section \<open>Networks\<close>

primrec default_port :: "network_type \<Rightarrow> u16" where
  "default_port Mainnet = 8332"
| "default_port Testnet4 = 48332"
| "default_port Signet = 38332"

primrec data_dir_name :: "network_type \<Rightarrow> string" where
  "data_dir_name Mainnet = ''mainnet''"
| "data_dir_name Testnet4 = ''testnet4''"
| "data_dir_name Signet = ''signet''"

primrec genesis_hash :: "network_type \<Rightarrow> string" where
  "genesis_hash Mainnet = ''000000000019d6689c085ae165831e934ff763ae46a2a6c172b3f1b60a8ce26f''"
| "genesis_hash Testnet4 = ''00000000da84f2bafbbc53dee25a72ae507ff4914b867c565be350b0da8bf043''"
| "genesis_hash Signet = ''00000008819873e925422c1ff0f99f7cc9bbb232af63a077a480a3633bee1ef6''"

definition from_genesis_hash :: "string \<Rightarrow> network_type option" where
  "from_genesis_hash hash =
     (let h = to_lower (trim hash) in find (\<lambda>net. genesis_hash net = h) [Mainnet, Testnet4, Signet])"

primrec display_name :: "network_type \<Rightarrow> string" where
  "display_name Mainnet = ''Mainnet''"
| "display_name Testnet4 = ''Testnet 4''"
| "display_name Signet = ''Signet''"

section \<open>Defaults\<close>

definition default_virtual_block :: liana_virtual_block where
  "default_virtual_block = \<lparr>vb_enabled = False, vb_target_height = 0, vb_armed_at_height = 0\<rparr>"

definition default_schedule :: schedule_config where
  "default_schedule = \<lparr>sc_broadcast_mode = Immediate, default_delay_hours = 24,
     scheduled_datetime = None, sc_virtual_block = default_virtual_block,
     min_delay_hours = 2, max_delay_hours = 72, min_fee_rate = f64_of_int 1,
     max_fee_rate = f64_of_int 50\<rparr>"

definition default_nostr :: nostr_config where
  "default_nostr = \<lparr>nostr_enabled = False, recipient_npub = [], relays = [], app_nsec = [],
     tor_socks = []\<rparr>"

definition default_notifications :: notifications_config where
  "default_notifications = \<lparr>notif_enabled = False, notif_language = ''en'',
     notif_nostr = default_nostr\<rparr>"

definition default_electrum_server :: "env \<Rightarrow> electrum_server_config" where
  "default_electrum_server E = \<lparr>es_host = ''0.0.0.0'', es_port = 50050,
     liana_port = opt_bind (env_var E ''BROADCAST_POOL_LIANA_ELECTRUM_PORT'') parse_u16,
     lan_connect_host = (case env_var E ''BROADCAST_POOL_LAN_IP'' of
        None \<Rightarrow> None | Some s \<Rightarrow> if trim s = [] then None else Some s)\<rparr>"

definition network_from_env :: "string \<Rightarrow> network_type" where
  "network_from_env n =
     (let l = to_lower n in
      if l \<in> {''mainnet'', ''main''} then Mainnet else if l = ''signet'' then Signet else Testnet4)"

definition default_config :: "env \<Rightarrow> config" where
  "default_config E =
    \<lparr>cf_network = \<lparr>network_type = (case or_else (env_var E ''BROADCAST_POOL_NETWORK'')
         (env_var E ''APP_BITCOIN_NETWORK'') of None \<Rightarrow> Testnet4 | Some n \<Rightarrow> network_from_env n),
       resolved_genesis = None\<rparr>,
     cf_bitcoin_rpc = map_option (\<lambda>url. \<lparr>rpc_url = url,
         rpc_user = unwrap_or [] (env_var E ''BROADCAST_POOL_RPC_USER''),
         rpc_password = unwrap_or [] (env_var E ''BROADCAST_POOL_RPC_PASS'')\<rparr>)
       (env_var E ''BROADCAST_POOL_RPC_URL''),
     cf_indexer = map_option (\<lambda>url. \<lparr>ix_url = url, manual_override = False\<rparr>)
       (env_var E ''BROADCAST_POOL_INDEXER_URL''),
     cf_pool = \<lparr>max_size_kb = 300, rebroadcast_interval_minutes = 30, expiry_days = 30\<rparr>,
     cf_schedule = default_schedule,
     cf_privacy = \<lparr>use_tor = False, tor_socks_port = 9050, rotate_identity_per_tx = True\<rparr>,
     cf_web = \<lparr>web_host = unwrap_or ''127.0.0.1'' (env_var E ''BROADCAST_POOL_WEB_HOST''),
       web_port = unwrap_or 8080
         (parse_u16 (unwrap_or ''8080'' (env_var E ''BROADCAST_POOL_WEB_PORT'')))\<rparr>,
     cf_electrum = (default_electrum_server E)
       \<lparr>es_host := unwrap_or ''0.0.0.0'' (env_var E ''BROADCAST_POOL_ELECTRUM_HOST''),
        es_port := unwrap_or 50050
          (parse_u16 (unwrap_or ''50050'' (env_var E ''BROADCAST_POOL_ELECTRUM_PORT'')))\<rparr>,
     cf_notifications = default_notifications\<rparr>"

section \<open>Loading\<close>

text \<open>The overrides, in the order of \<open>Config::load\<close>.\<close>

definition override_rpc :: "env \<Rightarrow> config \<Rightarrow> config" where
  "override_rpc E c =
     (let c = (case env_var E ''BROADCAST_POOL_RPC_URL'' of
          None \<Rightarrow> c
        | Some url \<Rightarrow>
            let rpc = unwrap_or \<lparr>rpc_url = [], rpc_user = [], rpc_password = []\<rparr> (cf_bitcoin_rpc c)
            in c\<lparr>cf_bitcoin_rpc := Some (rpc\<lparr>rpc_url := url\<rparr>)\<rparr>);
          c = (case env_var E ''BROADCAST_POOL_RPC_USER'' of
          None \<Rightarrow> c
        | Some user \<Rightarrow> c\<lparr>cf_bitcoin_rpc := map_option (rpc_user_update (\<lambda>_. user)) (cf_bitcoin_rpc c)\<rparr>)
      in case env_var E ''BROADCAST_POOL_RPC_PASS'' of
          None \<Rightarrow> c
        | Some pw \<Rightarrow> c\<lparr>cf_bitcoin_rpc := map_option (rpc_password_update (\<lambda>_. pw)) (cf_bitcoin_rpc c)\<rparr>)"

definition override_network :: "env \<Rightarrow> config \<Rightarrow> config" where
  "override_network E c =
     (let set_net = (\<lambda>n. c\<lparr>cf_network := (cf_network c)\<lparr>network_type := n\<rparr>\<rparr>) in
      case env_var E ''BROADCAST_POOL_NETWORK'' of
        Some n \<Rightarrow> (let l = to_lower n in
          if l = ''mainnet'' then set_net Mainnet else if l = ''signet'' then set_net Signet
          else set_net Testnet4)
      | None \<Rightarrow> (case env_var E ''APP_BITCOIN_NETWORK'' of
            None \<Rightarrow> c
          | Some n \<Rightarrow> (let l = to_lower n in
              if l = ''mainnet'' then set_net Mainnet
              else if l = ''signet'' then set_net Signet
              else if l \<in> {''testnet'', ''testnet3'', ''testnet4''} then set_net Testnet4 else c)))"

definition override_web :: "env \<Rightarrow> config \<Rightarrow> config" where
  "override_web E c =
     (let web = cf_web c;
          web = (case env_var E ''BROADCAST_POOL_WEB_HOST'' of None \<Rightarrow> web | Some h \<Rightarrow> web\<lparr>web_host := h\<rparr>);
          web = (case opt_bind (env_var E ''BROADCAST_POOL_WEB_PORT'') parse_u16 of
                   None \<Rightarrow> web | Some p \<Rightarrow> web\<lparr>web_port := p\<rparr>)
      in c\<lparr>cf_web := web\<rparr>)"

definition override_electrum :: "env \<Rightarrow> config \<Rightarrow> config" where
  "override_electrum E c =
     (let es = cf_electrum c;
          es = (case env_var E ''BROADCAST_POOL_ELECTRUM_HOST'' of None \<Rightarrow> es | Some h \<Rightarrow> es\<lparr>es_host := h\<rparr>);
          es = (case opt_bind (env_var E ''BROADCAST_POOL_ELECTRUM_PORT'') parse_u16 of
                  None \<Rightarrow> es | Some p \<Rightarrow> es\<lparr>es_port := p\<rparr>);
          es = (case opt_bind (env_var E ''BROADCAST_POOL_LIANA_ELECTRUM_PORT'') parse_u16 of
                  None \<Rightarrow> es | Some p \<Rightarrow> es\<lparr>liana_port := Some p\<rparr>)
      in c\<lparr>cf_electrum := es\<rparr>)"

definition override_indexer :: "env \<Rightarrow> config \<Rightarrow> config" where
  "override_indexer E c =
     (let c = (case env_var E ''BROADCAST_POOL_INDEXER_URL'' of
          None \<Rightarrow> c | Some url \<Rightarrow> c\<lparr>cf_indexer := Some \<lparr>ix_url = url, manual_override = False\<rparr>\<rparr>)
      in case env_var E ''BROADCAST_POOL_LAN_IP'' of
          None \<Rightarrow> c
        | Some ip \<Rightarrow> if trim ip = [] then c
            else c\<lparr>cf_electrum := (cf_electrum c)\<lparr>lan_connect_host := Some (trim ip)\<rparr>\<rparr>)"

text \<open>\<open>file\<close>: \<open>None\<close> when the path does not exist, else the result of reading it.\<close>
definition load_config :: "env \<Rightarrow> string res option \<Rightarrow> config res" where
  "load_config E file =
     res_bind (case file of
         None \<Rightarrow> Ok (default_config E)
       | Some r \<Rightarrow> res_bind (with_context ''Failed to read config file'' r) (\<lambda>content.
           some_or ''Failed to parse config file'' (config_of_toml E content)))
     (\<lambda>c. Ok (override_electrum E (override_web E (override_network E
              (override_indexer E (override_rpc E c))))))"

section \<open>Secrets in the file\<close>

definition nsec_aad :: string where
  "nsec_aad = ''notifications.nostr.nsec''"

definition password_aad :: string where
  "password_aad = ''bitcoin_rpc.password''"

definition encrypt_secret :: "env \<Rightarrow> string \<Rightarrow> bytes \<Rightarrow> string \<Rightarrow> string wact" where
  "encrypt_secret E aad key s =
     (if s = [] \<or> is_encoded s then ret s else encode_field E key s aad)"

definition decrypt_secret :: "env \<Rightarrow> string \<Rightarrow> bytes \<Rightarrow> string \<Rightarrow> string" where
  "decrypt_secret E aad key stored = (case decode_field E key stored aad of
       Ok p \<Rightarrow> p | Err e \<Rightarrow> stored | Panic p \<Rightarrow> stored)"

definition encrypt_nostr_nsec :: "env \<Rightarrow> bytes \<Rightarrow> string \<Rightarrow> string wact" where
  "encrypt_nostr_nsec E = encrypt_secret E nsec_aad"

definition decrypt_nostr_nsec :: "env \<Rightarrow> bytes \<Rightarrow> string \<Rightarrow> string" where
  "decrypt_nostr_nsec E = decrypt_secret E nsec_aad"

definition encrypt_rpc_password :: "env \<Rightarrow> bytes \<Rightarrow> string \<Rightarrow> string wact" where
  "encrypt_rpc_password E = encrypt_secret E password_aad"

definition decrypt_rpc_password :: "env \<Rightarrow> bytes \<Rightarrow> string \<Rightarrow> string" where
  "decrypt_rpc_password E = decrypt_secret E password_aad"

section \<open>Notifications and Tor\<close>

definition nostr_active :: "notifications_config \<Rightarrow> bool" where
  "nostr_active c \<longleftrightarrow> notif_enabled c \<and> nostr_enabled (notif_nostr c)
     \<and> trim (recipient_npub (notif_nostr c)) \<noteq> []
     \<and> list_ex (\<lambda>r. trim r \<noteq> []) (relays (notif_nostr c))"

definition umbrel_tor_socks :: string where
  "umbrel_tor_socks = ''10.21.21.11:9050''"

definition resolve_tor_socks_with :: "nostr_config \<Rightarrow> bool \<Rightarrow> string option \<Rightarrow> string option" where
  "resolve_tor_socks_with c umbrel env_socks =
     (let configured = trim (tor_socks c) in
      if eq_ignore_case configured ''off'' then None
      else if configured \<noteq> [] then Some configured
      else case env_socks of
          Some s \<Rightarrow>
            if trim s \<noteq> [] then (if eq_ignore_case (trim s) ''off'' then None else Some (trim s))
            else if umbrel then Some umbrel_tor_socks else None
        | None \<Rightarrow> if umbrel then Some umbrel_tor_socks else None)"

definition resolved_tor_socks :: "env \<Rightarrow> nostr_config \<Rightarrow> bool \<Rightarrow> string option" where
  "resolved_tor_socks E c umbrel =
     resolve_tor_socks_with c umbrel (env_var E ''BROADCAST_POOL_TOR_SOCKS'')"

definition has_onion_relay :: "nostr_config \<Rightarrow> bool" where
  "has_onion_relay c =
     list_ex (\<lambda>r. ends_with (to_lower (trim_end_char (CHR ''/'') (trim r))) ''.onion'') (relays c)"

section \<open>Properties\<close>

lemma decrypt_secret_plain: "\<not> is_encoded s \<Longrightarrow> decrypt_secret E aad key s = s"
  by (simp add: decrypt_secret_def decode_field_plain)

lemma encrypt_secret_idem: "is_encoded c \<Longrightarrow> encrypt_secret E aad key c w = (Ok c, w)"
  by (simp add: encrypt_secret_def act_simps)

lemma not_encoded_Nil [simp]: "\<not> is_encoded []"
  by (simp add: is_encoded_def starts_with_def field_prefix_def)

text \<open>
  The RPC password written to the configuration file reads back unchanged, encrypting what
  is already encrypted changes nothing, and a password blob put in the place of the Nostr
  key is not decrypted: it comes back as the blob.
\<close>
theorem rpc_password_at_rest:
  assumes "aead_inverts E" "aead_authenticates E" "hex_inverts E" "nonce_fits E"
    and "utf8_valid E pw" "\<not> is_encoded pw" "encrypt_rpc_password E key pw w = (Ok c, v)"
  shows "decrypt_rpc_password E key c = pw \<and> encrypt_rpc_password E key c v = (Ok c, v)
    \<and> decrypt_nostr_nsec E key c = c"
proof (cases "pw = []")
  case True
  then have "c = []" "v = w"
    using assms(7) by (auto simp: encrypt_rpc_password_def encrypt_secret_def act_simps)
  then show ?thesis using True
    by (simp add: encrypt_rpc_password_def decrypt_rpc_password_def decrypt_nostr_nsec_def
        decrypt_secret_plain encrypt_secret_def act_simps)
next
  case False
  then have run: "encode_field E key pw password_aad w = (Ok c, v)"
    using assms(6,7) by (simp add: encrypt_rpc_password_def encrypt_secret_def)
  have "nsec_aad \<noteq> password_aad" by (simp add: nsec_aad_def password_aad_def)
  then obtain e where "decode_field E key c nsec_aad = Err e"
    using decode_encode_other_aad [OF assms(2-4) _ run] by blast
  then show ?thesis
    using decode_encode [OF assms(1,3-5) run] is_encoded_encode_field [OF run]
    by (simp add: encrypt_rpc_password_def decrypt_rpc_password_def decrypt_nostr_nsec_def
        decrypt_secret_def encrypt_secret_idem)
qed

theorem rpc_password_at_rest_witness:
  "let c = the (res_ok (fst (encrypt_rpc_password env0 ''k'' ''hunter2'' world0)))
   in decrypt_rpc_password env0 ''k'' c = ''hunter2'' \<and> decrypt_nostr_nsec env0 ''k'' c = c"
proof -
  let ?run = "encrypt_rpc_password env0 ''k'' ''hunter2'' world0"
  obtain c where c: "?run = (Ok c, tick world0)"
    by (simp add: encrypt_rpc_password_def encrypt_secret_def encode_field_run is_encoded_def
        starts_with_def field_prefix_def)
  have "utf8_valid env0 ''hunter2''" by (simp add: env0_def)
  moreover have "\<not> is_encoded ''hunter2''"
    by (simp add: is_encoded_def starts_with_def field_prefix_def)
  ultimately show ?thesis
    using rpc_password_at_rest [OF env0_laws(1-4) _ _ c] by (simp add: c Let_def)
qed

lemma genesis_hash_inject: "genesis_hash a = genesis_hash b \<longleftrightarrow> a = b"
  by (cases a; cases b) simp_all

text \<open>
  A node's genesis hash names the network that has it, whatever the case and the white
  space around it, and a hash of no supported network names none.
\<close>
theorem genesis_identifies_network:
  "from_genesis_hash h = Some n \<longleftrightarrow> to_lower (trim h) = genesis_hash n"
proof -
  have "from_genesis_hash h = Some n \<longleftrightarrow> n \<in> {Mainnet, Testnet4, Signet} \<and> genesis_hash n = to_lower (trim h)"
    by (auto simp: from_genesis_hash_def Let_def genesis_hash_inject simp del: genesis_hash.simps
        dest: genesis_hash_inject [THEN iffD1, OF trans [OF _ sym]])
  then show ?thesis by (cases n) auto
qed

end
