(* ===== verification/Indexer_Url.thy ===== *)
theory Indexer_Url
  imports Config_Model
begin

text \<open>
  The pure part of \<open>src/src/discovery.rs\<close>: indexer URLs, their schemes, and the order
  in which hosts, ports and transports are tried.
\<close>

section \<open>URLs\<close>

definition strip_indexer_scheme :: "string \<Rightarrow> string" where
  "strip_indexer_scheme url =
     unwrap_or url (or_else (strip_prefix url ''tcp://'') (strip_prefix url ''ssl://''))"

definition default_scheme_for_port :: "u16 \<Rightarrow> string" where
  "default_scheme_for_port port = (if port = 50002 then ''ssl'' else ''tcp'')"

definition env_flag :: "env \<Rightarrow> string \<Rightarrow> bool" where
  "env_flag E k = (case env_var E k of
     None \<Rightarrow> False | Some v \<Rightarrow> v = ''1'' \<or> eq_ignore_case v ''true'')"

definition is_umbrel_mode :: "env \<Rightarrow> bool" where
  "is_umbrel_mode E \<longleftrightarrow> env_flag E ''BROADCAST_POOL_UMBREL''
     \<or> (case env_var E ''APP_ELECTRS_NODE_IP'' of None \<Rightarrow> False | Some v \<Rightarrow> trim v \<noteq> [])"

definition is_startos_mode :: "env \<Rightarrow> bool" where
  "is_startos_mode E = (case env_var E ''BROADCAST_POOL_PLATFORM'' of
     None \<Rightarrow> False | Some v \<Rightarrow> eq_ignore_case v ''startos'')"

definition indexer_url_uses_ssl :: "string \<Rightarrow> bool" where
  "indexer_url_uses_ssl url = starts_with (trim url) ''ssl://''"

definition has_scheme :: "string \<Rightarrow> bool" where
  "has_scheme url \<longleftrightarrow> starts_with url ''tcp://'' \<or> starts_with url ''ssl://''"

definition show_u16 :: "u16 \<Rightarrow> string" where
  "show_u16 p = show_int (uint p)"

definition make_url :: "string \<Rightarrow> string \<Rightarrow> u16 \<Rightarrow> string" where
  "make_url scheme host port = scheme @ ''://'' @ host @ '':'' @ show_u16 port"

text \<open>\<open>rsplit_once(':')\<close> with a port that parses.\<close>
definition host_port :: "string \<Rightarrow> (string \<times> u16) option" where
  "host_port s = opt_bind (rsplit_once (CHR '':'') s) (\<lambda>(host, p).
     opt_bind (parse_u16 p) (\<lambda>port. Some (host, port)))"

definition normalize_indexer_url :: "string \<Rightarrow> string" where
  "normalize_indexer_url raw =
     (let t = trim raw in
      if t = [] then []
      else if has_scheme t then t
      else case host_port t of
          Some (host, port) \<Rightarrow>
            if trim host \<noteq> [] then make_url (default_scheme_for_port port) (trim host) port
            else ''tcp://'' @ t
        | None \<Rightarrow> ''tcp://'' @ t)"

definition normalize_indexer_url_with_scheme :: "string \<Rightarrow> bool option \<Rightarrow> string" where
  "normalize_indexer_url_with_scheme raw use_ssl =
     (let t = trim raw in
      if t = [] then []
      else if has_scheme t then t
      else case (use_ssl, host_port t) of
          (Some ssl, Some (host, port)) \<Rightarrow>
            if trim host \<noteq> [] then make_url (if ssl then ''ssl'' else ''tcp'') (trim host) port
            else normalize_indexer_url t
        | _ \<Rightarrow> normalize_indexer_url t)"

definition display_indexer_url :: "string \<Rightarrow> string" where
  "display_indexer_url url = trim (strip_indexer_scheme url)"

definition env_nonempty :: "env \<Rightarrow> string \<Rightarrow> string option" where
  "env_nonempty E k = opt_bind (env_var E k) (\<lambda>v.
     let t = trim v in if t = [] \<or> str_contains t ''${'' then None else Some t)"

definition umbrel_electrs_ssl_configured :: "env \<Rightarrow> bool" where
  "umbrel_electrs_ssl_configured E \<longleftrightarrow> env_nonempty E ''APP_ELECTRS_NODE_SSL_PORT'' \<noteq> None"

definition umbrel_tcp_only :: "env \<Rightarrow> bool" where
  "umbrel_tcp_only E \<longleftrightarrow> is_umbrel_mode E \<and> \<not> umbrel_electrs_ssl_configured E"

definition candidate_urls_for_host :: "env \<Rightarrow> string \<Rightarrow> u16 list \<Rightarrow> string list" where
  "candidate_urls_for_host E host ports =
     concat (map (\<lambda>port. make_url ''tcp'' host port #
        (if umbrel_tcp_only E then [] else [make_url ''ssl'' host port])) ports)"

definition candidate_urls_for_host_port :: "env \<Rightarrow> string \<Rightarrow> u16 \<Rightarrow> string list" where
  "candidate_urls_for_host_port E host port =
     (if umbrel_tcp_only E then [make_url ''tcp'' host port]
      else if port = 50002 then [make_url ''ssl'' host port, make_url ''tcp'' host port]
      else [make_url ''tcp'' host port, make_url ''ssl'' host port])"

definition connection_url_candidates :: "env \<Rightarrow> string \<Rightarrow> string list" where
  "connection_url_candidates E raw =
     (let t = trim raw in
      if t = [] then []
      else case host_port (trim (strip_indexer_scheme t)) of
          Some (host, port) \<Rightarrow> candidate_urls_for_host_port E (trim host) port
        | None \<Rightarrow> if has_scheme t then [t] else [''tcp://'' @ t])"

definition extract_indexer_host :: "string \<Rightarrow> string option" where
  "extract_indexer_host url =
     (let bare = trim (strip_indexer_scheme url) in
      if bare = [] then None
      else let host = trim (hd (split_on (CHR '':'') bare)) in
           if host = [] then None else Some host)"

section \<open>Hosts and ports\<close>

definition push_unique :: "string list \<Rightarrow> string \<Rightarrow> string list" where
  "push_unique hosts h = (if h \<noteq> [] \<and> h \<notin> set hosts then hosts @ [h] else hosts)"

definition umbrel_indexer_hosts :: "env \<Rightarrow> string list" where
  "umbrel_indexer_hosts E =
     push_unique (case env_var E ''APP_ELECTRS_NODE_IP'' of
         None \<Rightarrow> [] | Some h \<Rightarrow> push_unique [] (trim h)) ''electrs''"

definition env_port :: "env \<Rightarrow> string \<Rightarrow> u16 list" where
  "env_port E k = (case opt_bind (env_var E k) parse_u16 of None \<Rightarrow> [] | Some p \<Rightarrow> [p])"

definition push_port :: "u16 list \<Rightarrow> u16 \<Rightarrow> u16 list" where
  "push_port ports p = (if p \<in> set ports then ports else ports @ [p])"

definition indexer_ports :: "u16 list" where
  "indexer_ports = [50001, 50002]"

definition umbrel_indexer_ports :: "env \<Rightarrow> u16 list" where
  "umbrel_indexer_ports E =
     (let ports = env_port E ''APP_ELECTRS_NODE_PORT'' @ env_port E ''APP_ELECTRS_NODE_SSL_PORT'';
          ports = (if ports = [] then [50001] else ports)
      in if is_umbrel_mode E then ports else foldl push_port ports indexer_ports)"

definition indexer_ports_to_try :: "env \<Rightarrow> u16 list" where
  "indexer_ports_to_try E =
     (if is_umbrel_mode E then umbrel_indexer_ports E
      else foldl push_port (env_port E ''APP_ELECTRS_NODE_PORT'') indexer_ports)"

definition is_plausible_lan_ip :: "string \<Rightarrow> bool" where
  "is_plausible_lan_ip ip \<longleftrightarrow> \<not> starts_with ip ''127.'' \<and> \<not> starts_with ip ''0.''
     \<and> str_contains ip ''.''"

definition is_likely_docker_bridge :: "string \<Rightarrow> bool" where
  "is_likely_docker_bridge ip \<longleftrightarrow> starts_with ip ''10.21.'' \<or> starts_with ip ''172.17.''
     \<or> starts_with ip ''172.18.'' \<or> starts_with ip ''10.0.3.''"

definition parse_u8 :: "string \<Rightarrow> int option" where
  "parse_u8 s = parse_unsigned 255 s"

definition is_private_lan_host :: "string \<Rightarrow> bool" where
  "is_private_lan_host host =
     (if starts_with host ''192.168.'' then True
      else case strip_prefix host ''172.'' of
          None \<Rightarrow> False
        | Some rest \<Rightarrow>
            (case parse_u8 (hd (split_on (CHR ''.'') rest)) of
               None \<Rightarrow> False | Some oct \<Rightarrow> 16 \<le> oct \<and> oct \<le> 31))"

definition is_mistaken_umbrel_lan_override :: "env \<Rightarrow> string \<Rightarrow> bool" where
  "is_mistaken_umbrel_lan_override E h =
     (let host = trim h; node_ip = trim (unwrap_or [] (env_var E ''APP_ELECTRS_NODE_IP'')) in
      if \<not> is_umbrel_mode E then False
      else if host = [] then False
      else if host \<in> {''electrs'', ''localhost'', ''127.0.0.1''} then False
      else if node_ip \<noteq> [] \<and> host = node_ip then False
      else if starts_with host ''10.21.'' then False
      else if (case env_var E ''BROADCAST_POOL_LAN_IP'' of None \<Rightarrow> False | Some lan \<Rightarrow> host = trim lan)
      then True
      else is_private_lan_host host)"

definition lan_subnet_prefix :: "string \<Rightarrow> string option" where
  "lan_subnet_prefix ip =
     (case split_on (CHR ''.'') ip of
        [a, b, c, d] \<Rightarrow>
          if list_all (\<lambda>p. parse_u8 p \<noteq> None) [a, b, c, d]
          then Some (a @ ''.'' @ b @ ''.'' @ c) else None
      | _ \<Rightarrow> None)"

definition network_from_bitcoin_chain :: "string \<Rightarrow> network_type" where
  "network_from_bitcoin_chain chain =
     (let c = to_lower chain in
      if c = ''main'' then Mainnet else if c = ''signet'' then Signet else Testnet4)"

end
