(* ===== verification/Node_Rpc.thy ===== *)
theory Node_Rpc
  imports Indexer_Url
begin

text \<open>
  The two chain backends: the Electrum client of \<open>src/src/rpc/electrum.rs\<close> on the
  JSON-RPC transport of \<open>src/src/rpc/indexer_transport.rs\<close>, and the Bitcoin Core
  client of \<open>src/src/rpc/client.rs\<close>.  The bytes on the wire are the environment's; what
  the code does with a reply line is modelled, down to the panic of a slice that is too
  short.
\<close>

section \<open>JSON-RPC to an indexer\<close>

definition rpc_request :: "string \<Rightarrow> json \<Rightarrow> u64 \<Rightarrow> json" where
  "rpc_request method params i = JObj [(''jsonrpc'', JStr ''2.0''), (''method'', JStr method),
     (''params'', params), (''id'', JInt (uint i))]"

definition json_rpc :: "env \<Rightarrow> string \<Rightarrow> string \<Rightarrow> json \<Rightarrow> json wact" where
  "json_rpc E url method params =
     bnd (gets w_rpc_id) (\<lambda>i.
     bnd (modify (\<lambda>w. w\<lparr>w_rpc_id := i + 1\<rparr>)) (\<lambda>_.
     bnd (put_outbox (ToIndexer url method params)) (\<lambda>_.
     bnd (draw_res (\<lambda>n. wire_at E n url (json_print E (rpc_request method params i)))) (\<lambda>line.
     case json_parse E (trim line) of
       None \<Rightarrow> lift_res (Err [''Invalid JSON from indexer'', ''json''])
     | Some parsed \<Rightarrow>
         (case jget ''error'' parsed of
            Some err \<Rightarrow> bail (''Indexer RPC error: '' @ json_print E err)
          | None \<Rightarrow> lift_res (some_or ''Missing result in indexer response'' (jget ''result'' parsed)))))))"

definition server_version_probe_params :: json where
  "server_version_probe_params = JArr [JStr ''broadcast-pool'', JStr ''1.4'']"

text \<open>First URL from the candidates that answers \<open>server.version\<close>.\<close>
primrec probe_working_url :: "env \<Rightarrow> string list \<Rightarrow> string option wact" where
  "probe_working_url E [] = ret None"
| "probe_working_url E (url # urls) =
     bnd (attempt (json_rpc E url ''server.version'' server_version_probe_params)) (\<lambda>r.
     if is_ok r then ret (Some url) else probe_working_url E urls)"

section \<open>The Electrum client\<close>

definition indexer_of :: "electrum_client option \<Rightarrow> electrum_client res" where
  "indexer_of ic = some_or ''no indexer'' ic"

definition working_url :: "env \<Rightarrow> string wact" where
  "working_url E =
     bnd (gets w_indexer) (\<lambda>ic.
     bnd (lift_res (indexer_of ic)) (\<lambda>c.
     case ec_resolved c of
       Some url \<Rightarrow> ret url
     | None \<Rightarrow>
         bnd (probe_working_url E (connection_url_candidates E (ec_server c))) (\<lambda>found.
         bnd (lift_res (some_or (''Failed to connect to indexer at ''
                @ display_indexer_url (ec_server c) @ '' (tried TCP and SSL)'') found)) (\<lambda>url.
         bnd (modify (\<lambda>w. w\<lparr>w_indexer := Some (c\<lparr>ec_resolved := Some url\<rparr>)\<rparr>)) (\<lambda>_.
         ret url)))))"

definition indexer_rpc :: "env \<Rightarrow> string \<Rightarrow> json \<Rightarrow> json wact" where
  "indexer_rpc E method params = bnd (working_url E) (\<lambda>url. json_rpc E url method params)"

definition indexer_broadcast :: "env \<Rightarrow> string \<Rightarrow> string wact" where
  "indexer_broadcast E hex = (case hex_decode E hex of
       None \<Rightarrow> lift_res (Err [''Invalid transaction hex'', ''hex''])
     | Some raw \<Rightarrow>
         bnd (attempt (indexer_rpc E ''blockchain.transaction.broadcast''
                (JArr [JStr (hex_encode E raw)]))) (\<lambda>r.
         case r of
           Ok v \<Rightarrow> ret (case as_str v of Some s \<Rightarrow> s | None \<Rightarrow> json_print E v)
         | Err e \<Rightarrow>
             let msg = err_to_string e; lower = to_lower msg in
             if str_contains lower ''non-final'' \<or> str_contains lower ''non final''
             then bail (''non-final: transaction locktime not yet satisfied ('' @ msg @ '')'')
             else bail (''Failed to broadcast transaction via indexer: '' @ msg)
         | Panic p \<Rightarrow> lift_res (Panic p)))"

definition height_of_header :: "json \<Rightarrow> u64 option" where
  "height_of_header v = opt_bind (as_object v) (\<lambda>o'. opt_bind (map_of o' ''height'') as_u64)"

definition indexer_block_height :: "env \<Rightarrow> u64 wact" where
  "indexer_block_height E =
     bnd (indexer_rpc E ''blockchain.headers.subscribe'' (JArr [])) (\<lambda>v.
     lift_res (some_or ''Failed to parse block height from indexer'' (height_of_header v)))"

definition parse_indexer_software :: "string \<Rightarrow> string option" where
  "parse_indexer_software v =
     (let name = trim (takeWhile (\<lambda>c. c \<noteq> CHR ''/'' \<and> c \<noteq> CHR '' '') (trim v)) in
      if name = [] \<or> \<not> list_all (\<lambda>c. is_digit c \<or> is_digit (lower_char c)
            \<or> (97 \<le> code_of (lower_char c) \<and> code_of (lower_char c) \<le> 122)
            \<or> c = CHR ''-'' \<or> c = CHR ''_'') name
      then None else Some name)"

definition server_software :: "env \<Rightarrow> string option wact" where
  "server_software E =
     bnd (indexer_rpc E ''server.version'' server_version_probe_params) (\<lambda>reply.
     ret (opt_bind (case reply of
            JArr items \<Rightarrow> (case items of [] \<Rightarrow> None | v # _ \<Rightarrow> as_str v)
          | JStr s \<Rightarrow> Some s
          | _ \<Rightarrow> None) parse_indexer_software))"

definition indexer_test_connection :: "env \<Rightarrow> bool wact" where
  "indexer_test_connection E = bnd (indexer_block_height E) (\<lambda>_. ret True)"

text \<open>Bytes 68 to 71 of a header, little endian; \<open>raw[68..72]\<close> panics on 68 to 71 bytes.\<close>
definition header_time :: "bytes \<Rightarrow> u64 option res" where
  "header_time raw =
     (if length raw < 68 then Ok None
      else if length raw < 72 then Panic ''range end index 72 out of range''
      else Ok (Some (of_int (code_of (raw ! 68) + 256 * code_of (raw ! 69)
             + 65536 * code_of (raw ! 70) + 16777216 * code_of (raw ! 71)))))"

definition median :: "u64 list \<Rightarrow> u64" where
  "median ts = sort ts ! (length ts div 2)"

definition header_step :: "env \<Rightarrow> int \<Rightarrow> u64 list \<Rightarrow> u64 list wact" where
  "header_step E h ts =
     bnd (indexer_rpc E ''blockchain.block.header'' (JArr [JInt h])) (\<lambda>v.
     bnd (lift_res (some_or ''Invalid block header response'' (as_str v))) (\<lambda>header_hex.
     case hex_decode E header_hex of
       None \<Rightarrow> ret ts
     | Some raw \<Rightarrow> bnd (lift_res (header_time raw)) (\<lambda>t.
         ret (case t of None \<Rightarrow> ts | Some x \<Rightarrow> ts @ [x]))))"

definition header_times :: "env \<Rightarrow> int list \<Rightarrow> u64 list wact" where
  "header_times E heights = for_each (header_step E) heights []"

definition indexer_median_time_past :: "env \<Rightarrow> u64 wact" where
  "indexer_median_time_past E =
     bnd (indexer_block_height E) (\<lambda>h.
     let tip = (ucast h :: u32); start = sat_sub tip 10 in
     bnd (header_times E [uint start..uint tip]) (\<lambda>ts.
     if ts = [] then bail ''No block headers available for median time past''
     else ret (median ts)))"

definition genesis_block_hash_at_url :: "env \<Rightarrow> string \<Rightarrow> string wact" where
  "genesis_block_hash_at_url E url =
     bnd (attempt (json_rpc E url ''server.features'' (JArr []))) (\<lambda>r.
     let gh = opt_bind (res_ok r) (\<lambda>features. opt_bind (jget ''genesis_hash'' features) (\<lambda>v.
                opt_bind (as_str v) (\<lambda>s. let t = to_lower (trim s) in if t = [] then None else Some t)))
     in case gh of
       Some h \<Rightarrow> ret h
     | None \<Rightarrow>
         bnd (json_rpc E url ''blockchain.block.header'' (JArr [JInt 0])) (\<lambda>v.
         bnd (lift_res (some_or ''Unexpected genesis header format'' (as_str v))) (\<lambda>header_hex.
         bnd (lift_res (some_or ''Invalid genesis header hex'' (hex_decode E header_hex))) (\<lambda>raw.
         bnd (lift_res (some_or ''Failed to decode genesis header'' (header_decode E raw))) (\<lambda>(h, rest).
         ret (to_lower (header_hash E h)))))))"

definition bitcoin_rpc_genesis_hash :: "env \<Rightarrow> string option wact" where
  "bitcoin_rpc_genesis_hash E =
     (if env_var E ''BROADCAST_POOL_RPC_URL'' = None \<or> env_var E ''BROADCAST_POOL_RPC_USER'' = None
         \<or> env_var E ''BROADCAST_POOL_RPC_PASS'' = None then ret None
      else bnd (attempt (draw_res (core_genesis_at E))) (\<lambda>r. ret (map_option to_lower (res_ok r))))"

definition expected_genesis_hash :: "env \<Rightarrow> network_type \<Rightarrow> string wact" where
  "expected_genesis_hash E net =
     bnd (bitcoin_rpc_genesis_hash E) (\<lambda>gh.
     ret (unwrap_or (to_lower (genesis_hash net)) gh))"

definition genesis_matches_network_at_url :: "env \<Rightarrow> string \<Rightarrow> network_type \<Rightarrow> bool wact" where
  "genesis_matches_network_at_url E url net =
     bnd (attempt (genesis_block_hash_at_url E url)) (\<lambda>r.
     case res_ok r of
       None \<Rightarrow> ret False
     | Some actual \<Rightarrow> bnd (expected_genesis_hash E net) (\<lambda>expected. ret (actual = expected)))"

text \<open>\<open>calculate_tx_fee\<close>: fee rate, fee, virtual size.\<close>

definition prev_output_value :: "env \<Rightarrow> btc_input \<Rightarrow> json \<Rightarrow> u64 option" where
  "prev_output_value E inp v =
     opt_bind (as_str v) (\<lambda>s. opt_bind (hex_decode E s) (\<lambda>raw.
     opt_bind (tx_consensus_decode E raw) (\<lambda>(prev, rest).
     let k = nat (uint (in_vout inp)) in
     if k < length (bt_outputs prev) then Some (out_value (bt_outputs prev ! k)) else None)))"

definition calculate_tx_fee :: "env \<Rightarrow> string \<Rightarrow> (f64 \<times> u64 \<times> int) wact" where
  "calculate_tx_fee E hex =
     bnd (lift_res (some_or ''Invalid transaction hex'' (hex_decode E hex))) (\<lambda>raw.
     bnd (lift_res (some_or ''Failed to decode transaction'' (tx_consensus_decode E raw))) (\<lambda>(tx, rest).
     bnd (for_each (\<lambda>inp total.
       bnd (attempt (indexer_rpc E ''blockchain.transaction.get''
              (JArr [JStr (hex_encode E (rev (in_txid inp))), JBool True]))) (\<lambda>r.
       ret (total + unwrap_or 0 (opt_bind (res_ok r) (prev_output_value E inp)))))
       (bt_inputs tx) 0) (\<lambda>total_input.
     let fee = sat_sub total_input (foldl (\<lambda>s o'. s + out_value o') 0 (bt_outputs tx));
         vsize = (int (tx_weight E tx) + 3) div 4
     in ret (if vsize > 0 then f64_div (f64_of_int (uint fee)) (f64_of_int vsize) else 0, fee, vsize))))"

section \<open>The Bitcoin Core client\<close>

definition core_blockchain_info :: "env \<Rightarrow> string \<Rightarrow> core_info wact" where
  "core_blockchain_info E c = with_ctx c (draw_res (core_info_at E))"

text \<open>Chain, mempool size, connected; \<open>get_node_status\<close>.\<close>
record node_status =
  ns_height :: u64
  ns_mempool_size :: "int option"
  ns_network :: string
  ns_sync :: f64

definition sync_pct :: "core_info \<Rightarrow> f64" where
  "sync_pct info = (if ci_ibd info then f64_mul (ci_progress info) (f64_of_int 100) else f64_of_int 100)"

definition get_node_status :: "env \<Rightarrow> node_status wact" where
  "get_node_status E =
     bnd (core_blockchain_info E ''Failed to get blockchain info'') (\<lambda>info.
     bnd (attempt (draw_res (core_mempool_at E))) (\<lambda>mp.
     ret \<lparr>ns_height = ci_blocks info, ns_mempool_size = map_option cm_size (res_ok mp),
          ns_network = ci_chain info, ns_sync = sync_pct info\<rparr>))"

definition core_broadcast :: "env \<Rightarrow> string \<Rightarrow> string wact" where
  "core_broadcast E hex =
     bnd (put_outbox (ToCore ''sendrawtransaction'' [hex])) (\<lambda>_.
     with_ctx ''Failed to broadcast transaction'' (draw_res (\<lambda>n. core_send_at E n hex)))"

text \<open>The block hash of a transaction, when it is in a block.\<close>
definition core_get_transaction :: "env \<Rightarrow> string \<Rightarrow> string option wact" where
  "core_get_transaction E txid =
     (if \<not> core_txid_parses E txid then lift_res (Err [''Invalid transaction ID'', ''hex''])
      else with_ctx ''Failed to get transaction'' (draw_res (\<lambda>n. core_raw_tx_at E n txid)))"

definition core_get_block_count :: "env \<Rightarrow> u64 wact" where
  "core_get_block_count E = with_ctx ''Failed to get block count'' (draw_res (core_block_count_at E))"

definition btc_per_kvb_to_sat_vb :: "f64 \<Rightarrow> f64" where
  "btc_per_kvb_to_sat_vb rate = f64_mul rate (f64_of_int 100000)"

definition estimate_smart_fee :: "env \<Rightarrow> u64 \<Rightarrow> f64 option wact" where
  "estimate_smart_fee E blocks =
     bnd (with_ctx ''Failed to estimate fee'' (draw_res (\<lambda>n. core_fee_at E n (ucast blocks)))) (\<lambda>r.
     ret (map_option btc_per_kvb_to_sat_vb r))"

record mempool_floor =
  mf_vbytes :: int
  mf_min_fee :: f64
  mf_relay_floor :: f64

definition get_mempool_floor :: "env \<Rightarrow> mempool_floor wact" where
  "get_mempool_floor E =
     bnd (with_ctx ''Failed to get mempool info'' (draw_res (core_mempool_at E))) (\<lambda>info.
     ret \<lparr>mf_vbytes = cm_bytes info, mf_min_fee = btc_per_kvb_to_sat_vb (cm_min_fee_btc info),
          mf_relay_floor = btc_per_kvb_to_sat_vb (cm_relay_fee_btc info)\<rparr>)"

definition core_test_connection :: "env \<Rightarrow> bool wact" where
  "core_test_connection E =
     bnd (core_blockchain_info E ''Failed to connect to Bitcoin Core'') (\<lambda>_. ret True)"

definition get_bitcoin_chain :: "env \<Rightarrow> string wact" where
  "get_bitcoin_chain E =
     bnd (core_blockchain_info E ''Failed to get blockchain info'') (\<lambda>info. ret (ci_chain info))"

definition core_median_time :: "env \<Rightarrow> u64 wact" where
  "core_median_time E =
     bnd (core_blockchain_info E ''Failed to get blockchain info'') (\<lambda>info. ret (ci_median_time info))"

definition get_chain_status :: "env \<Rightarrow> (u64 \<times> u64 \<times> bool \<times> f64) wact" where
  "get_chain_status E =
     bnd (core_blockchain_info E ''Failed to get blockchain info'') (\<lambda>info.
     ret (ci_blocks info, ci_median_time info, ci_ibd info, sync_pct info))"

section \<open>Effects\<close>

text \<open>
  A call to a backend changes the clock, the request counter, the resolved URL and the
  outbox; what it puts into the outbox satisfies \<open>P\<close>.
\<close>

definition sans_calls :: "world \<Rightarrow> world" where
  "sans_calls w = w\<lparr>w_clock := 0, w_indexer := None, w_rpc_id := 0, w_outbox := []\<rparr>"

definition calls_out :: "(outmsg \<Rightarrow> bool) \<Rightarrow> world \<Rightarrow> world \<Rightarrow> bool" where
  "calls_out P w v \<longleftrightarrow> sans_calls v = sans_calls w
     \<and> (\<exists>out. w_outbox v = w_outbox w @ out \<and> list_all P out)"

interpretation calls: act_rel "calls_out P" for P
proof
  show "calls_out P s s" for s by (simp add: calls_out_def)
  show "calls_out P s u" if "calls_out P s t" "calls_out P t u" for s t u
    using that by (auto simp: calls_out_def)
qed

lemma calls_proj:
  assumes "calls_out P w v"
  shows "w_pool v = w_pool w" "w_archive v = w_archive w" "w_plans v = w_plans w"
    "w_utxos v = w_utxos w" "w_config_store v = w_config_store w" "w_db_key v = w_db_key w"
    "w_rpc v = w_rpc w" "w_config v = w_config w"
    "w_disk_config v = w_disk_config w" "w_pending v = w_pending w"
    "w_mtp_cache v = w_mtp_cache w" "w_chain_tip v = w_chain_tip w" "w_health v = w_health w"
    "w_refresh_in_flight v = w_refresh_in_flight w" "w_price_cache v = w_price_cache w"
    "w_price_lkg v = w_price_lkg w" "w_safe_mode v = w_safe_mode w"
    "w_tampered_ids v = w_tampered_ids w" "w_watched v = w_watched w"
    "w_archive_key v = w_archive_key w" "w_sh_events v = w_sh_events w"
    "w_tip_events v = w_tip_events w" "w_bcast_events v = w_bcast_events w"
  using assms by (cases w; cases v; simp add: calls_out_def sans_calls_def)+

lemma calls_clock: "only_clock w v \<Longrightarrow> calls_out P w v"
  by (auto simp: only_clock_def calls_out_def sans_calls_def)

lemma calls_quiet: "moves only_clock m \<Longrightarrow> moves (calls_out P) m"
  by (simp add: moves_def calls_clock)

lemma calls_mono: "calls_out P w v \<Longrightarrow> (\<And>m. P m \<Longrightarrow> Q m) \<Longrightarrow> calls_out Q w v"
  by (auto simp: calls_out_def list_all_iff)

lemma calls_moves_mono: "moves (calls_out P) m \<Longrightarrow> (\<And>x. P x \<Longrightarrow> Q x) \<Longrightarrow> moves (calls_out Q) m"
  by (auto simp: moves_def intro: calls_mono)

lemma calls_put: "P m \<Longrightarrow> moves (calls_out P) (put_outbox m)"
  by (simp add: moves_def act_simps calls_out_def sans_calls_def)

lemma calls_rpc_id: "moves (calls_out P) (modify (\<lambda>w. w\<lparr>w_rpc_id := i\<rparr>))"
  by (simp add: moves_def act_simps calls_out_def sans_calls_def)

lemma calls_indexer: "moves (calls_out P) (modify (\<lambda>w. w\<lparr>w_indexer := ic\<rparr>))"
  by (simp add: moves_def act_simps calls_out_def sans_calls_def)

lemmas calls_rules = calls.rules calls_rpc_id calls_indexer calls_quiet [OF quiet_draw]
  calls_quiet [OF quiet_draw_res]

abbreviation no_send :: "outmsg \<Rightarrow> bool" where
  "no_send m \<equiv> \<not> is_tx_send m"

lemma is_tx_send_simps [simp]:
  "is_tx_send (ToIndexer url method params) \<longleftrightarrow> method = ''blockchain.transaction.broadcast''"
  "is_tx_send (ToCore method args) \<longleftrightarrow> method = ''sendrawtransaction''"
  "\<not> is_tx_send (ToNostr msg)"
  by (simp_all add: is_tx_send_def)

lemma calls_json_rpc:
  "P (ToIndexer url method params) \<Longrightarrow> moves (calls_out P) (json_rpc E url method params)"
  unfolding json_rpc_def
  by (intro calls_rules calls_put) (auto intro!: calls_rules split: option.split)

lemma calls_probe: "moves (calls_out no_send) (probe_working_url E urls)"
  by (induction urls) (auto intro!: calls_rules calls_json_rpc)

lemma calls_working_url: "moves (calls_out no_send) (working_url E)"
  unfolding working_url_def
  by (intro calls_rules) (auto intro!: calls_rules calls_probe split: option.split)

text \<open>An RPC on any URL, with the probes before it.\<close>
definition rpc_msgs :: "string \<Rightarrow> json \<Rightarrow> outmsg \<Rightarrow> bool" where
  "rpc_msgs method params m \<longleftrightarrow> no_send m \<or> (\<exists>url. m = ToIndexer url method params)"

lemma calls_indexer_rpc_gen: "moves (calls_out (rpc_msgs method params)) (indexer_rpc E method params)"
proof -
  have "moves (calls_out (rpc_msgs method params)) (working_url E)"
    by (rule calls_moves_mono [OF calls_working_url]) (simp add: rpc_msgs_def)
  then show ?thesis
    unfolding indexer_rpc_def
    by (intro calls_rules calls_json_rpc) (auto simp: rpc_msgs_def)
qed

lemma calls_indexer_rpc:
  "method \<noteq> ''blockchain.transaction.broadcast'' \<Longrightarrow>
   moves (calls_out no_send) (indexer_rpc E method params)"
  unfolding indexer_rpc_def by (intro calls_rules calls_working_url calls_json_rpc) simp

lemma calls_block_height: "moves (calls_out no_send) (indexer_block_height E)"
  unfolding indexer_block_height_def by (intro calls_rules calls_indexer_rpc) simp

lemma calls_header_times: "moves (calls_out no_send) (header_times E hs)"
  unfolding header_times_def header_step_def
  by (intro calls_rules calls_indexer_rpc) (auto intro!: calls_rules split: option.split)

lemma calls_indexer_mtp: "moves (calls_out no_send) (indexer_median_time_past E)"
  unfolding indexer_median_time_past_def Let_def
  by (intro calls_rules calls_block_height calls_header_times) (auto intro: calls_rules)

lemma calls_server_software: "moves (calls_out no_send) (server_software E)"
  unfolding server_software_def by (intro calls_rules calls_indexer_rpc) simp

lemma calls_test_connection: "moves (calls_out no_send) (indexer_test_connection E)"
  unfolding indexer_test_connection_def by (intro calls_rules calls_block_height)

lemma calls_genesis_at_url: "moves (calls_out no_send) (genesis_block_hash_at_url E url)"
  unfolding genesis_block_hash_at_url_def Let_def
  by (intro calls_rules calls_json_rpc) (auto intro!: calls_rules calls_json_rpc split: option.split)

lemma calls_expected_genesis: "moves (calls_out no_send) (expected_genesis_hash E net)"
  unfolding expected_genesis_hash_def bitcoin_rpc_genesis_hash_def
  by (auto intro!: calls_rules)

lemma calls_genesis_matches: "moves (calls_out no_send) (genesis_matches_network_at_url E url net)"
  unfolding genesis_matches_network_at_url_def
  by (intro calls_rules calls_genesis_at_url)
     (auto intro!: calls_rules calls_expected_genesis split: option.split)

lemma calls_core_info: "moves only_clock (core_blockchain_info E c)"
  unfolding core_blockchain_info_def by (intro quiet_rules)

lemma quiet_core:
  "moves only_clock (core_get_block_count E)" "moves only_clock (core_median_time E)"
  "moves only_clock (get_chain_status E)" "moves only_clock (core_test_connection E)"
  "moves only_clock (core_get_transaction E txid)" "moves only_clock (get_node_status E)"
  "moves only_clock (estimate_smart_fee E n)" "moves only_clock (get_mempool_floor E)"
  "moves only_clock (get_bitcoin_chain E)"
  unfolding core_get_block_count_def core_median_time_def get_chain_status_def
    core_test_connection_def core_get_transaction_def get_node_status_def
    estimate_smart_fee_def get_mempool_floor_def get_bitcoin_chain_def
  by (auto intro!: quiet_rules calls_core_info)

text \<open>A raw transaction leaves with the bytes it came with.\<close>

definition sends_hex :: "env \<Rightarrow> string \<Rightarrow> outmsg \<Rightarrow> bool" where
  "sends_hex E hex m \<longleftrightarrow> m = ToCore ''sendrawtransaction'' [hex]
     \<or> (\<exists>url raw. hex_decode E hex = Some raw
          \<and> m = ToIndexer url ''blockchain.transaction.broadcast'' (JArr [JStr (hex_encode E raw)]))"

lemma calls_indexer_broadcast:
  "moves (calls_out (\<lambda>m. no_send m \<or> sends_hex E hex m)) (indexer_broadcast E hex)"
proof (cases "hex_decode E hex")
  case (Some raw)
  have "moves (calls_out (\<lambda>m. no_send m \<or> sends_hex E hex m))
      (indexer_rpc E ''blockchain.transaction.broadcast'' (JArr [JStr (hex_encode E raw)]))"
    by (rule calls_moves_mono [OF calls_indexer_rpc_gen]) (auto simp: rpc_msgs_def sends_hex_def Some)
  then show ?thesis
    unfolding indexer_broadcast_def Some option.case
    by (intro calls_rules) (auto intro!: calls_rules simp: Let_def split: res.split)
qed (auto simp: indexer_broadcast_def intro: calls_rules)

lemma calls_core_broadcast:
  "moves (calls_out (\<lambda>m. no_send m \<or> sends_hex E hex m)) (core_broadcast E hex)"
  unfolding core_broadcast_def by (intro calls_rules calls_put) (simp add: sends_hex_def)

section \<open>Median time past\<close>

lemma median_props:
  assumes "ts \<noteq> []"
  shows "median ts \<in> set ts" "2 * length (filter (\<lambda>t. t < median ts) ts) \<le> length ts"
    "2 * length (filter (\<lambda>t. median ts < t) ts) < length ts"
proof -
  let ?s = "sort ts" and ?n = "length ts" and ?k = "length ts div 2"
  have k: "?k < ?n" using assms by (cases ts) auto
  have len: "length (filter P ?s) = length (filter P ts)" for P
    by (simp add: filter_sort)
  show "median ts \<in> set ts" using k unfolding median_def by (metis length_sort nth_mem set_sort)
  have lo: "\<not> x < ?s ! ?k" if "x \<in> set (drop ?k ?s)" for x
    using that k by (auto simp: in_set_conv_nth not_less intro!: sorted_nth_mono)
  have hi: "\<not> ?s ! ?k < x" if "x \<in> set (take (Suc ?k) ?s)" for x
    using that k by (auto simp: in_set_conv_nth not_less intro!: sorted_nth_mono)
  have "filter (\<lambda>t. t < ?s ! ?k) ?s = filter (\<lambda>t. t < ?s ! ?k) (take ?k ?s)"
    using lo by (metis (no_types, lifting) append_Nil2 append_take_drop_id filter_False filter_append)
  then have "length (filter (\<lambda>t. t < ?s ! ?k) ?s) \<le> ?k"
    using length_filter_le [of "\<lambda>t. t < ?s ! ?k" "take ?k ?s"] by simp
  then show "2 * length (filter (\<lambda>t. t < median ts) ts) \<le> length ts"
    unfolding median_def len by linarith
  have "filter (\<lambda>t. ?s ! ?k < t) ?s = filter (\<lambda>t. ?s ! ?k < t) (drop (Suc ?k) ?s)"
    using hi by (metis (no_types, lifting) append_Nil append_take_drop_id filter_False filter_append)
  then have "length (filter (\<lambda>t. ?s ! ?k < t) ?s) \<le> ?n - Suc ?k"
    using length_filter_le [of "\<lambda>t. ?s ! ?k < t" "drop (Suc ?k) ?s"] by simp
  then show "2 * length (filter (\<lambda>t. median ts < t) ts) < length ts"
    using k unfolding median_def len by linarith
qed

lemma header_step_length:
  "header_step E h ts w = (Ok ts', v) \<Longrightarrow> length ts' \<le> Suc (length ts)"
  by (auto simp: header_step_def ok_iffs act_simps split: option.splits)

lemma header_times_length:
  assumes "header_times E hs w = (Ok ts, v)"
  shows "length ts \<le> length hs"
proof -
  have "length out \<le> length acc + length hs"
    if "for_each (header_step E) hs acc w = (Ok out, v)" for acc out w v
    using that
    by (induction hs arbitrary: acc w) (force simp: ok_iffs act_simps dest: header_step_length)+
  from this [of "[]"] assms show ?thesis by (simp add: header_times_def)
qed

text \<open>
  The median time past read from the indexer is a median of the header times: it is one of
  the times read from the eleven headers ending at the tip (fewer near the genesis block),
  at most half of them are smaller and fewer than half are larger.
\<close>
theorem indexer_mtp_is_median:
  assumes "indexer_median_time_past E w = (Ok m, v)"
  shows "\<exists>h w1 ts. indexer_block_height E w = (Ok h, w1)
    \<and> header_times E [max 0 (uint (ucast h :: u32) - 10)..uint (ucast h :: u32)] w1 = (Ok ts, v)
    \<and> length ts \<le> 11 \<and> m \<in> set ts
    \<and> 2 * length (filter (\<lambda>t. t < m) ts) \<le> length ts
    \<and> 2 * length (filter (\<lambda>t. m < t) ts) < length ts"
proof -
  obtain h w1 ts where h: "indexer_block_height E w = (Ok h, w1)"
    and ts: "header_times E [max 0 (uint (ucast h :: u32) - 10)..uint (ucast h :: u32)] w1 = (Ok ts, v)"
    and m: "ts \<noteq> []" "m = median ts"
    using assms
    by (auto simp: indexer_median_time_past_def ok_iffs act_simps Let_def uint_sat_sub split: if_splits)
  have "length ts \<le> 11" using header_times_length [OF ts] by simp
  then show ?thesis using h ts median_props [OF m(1)] m(2) by blast
qed

theorem indexer_mtp_is_median_witness:
  "\<exists>h w1 ts. indexer_block_height env_chain world_ix = (Ok h, w1)
    \<and> header_times env_chain [max 0 (uint (ucast h :: u32) - 10)..uint (ucast h :: u32)] w1
        = (Ok ts, snd (indexer_median_time_past env_chain world_ix))
    \<and> length ts \<le> 11 \<and> 67 \<in> set ts
    \<and> 2 * length (filter (\<lambda>t. t < 67) ts) \<le> length ts
    \<and> 2 * length (filter (\<lambda>t. 67 < t) ts) < length ts"
proof -
  have "fst (indexer_median_time_past env_chain world_ix) = Ok 67" by code_simp
  then have "indexer_median_time_past env_chain world_ix
      = (Ok 67, snd (indexer_median_time_past env_chain world_ix))" by (metis prod.collapse)
  then show ?thesis by (rule indexer_mtp_is_median)
qed

end
