(* ===== verification/Virtual_Mempool.thy ===== *)
theory Virtual_Mempool
  imports Node_Rpc "HOL-Library.List_Lexorder" "HOL-Library.Product_Lexorder"
begin

text \<open>
  \<open>src/src/pool/virtual_mempool.rs\<close>: script hashes and transaction ids in Electrum's
  format, the status hash, and the functions that add waiting transactions to the replies
  of the indexer.  Strings order like their bytes, pairs lexicographically, as in Rust.  A
  \<open>HashSet\<close> is a list without repetitions, in order of insertion.
\<close>

section \<open>Ids and hashes\<close>

definition compute_scripthash :: "env \<Rightarrow> bytes \<Rightarrow> string" where
  "compute_scripthash E script = hex_encode E (electrum_script_hash E script)"

definition electrum_txid :: "env \<Rightarrow> bytes \<Rightarrow> string" where
  "electrum_txid E b = hex_encode E (rev b)"

definition alternate_txid_format :: "env \<Rightarrow> string \<Rightarrow> string option" where
  "alternate_txid_format E txid =
     opt_bind (hex_decode E (trim txid)) (\<lambda>b. if length b \<noteq> 32 then None else Some (hex_encode E (rev b)))"

definition decode_tx :: "env \<Rightarrow> string \<Rightarrow> btc_tx res" where
  "decode_tx E hex = (case hex_decode E (trim hex) of
       None \<Rightarrow> Err [''Invalid tx hex'', ''hex'']
     | Some raw \<Rightarrow> (case tx_consensus_decode E raw of
         None \<Rightarrow> Err [''Failed to decode transaction'', ''consensus'']
       | Some (tx, rest) \<Rightarrow> Ok tx))"

definition compute_txid :: "env \<Rightarrow> string \<Rightarrow> string res" where
  "compute_txid E hex = res_bind (decode_tx E hex) (\<lambda>tx. Ok (electrum_txid E (compute_txid_bytes E tx)))"

definition hist_height :: "json \<Rightarrow> int" where
  "hist_height v = unwrap_or 0 (opt_bind (jget ''height'' v) as_i64)"

definition hist_txid :: "json \<Rightarrow> string" where
  "hist_txid v = unwrap_or [] (opt_bind (jget ''tx_hash'' v) as_str)"

definition hist_key :: "json \<Rightarrow> int \<times> string" where
  "hist_key v = (hist_height v, hist_txid v)"

definition status_entry :: "json \<Rightarrow> string" where
  "status_entry v = hist_txid v @ '':'' @ show_int (hist_height v) @ '':''"

definition compute_status_hash :: "env \<Rightarrow> json list \<Rightarrow> string option" where
  "compute_status_hash E history =
     (if history = [] then None
      else Some (hex_encode E (sha256 E (concat (map status_entry (sort_key hist_key history))))))"

section \<open>Injection into replies\<close>

text \<open>An \<open>i64\<close> addition of a release build.\<close>
definition i64_add :: "int \<Rightarrow> int \<Rightarrow> int" where
  "i64_add a b = sint (of_int (a + b) :: u64)"

definition inject_balance_unconfirmed :: "json \<Rightarrow> u64 \<Rightarrow> json" where
  "inject_balance_unconfirmed balance extra_sat =
     (if extra_sat = 0 then balance
      else JObj [(''confirmed'', JInt (unwrap_or 0 (opt_bind (jget ''confirmed'' balance) as_i64))),
                 (''unconfirmed'', JInt (i64_add
                    (unwrap_or 0 (opt_bind (jget ''unconfirmed'' balance) as_i64)) (sint extra_sat)))])"

definition utxo_key :: "json \<Rightarrow> (string \<times> u32) option" where
  "utxo_key u = opt_bind (opt_bind (jget ''tx_hash'' u) as_str) (\<lambda>tx.
     opt_bind (opt_bind (jget ''tx_pos'' u) as_u64) (\<lambda>pos. Some (tx, ucast pos)))"

definition pending_utxo :: "string \<times> u32 \<times> u64 \<Rightarrow> json" where
  "pending_utxo p = (case p of (txid, pos, value) \<Rightarrow>
     JObj [(''tx_hash'', JStr txid), (''tx_pos'', JInt (uint pos)), (''height'', JInt 0),
           (''value'', JInt (uint value))])"

definition inject_listunspent :: "json list \<Rightarrow> (string \<times> u32 \<times> u64) list \<Rightarrow> json list" where
  "inject_listunspent utxos pending =
     utxos @ map pending_utxo (filter (\<lambda>(txid, pos, value).
        (txid, pos) \<notin> set (List.map_filter utxo_key utxos)) pending)"

definition inject_get_mempool :: "json \<Rightarrow> string list \<Rightarrow> json" where
  "inject_get_mempool result pending_txids =
     (if pending_txids = [] then result
      else let parts = unwrap_or [JInt 0, JArr []] (as_array result);
               parts = (if length parts < 2 then [JInt 0, JArr []] else parts);
               fee_total = unwrap_or 0 (as_i64 (parts ! 0));
               tx_list = unwrap_or [] (as_array (parts ! 1));
               existing = List.map_filter (\<lambda>e. opt_bind (jidx 0 e) as_str) tx_list
           in JArr [JInt fee_total, JArr (tx_list @
                map (\<lambda>t. JArr [JStr t, JInt 0, JInt 0]) (filter (\<lambda>t. t \<notin> set existing) pending_txids))])"

definition history_txid :: "json \<Rightarrow> string option" where
  "history_txid h = opt_bind (jget ''tx_hash'' h) as_str"

definition history_entry :: "string \<Rightarrow> json" where
  "history_entry txid = JObj [(''tx_hash'', JStr txid), (''height'', JInt 0)]"

definition inject_in_history :: "json list \<Rightarrow> string list \<Rightarrow> json list" where
  "inject_in_history history pending_txids =
     history @ map history_entry
       (filter (\<lambda>t. t \<notin> set (List.map_filter history_txid history)) pending_txids)"

definition compute_modified_status_hash :: "env \<Rightarrow> json list \<Rightarrow> string list \<Rightarrow> string option" where
  "compute_modified_status_hash E real_history pending_txids =
     compute_status_hash E (inject_in_history real_history pending_txids)"

section \<open>Script hashes of a transaction\<close>

definition enumerate_outputs :: "env \<Rightarrow> btc_tx \<Rightarrow> (u32 \<times> u64 \<times> string) list" where
  "enumerate_outputs E tx = map (\<lambda>(i, o'). (of_nat i, out_value o', compute_scripthash E (out_script o')))
     (enumerate 0 (bt_outputs tx))"

definition extract_outputs :: "env \<Rightarrow> string \<Rightarrow> (u32 \<times> u64 \<times> string) list res" where
  "extract_outputs E hex = res_bind (decode_tx E hex) (\<lambda>tx. Ok (enumerate_outputs E tx))"

definition strip_indexer_host :: "string \<Rightarrow> string" where
  "strip_indexer_host url =
     unwrap_or url (or_else (strip_prefix url ''tcp://'') (strip_prefix url ''ssl://''))"

definition is_unsigned :: "env \<Rightarrow> string \<Rightarrow> bool res" where
  "is_unsigned E hex = res_bind (decode_tx E hex) (\<lambda>tx.
     Ok (bt_inputs tx \<noteq> [] \<and> list_ex (\<lambda>i. in_script_sig i = [] \<and> in_witness i = []) (bt_inputs tx)))"

definition extract_output_scripthashes :: "env \<Rightarrow> string \<Rightarrow> string list res" where
  "extract_output_scripthashes E hex =
     res_bind (decode_tx E hex) (\<lambda>tx. Ok (map (\<lambda>o'. compute_scripthash E (out_script o')) (bt_outputs tx)))"

text \<open>One request over a plain TCP connection, whatever the scheme of the URL.\<close>
definition fetch_prev_tx :: "env \<Rightarrow> string \<Rightarrow> string \<Rightarrow> btc_tx wact" where
  "fetch_prev_tx E txid indexer_addr =
     (let url = ''tcp://'' @ strip_indexer_host indexer_addr;
          params = JArr [JStr txid];
          req = JObj [(''jsonrpc'', JStr ''2.0''), (''id'', JInt 1),
                      (''method'', JStr ''blockchain.transaction.get''), (''params'', params)]
      in
      bnd (put_outbox (ToIndexer url ''blockchain.transaction.get'' params)) (\<lambda>_.
      bnd (with_ctx ''Failed to connect to indexer''
        (draw_res (\<lambda>n. wire_at E n url (json_print E req)))) (\<lambda>line.
      bnd (lift_res (some_or ''Failed to parse indexer response'' (json_parse E line))) (\<lambda>resp.
      bnd (lift_res (some_or ''No result in indexer response''
        (as_str (unwrap_or JNull (jget ''result'' resp))))) (\<lambda>hex_str.
      bnd (lift_res (some_or ''Invalid tx hex from indexer'' (hex_decode E hex_str))) (\<lambda>raw.
      bnd (lift_res (some_or ''Failed to decode prev tx from indexer'' (tx_consensus_decode E raw))) (\<lambda>(tx, rest).
      ret tx)))))))"

definition set_insert :: "'a \<Rightarrow> 'a list \<Rightarrow> 'a list" where
  "set_insert x xs = (if x \<in> set xs then xs else xs @ [x])"

definition output_scripthash_set :: "env \<Rightarrow> btc_tx \<Rightarrow> string list" where
  "output_scripthash_set E tx =
     foldl (\<lambda>s o'. set_insert (compute_scripthash E (out_script o')) s) [] (bt_outputs tx)"

definition spent_scripthash :: "env \<Rightarrow> btc_input \<Rightarrow> btc_tx \<Rightarrow> string option" where
  "spent_scripthash E inp prev =
     (let k = nat (uint (in_vout inp)) in
      if k < length (bt_outputs prev)
      then Some (compute_scripthash E (out_script (bt_outputs prev ! k))) else None)"

definition add_spent :: "env \<Rightarrow> btc_input \<Rightarrow> btc_tx option \<Rightarrow> string list \<Rightarrow> string list" where
  "add_spent E inp prev s = (case opt_bind prev (spent_scripthash E inp) of
       None \<Rightarrow> s | Some sh \<Rightarrow> set_insert sh s)"

definition extract_affected_scripthashes_opts :: "env \<Rightarrow> string \<Rightarrow> string \<Rightarrow> bool \<Rightarrow> string list wact" where
  "extract_affected_scripthashes_opts E hex indexer_addr fast =
     bnd (lift_res (decode_tx E hex)) (\<lambda>tx.
     let s0 = output_scripthash_set E tx in
     if fast then ret s0
     else for_each (\<lambda>inp s.
        bnd (attempt (fetch_prev_tx E (electrum_txid E (in_txid inp)) indexer_addr)) (\<lambda>r.
        ret (add_spent E inp (res_ok r) s))) (bt_inputs tx) s0)"

definition extract_affected_scripthashes :: "env \<Rightarrow> string \<Rightarrow> string \<Rightarrow> string list wact" where
  "extract_affected_scripthashes E hex indexer_addr =
     extract_affected_scripthashes_opts E hex indexer_addr False"

type_synonym tx_lookup = "string \<Rightarrow> string option wact"

definition lookup_prev_tx_hex :: "env \<Rightarrow> tx_lookup \<Rightarrow> string \<Rightarrow> string option wact" where
  "lookup_prev_tx_hex E lookup txid =
     bnd (lookup txid) (\<lambda>r.
     case r of
       Some h \<Rightarrow> ret (Some h)
     | None \<Rightarrow> (case alternate_txid_format E txid of None \<Rightarrow> ret None | Some alt \<Rightarrow> lookup alt))"

definition resolve_prev_tx :: "env \<Rightarrow> string \<Rightarrow> string \<Rightarrow> tx_lookup option \<Rightarrow> btc_tx option wact" where
  "resolve_prev_tx E prev_txid indexer_addr lookup =
     bnd (case lookup of
            None \<Rightarrow> ret None
          | Some f \<Rightarrow> bnd (lookup_prev_tx_hex E f prev_txid) (\<lambda>h.
              ret (opt_bind h (\<lambda>hex. res_ok (decode_tx E hex))))) (\<lambda>known.
     case known of
       Some tx \<Rightarrow> ret (Some tx)
     | None \<Rightarrow>
         if indexer_addr = [] then ret None
         else bnd (attempt (fetch_prev_tx E prev_txid indexer_addr)) (\<lambda>r. ret (res_ok r)))"

text \<open>Scripthashes of the inputs only; \<open>budget\<close> in nanoseconds.\<close>
definition enrich_input_scripthashes ::
  "env \<Rightarrow> string \<Rightarrow> string \<Rightarrow> int \<Rightarrow> tx_lookup option \<Rightarrow> string list wact" where
  "enrich_input_scripthashes E hex indexer_addr budget lookup =
     bnd (lift_res (decode_tx E hex)) (\<lambda>tx.
     let output_sh = output_scripthash_set E tx in
     bnd (draw (\<lambda>n. instant_at E n + budget)) (\<lambda>deadline.
     for_loop (\<lambda>inp input_sh.
       bnd (draw (instant_at E)) (\<lambda>now.
       if now \<ge> deadline then ret (Break input_sh)
       else bnd (resolve_prev_tx E (electrum_txid E (in_txid inp)) indexer_addr lookup) (\<lambda>prev.
         ret (Continue (case opt_bind prev (spent_scripthash E inp) of
             None \<Rightarrow> input_sh
           | Some sh \<Rightarrow> if sh \<in> set output_sh then input_sh else set_insert sh input_sh)))))
       (bt_inputs tx) []))"

definition extract_affected_scripthashes_timed_with_lookup ::
  "env \<Rightarrow> string \<Rightarrow> string \<Rightarrow> int \<Rightarrow> tx_lookup option \<Rightarrow> string list wact" where
  "extract_affected_scripthashes_timed_with_lookup E hex indexer_addr budget lookup =
     bnd (lift_res (decode_tx E hex)) (\<lambda>tx.
     bnd (draw (\<lambda>n. instant_at E n + budget)) (\<lambda>deadline.
     for_loop (\<lambda>inp s.
       bnd (draw (instant_at E)) (\<lambda>now.
       if now \<ge> deadline then ret (Break s)
       else bnd (resolve_prev_tx E (electrum_txid E (in_txid inp)) indexer_addr lookup) (\<lambda>prev.
         ret (Continue (add_spent E inp prev s)))))
       (bt_inputs tx) (output_scripthash_set E tx)))"

definition extract_affected_scripthashes_timed :: "env \<Rightarrow> string \<Rightarrow> string \<Rightarrow> int \<Rightarrow> string list wact" where
  "extract_affected_scripthashes_timed E hex indexer_addr budget =
     extract_affected_scripthashes_timed_with_lookup E hex indexer_addr budget None"

end
