(* ===== verification/Client_Lines.thy ===== *)
theory Client_Lines
  imports Virtual_Mempool
begin

text \<open>
  How the Electrum server (\<open>src/src/electrum_server/mod.rs\<close>) reads its clients: bytes become
  lines, a line becomes JSON-RPC requests, and a line that broadcasts a transaction is found and
  taken first.  The last section shows that taking lines out of order loses none of them.
\<close>

section \<open>Lossy UTF-8 decoding\<close>

text \<open>
  \<open>String::from_utf8_lossy\<close>: each longest prefix of a character that is cut short becomes
  the replacement character U+FFFD.
\<close>

definition byte_in :: "int \<Rightarrow> int \<Rightarrow> char \<Rightarrow> bool" where
  "byte_in a b c \<longleftrightarrow> a \<le> code_of c \<and> code_of c \<le> b"

definition utf8_width :: "char \<Rightarrow> nat" where
  "utf8_width c = (if code_of c < 128 then 1 else if byte_in 0xC2 0xDF c then 2
     else if byte_in 0xE0 0xEF c then 3 else if byte_in 0xF0 0xF4 c then 4 else 0)"

definition utf8_second_ok :: "char \<Rightarrow> char \<Rightarrow> bool" where
  "utf8_second_ok b c =
     (if code_of b = 0xE0 then byte_in 0xA0 0xBF c
      else if code_of b = 0xED then byte_in 0x80 0x9F c
      else if code_of b = 0xF0 then byte_in 0x90 0xBF c
      else if code_of b = 0xF4 then byte_in 0x80 0x8F c
      else byte_in 0x80 0xBF c)"

text \<open>Whether the bytes start with a character, and the length of it or of its broken prefix.\<close>
definition utf8_chunk :: "char \<Rightarrow> bytes \<Rightarrow> bool \<times> nat" where
  "utf8_chunk b s =
     (if utf8_width b < 2 then (utf8_width b = 1, 1)
      else case s of
          [] \<Rightarrow> (False, 1)
        | c # s' \<Rightarrow>
            if utf8_second_ok b c then
              (let k = length (takeWhile (byte_in 0x80 0xBF) (take (utf8_width b - 2) s'))
               in (k = utf8_width b - 2, 2 + k))
            else (False, 1))"

definition replacement_char :: string where
  "replacement_char = map char_of [0xEF, 0xBF, 0xBD :: nat]"

function from_utf8_lossy :: "bytes \<Rightarrow> string" where
  "from_utf8_lossy [] = []"
| "from_utf8_lossy (b # s) =
     (case utf8_chunk b s of (ok, n) \<Rightarrow>
        (if ok then take n (b # s) else replacement_char) @ from_utf8_lossy (drop (n - 1) s))"
  by pat_completeness auto
termination by (relation "measure length") auto

lemma from_utf8_lossy_ascii: "list_all (\<lambda>c. code_of c < 128) s \<Longrightarrow> from_utf8_lossy s = s"
  by (induction s rule: from_utf8_lossy.induct) (simp_all add: utf8_chunk_def utf8_width_def)

section \<open>Requests\<close>

record client_request =
  rq_jsonrpc :: "string option"
  rq_method :: string
  rq_params :: "json option"
  rq_id :: json

text \<open>
  Deserialization of the struct: a string is needed for the method, the id must be there (it
  may be null), the other two may be missing or null.  Fields come by name or, in an array of
  four, by position.
\<close>

definition optional_string :: "json option \<Rightarrow> string option option" where
  "optional_string v = (case v of
       None \<Rightarrow> Some None
     | Some JNull \<Rightarrow> Some None
     | Some (JStr s) \<Rightarrow> Some (Some s)
     | Some _ \<Rightarrow> None)"

definition optional_value :: "json option \<Rightarrow> json option" where
  "optional_value v = (if v = Some JNull then None else v)"

definition request_of_fields ::
  "json option \<Rightarrow> json option \<Rightarrow> json option \<Rightarrow> json option \<Rightarrow> client_request option" where
  "request_of_fields j m p i =
     opt_bind (optional_string j) (\<lambda>jsonrpc. opt_bind (opt_bind m as_str) (\<lambda>method.
     opt_bind i (\<lambda>ident. Some \<lparr>rq_jsonrpc = jsonrpc, rq_method = method,
       rq_params = optional_value p, rq_id = ident\<rparr>)))"

definition request_of_json :: "json \<Rightarrow> client_request option" where
  "request_of_json v = (case v of
       JObj kvs \<Rightarrow> request_of_fields (map_of kvs ''jsonrpc'') (map_of kvs ''method'')
         (map_of kvs ''params'') (map_of kvs ''id'')
     | JArr [j, m, p, i] \<Rightarrow> request_of_fields (Some j) (Some m) (Some p) (Some i)
     | _ \<Rightarrow> None)"

definition request_json :: "client_request \<Rightarrow> json" where
  "request_json r = JObj [
     (''jsonrpc'', case rq_jsonrpc r of None \<Rightarrow> JNull | Some s \<Rightarrow> JStr s),
     (''method'', JStr (rq_method r)),
     (''params'', unwrap_or JNull (rq_params r)),
     (''id'', rq_id r)]"

text \<open>What the server sends upstream is what it read.\<close>
lemma request_round_trip:
  "rq_params r \<noteq> Some JNull \<Longrightarrow> request_of_json (request_json r) = Some r"
  by (cases "rq_jsonrpc r"; cases "rq_params r")
     (simp_all add: request_of_json_def request_json_def request_of_fields_def
        optional_string_def optional_value_def)

definition parse_subrequests :: "env \<Rightarrow> string \<Rightarrow> client_request list res" where
  "parse_subrequests E line = (case json_parse E (trim line) of
       None \<Rightarrow> Err [''invalid JSON'']
     | Some v \<Rightarrow> (case as_array v of
         Some items \<Rightarrow> some_or ''invalid batch item'' (those (map request_of_json items))
       | None \<Rightarrow> (case request_of_json v of
           None \<Rightarrow> Err [''invalid request''] | Some r \<Rightarrow> Ok [r])))"

definition line_is_batch :: "string \<Rightarrow> bool" where
  "line_is_batch line \<longleftrightarrow> starts_with (trim_start line) ''[''"

definition request_param :: "client_request \<Rightarrow> nat \<Rightarrow> json option" where
  "request_param r k = opt_bind (opt_bind (rq_params r) as_array) (\<lambda>xs. jidx k (JArr xs))"

definition scripthash_from_params :: "client_request \<Rightarrow> string option" where
  "scripthash_from_params r = opt_bind (request_param r 0) as_str"

section \<open>Broadcasts\<close>

definition broadcast_methods :: "string list" where
  "broadcast_methods = [''blockchain.transaction.broadcast'', ''blockchain.transaction.broadcast_package'']"

definition is_broadcast_method :: "string \<Rightarrow> bool" where
  "is_broadcast_method m \<longleftrightarrow> m \<in> set broadcast_methods"

definition line_mentions_tx_rpc :: "string \<Rightarrow> bool" where
  "line_mentions_tx_rpc line \<longleftrightarrow>
     str_contains (to_lower line) ''broadcast'' \<or> str_contains (to_lower line) ''transaction''"

definition params_first_string :: "json \<Rightarrow> string option" where
  "params_first_string params = (case params of
       JArr xs \<Rightarrow> opt_bind (jidx 0 params) as_str
     | JStr s \<Rightarrow> Some s
     | JObj kvs \<Rightarrow> (case List.map_filter (\<lambda>k. opt_bind (map_of kvs k) as_str)
           [''raw_tx'', ''tx'', ''transaction'', ''hex''] of [] \<Rightarrow> None | s # _ \<Rightarrow> Some s)
     | _ \<Rightarrow> None)"

definition json_rpc_id :: "json \<Rightarrow> json" where
  "json_rpc_id v = unwrap_or JNull (jget ''id'' v)"

definition package_hex :: "json \<Rightarrow> string option" where
  "package_hex params =
     opt_bind (opt_bind (opt_bind (as_array params) (\<lambda>xs. jidx 0 (JArr xs))) (jidx 0)) as_str"

definition extract_broadcast_from_value :: "json \<Rightarrow> (json \<times> string) option" where
  "extract_broadcast_from_value v =
     opt_bind (opt_bind (jget ''method'' v) as_str) (\<lambda>method.
     if \<not> is_broadcast_method method then None
     else opt_bind (jget ''params'' v) (\<lambda>params.
       opt_bind (if method = ''blockchain.transaction.broadcast_package'' then package_hex params
                 else params_first_string params) (\<lambda>hex. Some (json_rpc_id v, hex))))"

definition find_broadcast :: "json list \<Rightarrow> (json \<times> string) option" where
  "find_broadcast items = (case List.map_filter extract_broadcast_from_value items of
       [] \<Rightarrow> None | x # _ \<Rightarrow> Some x)"

definition extract_broadcast_hex :: "env \<Rightarrow> string \<Rightarrow> (json \<times> string) option" where
  "extract_broadcast_hex E line = opt_bind (json_parse E (trim line)) (\<lambda>v.
     case as_array v of Some items \<Rightarrow> find_broadcast items | None \<Rightarrow> extract_broadcast_from_value v)"

definition line_looks_like_broadcast :: "string \<Rightarrow> bool" where
  "line_looks_like_broadcast line \<longleftrightarrow> list_ex (str_contains line) broadcast_methods"

definition names_broadcast :: "json \<Rightarrow> bool" where
  "names_broadcast v = (case opt_bind (jget ''method'' v) as_str of
       None \<Rightarrow> False | Some m \<Rightarrow> is_broadcast_method m)"

definition line_json_rpc_id :: "env \<Rightarrow> string \<Rightarrow> json" where
  "line_json_rpc_id E line = (case json_parse E (trim line) of
       None \<Rightarrow> JNull
     | Some v \<Rightarrow> (case filter names_broadcast (unwrap_or [] (as_array v)) of
         item # _ \<Rightarrow> json_rpc_id item
       | [] \<Rightarrow> json_rpc_id v))"

section \<open>Taking a line from the buffer\<close>

abbreviation nl :: char where
  "nl \<equiv> CHR 0x0A"

text \<open>The complete lines of a buffer and what follows the last of them.\<close>
primrec split_lines :: "bytes \<Rightarrow> bytes list \<times> bytes" where
  "split_lines [] = ([], [])"
| "split_lines (c # s) = (case split_lines s of (ls, r) \<Rightarrow>
     if c = nl then ([] # ls, r)
     else case ls of [] \<Rightarrow> ([], c # r) | l # ls' \<Rightarrow> ((c # l) # ls', r))"

definition unsplit :: "bytes list \<Rightarrow> bytes \<Rightarrow> bytes" where
  "unsplit ls r = concat (map (\<lambda>l. l @ [nl]) ls) @ r"

definition is_broadcast_line :: "env \<Rightarrow> bytes \<Rightarrow> bool" where
  "is_broadcast_line E b \<longleftrightarrow> extract_broadcast_hex E (from_utf8_lossy b) \<noteq> None
     \<or> line_looks_like_broadcast (from_utf8_lossy b)"

text \<open>\<open>position(..).unwrap_or(0)\<close>.\<close>
definition pick_line :: "env \<Rightarrow> bytes list \<Rightarrow> nat" where
  "pick_line E ls = (if list_ex (is_broadcast_line E) ls
     then length (takeWhile (\<lambda>l. \<not> is_broadcast_line E l) ls) else 0)"

definition line_text :: "bytes \<Rightarrow> string" where
  "line_text b = trim_end_char (CHR 0x0D) (from_utf8_lossy b)"

text \<open>The line, its text, and the buffer with that line drained.\<close>
definition pop_client_line :: "env \<Rightarrow> bytes \<Rightarrow> ((bytes \<times> string) \<times> bytes) option" where
  "pop_client_line E buf = (case split_lines buf of (ls, r) \<Rightarrow>
     if ls = [] then None
     else let k = pick_line E ls; b = ls ! k in
       Some ((b, line_text b), unsplit (take k ls @ drop (Suc k) ls) r))"

section \<open>No line is lost\<close>

lemma split_unsplit:
  assumes "list_all (\<lambda>l. nl \<notin> set l) ls" "nl \<notin> set r"
  shows "split_lines (unsplit ls r) = (ls, r)"
proof -
  have tail: "split_lines r = ([], r)" using assms(2) by (induction r) auto
  have line: "split_lines (l @ nl # s) = (case split_lines s of (ls, r) \<Rightarrow> (l # ls, r))"
    if "nl \<notin> set l" for l s
    using that by (induction l) (auto split: prod.splits list.splits)
  show ?thesis
    using assms(1) by (induction ls) (auto simp: unsplit_def tail line)
qed

lemma unsplit_split: "split_lines buf = (ls, r) \<Longrightarrow> buf = unsplit ls r"
  by (induction buf arbitrary: ls r) (auto simp: unsplit_def split: prod.splits if_splits list.splits)

lemma split_lines_clean:
  "split_lines buf = (ls, r) \<Longrightarrow> list_all (\<lambda>l. nl \<notin> set l) ls \<and> nl \<notin> set r"
  by (induction buf arbitrary: ls r) (auto split: prod.splits if_splits list.splits)

text \<open>The loop of the connection: pop lines until none is complete.\<close>
partial_function (option) drain_lines :: "env \<Rightarrow> bytes \<Rightarrow> (bytes list \<times> bytes) option" where
  "drain_lines E buf = (case pop_client_line E buf of
       None \<Rightarrow> Some ([], buf)
     | Some ((b, text), buf') \<Rightarrow>
         Option.bind (drain_lines E buf') (\<lambda>(bs, rest). Some (b # bs, rest)))"

lemma pick_filter:
  assumes "list_ex P ls" "k = length (takeWhile (\<lambda>l. \<not> P l) ls)"
  shows "k < length ls \<and> filter P ls = ls ! k # filter P (take k ls @ drop (Suc k) ls)
    \<and> filter (\<lambda>l. \<not> P l) (take k ls @ drop (Suc k) ls) = filter (\<lambda>l. \<not> P l) ls"
  using assms by (induction ls arbitrary: k) auto

definition serving_order :: "env \<Rightarrow> bytes list \<Rightarrow> bytes list" where
  "serving_order E ls = filter (is_broadcast_line E) ls @ filter (\<lambda>l. \<not> is_broadcast_line E l) ls"

lemma serving_order_pick:
  assumes "ls \<noteq> []" "k = pick_line E ls"
  shows "k < length ls"
    "serving_order E ls = ls ! k # serving_order E (take k ls @ drop (Suc k) ls)"
proof -
  let ?P = "is_broadcast_line E"
  have "k < length ls \<and> serving_order E ls = ls ! k # serving_order E (take k ls @ drop (Suc k) ls)"
  proof (cases "list_ex ?P ls")
    case True
    then show ?thesis
      using pick_filter [OF True, of k] assms(2) by (simp add: pick_line_def serving_order_def)
  next
    case False
    then have "k = 0" "filter ?P ls = []"
      using assms(2) by (simp_all add: pick_line_def list_ex_iff filter_empty_conv)
    then show ?thesis using assms(1) False by (cases ls) (auto simp: serving_order_def)
  qed
  then show "k < length ls"
    "serving_order E ls = ls ! k # serving_order E (take k ls @ drop (Suc k) ls)" by simp_all
qed

lemma drain_unsplit:
  assumes "list_all (\<lambda>l. nl \<notin> set l) ls" "nl \<notin> set r"
  shows "drain_lines E (unsplit ls r) = Some (serving_order E ls, r)"
  using assms(1)
proof (induction "length ls" arbitrary: ls)
  case 0
  then show ?case
    using split_unsplit [of "[]" r] assms(2)
    by (subst drain_lines.simps) (simp add: pop_client_line_def serving_order_def unsplit_def)
next
  case (Suc n)
  define k where "k = pick_line E ls"
  define ls' where "ls' = take k ls @ drop (Suc k) ls"
  have ne: "ls \<noteq> []" using Suc.hyps(2) by auto
  note pick = serving_order_pick [OF ne k_def]
  have "list_all (\<lambda>l. nl \<notin> set l) ls'" "n = length ls'"
    using Suc.prems Suc.hyps(2) pick(1) by (auto simp: ls'_def list_all_iff dest: in_set_takeD in_set_dropD)
  then have rest: "drain_lines E (unsplit ls' r) = Some (serving_order E ls', r)"
    by (intro Suc.hyps(1))
  have "pop_client_line E (unsplit ls r) = Some ((ls ! k, line_text (ls ! k)), unsplit ls' r)"
    using split_unsplit [OF Suc.prems assms(2)] ne
    by (simp add: pop_client_line_def k_def ls'_def Let_def)
  then show ?case
    using rest pick(2) by (subst drain_lines.simps) (simp add: ls'_def)
qed

text \<open>
  C38: The loop that takes lines from a wallet's buffer ends, and serves every complete line
  exactly once: first the lines that broadcast a transaction, then the others, each group in
  the order it arrived.  What follows the last line break stays in the buffer.
\<close>
theorem broadcast_lines_first:
  "drain_lines E buf = (case split_lines buf of (ls, r) \<Rightarrow>
     Some (filter (is_broadcast_line E) ls @ filter (\<lambda>l. \<not> is_broadcast_line E l) ls, r))"
proof -
  obtain ls r where s: "split_lines buf = (ls, r)" by (cases "split_lines buf")
  then have "list_all (\<lambda>l. nl \<notin> set l) ls" "nl \<notin> set r" using split_lines_clean by blast+
  then show ?thesis
    using drain_unsplit [of ls r E] unsplit_split [OF s] s by (simp add: serving_order_def)
qed

end
