(* ===== verification/Virtual_Headers.thy ===== *)
theory Virtual_Headers
  imports Virtual_Mempool Sample
begin

text \<open>
  \<open>src/src/electrum_server/virtual_headers.rs\<close>: block headers above the real tip for the Liana
  wallet, and what makes them acceptable to a client that follows \<open>prev_blockhash\<close>: they are
  linked to the real tip and to each other.
\<close>

section \<open>Fabrication\<close>

definition secs_per_block :: u32 where
  "secs_per_block = 600"

definition decode_header :: "env \<Rightarrow> string \<Rightarrow> btc_header res" where
  "decode_header E hex = (case hex_decode E (trim hex) of
       None \<Rightarrow> Err [''virtual_headers: bad hex'', ''hex'']
     | Some b \<Rightarrow> (case header_decode E b of
         Some (h, []) \<Rightarrow> Ok h
       | _ \<Rightarrow> Err [''virtual_headers: not an 80-byte header'', ''consensus'']))"

text \<open>The header \<open>steps\<close> above the tip, on top of the block \<open>prev\<close>.\<close>
definition virtual_header :: "btc_header \<Rightarrow> bytes \<Rightarrow> u64 \<Rightarrow> btc_header" where
  "virtual_header tip prev steps = \<lparr>bh_version = bh_version tip, bh_prev = prev,
     bh_merkle = replicate 32 (CHR 0x00),
     bh_time = sat_add (bh_time tip) (sat_mul secs_per_block (ucast steps)),
     bh_bits = bh_bits tip, bh_nonce = 0\<rparr>"

text \<open>The loop: \<open>n\<close> more headers after the first \<open>steps\<close>.\<close>
primrec headers_above ::
  "env \<Rightarrow> btc_header \<Rightarrow> u64 \<Rightarrow> bytes \<Rightarrow> u64 \<Rightarrow> nat \<Rightarrow> (u64 \<times> btc_header) list" where
  "headers_above E tip height prev steps 0 = []"
| "headers_above E tip height prev steps (Suc n) =
     (let h = virtual_header tip prev (steps + 1)
      in (height + (steps + 1), h)
           # headers_above E tip height (header_block_hash E h) (steps + 1) n)"

definition header_hex :: "env \<Rightarrow> btc_header \<Rightarrow> string" where
  "header_hex E h = hex_encode E (header_encode E h)"

text \<open>A pair of a height and a string takes 32 bytes; a vector holds at most \<open>isize::MAX\<close> bytes.\<close>
definition capacity_ok :: "u64 \<Rightarrow> bool" where
  "capacity_ok n \<longleftrightarrow> uint n * 32 \<le> 2 ^ 63 - 1"

definition fabricate_headers :: "env \<Rightarrow> u64 \<Rightarrow> string \<Rightarrow> u64 \<Rightarrow> (u64 \<times> string) list res" where
  "fabricate_headers E height tip_hex up_to =
     (if up_to \<le> height then Ok []
      else res_bind (decode_header E tip_hex) (\<lambda>tip.
        if \<not> capacity_ok (up_to - height) then Panic ''capacity overflow''
        else Ok (map (\<lambda>(k, h). (k, header_hex E h))
          (headers_above E tip height (header_block_hash E tip) 0 (nat (uint (up_to - height)))))))"

definition header_hex_at :: "env \<Rightarrow> u64 \<Rightarrow> string \<Rightarrow> u64 \<Rightarrow> (string option) res" where
  "header_hex_at E height tip_hex target =
     (if target \<le> height then Ok None
      else res_bind (fabricate_headers E height tip_hex target) (\<lambda>hs.
        Ok (if hs = [] then None else Some (snd (last hs)))))"

section \<open>The chain they form\<close>

text \<open>The header starts on top of \<open>prev\<close>, and each next one on top of the one before.\<close>
primrec linked :: "env \<Rightarrow> bytes \<Rightarrow> btc_header list \<Rightarrow> bool" where
  "linked E prev [] \<longleftrightarrow> True"
| "linked E prev (h # hs) \<longleftrightarrow> bh_prev h = prev \<and> linked E (header_block_hash E h) hs"

lemma headers_above_linked: "linked E prev (map snd (headers_above E tip height prev steps n))"
  by (induction n arbitrary: prev steps) (simp_all add: Let_def virtual_header_def)

lemma length_headers_above [simp]: "length (headers_above E tip height prev steps n) = n"
  by (induction n arbitrary: prev steps) (simp_all add: Let_def)

lemma headers_above_nth:
  assumes "k < n"
  shows "fst (headers_above E tip height prev steps n ! k) = height + (steps + of_nat (Suc k))
    \<and> (\<exists>p. snd (headers_above E tip height prev steps n ! k) = virtual_header tip p (steps + of_nat (Suc k)))"
  using assms
proof (induction n arbitrary: prev steps k)
  case (Suc n)
  show ?case
  proof (cases k)
    case (Suc j)
    then show ?thesis
      using Suc.IH [of j "header_block_hash E (virtual_header tip prev (steps + 1))" "steps + 1"]
        Suc.prems by (simp add: Let_def algebra_simps)
  qed (auto simp: Let_def)
qed simp

text \<open>A header as the decoder produces it: both hashes have 32 bytes.\<close>
definition header_wf :: "btc_header \<Rightarrow> bool" where
  "header_wf h \<longleftrightarrow> length (bh_prev h) = 32 \<and> length (bh_merkle h) = 32
     \<and> - (2 ^ 31) \<le> bh_version h \<and> bh_version h < 2 ^ 31"

text \<open>
  What the bitcoin crate promises: encoding inverts decoding, decoded headers are well formed,
  block hashes have 32 bytes.
\<close>
definition header_codec :: "env \<Rightarrow> bool" where
  "header_codec E \<longleftrightarrow>
     (\<forall>h. header_wf h \<longrightarrow> header_decode E (header_encode E h) = Some (h, []))
     \<and> (\<forall>b h r. header_decode E b = Some (h, r) \<longrightarrow> header_wf h)
     \<and> (\<forall>h. length (header_block_hash E h) = 32)"

lemma virtual_header_wf:
  "header_wf tip \<Longrightarrow> length prev = 32 \<Longrightarrow> header_wf (virtual_header tip prev steps)"
  by (simp add: header_wf_def virtual_header_def)

lemma headers_above_wf:
  assumes "header_wf tip" "\<And>h. length (header_block_hash E h) = 32" "length prev = 32"
  shows "list_all (\<lambda>p. header_wf (snd p)) (headers_above E tip height prev steps n)"
  using assms by (induction n arbitrary: prev steps) (simp_all add: Let_def virtual_header_wf)

lemma decode_header_hex:
  assumes "header_codec E" "hex_inverts E" "hex_canonical E" "header_wf h"
  shows "decode_header E (header_hex E h) = Ok h"
  using assms
  by (simp add: decode_header_def header_hex_def header_codec_def hex_inverts_def hex_canonical_def)

lemma decode_header_wf: "header_codec E \<Longrightarrow> decode_header E s = Ok h \<Longrightarrow> header_wf h"
  by (auto simp: decode_header_def header_codec_def split: option.splits prod.splits list.splits)

lemma virtual_header_time:
  assumes "Suc k < 2 ^ 32"
  shows "uint (bh_time (virtual_header tip p (of_nat (Suc k))))
    = min (uint (bh_time tip) + 600 * int (Suc k)) (2 ^ 32 - 1)"
proof -
  have k: "int (Suc k) < 2 ^ 32" using assms by (simp del: of_nat_Suc)
  have "uint (of_nat (Suc k) :: u64) = int (Suc k)"
    using k uint_of_int_bounded [of "int (Suc k)", where 'a = 64] by simp
  then have "uint (ucast (of_nat (Suc k) :: u64) :: u32) = int (Suc k)"
    using k by (simp add: unsigned_ucast_eq take_bit_eq_mod del: of_nat_Suc)
  moreover have "min (t + min b m) m = min (t + b) m" if "0 \<le> t" for t b m :: int
    using that by (simp add: min_def)
  ultimately show ?thesis
    by (simp add: virtual_header_def uint_sat_add uint_sat_mul secs_per_block_def del: of_nat_Suc)
qed

lemma height_above:
  fixes height up_to :: u64
  assumes "height < up_to" "k < nat (uint (up_to - height))"
  shows "uint (height + of_nat (Suc k)) = uint height + int (Suc k)"
proof -
  have "uint (up_to - height) = uint up_to - uint height"
    using assms(1) by (simp add: uint_sub_if_size word_less_def)
  then have "uint height + int (Suc k) \<le> uint up_to" using assms(2) by linarith
  moreover have "uint up_to < 2 ^ 64" using uint_lt2p [of up_to] by simp
  ultimately have b: "uint height + int (Suc k) < 2 ^ 64" "int (Suc k) < 2 ^ 64"
    using uint_ge_0 [of height] by linarith+
  then have "uint (of_nat (Suc k) :: u64) = int (Suc k)"
    using uint_of_int_bounded [of "int (Suc k)", where 'a = 64] by simp
  then show ?thesis using b(1) by (simp add: uint_plus_if_size word_size del: of_nat_Suc)
qed

text \<open>What the header at height \<open>height + k\<close> is.\<close>
definition extends_tip :: "btc_header \<Rightarrow> nat \<Rightarrow> btc_header \<Rightarrow> bool" where
  "extends_tip tip k h \<longleftrightarrow> bh_version h = bh_version tip \<and> bh_bits h = bh_bits tip
     \<and> (k < 2 ^ 32 \<longrightarrow> uint (bh_time h) = min (uint (bh_time tip) + 600 * int k) (2 ^ 32 - 1))"

lemma extends_virtual: "extends_tip tip (Suc k) (virtual_header tip p (of_nat (Suc k)))"
  unfolding extends_tip_def using virtual_header_time by (simp add: virtual_header_def del: of_nat_Suc)

text \<open>
  C23: Fabricated headers form a chain on the real tip.  There is one for each height up to the
  target, in order; read back, each names the block hash of the one below it as its parent (the
  first names the real tip), copies the version and the difficulty of the tip, and its time lies
  ten minutes further, up to the largest time a header can hold.
\<close>
theorem fabricated_headers_chain:
  assumes "header_codec E" "hex_inverts E" "hex_canonical E"
    and tip: "decode_header E tip_hex = Ok tip"
    and fab: "fabricate_headers E height tip_hex up_to = Ok hs" and lt: "height < up_to"
  shows "length hs = nat (uint (up_to - height))
    \<and> (\<exists>chain. map (\<lambda>p. decode_header E (snd p)) hs = map Ok chain
        \<and> linked E (header_block_hash E tip) chain
        \<and> (\<forall>k < length hs. uint (fst (hs ! k)) = uint height + int (Suc k)
            \<and> extends_tip tip (Suc k) (chain ! k)))"
proof -
  define n where "n = nat (uint (up_to - height))"
  define hc where "hc = headers_above E tip height (header_block_hash E tip) 0 n"
  have hs: "hs = map (\<lambda>p. (fst p, header_hex E (snd p))) hc"
    using fab tip lt by (auto simp: fabricate_headers_def hc_def n_def case_prod_beta split: if_splits)
  have len: "length hs = n" "length hc = n" by (simp_all add: hs hc_def)
  have "list_all (\<lambda>p. header_wf (snd p)) hc"
    unfolding hc_def
    using headers_above_wf decode_header_wf [OF assms(1) tip] assms(1) by (auto simp: header_codec_def)
  then have dec: "map (\<lambda>p. decode_header E (snd p)) hs = map Ok (map snd hc)"
    using decode_header_hex [OF assms(1-3)] by (auto simp: hs list_all_iff)
  have lnk: "linked E (header_block_hash E tip) (map snd hc)"
    by (simp add: hc_def headers_above_linked)
  have "uint (fst (hs ! k)) = uint height + int (Suc k) \<and> extends_tip tip (Suc k) (map snd hc ! k)"
    if kn: "k < length hs" for k
  proof -
    obtain p where p: "fst (hc ! k) = height + of_nat (Suc k)"
      "snd (hc ! k) = virtual_header tip p (of_nat (Suc k))"
      using headers_above_nth [of k n E tip height "header_block_hash E tip" 0] kn len
      by (auto simp: hc_def)
    then show ?thesis
      using height_above [OF lt, of k] extends_virtual kn len by (simp add: hs n_def del: of_nat_Suc)
  qed
  then show ?thesis
    using len(1) dec lnk by (intro conjI exI [of _ "map snd hc"]) (simp_all add: n_def)
qed

section \<open>A sample codec\<close>

text \<open>The two hashes, then the four numbers in four bytes each.\<close>
definition bytes_be4 :: "int \<Rightarrow> bytes" where
  "bytes_be4 v = map char_of [v div 256 div 256 div 256, v div 256 div 256, v div 256, v]"

definition int_be4 :: "bytes \<Rightarrow> int" where
  "int_be4 b = foldl (\<lambda>v c. v * 256 + code_of c) 0 b"

definition header_bytes :: "btc_header \<Rightarrow> bytes" where
  "header_bytes h = bh_prev h @ bh_merkle h @ bytes_be4 (bh_version h + 2 ^ 31)
     @ bytes_be4 (uint (bh_time h)) @ bytes_be4 (uint (bh_bits h)) @ bytes_be4 (uint (bh_nonce h))"

definition bytes_header :: "bytes \<Rightarrow> (btc_header \<times> bytes) option" where
  "bytes_header b = (if length b < 80 then None
     else Some (\<lparr>bh_version = int_be4 (take 4 (drop 64 b)) - 2 ^ 31, bh_prev = take 32 b,
       bh_merkle = take 32 (drop 32 b), bh_time = of_int (int_be4 (take 4 (drop 68 b))),
       bh_bits = of_int (int_be4 (take 4 (drop 72 b))), bh_nonce = of_int (int_be4 (take 4 (drop 76 b)))\<rparr>,
       drop 80 b))"

definition env_headers :: env where
  "env_headers = env0\<lparr>header_encode := header_bytes, header_decode := bytes_header,
     header_block_hash := (\<lambda>h. replicate 31 (CHR 0x00) @ [char_of (uint (bh_time h) mod 256)])\<rparr>"

lemma length_bytes_be4 [simp]: "length (bytes_be4 v) = 4"
  by (simp add: bytes_be4_def)

lemma code_of_char_of: "code_of (char_of v) = v mod 256"
  by (simp add: code_of_def)

lemma int_bytes_be4:
  assumes "0 \<le> v" "v < 2 ^ 32"
  shows "int_be4 (bytes_be4 v) = v"
proof -
  define a where "a = v div 256"
  define b where "b = a div 256"
  define c where "c = b div 256"
  have c: "c mod 256 = c" using assms by (simp add: a_def b_def c_def)
  have "bytes_be4 v = map char_of [c, b, a, v]" by (simp only: bytes_be4_def a_def b_def c_def)
  then have "int_be4 (bytes_be4 v) = ((c * 256 + b mod 256) * 256 + a mod 256) * 256 + v mod 256"
    by (simp add: int_be4_def code_of_char_of c del: mod_mod_trivial)
  also have "\<dots> = (b * 256 + a mod 256) * 256 + v mod 256" by (simp add: c_def)
  also have "\<dots> = a * 256 + v mod 256" by (simp add: b_def)
  also have "\<dots> = v" by (simp add: a_def)
  finally show ?thesis .
qed

lemma int_be4_bounds:
  assumes "length b = 4"
  shows "0 \<le> int_be4 b \<and> int_be4 b < 2 ^ 32"
proof -
  obtain c d e f where b: "b = [c, d, e, f]" using assms by (auto simp: length_Suc_conv numeral_eq_Suc)
  have "code_of x \<le> 255" for x using code_of_bounds(2) [of x] by linarith
  from this [of c] this [of d] this [of e] this [of f] have
    "((code_of c * 256 + code_of d) * 256 + code_of e) * 256 + code_of f < 2 ^ 32" by simp
  then show ?thesis by (simp add: b int_be4_def)
qed

lemma env_headers_codec: "header_codec env_headers"
proof -
  have word4: "of_int (int_be4 (bytes_be4 (uint w))) = w" for w :: u32
    using uint_lt2p [of w] by (simp add: int_bytes_be4)
  have "bytes_header (header_bytes h) = Some (h, [])" if "header_wf h" for h
    using that word4 int_bytes_be4 [of "bh_version h + 2 ^ 31"]
    by (simp add: header_wf_def header_bytes_def bytes_header_def)
  moreover have "header_wf h" if "bytes_header b = Some (h, r)" for b h r
    using that int_be4_bounds [of "take 4 (drop 64 b)"]
    by (auto simp: header_wf_def bytes_header_def split: if_splits)
  ultimately show ?thesis by (simp add: header_codec_def env_headers_def)
qed

definition tip0 :: btc_header where
  "tip0 = \<lparr>bh_version = 1, bh_prev = replicate 32 (CHR 0x01), bh_merkle = replicate 32 (CHR 0x02),
     bh_time = 77, bh_bits = 7, bh_nonce = 9\<rparr>"

theorem fabricated_headers_chain_witness:
  "let hs = [(5, header_hex env_headers (virtual_header tip0 (header_block_hash env_headers tip0) 1))]
   in length hs = nat (uint (5 - 4 :: u64))
    \<and> (\<exists>chain. map (\<lambda>p. decode_header env_headers (snd p)) hs = map Ok chain
        \<and> linked env_headers (header_block_hash env_headers tip0) chain
        \<and> (\<forall>k < length hs. uint (fst (hs ! k) :: u64) = uint (4 :: u64) + int (Suc k)
            \<and> extends_tip tip0 (Suc k) (chain ! k)))"
proof -
  have e: "hex_inverts env_headers" "hex_canonical env_headers"
    using env0_laws(3) env0_canonical
    by (simp_all add: hex_inverts_def hex_canonical_def env_headers_def)
  have wf: "header_wf tip0" by (simp add: header_wf_def tip0_def)
  have tip: "decode_header env_headers (header_hex env_headers tip0) = Ok tip0"
    by (rule decode_header_hex [OF env_headers_codec e wf])
  have fab: "fabricate_headers env_headers 4 (header_hex env_headers tip0) 5
      = Ok [(5, header_hex env_headers (virtual_header tip0 (header_block_hash env_headers tip0) 1))]"
    by (simp add: fabricate_headers_def tip capacity_ok_def Let_def)
  show ?thesis
    unfolding Let_def by (rule fabricated_headers_chain [OF env_headers_codec e tip fab]) simp
qed

end
