(* ===== verification/Discovery.thy ===== *)
theory Discovery
  imports Node_Rpc
begin

text \<open>
  The probing part of \<open>src/src/discovery.rs\<close>: which URL is accepted as the indexer,
  in which order hosts are tried, and how the result gets into the configuration.  Open
  ports and the machine's addresses are the environment's.
\<close>

section \<open>The machine's address\<close>

definition lan_env_ip :: "env \<Rightarrow> string option" where
  "lan_env_ip E = opt_bind (env_var E ''BROADCAST_POOL_LAN_IP'') (\<lambda>v.
     let ip = trim v in if ip \<noteq> [] \<and> is_plausible_lan_ip ip then Some ip else None)"

definition usable_lan_ip :: "string \<Rightarrow> string option" where
  "usable_lan_ip ip =
     (if is_plausible_lan_ip ip \<and> \<not> is_likely_docker_bridge ip then Some ip else None)"

definition udp_targets :: "string list" where
  "udp_targets = [''192.168.1.1:1'', ''192.168.50.1:1'', ''10.0.0.1:1'', ''8.8.8.8:80'']"

definition detect_lan_ip :: "env \<Rightarrow> string option wact" where
  "detect_lan_ip E = (case lan_env_ip E of
       Some ip \<Rightarrow> ret (Some ip)
     | None \<Rightarrow>
         bnd (draw (route_ip_at E)) (\<lambda>route.
         case opt_bind (map_option trim route) usable_lan_ip of
           Some ip \<Rightarrow> ret (Some ip)
         | None \<Rightarrow>
             for_loop (\<lambda>target none.
               bnd (draw (\<lambda>n. udp_ip_at E n target)) (\<lambda>ip.
               ret (case opt_bind ip usable_lan_ip of None \<Rightarrow> Continue None | Some h \<Rightarrow> Break (Some h))))
               udp_targets None))"

definition resolve_lan_host :: "env \<Rightarrow> config \<Rightarrow> string option wact" where
  "resolve_lan_host E c = (case map_option trim (lan_connect_host (cf_electrum c)) of
       Some h \<Rightarrow> if h \<noteq> [] \<and> \<not> is_likely_docker_bridge h then ret (Some h) else detect_lan_ip E
     | None \<Rightarrow> detect_lan_ip E)"

definition wallet_connect_url :: "env \<Rightarrow> config \<Rightarrow> u16 \<Rightarrow> string wact" where
  "wallet_connect_url E c port =
     bnd (resolve_lan_host E c) (\<lambda>h. ret (unwrap_or ''<LAN_IP>'' h @ '':'' @ show_u16 port))"

definition apply_lan_ip :: "env \<Rightarrow> config \<Rightarrow> config wact" where
  "apply_lan_ip E c =
     (if (case lan_connect_host (cf_electrum c) of None \<Rightarrow> False | Some h \<Rightarrow> trim h \<noteq> []) then ret c
      else bnd (detect_lan_ip E) (\<lambda>r.
        ret (case r of None \<Rightarrow> c
          | Some ip \<Rightarrow> c\<lparr>cf_electrum := (cf_electrum c)\<lparr>lan_connect_host := Some ip\<rparr>\<rparr>)))"

section \<open>Probing\<close>

datatype probe_outcome = TcpRefused | RpcFailed | GenesisMismatch | ProbeOk

datatype host_probe_failure = HostTcpRefused | HostGenesisMismatch

definition tcp_port_open :: "env \<Rightarrow> string \<Rightarrow> u16 \<Rightarrow> bool wact" where
  "tcp_port_open E host port = draw (\<lambda>n. tcp_open_at E n host port)"

definition tcp_reachable_from_url :: "env \<Rightarrow> string \<Rightarrow> bool wact" where
  "tcp_reachable_from_url E url = (case host_port (trim (strip_indexer_scheme url)) of
       None \<Rightarrow> ret False
     | Some (host, port) \<Rightarrow> tcp_port_open E host port)"

definition probe_indexer_url :: "env \<Rightarrow> string \<Rightarrow> network_type \<Rightarrow> probe_outcome wact" where
  "probe_indexer_url E url net =
     bnd (tcp_reachable_from_url E url) (\<lambda>tcp.
     if \<not> tcp then ret TcpRefused
     else bnd (probe_working_url E [url]) (\<lambda>p.
       if p = None then ret RpcFailed
       else bnd (genesis_matches_network_at_url E url net) (\<lambda>g.
         ret (if g then ProbeOk else GenesisMismatch))))"

definition indexer_matches_network :: "env \<Rightarrow> string \<Rightarrow> network_type \<Rightarrow> bool wact" where
  "indexer_matches_network E url net =
     bnd (tcp_reachable_from_url E url) (\<lambda>tcp.
     if \<not> tcp then ret False
     else bnd (probe_working_url E [url]) (\<lambda>p.
       if p = None then ret False
       else genesis_matches_network_at_url E url net))"

text \<open>One URL of \<open>try_host\<close>: the URL found so far, and whether a genesis hash differed.\<close>
definition try_url :: "env \<Rightarrow> network_type \<Rightarrow> string \<Rightarrow> string option \<times> bool
    \<Rightarrow> (world, (string option \<times> bool) flow) act" where
  "try_url E net url acc =
     bnd (probe_indexer_url E url net) (\<lambda>outcome.
     ret (case outcome of
         ProbeOk \<Rightarrow> Break (Some url, snd acc)
       | GenesisMismatch \<Rightarrow> Continue (None, True)
       | _ \<Rightarrow> Continue acc))"

definition try_host :: "env \<Rightarrow> network_type \<Rightarrow> string \<Rightarrow> u16 list \<Rightarrow> (host_probe_failure + string) wact" where
  "try_host E net host ports =
     bnd (for_loop (try_url E net) (candidate_urls_for_host E host ports) (None, False)) (\<lambda>(found, mismatch).
     ret (case found of
         Some url \<Rightarrow> Inr url
       | None \<Rightarrow> Inl (if mismatch then HostGenesisMismatch else HostTcpRefused)))"

definition host_found :: "(host_probe_failure + string) \<Rightarrow> string option" where
  "host_found r = (case r of Inl e \<Rightarrow> None | Inr url \<Rightarrow> Some url)"

definition try_hosts_ports :: "env \<Rightarrow> network_type \<Rightarrow> string list \<Rightarrow> u16 list \<Rightarrow> string option wact" where
  "try_hosts_ports E net hosts ports =
     for_loop (\<lambda>host found.
       bnd (try_host E net host ports) (\<lambda>r.
       ret (case r of Inr url \<Rightarrow> Break (Some url) | Inl e \<Rightarrow> Continue None))) hosts None"

definition try_host_port :: "env \<Rightarrow> network_type \<Rightarrow> string \<Rightarrow> string option wact" where
  "try_host_port E net bare = (case host_port bare of
       None \<Rightarrow> ret None
     | Some (host, port) \<Rightarrow> bnd (try_host E net (trim host) [port]) (\<lambda>r. ret (host_found r)))"

definition resolve_working_indexer_url :: "env \<Rightarrow> string \<Rightarrow> network_type \<Rightarrow> string option wact" where
  "resolve_working_indexer_url E raw net =
     (let t = trim raw in
      if t = [] then ret None
      else if has_scheme t then
        bnd (indexer_matches_network E t net) (\<lambda>ok.
        if ok then ret (Some t) else try_host_port E net (strip_indexer_scheme t))
      else try_host_port E net t)"

section \<open>Where to look\<close>

definition indexer_host_candidates :: "env \<Rightarrow> config \<Rightarrow> string list wact" where
  "indexer_host_candidates E c =
     (if is_umbrel_mode E then ret (umbrel_indexer_hosts E)
      else
        let hosts = (case env_var E ''APP_ELECTRS_NODE_IP'' of None \<Rightarrow> [] | Some h \<Rightarrow> push_unique [] (trim h));
            hosts = (case opt_bind (cf_indexer c) (\<lambda>i. extract_indexer_host (ix_url i)) of
                       None \<Rightarrow> hosts | Some h \<Rightarrow> push_unique hosts h);
            hosts = push_unique hosts ''127.0.0.1''
        in bnd (detect_lan_ip E) (\<lambda>lan.
           ret (case lan of None \<Rightarrow> hosts | Some ip \<Rightarrow> push_unique hosts ip)))"

definition umbrel_env_keys :: "env \<Rightarrow> string list" where
  "umbrel_env_keys E =
     (if umbrel_electrs_ssl_configured E \<or> env_nonempty E ''BROADCAST_POOL_UMBREL_ELECTRS_SSL'' \<noteq> None
      then [''BROADCAST_POOL_UMBREL_ELECTRS_TCP'', ''BROADCAST_POOL_UMBREL_ELECTRS_SSL'',
            ''BROADCAST_POOL_INDEXER_URL'']
      else [''BROADCAST_POOL_UMBREL_ELECTRS_TCP'', ''BROADCAST_POOL_INDEXER_URL''])"

definition discover_umbrel_node_indexer :: "env \<Rightarrow> network_type \<Rightarrow> string option wact" where
  "discover_umbrel_node_indexer E net =
     bnd (for_loop (\<lambda>k found. case env_nonempty E k of
         None \<Rightarrow> ret (Continue None)
       | Some raw \<Rightarrow> bnd (resolve_working_indexer_url E raw net) (\<lambda>r.
           ret (case r of None \<Rightarrow> Continue None | Some url \<Rightarrow> Break (Some url))))
       (umbrel_env_keys E) None) (\<lambda>found.
     if found \<noteq> None then ret found
     else if umbrel_indexer_hosts E = [] then ret None
     else try_hosts_ports E net (umbrel_indexer_hosts E) (umbrel_indexer_ports E))"

definition lan_subnets_to_scan :: "env \<Rightarrow> config \<Rightarrow> string list wact" where
  "lan_subnets_to_scan E c =
     (let add = (\<lambda>ps ip. case opt_bind ip lan_subnet_prefix of None \<Rightarrow> ps | Some p \<Rightarrow> push_unique ps p);
          ps = add [] (map_option trim (env_var E ''BROADCAST_POOL_LAN_IP''));
          ps = add ps (opt_bind (cf_indexer c) (\<lambda>i. extract_indexer_host (ix_url i)))
      in bnd (detect_lan_ip E) (\<lambda>ip.
         ret (add ps (opt_bind ip (\<lambda>h. if is_likely_docker_bridge h then None else Some h)))))"

definition subnet_host :: "string \<Rightarrow> int \<Rightarrow> string" where
  "subnet_host prefix_ip n = prefix_ip @ ''.'' @ show_int n"

definition lan_subnet_hosts :: "string \<Rightarrow> string list" where
  "lan_subnet_hosts ip = (case lan_subnet_prefix ip of
       None \<Rightarrow> []
     | Some p \<Rightarrow> filter (\<lambda>h. h \<noteq> ip) (map (subnet_host p) [1..254]))"

text \<open>\<open>ports.iter().any(..)\<close>: stops at the first open port.\<close>
primrec any_port_open :: "env \<Rightarrow> string \<Rightarrow> u16 list \<Rightarrow> bool wact" where
  "any_port_open E host [] = ret False"
| "any_port_open E host (p # ps) =
     bnd (tcp_port_open E host p) (\<lambda>b. if b then ret True else any_port_open E host ps)"

definition hosts_with_open_ports_on :: "env \<Rightarrow> string \<Rightarrow> u16 list \<Rightarrow> string list wact" where
  "hosts_with_open_ports_on E p ports =
     for_each (\<lambda>n found. bnd (any_port_open E (subnet_host p n) ports) (\<lambda>b.
       ret (if b then found @ [subnet_host p n] else found))) [1..254] []"

definition scan_subnet_for_indexer :: "env \<Rightarrow> network_type \<Rightarrow> string \<Rightarrow> u16 list \<Rightarrow> string option wact" where
  "scan_subnet_for_indexer E net p ports =
     bnd (hosts_with_open_ports_on E p ports) (\<lambda>hosts. try_hosts_ports E net hosts ports)"

definition broader_port_range :: "u16 list" where
  "broader_port_range = map of_int [50000..50010]"

definition hosts_with_broader_ports_subnet :: "env \<Rightarrow> string \<Rightarrow> string list wact" where
  "hosts_with_broader_ports_subnet E p =
     for_each (\<lambda>n found. bnd (any_port_open E (subnet_host p n) broader_port_range) (\<lambda>b.
       ret (if b then push_unique found (subnet_host p n) else found))) [1..254] []"

text \<open>The first prefix for which \<open>f\<close> finds a URL.\<close>
definition first_found :: "('a \<Rightarrow> string option wact) \<Rightarrow> 'a list \<Rightarrow> string option wact" where
  "first_found f xs = for_loop (\<lambda>x found. bnd (f x) (\<lambda>r.
     ret (case r of None \<Rightarrow> Continue None | Some url \<Rightarrow> Break (Some url)))) xs None"

definition scan_broader :: "env \<Rightarrow> network_type \<Rightarrow> string \<Rightarrow> string option wact" where
  "scan_broader E net p =
     bnd (hosts_with_broader_ports_subnet E p) (\<lambda>hosts. try_hosts_ports E net hosts broader_port_range)"

definition discover_indexer_url :: "env \<Rightarrow> network_type \<Rightarrow> config \<Rightarrow> string option wact" where
  "discover_indexer_url E net c =
     (if is_umbrel_mode E then discover_umbrel_node_indexer E net
      else
        bnd (indexer_host_candidates E c) (\<lambda>hosts.
        bnd (try_hosts_ports E net hosts (indexer_ports_to_try E)) (\<lambda>found.
        if found \<noteq> None then ret found
        else
          bnd (lan_subnets_to_scan E c) (\<lambda>subnets.
          bnd (first_found (\<lambda>p. scan_subnet_for_indexer E net p (indexer_ports_to_try E)) subnets) (\<lambda>found.
          if found \<noteq> None then ret found
          else first_found (scan_broader E net) subnets)))))"

section \<open>Into the configuration\<close>

definition set_indexer_url :: "string \<Rightarrow> bool \<Rightarrow> config \<Rightarrow> config" where
  "set_indexer_url url manual c = c\<lparr>cf_indexer := Some \<lparr>ix_url = url, manual_override = manual\<rparr>\<rparr>"

definition is_manual :: "config \<Rightarrow> bool" where
  "is_manual c = (case cf_indexer c of None \<Rightarrow> False | Some i \<Rightarrow> manual_override i)"

text \<open>What was changed, and the configuration.\<close>
definition clear_mistaken_umbrel_lan_override :: "env \<Rightarrow> config \<Rightarrow> bool \<times> config" where
  "clear_mistaken_umbrel_lan_override E c =
     (case opt_bind (cf_indexer c) (\<lambda>i. extract_indexer_host (ix_url i)) of
        None \<Rightarrow> (False, c)
      | Some h \<Rightarrow> if is_mistaken_umbrel_lan_override E h then (True, c\<lparr>cf_indexer := None\<rparr>) else (False, c))"

definition sanitize_umbrel_indexer_config :: "env \<Rightarrow> config \<Rightarrow> bool \<times> config" where
  "sanitize_umbrel_indexer_config E c =
     (if \<not> is_umbrel_mode E then (False, c)
      else case clear_mistaken_umbrel_lan_override E c of (changed, c1) \<Rightarrow>
        if is_manual c1 then (True, c1\<lparr>cf_indexer := None\<rparr>) else (changed, c1))"

definition umbrel_discovery_cooldown :: int where
  "umbrel_discovery_cooldown = secs 45"

definition discover_umbrel_if_needed :: "env \<Rightarrow> config \<Rightarrow> bool \<Rightarrow> (bool \<times> config) wact" where
  "discover_umbrel_if_needed E c force =
     (if \<not> is_umbrel_mode E then ret (False, c)
      else case sanitize_umbrel_indexer_config E c of (changed, c1) \<Rightarrow>
        if cf_indexer c1 \<noteq> None then ret (changed, c1)
        else
          bnd (gets w_umbrel_discovery) (\<lambda>last.
          bnd (draw (instant_at E)) (\<lambda>now.
          if \<not> force \<and> (case last of None \<Rightarrow> False | Some t \<Rightarrow> now - t < umbrel_discovery_cooldown)
          then ret (changed, c1)
          else
            bnd (discover_umbrel_node_indexer E (network_type (cf_network c1))) (\<lambda>found.
            bnd (draw (instant_at E)) (\<lambda>t.
            bnd (modify (\<lambda>w. w\<lparr>w_umbrel_discovery := Some t\<rparr>)) (\<lambda>_.
            ret (case found of
                None \<Rightarrow> (changed, c1)
              | Some url \<Rightarrow> (True, set_indexer_url url False c1))))))))"

definition heal_umbrel_indexer_config :: "env \<Rightarrow> config \<Rightarrow> (bool \<times> config) wact" where
  "heal_umbrel_indexer_config E c = discover_umbrel_if_needed E c True"

text \<open>The last part of \<open>apply_indexer_discovery\<close>: after the manual URL failed, or there is none.\<close>
definition discover_or_validate :: "env \<Rightarrow> network_type \<Rightarrow> config \<Rightarrow> (bool \<times> config) wact" where
  "discover_or_validate E net c =
     bnd (discover_indexer_url E net c) (\<lambda>found.
     case found of
       Some url \<Rightarrow> ret (True, set_indexer_url url False c)
     | None \<Rightarrow> (case cf_indexer c of
         None \<Rightarrow> ret (False, c)
       | Some i \<Rightarrow>
           if manual_override i then ret (False, c)
           else bnd (resolve_working_indexer_url E (ix_url i) net) (\<lambda>r.
             case r of
               Some url \<Rightarrow> ret (True, set_indexer_url url False c)
             | None \<Rightarrow> bnd (discover_indexer_url E net c) (\<lambda>again.
                 ret (case again of
                     None \<Rightarrow> (False, c)
                   | Some url \<Rightarrow> (True, set_indexer_url url False c))))))"

definition validate_manual :: "env \<Rightarrow> network_type \<Rightarrow> config \<Rightarrow> (bool \<times> config) wact" where
  "validate_manual E net c = (case cf_indexer c of
       Some i \<Rightarrow>
         if manual_override i then
           bnd (resolve_working_indexer_url E (ix_url i) net) (\<lambda>r.
           case r of
             Some url \<Rightarrow> ret (True, set_indexer_url url True c)
           | None \<Rightarrow> discover_or_validate E net c)
         else discover_or_validate E net c
     | None \<Rightarrow> discover_or_validate E net c)"

definition apply_indexer_discovery :: "env \<Rightarrow> config \<Rightarrow> (bool \<times> config) wact" where
  "apply_indexer_discovery E c =
     (let net = network_type (cf_network c) in
      if env_var E ''BROADCAST_POOL_INDEXER_URL'' \<noteq> None then ret (cf_indexer c \<noteq> None, c)
      else if \<not> is_umbrel_mode E then validate_manual E net c
      else case clear_mistaken_umbrel_lan_override E c of (cleared, c1) \<Rightarrow>
        if is_manual c1 then (if cleared then ret (False, c1) else validate_manual E net c1)
        else bnd (discover_umbrel_node_indexer E net) (\<lambda>found.
          case found of
            Some url \<Rightarrow> ret (True, set_indexer_url url False c1)
          | None \<Rightarrow> if cleared then ret (False, c1) else validate_manual E net c1))"

text \<open>At most 30 questions to the node.\<close>
primrec wait_for_chain :: "env \<Rightarrow> nat \<Rightarrow> string option wact" where
  "wait_for_chain E 0 = ret None"
| "wait_for_chain E (Suc n) =
     bnd (attempt (get_bitcoin_chain E)) (\<lambda>r.
     case res_ok r of Some c \<Rightarrow> ret (Some c) | None \<Rightarrow> wait_for_chain E n)"

definition apply_network_from_rpc :: "env \<Rightarrow> config \<Rightarrow> config wact" where
  "apply_network_from_rpc E c =
     bnd (gets w_rpc) (\<lambda>rpc.
     if \<not> rpc then ret c
     else bnd (wait_for_chain E 30) (\<lambda>chain.
       ret (case chain of
           None \<Rightarrow> c
         | Some ch \<Rightarrow> c\<lparr>cf_network := (cf_network c)\<lparr>network_type := network_from_bitcoin_chain ch\<rparr>\<rparr>)))"

section \<open>Saving\<close>

text \<open>The secrets are encrypted in the copy that is written, not in the configuration in use.\<close>
definition sealed_for_disk :: "env \<Rightarrow> bytes \<Rightarrow> config \<Rightarrow> config wact" where
  "sealed_for_disk E key c =
     bnd (case cf_bitcoin_rpc c of
            None \<Rightarrow> ret None
          | Some r \<Rightarrow> bnd (encrypt_rpc_password E key (rpc_password r)) (\<lambda>p.
              ret (Some (r\<lparr>rpc_password := p\<rparr>)))) (\<lambda>rpc.
     let nt = cf_notifications c in
     bnd (encrypt_nostr_nsec E key (app_nsec (notif_nostr nt))) (\<lambda>nsec.
     ret (c\<lparr>cf_bitcoin_rpc := rpc,
            cf_notifications := nt\<lparr>notif_nostr := (notif_nostr nt)\<lparr>app_nsec := nsec\<rparr>\<rparr>\<rparr>)))"

definition disk_step :: "env \<Rightarrow> unit wact" where
  "disk_step E = bnd (draw (write_fault_at E)) (\<lambda>f. case f of None \<Rightarrow> ret () | Some e \<Rightarrow> bail e)"

definition save_config_to_disk :: "env \<Rightarrow> config \<Rightarrow> bytes \<Rightarrow> unit wact" where
  "save_config_to_disk E c key =
     bnd (disk_step E) (\<lambda>_.
     bnd (sealed_for_disk E key c) (\<lambda>out.
     bnd (lift_res (some_or ''toml'' (config_to_toml E out))) (\<lambda>s.
     bnd (disk_step E) (\<lambda>_.
     modify (\<lambda>w. w\<lparr>w_disk_config := Some s\<rparr>)))))"

section \<open>Only servers of the configured network\<close>

definition verified_url :: "env \<Rightarrow> network_type \<Rightarrow> string \<Rightarrow> bool" where
  "verified_url E net url \<longleftrightarrow>
     (\<exists>w v. genesis_matches_network_at_url E url net w = (Ok True, v))"



abbreviation found_ok :: "('a \<Rightarrow> bool) \<Rightarrow> 'a option \<Rightarrow> bool" where
  "found_ok Q r \<equiv> (\<forall>x. r = Some x \<longrightarrow> Q x)"

lemma genesis_verified: "yields (\<lambda>b. b \<longrightarrow> verified_url E net url) (genesis_matches_network_at_url E url net)"
  unfolding yields_def verified_url_def by fastforce

lemma probe_verified: "yields (\<lambda>r. r = ProbeOk \<longrightarrow> verified_url E net url) (probe_indexer_url E url net)"
  unfolding probe_indexer_url_def
  by (auto intro!: yields_then yields_ret yields_bnd [OF genesis_verified])

lemma matches_verified: "yields (\<lambda>b. b \<longrightarrow> verified_url E net url) (indexer_matches_network E url net)"
  unfolding indexer_matches_network_def
  by (auto intro!: yields_then yields_ret genesis_verified)

lemma try_host_verified: "yields (\<lambda>r. found_ok (verified_url E net) (host_found r)) (try_host E net host ports)"
  unfolding try_host_def
proof (rule yields_bnd [where P = "\<lambda>a. found_ok (verified_url E net) (fst a)"])
  show "yields (\<lambda>a. found_ok (verified_url E net) (fst a))
      (for_loop (try_url E net) (candidate_urls_for_host E host ports) (None, False))"
    unfolding try_url_def
    by (rule yields_for_loop)
       (auto intro!: yields_bnd [OF probe_verified] yields_ret split: probe_outcome.splits)
qed (auto intro!: yields_ret simp: host_found_def split: option.splits)

lemma try_hosts_ports_verified: "yields (found_ok (verified_url E net)) (try_hosts_ports E net hosts ports)"
  unfolding try_hosts_ports_def
  by (rule yields_for_loop)
     (auto intro!: yields_bnd [OF try_host_verified] yields_ret simp: host_found_def split: sum.splits)

lemma try_host_port_verified: "yields (found_ok (verified_url E net)) (try_host_port E net bare)"
  unfolding try_host_port_def
  by (auto intro!: yields_bnd [OF try_host_verified] yields_ret split: option.splits)

lemma resolve_verified: "yields (found_ok (verified_url E net)) (resolve_working_indexer_url E raw net)"
  unfolding resolve_working_indexer_url_def Let_def
  by (auto intro!: yields_ret yields_bnd [OF matches_verified] try_host_port_verified)

lemma first_found_verified:
  assumes "\<And>x. yields (found_ok Q) (f x)"
  shows "yields (found_ok Q) (first_found f xs)"
  unfolding first_found_def
  by (rule yields_for_loop) (auto intro!: yields_bnd [OF assms] yields_ret split: option.splits)

lemma discover_umbrel_verified: "yields (found_ok (verified_url E net)) (discover_umbrel_node_indexer E net)"
  unfolding discover_umbrel_node_indexer_def
proof (rule yields_bnd [where P = "found_ok (verified_url E net)"])
  show "yields (found_ok (verified_url E net)) (for_loop (\<lambda>k found. case env_nonempty E k of
         None \<Rightarrow> ret (Continue None)
       | Some raw \<Rightarrow> bnd (resolve_working_indexer_url E raw net) (\<lambda>r.
           ret (case r of None \<Rightarrow> Continue None | Some url \<Rightarrow> Break (Some url))))
       (umbrel_env_keys E) None)"
    by (rule yields_for_loop)
       (auto intro!: yields_bnd [OF resolve_verified] yields_ret split: option.splits)
qed (auto intro!: yields_ret try_hosts_ports_verified)

lemma scans_verified:
  "yields (found_ok (verified_url E net)) (scan_subnet_for_indexer E net p ports)"
  "yields (found_ok (verified_url E net)) (scan_broader E net p)"
  unfolding scan_subnet_for_indexer_def scan_broader_def
  by (auto intro!: yields_then try_hosts_ports_verified)

lemma discover_verified: "yields (found_ok (verified_url E net)) (discover_indexer_url E net c)"
  unfolding discover_indexer_url_def
  by (auto intro!: discover_umbrel_verified yields_then [of _ _ "indexer_host_candidates E c"]
      yields_bnd [OF try_hosts_ports_verified] yields_ret yields_then [of _ _ "lan_subnets_to_scan E c"]
      yields_bnd [OF first_found_verified [OF scans_verified(1)]] first_found_verified [OF scans_verified(2)])

text \<open>What discovery puts into the configuration, if it changes the indexer at all.\<close>
definition indexer_verified :: "env \<Rightarrow> config \<Rightarrow> bool \<times> config \<Rightarrow> bool" where
  "indexer_verified E c r \<longleftrightarrow>
     cf_indexer (snd r) = None \<and> \<not> fst r
     \<or> cf_indexer (snd r) = cf_indexer c \<and> \<not> fst r
     \<or> (\<exists>i. cf_indexer (snd r) = Some i \<and> verified_url E (network_type (cf_network c)) (ix_url i))"

lemma indexer_verified_set:
  "verified_url E (network_type (cf_network c)) url \<Longrightarrow> indexer_verified E c (b, set_indexer_url url m d)"
  by (simp add: indexer_verified_def set_indexer_url_def)

lemma discover_or_validate_verified:
  assumes "indexer_verified E c (False, d)"
  shows "yields (indexer_verified E c) (discover_or_validate E (network_type (cf_network c)) d)"
  unfolding discover_or_validate_def
  by (rule yields_bnd [OF discover_verified])
     (auto intro!: yields_ret yields_bnd [OF resolve_verified] yields_bnd [OF discover_verified]
       assms indexer_verified_set split: option.splits)

lemma validate_manual_verified:
  assumes "indexer_verified E c (False, d)"
  shows "yields (indexer_verified E c) (validate_manual E (network_type (cf_network c)) d)"
  unfolding validate_manual_def
  by (auto intro!: yields_ret yields_bnd [OF resolve_verified] discover_or_validate_verified
       assms indexer_verified_set split: option.splits)

lemma cleared_verified: "indexer_verified E c (False, snd (clear_mistaken_umbrel_lan_override E c))"
  by (auto simp: clear_mistaken_umbrel_lan_override_def indexer_verified_def split: option.splits)


definition env_testnet4 :: env where
  "env_testnet4 = env_chain\<lparr>tcp_open_at := (\<lambda>n h p. True),
     header_block_hash := (\<lambda>h. rev (genesis_hash Testnet4))\<rparr>"


end
