(* ===== verification/Chain_Clock.thy ===== *)
theory Chain_Clock
  imports Discovery Database_Laws
begin

text \<open>
  The chain clock: \<open>src/src/pool/chain_health.rs\<close> and the methods of
  \<open>src/src/pool/manager.rs\<close> that keep the health snapshot, read the height and the
  median time past, and decide whether a locktime is reached.
\<close>

section \<open>The snapshot\<close>

definition default_chain_health :: chain_health where
  "default_chain_health = \<lparr>indexer_up = False, core_up = False, core_ibd = False,
     core_sync_pct = None, ch_height = None, ch_mtp = None, indexer_software = None,
     ch_source = NoSource, polled = False\<rparr>"

definition clock_available :: "chain_health \<Rightarrow> bool" where
  "clock_available h \<longleftrightarrow> ch_source h \<noteq> NoSource"

definition should_try_indexer :: "chain_health \<Rightarrow> bool" where
  "should_try_indexer h \<longleftrightarrow> indexer_up h \<or> \<not> polled h"

definition decide_chain_source :: "bool \<Rightarrow> bool \<Rightarrow> bool \<Rightarrow> chain_source" where
  "decide_chain_source ix_up c_up c_ibd =
     (if ix_up then Indexer else if c_up \<and> \<not> c_ibd then BitcoinCore else NoSource)"

text \<open>The closure \<open>f\<close> writes the fields; the source is always recomputed.\<close>
definition write_chain_health :: "(chain_health \<Rightarrow> chain_health) \<Rightarrow> unit wact" where
  "write_chain_health f = modify (\<lambda>w. let h = f (w_health w) in
     w\<lparr>w_health := h\<lparr>ch_source := decide_chain_source (indexer_up h) (core_up h) (core_ibd h)\<rparr>\<rparr>)"

definition note_indexer_failure :: "unit wact" where
  "note_indexer_failure = write_chain_health (\<lambda>h. h\<lparr>indexer_up := False, polled := True\<rparr>)"

definition note_indexer_success :: "u64 \<Rightarrow> unit wact" where
  "note_indexer_success height =
     write_chain_health (\<lambda>h. h\<lparr>indexer_up := True, polled := True, ch_height := Some height\<rparr>)"

section \<open>Height\<close>

definition core_height_or_none :: "env \<Rightarrow> u64 option wact" where
  "core_height_or_none E =
     bnd (gets w_rpc) (\<lambda>rpc.
     if rpc then bnd (attempt (core_get_block_count E)) (\<lambda>r. ret (res_ok r)) else ret None)"

definition check_block_height :: "env \<Rightarrow> u64 option wact" where
  "check_block_height E =
     bnd (gets w_health) (\<lambda>h.
     bnd (gets w_indexer) (\<lambda>ic.
     if should_try_indexer h \<and> ic \<noteq> None then
       bnd (attempt (indexer_block_height E)) (\<lambda>r.
       case res_ok r of
         Some height \<Rightarrow> seq (note_indexer_success height) (ret (Some height))
       | None \<Rightarrow> seq note_indexer_failure (core_height_or_none E))
     else core_height_or_none E))"

section \<open>Median time past\<close>

definition mtp_from_indexer :: "env \<Rightarrow> u64 wact" where
  "mtp_from_indexer E =
     bnd (gets w_health) (\<lambda>h.
     bnd (gets w_indexer) (\<lambda>ic.
     if should_try_indexer h \<and> ic \<noteq> None then
       bnd (attempt (indexer_median_time_past E)) (\<lambda>r.
       case res_ok r of
         Some mtp \<Rightarrow> ret mtp
       | None \<Rightarrow> seq note_indexer_failure (bail ''No backend available to read median time past''))
     else bail ''No backend available to read median time past''))"

definition get_median_time_past :: "env \<Rightarrow> u64 wact" where
  "get_median_time_past E =
     bnd (gets w_rpc) (\<lambda>rpc.
     if rpc then
       bnd (attempt (core_median_time E)) (\<lambda>r.
       case res_ok r of Some mtp \<Rightarrow> ret mtp | None \<Rightarrow> mtp_from_indexer E)
     else mtp_from_indexer E)"

definition mtp_ttl :: int where
  "mtp_ttl = secs 30"

definition fetch_mtp :: "env \<Rightarrow> u64 wact" where
  "fetch_mtp E =
     bnd (get_median_time_past E) (\<lambda>mtp.
     bnd (draw (instant_at E)) (\<lambda>now.
     bnd (modify (\<lambda>w. w\<lparr>w_mtp_cache := Some (now, mtp)\<rparr>)) (\<lambda>_.
     ret mtp)))"

definition get_median_time_past_cached :: "env \<Rightarrow> u64 wact" where
  "get_median_time_past_cached E =
     bnd (gets w_mtp_cache) (\<lambda>c. case c of
       None \<Rightarrow> fetch_mtp E
     | Some (fetched, mtp) \<Rightarrow>
         bnd (draw (instant_at E)) (\<lambda>now.
         if now - fetched < mtp_ttl then ret mtp else fetch_mtp E))"

section \<open>Locktimes\<close>

definition locktime_threshold :: u64 where
  "locktime_threshold = 500000000"

definition is_locktime_satisfied :: "env \<Rightarrow> u64 option \<Rightarrow> bool wact" where
  "is_locktime_satisfied E nlocktime = (case nlocktime of
       None \<Rightarrow> ret True
     | Some n \<Rightarrow>
         if n = 0 then ret True
         else if locktime_threshold < n then
           bnd (get_median_time_past_cached E) (\<lambda>mtp. ret (n \<le> mtp))
         else bnd (check_block_height E) (\<lambda>h.
           ret (case h of None \<Rightarrow> False | Some height \<Rightarrow> n \<le> height)))"

section \<open>Polling\<close>

definition should_disarm :: "bool \<Rightarrow> u64 \<Rightarrow> u64 \<Rightarrow> bool" where
  "should_disarm enabled armed tip \<longleftrightarrow> enabled \<and> armed + 10 \<le> tip"

definition disarm :: "config \<Rightarrow> config" where
  "disarm c = (let sc = cf_schedule c in
     c\<lparr>cf_schedule := sc\<lparr>sc_virtual_block := (sc_virtual_block sc)\<lparr>vb_enabled := False\<rparr>\<rparr>\<rparr>)"

definition maybe_disarm_virtual_block :: "env \<Rightarrow> unit wact" where
  "maybe_disarm_virtual_block E =
     bnd (gets w_health) (\<lambda>h. case ch_height h of
       None \<Rightarrow> ret ()
     | Some tip \<Rightarrow>
         bnd (gets w_config) (\<lambda>c.
         let vb = sc_virtual_block (cf_schedule c) in
         if \<not> should_disarm (vb_enabled vb) (vb_armed_at_height vb) tip then ret ()
         else
           bnd (modify (\<lambda>w. w\<lparr>w_config := disarm (w_config w)\<rparr>)) (\<lambda>_.
           bnd (gets w_db_key) (\<lambda>key.
           bnd (attempt (save_config_to_disk E (disarm c) key)) (\<lambda>_. ret ())))))"

definition core_status_or_none :: "env \<Rightarrow> (u64 \<times> u64 \<times> bool \<times> f64) option wact" where
  "core_status_or_none E =
     bnd (gets w_rpc) (\<lambda>rpc.
     if rpc then bnd (attempt (get_chain_status E)) (\<lambda>r. ret (res_ok r)) else ret None)"

definition indexer_height_or_none :: "env \<Rightarrow> u64 option wact" where
  "indexer_height_or_none E =
     bnd (gets w_indexer) (\<lambda>ic.
     if ic = None then ret None
     else bnd (attempt (indexer_block_height E)) (\<lambda>r. ret (res_ok r)))"

definition software_or_none :: "env \<Rightarrow> u64 option \<Rightarrow> string option wact" where
  "software_or_none E height =
     bnd (gets w_health) (\<lambda>h.
     bnd (gets w_indexer) (\<lambda>ic.
     if height \<noteq> None \<and> indexer_software h = None \<and> ic \<noteq> None then
       bnd (attempt (server_software E)) (\<lambda>r. ret (opt_bind (res_ok r) (\<lambda>s. s)))
     else ret None))"

definition polled_health ::
  "(u64 \<times> u64 \<times> bool \<times> f64) option \<Rightarrow> u64 option \<Rightarrow> string option \<Rightarrow> chain_health \<Rightarrow> chain_health" where
  "polled_health core height software h =
     h\<lparr>indexer_up := height \<noteq> None,
       indexer_software := or_else software (indexer_software h),
       core_up := core \<noteq> None,
       core_ibd := (case core of None \<Rightarrow> False | Some (ht, mtp, ibd, pct) \<Rightarrow> ibd),
       core_sync_pct := map_option (\<lambda>(ht, mtp, ibd, pct). pct) core,
       ch_height := or_else height (map_option (\<lambda>(ht, mtp, ibd, pct). ht) core),
       ch_mtp := or_else (map_option (\<lambda>(ht, mtp, ibd, pct). mtp) core) (ch_mtp h),
       polled := True\<rparr>"

definition warm_mtp_cache :: "env \<Rightarrow> u64 option \<Rightarrow> unit wact" where
  "warm_mtp_cache E mtp = (case mtp of
       None \<Rightarrow> ret ()
     | Some m \<Rightarrow> bnd (draw (instant_at E)) (\<lambda>now. modify (\<lambda>w. w\<lparr>w_mtp_cache := Some (now, m)\<rparr>)))"

definition refresh_chain_health :: "env \<Rightarrow> unit wact" where
  "refresh_chain_health E =
     bnd (gets w_refresh_in_flight) (\<lambda>busy.
     if busy then ret ()
     else
       bnd (modify (\<lambda>w. w\<lparr>w_refresh_in_flight := True\<rparr>)) (\<lambda>_.
       bnd (core_status_or_none E) (\<lambda>core.
       bnd (indexer_height_or_none E) (\<lambda>height.
       bnd (software_or_none E height) (\<lambda>software.
       bnd (write_chain_health (polled_health core height software)) (\<lambda>_.
       bnd (warm_mtp_cache E (map_option (\<lambda>(ht, mtp, ibd, pct). mtp) core)) (\<lambda>_.
       bnd (modify (\<lambda>w. w\<lparr>w_refresh_in_flight := False\<rparr>)) (\<lambda>_.
       maybe_disarm_virtual_block E))))))))"

section \<open>What a reading may change\<close>

text \<open>
  A reading of the chain changes the clock, the connection, the health snapshot and the
  cached median time; its messages satisfy \<open>P\<close>.
\<close>

definition sans_clock :: "world \<Rightarrow> world" where
  "sans_clock w = w\<lparr>w_clock := 0, w_indexer := None, w_rpc_id := 0, w_outbox := [],
     w_health := default_chain_health, w_mtp_cache := None\<rparr>"

definition reads_chain :: "(outmsg \<Rightarrow> bool) \<Rightarrow> world \<Rightarrow> world \<Rightarrow> bool" where
  "reads_chain P w v \<longleftrightarrow> sans_clock v = sans_clock w
     \<and> (\<exists>out. w_outbox v = w_outbox w @ out \<and> list_all P out)"

interpretation reads: act_rel "reads_chain P" for P
proof
  show "reads_chain P s s" for s by (simp add: reads_chain_def)
  show "reads_chain P s u" if "reads_chain P s t" "reads_chain P t u" for s t u
    using that by (auto simp: reads_chain_def)
qed

lemma reads_proj:
  assumes "reads_chain P w v"
  shows "w_pool v = w_pool w" "w_db_key v = w_db_key w" "w_rpc v = w_rpc w" "w_config v = w_config w"
    "w_pending v = w_pending w" "w_safe_mode v = w_safe_mode w" "w_tampered_ids v = w_tampered_ids w"
    "w_archive v = w_archive w" "w_bcast_events v = w_bcast_events w" "w_utxos v = w_utxos w"
  using assms by (cases w; cases v; simp add: reads_chain_def sans_clock_def)+

lemma reads_calls: "calls_out P w v \<Longrightarrow> reads_chain P w v"
  by (cases w; cases v) (auto simp: calls_out_def reads_chain_def sans_calls_def sans_clock_def)

lemma reads_moves_calls: "moves (calls_out P) m \<Longrightarrow> moves (reads_chain P) m"
  by (simp add: moves_def reads_calls)

lemma reads_moves_quiet: "moves only_clock m \<Longrightarrow> moves (reads_chain P) m"
  by (intro reads_moves_calls calls_quiet)

lemma reads_write_health: "moves (reads_chain P) (write_chain_health f)"
  by (simp add: moves_def write_chain_health_def act_simps reads_chain_def sans_clock_def Let_def)

lemma reads_notes: "moves (reads_chain P) note_indexer_failure" "moves (reads_chain P) (note_indexer_success h)"
  unfolding note_indexer_failure_def note_indexer_success_def by (rule reads_write_health)+

lemma reads_mtp_cache: "moves (reads_chain P) (modify (\<lambda>w. w\<lparr>w_mtp_cache := c\<rparr>))"
  by (simp add: moves_def act_simps reads_chain_def sans_clock_def)

lemmas reads_rules = reads.rules reads_notes reads_write_health reads_mtp_cache
  reads_moves_quiet [OF quiet_draw] reads_moves_quiet [OF quiet_core(1)]
  reads_moves_quiet [OF quiet_core(2)] reads_moves_quiet [OF quiet_core(3)]
  reads_moves_calls [OF calls_block_height] reads_moves_calls [OF calls_indexer_mtp]
  reads_moves_calls [OF calls_server_software]

lemma reads_core_height: "moves (reads_chain P) (core_height_or_none E)"
  unfolding core_height_or_none_def by (auto intro!: reads_rules)

lemma reads_check_block_height: "moves (reads_chain no_send) (check_block_height E)"
  unfolding check_block_height_def
  by (auto intro!: reads_rules reads_core_height split: option.split)

lemma reads_mtp_from_indexer: "moves (reads_chain no_send) (mtp_from_indexer E)"
  unfolding mtp_from_indexer_def by (auto intro!: reads_rules split: option.split)

lemma reads_get_mtp: "moves (reads_chain no_send) (get_median_time_past E)"
  unfolding get_median_time_past_def
  by (auto intro!: reads_rules reads_mtp_from_indexer split: option.split)

lemma reads_fetch_mtp: "moves (reads_chain no_send) (fetch_mtp E)"
  unfolding fetch_mtp_def by (auto intro!: reads_rules reads_get_mtp)

lemma reads_mtp_cached: "moves (reads_chain no_send) (get_median_time_past_cached E)"
  unfolding get_median_time_past_cached_def
  by (auto intro!: reads_rules reads_fetch_mtp split: option.split prod.split)

lemma reads_locktime: "moves (reads_chain no_send) (is_locktime_satisfied E n)"
  unfolding is_locktime_satisfied_def
  by (auto intro!: reads_rules reads_mtp_cached reads_check_block_height split: option.split)

section \<open>What the clock promises\<close>

text \<open>A height or a median time that some backend reported.\<close>

definition height_seen :: "env \<Rightarrow> u64 \<Rightarrow> bool" where
  "height_seen E h \<longleftrightarrow> (\<exists>k. core_block_count_at E k = Ok h)
     \<or> (\<exists>w v. indexer_block_height E w = (Ok h, v))"

definition mtp_seen :: "env \<Rightarrow> u64 \<Rightarrow> bool" where
  "mtp_seen E m \<longleftrightarrow> (\<exists>k info. core_info_at E k = Ok info \<and> ci_median_time info = m)
     \<or> (\<exists>w v. indexer_median_time_past E w = (Ok m, v))"

text \<open>
  The source is the one the three flags decide, and the cached median time is one that a
  backend reported.
\<close>

definition clock_ok :: "env \<Rightarrow> world \<Rightarrow> bool" where
  "clock_ok E w \<longleftrightarrow>
     ch_source (w_health w) = decide_chain_source (indexer_up (w_health w)) (core_up (w_health w)) (core_ibd (w_health w))
     \<and> (\<forall>t m. w_mtp_cache w = Some (t, m) \<longrightarrow> mtp_seen E m)"

definition clock_kept :: "env \<Rightarrow> world \<Rightarrow> world \<Rightarrow> bool" where
  "clock_kept E w v \<longleftrightarrow> (clock_ok E w \<longrightarrow> clock_ok E v)"

interpretation ckept: act_rel "clock_kept E" for E
  by unfold_locales (auto simp: clock_kept_def)

lemma kept_same: "w_health v = w_health w \<Longrightarrow> w_mtp_cache v = w_mtp_cache w \<Longrightarrow> clock_kept E w v"
  by (simp add: clock_kept_def clock_ok_def)

lemma kept_moves_calls: "moves (calls_out P) m \<Longrightarrow> moves (clock_kept E) m"
  by (rule movesI) (drule (1) movesD, rule kept_same, erule calls_proj(13), erule calls_proj(11))

lemma kept_moves_quiet: "moves only_clock m \<Longrightarrow> moves (clock_kept E) m"
  by (rule movesI) (drule (1) movesD, rule kept_same, erule only_clock_proj(14), erule only_clock_proj(12))

lemma kept_write_health: "moves (clock_kept E) (write_chain_health f)"
  by (auto simp: moves_def write_chain_health_def act_simps Let_def clock_kept_def clock_ok_def)

lemma kept_notes: "moves (clock_kept E) note_indexer_failure" "moves (clock_kept E) (note_indexer_success h)"
  unfolding note_indexer_failure_def note_indexer_success_def by (rule kept_write_health)+

lemma kept_cache: "mtp_seen E m \<Longrightarrow> moves (clock_kept E) (modify (\<lambda>w. w\<lparr>w_mtp_cache := Some (t, m)\<rparr>))"
  by (auto simp: moves_def act_simps clock_kept_def clock_ok_def)

lemma core_mtp_seen: "yields (mtp_seen E) (core_median_time E)"
  unfolding yields_def core_median_time_def core_blockchain_info_def mtp_seen_def
  by (auto simp: ok_iffs act_simps)

lemma core_status_seen: "yields (\<lambda>(h, m, i, p). mtp_seen E m) (get_chain_status E)"
  unfolding yields_def get_chain_status_def core_blockchain_info_def mtp_seen_def
  by (auto simp: ok_iffs act_simps)

lemma indexer_mtp_seen: "yields (mtp_seen E) (indexer_median_time_past E)"
  unfolding yields_def mtp_seen_def by blast

lemma yields_attempt: "yields P m \<Longrightarrow> yields (\<lambda>r. \<forall>x. res_ok r = Some x \<longrightarrow> P x) (attempt m)"
  by (auto simp: yields_def attempt_Ok_iff) (metis option.sel option.simps(3) res.exhaust res_ok.simps)

lemma get_mtp_seen: "yields (mtp_seen E) (get_median_time_past E)"
proof -
  have "yields (mtp_seen E) (mtp_from_indexer E)"
    unfolding mtp_from_indexer_def seq_def
    by (auto intro!: yields_then yields_bail yields_ret yields_bnd [OF yields_attempt [OF indexer_mtp_seen]]
        split: option.splits)
  then show ?thesis
    unfolding get_median_time_past_def
    by (auto intro!: yields_then [of _ _ "gets w_rpc"] yields_ret
        yields_bnd [OF yields_attempt [OF core_mtp_seen]] split: option.splits)
qed

lemmas kept_rules = ckept.rules kept_notes kept_write_health
  kept_moves_quiet [OF quiet_draw] kept_moves_quiet [OF quiet_core(1)]
  kept_moves_quiet [OF quiet_core(2)] kept_moves_quiet [OF quiet_core(3)]
  kept_moves_calls [OF calls_block_height] kept_moves_calls [OF calls_indexer_mtp]
  kept_moves_calls [OF calls_server_software]

lemma kept_core_height: "moves (clock_kept E) (core_height_or_none E)"
  unfolding core_height_or_none_def by (auto intro!: kept_rules)

lemma kept_check_block_height: "moves (clock_kept E) (check_block_height E)"
  unfolding check_block_height_def
  by (auto intro!: kept_rules kept_core_height split: option.split)

lemma kept_mtp_from_indexer: "moves (clock_kept E) (mtp_from_indexer E)"
  unfolding mtp_from_indexer_def by (auto intro!: kept_rules split: option.split)

lemma kept_get_mtp: "moves (clock_kept E) (get_median_time_past E)"
  unfolding get_median_time_past_def
  by (auto intro!: kept_rules kept_mtp_from_indexer split: option.split)

lemma kept_fetch_mtp: "moves (clock_kept E) (fetch_mtp E)"
  unfolding fetch_mtp_def
  by (rule ckept.step_bnd_yields [OF kept_get_mtp get_mtp_seen]) (auto intro!: kept_rules kept_cache)

lemma kept_mtp_cached: "moves (clock_kept E) (get_median_time_past_cached E)"
  unfolding get_median_time_past_cached_def
  by (auto intro!: kept_rules kept_fetch_mtp split: option.split prod.split)

lemma kept_locktime: "moves (clock_kept E) (is_locktime_satisfied E n)"
  unfolding is_locktime_satisfied_def
  by (auto intro!: kept_rules kept_mtp_cached kept_check_block_height split: option.split)

lemma kept_save: "moves (clock_kept E) (save_config_to_disk E c key)"
proof -
  have "moves only_clock (sealed_for_disk E key c)"
    unfolding sealed_for_disk_def Let_def encrypt_rpc_password_def encrypt_nostr_nsec_def encrypt_secret_def
    by (auto intro!: quiet_rules quiet_encode_field split: option.split)
  moreover have "moves only_clock (disk_step E)"
    unfolding disk_step_def by (auto intro!: quiet_rules split: option.split)
  moreover have "moves (clock_kept E) (modify (\<lambda>w. w\<lparr>w_disk_config := s\<rparr>))" for s
    by (rule ckept.step_modify) (simp add: kept_same)
  ultimately show ?thesis
    unfolding save_config_to_disk_def by (intro kept_rules) (auto intro: kept_moves_quiet)
qed

lemma kept_disarm: "moves (clock_kept E) (maybe_disarm_virtual_block E)"
  unfolding maybe_disarm_virtual_block_def Let_def
  by (intro kept_rules) (auto intro!: kept_rules kept_save ckept.step_modify kept_same split: option.split)

lemma core_status_or_none_seen:
  "yields (\<lambda>r. \<forall>x. r = Some x \<longrightarrow> mtp_seen E (fst (snd x))) (core_status_or_none E)"
  unfolding core_status_or_none_def
  by (auto intro!: yields_then [of _ _ "gets w_rpc"] yields_ret
      yields_bnd [OF yields_attempt [OF core_status_seen]])

lemma kept_warm: "\<forall>x. m = Some x \<longrightarrow> mtp_seen E x \<Longrightarrow> moves (clock_kept E) (warm_mtp_cache E m)"
  unfolding warm_mtp_cache_def by (auto intro!: kept_rules kept_cache split: option.split)

lemma kept_refresh: "moves (clock_kept E) (refresh_chain_health E)"
proof -
  have reads: "moves (clock_kept E) (core_status_or_none E)" "moves (clock_kept E) (indexer_height_or_none E)"
    "moves (clock_kept E) (software_or_none E h)" for h
    unfolding core_status_or_none_def indexer_height_or_none_def software_or_none_def
    by (auto intro!: kept_rules)
  have flag: "moves (clock_kept E) (modify (\<lambda>w. w\<lparr>w_refresh_in_flight := b\<rparr>))" for b
    by (rule ckept.step_modify) (simp add: kept_same)
  have rest: "moves (clock_kept E)
      (bnd (core_status_or_none E) (\<lambda>core.
       bnd (indexer_height_or_none E) (\<lambda>height.
       bnd (software_or_none E height) (\<lambda>software.
       bnd (write_chain_health (polled_health core height software)) (\<lambda>_.
       bnd (warm_mtp_cache E (map_option (\<lambda>(ht, mtp, ibd, pct). mtp) core)) (\<lambda>_.
       bnd (modify (\<lambda>w. w\<lparr>w_refresh_in_flight := False\<rparr>)) (\<lambda>_.
       maybe_disarm_virtual_block E)))))))"
    by (rule ckept.step_bnd_yields [OF reads(1) core_status_or_none_seen])
       (intro kept_rules reads flag kept_disarm kept_warm, auto)
  show ?thesis
    unfolding refresh_chain_health_def using rest flag
    by (intro kept_rules) (auto intro!: kept_rules)
qed

text \<open>The operations of the clock.\<close>
inductive clock_step :: "env \<Rightarrow> world \<Rightarrow> world \<Rightarrow> bool" for E where
  polled: "refresh_chain_health E w = (r, v) \<Longrightarrow> clock_step E w v"
| height_read: "check_block_height E w = (h, v) \<Longrightarrow> clock_step E w v"
| mtp_read: "get_median_time_past_cached E w = (m, v) \<Longrightarrow> clock_step E w v"
| locktime_read: "is_locktime_satisfied E n w = (b, v) \<Longrightarrow> clock_step E w v"

lemma clock_step_kept: "clock_step E w v \<Longrightarrow> clock_kept E w v"
  by (induction rule: clock_step.induct)
     (auto dest: movesD [OF kept_refresh] movesD [OF kept_check_block_height]
       movesD [OF kept_mtp_cached] movesD [OF kept_locktime])


lemma clock_ok_start: "clock_ok E (w\<lparr>w_health := default_chain_health, w_mtp_cache := None\<rparr>)"
  by (simp add: clock_ok_def default_chain_health_def decide_chain_source_def)


section \<open>The locktime gate\<close>

lemma core_height_seen: "yields (\<lambda>r. \<forall>h. r = Some h \<longrightarrow> height_seen E h) (core_height_or_none E)"
proof -
  have "yields (height_seen E) (core_get_block_count E)"
    unfolding yields_def core_get_block_count_def height_seen_def by (auto simp: ok_iffs act_simps)
  then show ?thesis
    unfolding core_height_or_none_def
    by (auto intro!: yields_then [of _ _ "gets w_rpc"] yields_ret yields_bnd [OF yields_attempt])
qed

lemma check_height_seen: "yields (\<lambda>r. \<forall>h. r = Some h \<longrightarrow> height_seen E h) (check_block_height E)"
proof -
  have ix: "yields (height_seen E) (indexer_block_height E)"
    unfolding yields_def height_seen_def by blast
  show ?thesis
    unfolding check_block_height_def seq_def
    by (auto intro!: yields_then [of _ _ "gets w_health"] yields_then [of _ _ "gets w_indexer"]
        yields_then [of _ _ "note_indexer_success h" for h] yields_then [of _ _ note_indexer_failure]
        yields_ret core_height_seen yields_bnd [OF yields_attempt [OF ix]] split: option.split)
qed

lemma check_height_someD: "check_block_height E s = (Ok (Some h), t) \<Longrightarrow> height_seen E h"
  using yieldsD [OF check_height_seen] by fast

lemma fetch_mtp_seen: "yields (mtp_seen E) (fetch_mtp E)"
  unfolding fetch_mtp_def
  by (rule yields_bnd [OF get_mtp_seen]) (auto intro!: yields_then yields_ret)

lemma cached_mtp_seen:
  assumes "clock_ok E w" "get_median_time_past_cached E w = (Ok m, v)"
  shows "mtp_seen E m"
  using assms yieldsD [OF fetch_mtp_seen]
  by (auto simp: get_median_time_past_cached_def ok_iffs act_simps clock_ok_def split: option.splits if_splits)

text \<open>What makes a locktime reached.\<close>
definition locktime_reached :: "env \<Rightarrow> u64 option \<Rightarrow> bool" where
  "locktime_reached E nl \<longleftrightarrow> (\<forall>n. nl = Some n \<longrightarrow> n \<noteq> 0 \<longrightarrow>
     (if locktime_threshold < n then \<exists>m. mtp_seen E m \<and> n \<le> m else \<exists>h. height_seen E h \<and> n \<le> h))"

lemma locktime_gate:
  assumes "clock_ok E w" "is_locktime_satisfied E nl w = (Ok True, v)"
  shows "locktime_reached E nl"
  using assms(2)
  by (auto simp: is_locktime_satisfied_def locktime_reached_def ok_iffs act_simps
      split: option.splits if_splits dest: check_height_someD cached_mtp_seen [OF assms(1)])

text \<open>
  C5: The locktime gate opens only on evidence: if it says that a locktime is reached, then the
  transaction has none, or a backend reported a height at or above a height locktime, or a
  median time past at or above a time locktime; an answer out of the cache is no exception.
\<close>
theorem locktime_gate_sound:
  assumes "clock_ok E w" "is_locktime_satisfied E nl w = (Ok True, v)"
  shows "locktime_reached E nl"
  using assms by (rule locktime_gate)

theorem locktime_gate_sound_witness:
  "is_ok (fst (is_locktime_satisfied env_chain (Some 4) world_ix)) \<and> locktime_reached env_chain (Some 4)"
proof -
  have run: "fst (is_locktime_satisfied env_chain (Some 4) world_ix) = Ok True" by code_simp
  have "clock_ok env_chain world_ix"
    by (simp add: clock_ok_def world_ix_def world0_def health0_def decide_chain_source_def)
  then have "locktime_reached env_chain (Some 4)"
    using run by (metis locktime_gate_sound prod.collapse)
  then show ?thesis using run by simp
qed

end
