(* ===== verification/Pending_Map.thy ===== *)
theory Pending_Map
  imports Chain_Clock Virtual_Mempool
begin

text \<open>
  The part of \<open>src/src/pool/manager.rs\<close> that lives in memory: safe mode, the cached chain
  tip, the watched script hashes, and the map of waiting transactions with the notifications
  its changes send.  A \<open>HashMap\<close> is an association list; the order of its keys carries
  no meaning in the code.
\<close>

section \<open>Safe mode, watched script hashes, chain tip\<close>

definition enter_safe_mode :: "string \<Rightarrow> unit wact" where
  "enter_safe_mode i = modify (\<lambda>w. w\<lparr>w_safe_mode := True,
     w_tampered_ids := (if i \<in> set (w_tampered_ids w) then w_tampered_ids w
                        else w_tampered_ids w @ [i])\<rparr>)"

definition clear_safe_mode :: "unit wact" where
  "clear_safe_mode = modify (\<lambda>w. w\<lparr>w_safe_mode := False, w_tampered_ids := []\<rparr>)"

definition watch_scripthash :: "string \<Rightarrow> unit wact" where
  "watch_scripthash sh =
     (if sh = [] then ret () else modify (\<lambda>w. w\<lparr>w_watched := set_insert sh (w_watched w)\<rparr>))"

definition announce_scripthash_change :: "string \<Rightarrow> unit wact" where
  "announce_scripthash_change sh = modify (\<lambda>w. w\<lparr>w_sh_events := w_sh_events w @ [sh]\<rparr>)"

definition announce_all :: "string list \<Rightarrow> unit wact" where
  "announce_all shs = for_each (\<lambda>sh _. announce_scripthash_change sh) shs ()"

definition cache_chain_tip :: "u64 \<Rightarrow> string \<Rightarrow> unit wact" where
  "cache_chain_tip height hex =
     (if height = 0 \<or> hex = [] then ret ()
      else bnd (gets w_chain_tip) (\<lambda>old.
        bnd (modify (\<lambda>w. w\<lparr>w_chain_tip := Some (height, hex)\<rparr>)) (\<lambda>_.
        run_if (map_option fst old \<noteq> Some height)
          (modify (\<lambda>w. w\<lparr>w_tip_events := w_tip_events w @ [(height, hex)]\<rparr>)))))"

definition is_user_scheduled_mode :: "string option \<Rightarrow> bool" where
  "is_user_scheduled_mode m \<longleftrightarrow> m = Some ''manual'' \<or> m = Some ''imported''"

section \<open>The map of waiting transactions\<close>

definition pending_of :: "world \<Rightarrow> string \<Rightarrow> pending_info option" where
  "pending_of w txid = map_of (w_pending w) txid"

definition get_pending_tx_hex :: "string \<Rightarrow> string option wact" where
  "get_pending_tx_hex txid = gets (\<lambda>w. map_option pi_tx_hex (pending_of w txid))"

definition store_pending_tx ::
  "string \<Rightarrow> string \<Rightarrow> string list \<Rightarrow> pending_output list \<Rightarrow> unit wact" where
  "store_pending_tx txid hex shs outs =
     bnd (modify (\<lambda>w. w\<lparr>w_pending := AList.update txid
       \<lparr>pi_tx_hex = hex, pi_scripthashes = shs, pi_outputs = outs\<rparr> (w_pending w)\<rparr>)) (\<lambda>_.
     announce_all shs)"

text \<open>The loop over \<open>extra\<close>: what is pushed that was not there.\<close>
primrec newly_added :: "string list \<Rightarrow> string list \<Rightarrow> string list" where
  "newly_added known [] = []"
| "newly_added known (sh # shs) =
     (if sh \<in> set known then newly_added known shs else sh # newly_added (known @ [sh]) shs)"

definition merge_pending_scripthashes :: "string \<Rightarrow> string list \<Rightarrow> unit wact" where
  "merge_pending_scripthashes txid extra =
     (if extra = [] then ret ()
      else bnd (gets (\<lambda>w. pending_of w txid)) (\<lambda>info.
        case info of
          None \<Rightarrow> ret ()
        | Some i \<Rightarrow>
            let added = newly_added (pi_scripthashes i) extra in
            bnd (modify (\<lambda>w. w\<lparr>w_pending := AList.update txid
              (i\<lparr>pi_scripthashes := pi_scripthashes i @ added\<rparr>) (w_pending w)\<rparr>)) (\<lambda>_.
            announce_all added)))"

definition remove_pending_tx :: "string \<Rightarrow> string list wact" where
  "remove_pending_tx txid =
     bnd (gets (\<lambda>w. pending_of w txid)) (\<lambda>info.
     case info of
       None \<Rightarrow> ret []
     | Some i \<Rightarrow>
         bnd (modify (\<lambda>w. w\<lparr>w_pending := AList.delete txid (w_pending w)\<rparr>)) (\<lambda>_.
         bnd (announce_all (pi_scripthashes i)) (\<lambda>_.
         ret (pi_scripthashes i))))"

definition lookup_in_db :: "env \<Rightarrow> string \<Rightarrow> string option wact" where
  "lookup_in_db E txid =
     bnd (attempt (get_tx_hex_by_txid E txid)) (\<lambda>r. ret (opt_bind (res_ok r) (\<lambda>x. x)))"

definition or_try :: "string option wact \<Rightarrow> string option wact \<Rightarrow> string option wact" where
  "or_try m k = bnd m (\<lambda>r. case r of Some h \<Rightarrow> ret (Some h) | None \<Rightarrow> k)"

definition with_alt :: "string option \<Rightarrow> (string \<Rightarrow> string option wact) \<Rightarrow> string option wact" where
  "with_alt alt f = (case alt of None \<Rightarrow> ret None | Some a \<Rightarrow> f a)"

definition lookup_tx_hex :: "env \<Rightarrow> string \<Rightarrow> string option wact" where
  "lookup_tx_hex E txid =
     (let t = to_lower (trim txid); alt = alternate_txid_format E t in
      or_try (get_pending_tx_hex t)
        (or_try (with_alt alt get_pending_tx_hex)
          (or_try (lookup_in_db E t) (with_alt alt (lookup_in_db E)))))"

definition pending_txids_for :: "world \<Rightarrow> string \<Rightarrow> string list" where
  "pending_txids_for w sh = map fst (filter (\<lambda>(txid, i). sh \<in> set (pi_scripthashes i)) (w_pending w))"

definition outputs_to :: "string \<Rightarrow> pending_info \<Rightarrow> pending_output list" where
  "outputs_to sh i = filter (\<lambda>out. po_scripthash out = sh) (pi_outputs i)"

definition pending_utxos_for :: "world \<Rightarrow> string \<Rightarrow> (string \<times> u32 \<times> u64) list" where
  "pending_utxos_for w sh = concat (map (\<lambda>(txid, i).
     map (\<lambda>out. (txid, po_index out, po_value out)) (outputs_to sh i)) (w_pending w))"

definition pending_unconfirmed_value :: "world \<Rightarrow> string \<Rightarrow> u64" where
  "pending_unconfirmed_value w sh =
     foldl (\<lambda>total (txid, i). foldl (\<lambda>t out. t + po_value out) total (outputs_to sh i)) 0 (w_pending w)"

definition has_pending_for_scripthash :: "world \<Rightarrow> string \<Rightarrow> bool" where
  "has_pending_for_scripthash w sh \<longleftrightarrow> pending_txids_for w sh \<noteq> []"

definition enrich_one :: "env \<Rightarrow> string \<Rightarrow> string \<Rightarrow> string \<times> pending_info \<Rightarrow> unit \<Rightarrow> unit wact" where
  "enrich_one E sh addr p _ = (case p of (txid, info) \<Rightarrow>
     if sh \<in> set (pi_scripthashes info) then ret ()
     else bnd (attempt (enrich_input_scripthashes E (pi_tx_hex info) addr (secs 5)
            (Some (lookup_tx_hex E)))) (\<lambda>r.
       case res_ok r of
         None \<Rightarrow> ret ()
       | Some extra \<Rightarrow> run_if (extra \<noteq> []) (merge_pending_scripthashes txid extra)))"

definition enrich_pending_for_scripthash :: "env \<Rightarrow> string \<Rightarrow> string \<Rightarrow> unit wact" where
  "enrich_pending_for_scripthash E sh indexer_url =
     (if sh = [] then ret ()
      else bnd (gets w_pending) (\<lambda>pending.
        if pending = [] then ret ()
        else for_each (enrich_one E sh (strip_indexer_host indexer_url)) pending ()))"

definition outputs_of :: "(u32 \<times> u64 \<times> string) list \<Rightarrow> pending_output list" where
  "outputs_of = map (\<lambda>(i, v, sh). \<lparr>po_index = i, po_value = v, po_scripthash = sh\<rparr>)"

definition rehydrate_one :: "env \<Rightarrow> string \<Rightarrow> broadcast_tx \<Rightarrow> nat \<Rightarrow> nat wact" where
  "rehydrate_one E addr tx count =
     (case or_else (t_txid tx) (res_ok (compute_txid E (t_tx_hex tx))) of
        None \<Rightarrow> ret count
      | Some txid \<Rightarrow>
          bnd (attempt (extract_affected_scripthashes E (t_tx_hex tx) addr)) (\<lambda>r.
          case res_ok r of
            None \<Rightarrow> ret count
          | Some shs \<Rightarrow>
              bnd (store_pending_tx txid (t_tx_hex tx) shs
                (outputs_of (unwrap_or [] (res_ok (extract_outputs E (t_tx_hex tx)))))) (\<lambda>_.
              ret (count + 1))))"

definition network_name :: "world \<Rightarrow> string" where
  "network_name w = data_dir_name (network_type (cf_network (w_config w)))"

definition get_indexer_url :: "world \<Rightarrow> string option" where
  "get_indexer_url w = map_option ix_url (cf_indexer (w_config w))"

definition load_pending_from_db :: "env \<Rightarrow> nat wact" where
  "load_pending_from_db E =
     bnd (gets network_name) (\<lambda>net.
     bnd (gets get_indexer_url) (\<lambda>url.
     bnd (lift_res (some_or ''No indexer configured for pending tx rehydration'' url)) (\<lambda>u.
     bnd (list_broadcast_txs E (Some ''pending'') net 10000) (\<lambda>pending.
     bnd (list_broadcast_txs E (Some ''scheduled'') net 10000) (\<lambda>scheduled.
     for_each (rehydrate_one E (strip_indexer_host u)) (pending @ scheduled) 0)))))"

section \<open>The map as a store\<close>

text \<open>What a client of a keyed store relies on.\<close>

locale keyed_store =
  fixes look :: "'s \<Rightarrow> 'k \<Rightarrow> 'v option"
    and put :: "'k \<Rightarrow> 'v \<Rightarrow> 's \<Rightarrow> 's"
    and del :: "'k \<Rightarrow> 's \<Rightarrow> 's"
    and ok :: "'s \<Rightarrow> bool"
  assumes look_put: "look (put k v s) = (look s)(k \<mapsto> v)"
    and look_del: "look (del k s) = (look s)(k := None)"
    and ok_put: "ok s \<Longrightarrow> ok (put k v s)"
    and ok_del: "ok s \<Longrightarrow> ok (del k s)"
begin

lemma look_put_same: "look (put k v s) k = Some v"
  by (simp add: look_put)

lemma look_put_other: "j \<noteq> k \<Longrightarrow> look (put k v s) j = look s j"
  by (simp add: look_put)

lemma look_del_same: "look (del k s) k = None"
  by (simp add: look_del)

lemma del_put: "look (del k (put k v s)) = look (del k s)"
  by (simp add: look_put look_del)

end

definition put_pending :: "string \<Rightarrow> pending_info \<Rightarrow> world \<Rightarrow> world" where
  "put_pending txid i w = w\<lparr>w_pending := AList.update txid i (w_pending w)\<rparr>"

definition del_pending :: "string \<Rightarrow> world \<Rightarrow> world" where
  "del_pending txid w = w\<lparr>w_pending := AList.delete txid (w_pending w)\<rparr>"

definition keys_unique :: "world \<Rightarrow> bool" where
  "keys_unique w \<longleftrightarrow> distinct (map fst (w_pending w))"

interpretation pmap: keyed_store pending_of put_pending del_pending keys_unique
proof
  fix k v and s :: world
  show "pending_of (put_pending k v s) = (pending_of s)(k \<mapsto> v)"
    by (rule ext) (simp add: pending_of_def put_pending_def update_conv')
  show "pending_of (del_pending k s) = (pending_of s)(k := None)"
    by (rule ext) (simp add: pending_of_def del_pending_def delete_conv')
  show "keys_unique s \<Longrightarrow> keys_unique (put_pending k v s)"
    by (simp add: keys_unique_def put_pending_def distinct_update)
  show "keys_unique s \<Longrightarrow> keys_unique (del_pending k s)"
    by (simp add: keys_unique_def del_pending_def distinct_delete)
qed

lemma announce_all_run: "announce_all shs w = (Ok (), w\<lparr>w_sh_events := w_sh_events w @ shs\<rparr>)"
proof -
  have "for_each (\<lambda>sh _. announce_scripthash_change sh) shs () w
      = (Ok (), w\<lparr>w_sh_events := w_sh_events w @ shs\<rparr>)"
    by (induction shs arbitrary: w)
       (simp_all add: announce_scripthash_change_def act_simps run_simps)
  then show ?thesis by (simp add: announce_all_def)
qed

text \<open>The operations, run on the state and on the map from ids to entries.\<close>

datatype pending_op =
    StoreOp string string "string list" "pending_output list"
  | MergeOp string "string list"
  | RemoveOp string

primrec run_op :: "pending_op \<Rightarrow> world \<Rightarrow> world" where
  "run_op (StoreOp txid hex shs outs) w = snd (store_pending_tx txid hex shs outs w)"
| "run_op (MergeOp txid extra) w = snd (merge_pending_scripthashes txid extra w)"
| "run_op (RemoveOp txid) w = snd (remove_pending_tx txid w)"

definition merged :: "string list \<Rightarrow> pending_info \<Rightarrow> pending_info" where
  "merged extra i = i\<lparr>pi_scripthashes := pi_scripthashes i @ newly_added (pi_scripthashes i) extra\<rparr>"

text \<open>The specification: the new map, and who is told.\<close>
primrec spec_op :: "pending_op \<Rightarrow> (string \<Rightarrow> pending_info option) \<Rightarrow> (string \<Rightarrow> pending_info option)" where
  "spec_op (StoreOp txid hex shs outs) m =
     m(txid \<mapsto> \<lparr>pi_tx_hex = hex, pi_scripthashes = shs, pi_outputs = outs\<rparr>)"
| "spec_op (MergeOp txid extra) m = m(txid := map_option (merged extra) (m txid))"
| "spec_op (RemoveOp txid) m = m(txid := None)"

primrec told :: "pending_op \<Rightarrow> (string \<Rightarrow> pending_info option) \<Rightarrow> string list" where
  "told (StoreOp txid hex shs outs) m = shs"
| "told (MergeOp txid extra) m =
     (case m txid of None \<Rightarrow> [] | Some i \<Rightarrow> newly_added (pi_scripthashes i) extra)"
| "told (RemoveOp txid) m = (case m txid of None \<Rightarrow> [] | Some i \<Rightarrow> pi_scripthashes i)"

text \<open>Who is told by a sequence of operations, in order.\<close>
primrec told_all :: "pending_op list \<Rightarrow> (string \<Rightarrow> pending_info option) \<Rightarrow> string list" where
  "told_all [] m = []"
| "told_all (p # ops) m = told p m @ told_all ops (spec_op p m)"

lemma pending_of_events [simp]: "pending_of (w\<lparr>w_sh_events := e\<rparr>) = pending_of w"
  by (simp add: pending_of_def fun_eq_iff)

lemma keys_unique_events [simp]: "keys_unique (w\<lparr>w_sh_events := e\<rparr>) = keys_unique w"
  by (simp add: keys_unique_def)

lemma store_run:
  "store_pending_tx txid hex shs outs w =
     (Ok (), (put_pending txid \<lparr>pi_tx_hex = hex, pi_scripthashes = shs, pi_outputs = outs\<rparr> w)
        \<lparr>w_sh_events := w_sh_events w @ shs\<rparr>)"
  by (simp add: store_pending_tx_def act_simps run_simps announce_all_run put_pending_def)

lemma merged_Nil [simp]: "merged [] i = i"
  by (simp add: merged_def)

lemma merge_run:
  "snd (merge_pending_scripthashes txid extra w) =
     (case pending_of w txid of
        None \<Rightarrow> w
      | Some i \<Rightarrow> if extra = [] then w else (put_pending txid (merged extra i) w)
          \<lparr>w_sh_events := w_sh_events w @ newly_added (pi_scripthashes i) extra\<rparr>)"
  by (simp add: merge_pending_scripthashes_def act_simps run_simps announce_all_run put_pending_def
      Let_def merged_def split: option.split)

lemma remove_run:
  "remove_pending_tx txid w =
     (case pending_of w txid of
        None \<Rightarrow> (Ok [], w)
      | Some i \<Rightarrow> (Ok (pi_scripthashes i), (del_pending txid w)
          \<lparr>w_sh_events := w_sh_events w @ pi_scripthashes i\<rparr>))"
  by (simp add: remove_pending_tx_def act_simps run_simps announce_all_run del_pending_def
      split: option.split)

lemma run_op_refines:
  "pending_of (run_op p w) = spec_op p (pending_of w)"
  "w_sh_events (run_op p w) = w_sh_events w @ told p (pending_of w)"
  "keys_unique w \<Longrightarrow> keys_unique (run_op p w)"
proof -
  show "pending_of (run_op p w) = spec_op p (pending_of w)"
    by (cases p) (auto simp: store_run merge_run remove_run pmap.look_put pmap.look_del fun_upd_idem
        split: option.split)
  show "w_sh_events (run_op p w) = w_sh_events w @ told p (pending_of w)"
    by (cases p) (auto simp: store_run merge_run remove_run put_pending_def split: option.split)
  show "keys_unique w \<Longrightarrow> keys_unique (run_op p w)"
    by (cases p) (auto simp: store_run merge_run remove_run pmap.ok_put pmap.ok_del split: option.split)
qed

lemma newly_added_spec:
  "distinct (newly_added known extra)" "set (newly_added known extra) = set extra - set known"
  by (induction extra arbitrary: known) auto

text \<open>
  C27: The map of waiting transactions refines a finite map.  For every sequence of stores,
  merges and removals, the entries are what the same sequence does to a map, no id occurs
  twice, and the listening wallet sessions have been told, in this order, every script hash of
  a stored transaction, every script hash a merge added, and every script hash of a removed one.
\<close>
theorem pending_map_refines:
  assumes "keys_unique w"
  shows "pending_of (fold run_op ops w) = fold spec_op ops (pending_of w)
    \<and> keys_unique (fold run_op ops w)
    \<and> w_sh_events (fold run_op ops w) = w_sh_events w @ told_all ops (pending_of w)"
  using assms
  by (induction ops arbitrary: w) (simp_all add: run_op_refines)

theorem pending_map_refines_witness:
  "let ops = [StoreOp ''t'' ''00'' [''a''] [], MergeOp ''t'' [''a'', ''b''], RemoveOp ''t'']
   in keys_unique (fold run_op ops world0) \<and> pending_of (fold run_op ops world0) ''t'' = None
      \<and> w_sh_events (fold run_op ops world0) = [''a'', ''b'', ''a'', ''b'']"
proof -
  let ?ops = "[StoreOp ''t'' ''00'' [''a''] [], MergeOp ''t'' [''a'', ''b''], RemoveOp ''t'']"
  have "keys_unique world0" "pending_of world0 = Map.empty" "w_sh_events world0 = []"
    by (simp_all add: keys_unique_def pending_of_def world0_def fun_eq_iff)
  then show ?thesis
    using pending_map_refines [of world0 ?ops]
    by (simp add: merged_def Let_def del: fold_simps)
qed

end
