(* ===== verification/Price_Feed.thy ===== *)
theory Price_Feed
  imports Sample
begin

text \<open>
  The price of a bitcoin (\<open>src/src/price/mod.rs\<close>): four providers asked in turn, a cache of
  60 seconds, and the last good prices for ten minutes when nobody answers.  A price table is
  an association list from the currencies \<open>''eur''\<close> and \<open>''usd''\<close>.  Building the HTTP client
  is taken to succeed; what a provider got wrong is only logged.
\<close>

type_synonym prices = "(string \<times> f64) list"

section \<open>Providers\<close>

definition kraken_url :: string where
  "kraken_url = ''https://api.kraken.com/0/public/Ticker?pair=XXBTZEUR,XXBTZUSD''"

definition coingecko_url :: string where
  "coingecko_url = ''https://api.coingecko.com/api/v3/simple/price?ids=bitcoin&vs_currencies=eur,usd''"

definition bitstamp_eur_url :: string where
  "bitstamp_eur_url = ''https://www.bitstamp.net/api/v2/ticker/btceur/''"

definition bitstamp_usd_url :: string where
  "bitstamp_usd_url = ''https://www.bitstamp.net/api/v2/ticker/btcusd/''"

definition cmc_url :: string where
  "cmc_url = ''https://pro-api.coinmarketcap.com/v1/cryptocurrency/quotes/latest?symbol=BTC&convert=EUR,USD''"

definition cmc_api_key :: "env \<Rightarrow> string option" where
  "cmc_api_key E = opt_bind (env_var E ''BROADCAST_POOL_CMC_API_KEY'') (\<lambda>k. if k = [] then None else Some k)"

text \<open>\<open>send\<close>, \<open>error_for_status\<close>, \<open>json\<close>, each with its context.\<close>
definition http_json :: "env \<Rightarrow> string \<Rightarrow> string \<Rightarrow> string \<Rightarrow> string \<Rightarrow> json wact" where
  "http_json E url failed status parse =
     bnd (draw (\<lambda>n. http_at E n url)) (\<lambda>r. lift_res (case r of
         HttpFailed e \<Rightarrow> Err (failed # e)
       | HttpStatus e \<Rightarrow> Err (status # e)
       | HttpNotJson e \<Rightarrow> Err (parse # e)
       | HttpBody v \<Rightarrow> Ok v))"

definition put_price :: "string \<Rightarrow> f64 option \<Rightarrow> prices \<Rightarrow> prices" where
  "put_price currency p m = (case p of None \<Rightarrow> m | Some x \<Rightarrow> AList.update currency x m)"

definition kraken_last :: "(string \<times> json) list \<Rightarrow> string \<Rightarrow> f64 option" where
  "kraken_last tickers key =
     opt_bind (map_of tickers key) (\<lambda>ticker. opt_bind (jget ''c'' ticker) (\<lambda>c.
     opt_bind (jidx 0 c) (\<lambda>v. opt_bind (as_str v) parse_f64)))"

definition fetch_kraken :: "env \<Rightarrow> prices wact" where
  "fetch_kraken E =
     bnd (http_json E kraken_url ''Kraken request failed'' ''Kraken returned error status''
            ''Kraken response parse failed'') (\<lambda>resp.
     if (case opt_bind (jget ''error'' resp) as_array of None \<Rightarrow> False | Some errs \<Rightarrow> errs \<noteq> [])
     then bail ''Kraken API error''
     else bnd (lift_res (some_or ''Kraken missing result'' (opt_bind (jget ''result'' resp) as_object))) (\<lambda>tickers.
       ret (put_price ''usd'' (kraken_last tickers ''XXBTZUSD'')
              (put_price ''eur'' (kraken_last tickers ''XXBTZEUR'') []))))"

definition fetch_coingecko :: "env \<Rightarrow> prices wact" where
  "fetch_coingecko E =
     bnd (http_json E coingecko_url ''CoinGecko request failed'' ''CoinGecko returned error status''
            ''CoinGecko response parse failed'') (\<lambda>resp.
     ret (case opt_bind (jget ''bitcoin'' resp) as_object of
         None \<Rightarrow> []
       | Some btc \<Rightarrow> put_price ''usd'' (opt_bind (map_of btc ''usd'') as_f64)
                       (put_price ''eur'' (opt_bind (map_of btc ''eur'') as_f64) [])))"

definition parse_price_value :: "json \<Rightarrow> f64 option" where
  "parse_price_value v = or_else (as_f64 v) (opt_bind (as_str v) parse_f64)"

definition fetch_bitstamp :: "env \<Rightarrow> prices wact" where
  "fetch_bitstamp E =
     for_each (\<lambda>(url, currency) m.
       bnd (http_json E url (''Bitstamp '' @ currency @ '' request failed'')
              (''Bitstamp '' @ currency @ '' error status'') (''Bitstamp '' @ currency @ '' parse failed'')) (\<lambda>resp.
       ret (put_price currency (opt_bind (jget ''last'' resp) parse_price_value) m)))
       [(bitstamp_eur_url, ''eur''), (bitstamp_usd_url, ''usd'')] []"

definition cmc_price :: "(string \<times> json) list \<Rightarrow> string \<Rightarrow> f64 option" where
  "cmc_price quote currency = opt_bind (map_of quote currency) (\<lambda>v. opt_bind (jget ''price'' v) as_f64)"

definition fetch_coinmarketcap :: "env \<Rightarrow> prices wact" where
  "fetch_coinmarketcap E =
     bnd (http_json E cmc_url ''CoinMarketCap request failed'' ''CoinMarketCap returned error status''
            ''CoinMarketCap response parse failed'') (\<lambda>resp.
     ret (case opt_bind (jget ''data'' resp) (\<lambda>d. opt_bind (jget ''BTC'' d) (\<lambda>b. opt_bind (jget ''quote'' b) as_object)) of
         None \<Rightarrow> []
       | Some quote \<Rightarrow> put_price ''usd'' (cmc_price quote ''USD'') (put_price ''eur'' (cmc_price quote ''EUR'') [])))"

section \<open>The chain of providers\<close>

definition fresh_snapshot :: "env \<Rightarrow> prices \<Rightarrow> string \<Rightarrow> price_snapshot wact" where
  "fresh_snapshot E ps source = bnd (draw (now_at E)) (\<lambda>now.
     ret \<lparr>ps_prices = ps, ps_source = source, ps_stale = False, ps_fetched_at = now\<rparr>)"

primrec first_complete :: "env \<Rightarrow> (string \<times> prices wact) list \<Rightarrow> string list \<Rightarrow> price_snapshot wact" where
  "first_complete E [] errors = bail (join ''; '' errors)"
| "first_complete E (p # ps) errors =
     bnd (attempt (snd p)) (\<lambda>r. case r of
         Ok prices \<Rightarrow>
           if length prices \<ge> 2 then fresh_snapshot E prices (fst p)
           else first_complete E ps (errors @ [fst p @ '': incomplete prices''])
       | Err e \<Rightarrow> first_complete E ps (errors @ [fst p @ '': '' @ err_to_string e])
       | Panic m \<Rightarrow> lift_res (Panic m))"

definition providers :: "env \<Rightarrow> (string \<times> prices wact) list" where
  "providers E = [(''kraken'', fetch_kraken E), (''coingecko'', fetch_coingecko E),
     (''bitstamp'', fetch_bitstamp E)]
     @ (if cmc_api_key E = None then [] else [(''coinmarketcap'', fetch_coinmarketcap E)])"

definition fetch_fresh :: "env \<Rightarrow> price_snapshot wact" where
  "fetch_fresh E = first_complete E (providers E) []"

section \<open>Cache and last known good\<close>

definition price_cache_ttl :: int where
  "price_cache_ttl = secs 60"

definition lkg_max_age :: int where
  "lkg_max_age = 600"

text \<open>\<open>Duration::num_seconds\<close> truncates towards zero.\<close>
definition num_seconds :: "int \<Rightarrow> int" where
  "num_seconds d = (if d < 0 then - (- d div 1000000000) else d div 1000000000)"

definition lkg_snapshot :: "env \<Rightarrow> price_snapshot wact" where
  "lkg_snapshot E =
     bnd (gets w_price_lkg) (\<lambda>l.
     bnd (lift_res (some_or ''No cached BTC price available'' l)) (\<lambda>lkg.
     bnd (draw (now_at E)) (\<lambda>now.
     let age = num_seconds (now - ps_fetched_at lkg) in
     if age > lkg_max_age then bail (''Cached BTC price too old ('' @ show_int age @ ''s)'')
     else ret (lkg\<lparr>ps_stale := True\<rparr>))))"

definition refetch :: "env \<Rightarrow> price_snapshot wact" where
  "refetch E =
     bnd (attempt (fetch_fresh E)) (\<lambda>r. case r of
         Ok s \<Rightarrow>
           bnd (draw (instant_at E)) (\<lambda>now.
           bnd (modify (\<lambda>w. w\<lparr>w_price_cache := Some (s, now)\<rparr>)) (\<lambda>_.
           bnd (modify (\<lambda>w. w\<lparr>w_price_lkg := Some s\<rparr>)) (\<lambda>_.
           ret s)))
       | Err e \<Rightarrow> lkg_snapshot E
       | Panic m \<Rightarrow> lift_res (Panic m))"

definition fetch_snapshot :: "env \<Rightarrow> price_snapshot wact" where
  "fetch_snapshot E =
     bnd (gets w_price_cache) (\<lambda>c. case c of
         None \<Rightarrow> refetch E
       | Some (s, cached_at) \<Rightarrow>
           bnd (draw (instant_at E)) (\<lambda>now.
           if now - cached_at < price_cache_ttl then ret s else refetch E))"

definition fetch_btc_prices :: "env \<Rightarrow> prices wact" where
  "fetch_btc_prices E = bnd (fetch_snapshot E) (\<lambda>s. ret (ps_prices s))"

definition cached_prices :: "world \<Rightarrow> prices option" where
  "cached_prices w = map_option (\<lambda>(s, t). ps_prices s) (w_price_cache w)"

definition price_condition_met :: "f64 \<Rightarrow> f64 \<Rightarrow> string \<Rightarrow> bool" where
  "price_condition_met current target condition =
     (if condition = ''below'' then f64_le current target else f64_le target current)"

section \<open>What a snapshot carries\<close>

text \<open>Prices of the two currencies, each once.\<close>
definition some_prices :: "prices \<Rightarrow> bool" where
  "some_prices m \<longleftrightarrow> distinct (map fst m) \<and> set (map fst m) \<subseteq> {''eur'', ''usd''}"

definition both_prices :: "prices \<Rightarrow> bool" where
  "both_prices m \<longleftrightarrow> (\<exists>e u. map_of m = [''eur'' \<mapsto> e, ''usd'' \<mapsto> u])"

definition prices_known :: "world \<Rightarrow> bool" where
  "prices_known w \<longleftrightarrow> (\<forall>s t. w_price_cache w = Some (s, t) \<longrightarrow> both_prices (ps_prices s))
     \<and> (\<forall>s. w_price_lkg w = Some s \<longrightarrow> both_prices (ps_prices s))"

lemma some_prices_put:
  "some_prices m \<Longrightarrow> currency \<in> {''eur'', ''usd''} \<Longrightarrow> some_prices (put_price currency p m)"
  by (cases p) (auto simp: some_prices_def put_price_def distinct_update dom_update)

lemma some_prices_Nil: "some_prices []"
  by (simp add: some_prices_def)

lemma both_prices_length:
  assumes "some_prices m" "length m \<ge> 2"
  shows "both_prices m"
proof -
  have "card (set (map fst m)) \<ge> 2"
    using assms distinct_card [of "map fst m"] by (simp add: some_prices_def)
  moreover have sub: "set (map fst m) \<subseteq> {''eur'', ''usd''}" using assms(1) by (simp add: some_prices_def)
  ultimately have "set (map fst m) = {''eur'', ''usd''}"
    by (intro card_seteq) auto
  then have "''eur'' \<in> dom (map_of m)" "''usd'' \<in> dom (map_of m)" "dom (map_of m) = {''eur'', ''usd''}"
    by (simp_all add: dom_map_of_conv_image_fst image_set [symmetric])
  then obtain e u where eu: "map_of m ''eur'' = Some e" "map_of m ''usd'' = Some u" by blast
  have "map_of m k = [''eur'' \<mapsto> e, ''usd'' \<mapsto> u] k" for k
    using eu \<open>dom (map_of m) = _\<close> by (cases "k \<in> dom (map_of m)") auto
  then show ?thesis unfolding both_prices_def by blast
qed

lemma providers_yield: "\<forall>p \<in> set (providers E). yields some_prices (snd p)"
proof -
  note rules = yields_then yields_ret yields_bail some_prices_put some_prices_Nil
  have "yields some_prices (fetch_kraken E)" "yields some_prices (fetch_coingecko E)"
    "yields some_prices (fetch_coinmarketcap E)"
    unfolding fetch_kraken_def fetch_coingecko_def fetch_coinmarketcap_def
    by (auto intro!: rules split: option.split)
  moreover have "yields some_prices (fetch_bitstamp E)"
    unfolding fetch_bitstamp_def
  proof (rule yields_for_each [where P = some_prices, OF some_prices_Nil])
    fix x :: "string \<times> string" and m
    assume "x \<in> set [(bitstamp_eur_url, ''eur''), (bitstamp_usd_url, ''usd'')]" "some_prices m"
    then show "yields some_prices ((case x of (url, currency) \<Rightarrow> \<lambda>m.
        bnd (http_json E url (''Bitstamp '' @ currency @ '' request failed'')
              (''Bitstamp '' @ currency @ '' error status'') (''Bitstamp '' @ currency @ '' parse failed'')) (\<lambda>resp.
        ret (put_price currency (opt_bind (jget ''last'' resp) parse_price_value) m))) m)"
      by (auto intro!: yields_then yields_ret some_prices_put)
  qed
  ultimately show ?thesis by (simp add: providers_def)
qed

lemma providers_quiet: "\<forall>p \<in> set (providers E). moves only_clock (snd p)"
  by (auto simp: providers_def fetch_kraken_def fetch_coingecko_def fetch_coinmarketcap_def
      fetch_bitstamp_def http_json_def intro!: quiet_rules split: if_splits option.split prod.split)

lemma first_complete_Ok:
  assumes "first_complete E ps errors w = (Ok s, v)"
    and "\<forall>p \<in> set ps. yields some_prices (snd p)"
  shows "both_prices (ps_prices s) \<and> \<not> ps_stale s
    \<and> (\<exists>n. w_clock v = Suc n \<and> ps_fetched_at s = now_at E n)"
  using assms
proof (induction ps arbitrary: errors w)
  case (Cons p ps)
  obtain r u where r: "attempt (snd p) w = (Ok r, u)"
    and k: "(case r of
         Ok prices \<Rightarrow>
           if length prices \<ge> 2 then fresh_snapshot E prices (fst p)
           else first_complete E ps (errors @ [fst p @ '': incomplete prices''])
       | Err e \<Rightarrow> first_complete E ps (errors @ [fst p @ '': '' @ err_to_string e])
       | Panic m \<Rightarrow> lift_res (Panic m)) u = (Ok s, v)"
    using Cons.prems(1) by (auto simp: bnd_Ok_iff)
  have IH: "\<And>errs w'. first_complete E ps errs w' = (Ok s, v) \<Longrightarrow> ?thesis"
    using Cons.IH Cons.prems(2) by simp
  show ?case
  proof (cases r)
    case (Ok prices)
    have "some_prices prices"
      using r Ok Cons.prems(2) by (auto simp: attempt_Ok_iff dest: yieldsD)
    then show ?thesis
      using k Ok IH both_prices_length
      by (auto simp: fresh_snapshot_def ok_iffs act_simps tick_def split: if_splits)
  next
    case (Err e)
    then show ?thesis using k IH by simp
  next
    case (Panic x)
    then show ?thesis using k by (simp add: act_simps)
  qed
qed (simp add: bail_def)

lemma fetch_fresh_quiet: "moves only_clock (fetch_fresh E)"
proof -
  have "moves only_clock (first_complete E ps errors)"
    if "\<forall>p \<in> set ps. moves only_clock (snd p)" for ps errors
    using that
  proof (induction ps arbitrary: errors)
    case (Cons p ps)
    have "moves only_clock (snd p)" using Cons.prems by simp
    moreover have "\<And>errs. moves only_clock (first_complete E ps errs)" using Cons by simp
    ultimately show ?case by (auto intro!: quiet_rules simp: fresh_snapshot_def split: res.split)
  qed (simp add: quiet_rules)
  then show ?thesis unfolding fetch_fresh_def using providers_quiet by blast
qed

text \<open>Where a snapshot came from: the cache, a provider, the last good prices.\<close>

definition from_cache :: "env \<Rightarrow> world \<Rightarrow> price_snapshot \<Rightarrow> bool" where
  "from_cache E w s \<longleftrightarrow> (\<exists>t. w_price_cache w = Some (s, t)
     \<and> instant_at E (w_clock w) - t < secs 60)"

definition from_provider :: "env \<Rightarrow> world \<Rightarrow> price_snapshot \<Rightarrow> bool" where
  "from_provider E v s \<longleftrightarrow> \<not> ps_stale s \<and> w_price_lkg v = Some s
     \<and> (\<exists>n. w_clock v = Suc (Suc n) \<and> ps_fetched_at s = now_at E n
          \<and> w_price_cache v = Some (s, instant_at E (Suc n)))"

definition from_lkg :: "env \<Rightarrow> world \<Rightarrow> world \<Rightarrow> price_snapshot \<Rightarrow> bool" where
  "from_lkg E w v s \<longleftrightarrow> ps_stale s \<and> w_price_cache v = w_price_cache w \<and> w_price_lkg v = w_price_lkg w
     \<and> (\<exists>l n. w_price_lkg w = Some l \<and> s = l\<lparr>ps_stale := True\<rparr> \<and> w_clock v = Suc n
          \<and> now_at E n - ps_fetched_at l < secs 601)"

lemma num_seconds_le: "num_seconds d \<le> 600 \<Longrightarrow> d < secs 601"
  by (simp add: num_seconds_def split: if_splits) linarith?

lemma refetch_Ok:
  assumes "refetch E w = (Ok s, v)" "prices_known w"
  shows "both_prices (ps_prices s) \<and> prices_known v \<and> (from_provider E v s \<or> from_lkg E w v s)"
proof -
  obtain r u where r: "attempt (fetch_fresh E) w = (Ok r, u)"
    using assms(1) by (auto simp: refetch_def bnd_Ok_iff)
  then have f: "fetch_fresh E w = (r, u)" by (simp add: attempt_Ok_iff)
  have same: "w_price_cache u = w_price_cache w" "w_price_lkg u = w_price_lkg w"
    using movesD [OF fetch_fresh_quiet f] by (simp_all add: only_clock_proj)
  show ?thesis
  proof (cases r)
    case (Ok x)
    have x: "s = x" "w_price_cache v = Some (x, instant_at E (w_clock u))" "w_price_lkg v = Some x"
      "w_clock v = Suc (w_clock u)"
      using assms(1) r Ok by (auto simp: refetch_def ok_iffs act_simps tick_def)
    have "both_prices (ps_prices x) \<and> \<not> ps_stale x
        \<and> (\<exists>n. w_clock u = Suc n \<and> ps_fetched_at x = now_at E n)"
      using first_complete_Ok [OF f [unfolded Ok fetch_fresh_def] providers_yield] .
    then show ?thesis using x by (auto simp: prices_known_def from_provider_def)
  next
    case (Err e)
    then have l: "lkg_snapshot E u = (Ok s, v)" using assms(1) r by (auto simp: refetch_def ok_iffs)
    then obtain g where g: "w_price_lkg u = Some g" "s = g\<lparr>ps_stale := True\<rparr>" "v = tick u"
      "num_seconds (now_at E (w_clock u) - ps_fetched_at g) \<le> 600"
      by (auto simp: lkg_snapshot_def ok_iffs act_simps some_or_def Let_def lkg_max_age_def bail_def ret_def
          split: option.splits if_splits)
    then show ?thesis
      using same assms(2) num_seconds_le [OF g(4)]
      by (auto simp: prices_known_def from_lkg_def tick_def)
  next
    case (Panic p)
    then show ?thesis using r by (simp add: attempt_Ok_iff)
  qed
qed

text \<open>
  C37: A price is complete and recent.  Every snapshot the feed returns has exactly the two
  prices, in euro and in dollar, and it was cached less than 60 seconds ago, or a provider
  gave it during the call (then it is the new cache entry and the new last good price), or no
  provider did and it is the last good price, marked stale and less than 601 seconds old.
\<close>
theorem prices_are_recent:
  assumes "prices_known w" "fetch_snapshot E w = (Ok s, v)"
  shows "both_prices (ps_prices s) \<and> prices_known v
    \<and> (from_cache E w s \<or> from_provider E v s \<or> from_lkg E w v s)"
proof (cases "w_price_cache w")
  case None
  then have "refetch E w = (Ok s, v)" using assms(2) by (simp add: fetch_snapshot_def ok_iffs act_simps)
  from refetch_Ok [OF this assms(1)] show ?thesis by blast
next
  case (Some c)
  obtain s0 t where c: "c = (s0, t)" by force
  show ?thesis
  proof (cases "instant_at E (w_clock w) - t < price_cache_ttl")
    case True
    then have "s = s0" "v = tick w"
      using assms(2) Some c by (auto simp: fetch_snapshot_def ok_iffs act_simps)
    then show ?thesis
      using True Some c assms(1)
      by (auto simp: prices_known_def from_cache_def price_cache_ttl_def tick_def)
  next
    case False
    then have r: "refetch E (tick w) = (Ok s, v)"
      using assms(2) Some c by (auto simp: fetch_snapshot_def ok_iffs act_simps)
    have "prices_known (tick w)" using assms(1) by (simp add: prices_known_def tick_def)
    from refetch_Ok [OF r this] show ?thesis by (auto simp: from_lkg_def tick_def)
  qed
qed

text \<open>CoinGecko answers, Kraken does not.\<close>
definition env_prices :: env where
  "env_prices = env0\<lparr>http_at := (\<lambda>n url. if url = coingecko_url
     then HttpBody (JObj [(''bitcoin'', JObj [(''eur'', JInt 50000), (''usd'', JInt 60000)])])
     else HttpStatus [''503''])\<rparr>"

theorem prices_are_recent_witness:
  "\<exists>s v. fetch_snapshot env_prices world0 = (Ok s, v) \<and> ps_source s = ''coingecko''
     \<and> from_provider env_prices v s"
proof -
  let ?r = "fetch_snapshot env_prices world0"
  have "map_option ps_source (res_ok (fst ?r)) = Some ''coingecko''" by code_simp
  then obtain s where s: "fst ?r = Ok s" "ps_source s = ''coingecko''"
    by (cases "fst ?r") auto
  then have run: "?r = (Ok s, snd ?r)" by (metis prod.collapse)
  have "prices_known world0" by (simp add: prices_known_def world0_def)
  from prices_are_recent [OF this run] have "from_provider env_prices (snd ?r) s"
    by (auto simp: from_cache_def from_lkg_def world0_def)
  then show ?thesis using run s by blast
qed

end
