(* ===== verification/Notify.thy ===== *)
theory Notify
  imports Discovery Database
begin

text \<open>
  The notification of a broadcast (\<open>src/src/notify/mod.rs\<close>, \<open>src/src/notify/nostr.rs\<close>): the
  text of the message, the at most three attempts, and the private message over Nostr.  Keys,
  addresses and the relays are the environment's.  Case mapping of the first letter of a label
  is that of ASCII.
\<close>

section \<open>The message\<close>

datatype language = En | Es

definition from_code :: "string \<Rightarrow> language" where
  "from_code code = (if starts_with (to_lower (trim code)) ''es'' then Es else En)"

definition btc_to_sats :: "f64 \<Rightarrow> u64" where
  "btc_to_sats btc = (if f64_le btc 0 then 0
     else f64_to_u64 (f64_round (f64_mul btc (f64_of_int 100000000))))"

definition ellipsis :: string where
  "ellipsis = [CHR 0xE2, CHR 0x80, CHR 0xA6]"

text \<open>A string may be cut before a byte that does not continue a character.\<close>
definition char_boundary :: "string \<Rightarrow> nat \<Rightarrow> bool" where
  "char_boundary s n \<longleftrightarrow> n = length s \<or> n < length s \<and> code_of (s ! n) div 64 \<noteq> 2"

definition short_txid :: "string \<Rightarrow> string res" where
  "short_txid txid =
     (if length txid \<le> 20 then Ok txid
      else if char_boundary txid 8 \<and> char_boundary txid (length txid - 8)
      then Ok (take 8 txid @ ellipsis @ drop (length txid - 8) txid)
      else Panic ''byte index is not a char boundary'')"

definition source_display :: "string option \<Rightarrow> language \<Rightarrow> string" where
  "source_display source lang =
     (case opt_bind (map_option trim source) (\<lambda>s. if s = [] then None else Some s) of
        Some s \<Rightarrow> (case s of [] \<Rightarrow> s | c # r \<Rightarrow> upper_char c # r)
      | None \<Rightarrow> (case lang of En \<Rightarrow> ''unknown wallet'' | Es \<Rightarrow> ''cartera desconocida''))"

definition format_ts :: "env \<Rightarrow> datetime \<Rightarrow> string" where
  "format_ts E t = format_minute E t"

text \<open>One digit of the output, with a separator before it.\<close>
definition group_step :: "nat \<Rightarrow> char \<Rightarrow> nat \<times> char \<Rightarrow> string" where
  "group_step len sep p = (case p of (i, c) \<Rightarrow> if 0 < i \<and> (len - i) mod 3 = 0 then [sep, c] else [c])"

definition group_digits :: "u64 \<Rightarrow> char \<Rightarrow> string" where
  "group_digits n sep = (let digits = show_int (uint n) in
     concat (map (group_step (length digits) sep) (enumerate 0 digits)))"

definition newline :: string where
  "newline = [CHR 0x0A]"

definition message :: "env \<Rightarrow> broadcast_event \<Rightarrow> language \<Rightarrow> string res" where
  "message E ev lang =
     res_bind (short_txid (be_txid ev)) (\<lambda>txid.
     let source = source_display (be_source_label ev) lang;
         broadcast_at = format_ts E (be_broadcast_at ev);
         created = (\<lambda>l. case be_created_at ev of None \<Rightarrow> [] | Some t \<Rightarrow> newline @ l @ format_ts E t)
     in Ok (case lang of
         En \<Rightarrow> ''Broadcast Pool: your transaction from '' @ source
           @ '' has been redistributed to the network.'' @ newline
           @ ''Txid: '' @ txid @ newline
           @ ''Amount: '' @ group_digits (be_amount_sats ev) (CHR '','') @ '' sats'' @ newline
           @ ''Network: '' @ be_network ev @ created ''Created: '' @ newline
           @ ''Broadcast: '' @ broadcast_at
       | Es \<Rightarrow> ''Broadcast Pool: tu transacci'' @ [CHR 0xC3, CHR 0xB3] @ ''n de '' @ source
           @ '' ha sido redistribuida a la red.'' @ newline
           @ ''Txid: '' @ txid @ newline
           @ ''Importe: '' @ group_digits (be_amount_sats ev) (CHR ''.'') @ '' sats'' @ newline
           @ ''Red: '' @ be_network ev @ created ''Creada: '' @ newline
           @ ''Difundida: '' @ broadcast_at))"

section \<open>Nostr\<close>

definition generate_nsec :: "env \<Rightarrow> string wact" where
  "generate_nsec E = draw (nsec_at E)"

definition parse_keys :: "env \<Rightarrow> string \<Rightarrow> string res" where
  "parse_keys E nsec = (if nsec_ok E (trim nsec) then Ok (trim nsec)
     else Err [''Invalid Nostr secret key (expected nsec'' @ ellipsis @ '' or hex)'', ''key''])"

definition npub_from_nsec :: "env \<Rightarrow> string \<Rightarrow> string res" where
  "npub_from_nsec E nsec = res_bind (parse_keys E nsec) (\<lambda>k. Ok (npub_of E k))"

definition parse_recipient :: "env \<Rightarrow> string \<Rightarrow> string res" where
  "parse_recipient E npub = (if npub_ok E (trim npub) then Ok (trim npub)
     else Err [''Invalid recipient npub'', ''key''])"

definition validate_npub :: "env \<Rightarrow> string \<Rightarrow> unit res" where
  "validate_npub E npub = res_bind (parse_recipient E npub) (\<lambda>_. Ok ())"

definition resolve_socks_addr :: "env \<Rightarrow> string \<Rightarrow> string wact" where
  "resolve_socks_addr E socks =
     bnd (with_ctx (''Could not resolve Tor SOCKS address '' @ [CHR 0x27] @ socks @ [CHR 0x27])
            (draw_res (\<lambda>n. socks_addr_at E n (trim socks)))) (\<lambda>a.
     lift_res (some_or (''Tor SOCKS address '' @ [CHR 0x27] @ socks @ [CHR 0x27] @ '' resolved to nothing'') a))"

text \<open>The proxy and the time limits for connecting and sending, in seconds.\<close>
definition build_client :: "env \<Rightarrow> nostr_config \<Rightarrow> (string option \<times> int \<times> int) wact" where
  "build_client E cfg = (case resolved_tor_socks E cfg (is_umbrel_mode E) of
       None \<Rightarrow>
         if has_onion_relay cfg
         then bail (''A .onion relay is configured but no Tor SOCKS proxy is available. ''
           @ ''Set the Tor proxy address in Settings (e.g. 127.0.0.1:9050).'')
         else ret (None, 10, 20)
     | Some socks \<Rightarrow>
         bnd (resolve_socks_addr E socks) (\<lambda>addr.
         ret (if has_onion_relay cfg then (Some addr, 60, 90) else (Some addr, 10, 20))))"

definition describe_failures :: "(string \<times> string) list \<Rightarrow> (string \<times> string) list \<Rightarrow> string" where
  "describe_failures connect_failed publish_failed =
     join ''; '' (remdups_adj (rev (order_desc (\<lambda>s. s)
       (map (\<lambda>(url, err). url @ '': '' @ err) (connect_failed @ publish_failed)))))"

definition nostr_result :: "nostr_reply \<Rightarrow> unit res" where
  "nostr_result r = (case r of
       NostrTimedOut e \<Rightarrow> Err (''Timed out sending Nostr DM'' # e)
     | NostrError e \<Rightarrow> Err (''Failed to send Nostr DM'' # e)
     | NostrDone out \<Rightarrow>
         if no_success out \<noteq> [] then Ok ()
         else let reasons = describe_failures (no_connect_failed out) (no_publish_failed out) in
           Err [if reasons = [] then ''No relay accepted the Nostr DM''
                else ''No relay accepted the Nostr DM: '' @ reasons])"

definition nonblank_relays :: "nostr_config \<Rightarrow> string list" where
  "nonblank_relays cfg = filter (\<lambda>r. r \<noteq> []) (map trim (relays cfg))"

definition add_relays :: "env \<Rightarrow> string list \<Rightarrow> unit res" where
  "add_relays E rs = (case List.find (\<lambda>r. \<not> relay_url_ok E r) rs of
       None \<Rightarrow> Ok () | Some r \<Rightarrow> Err [''Invalid relay URL: '' @ r, ''url''])"

definition send_nostr :: "env \<Rightarrow> nostr_config \<Rightarrow> broadcast_event \<Rightarrow> language \<Rightarrow> unit wact" where
  "send_nostr E cfg ev lang =
     bnd (lift_res (parse_keys E (app_nsec cfg))) (\<lambda>nsec.
     bnd (lift_res (parse_recipient E (recipient_npub cfg))) (\<lambda>recipient.
     let rs = nonblank_relays cfg in
     if rs = [] then bail ''No Nostr relays configured''
     else
       bnd (build_client E cfg) (\<lambda>(proxy, connect_secs, send_secs).
       bnd (lift_res (add_relays E rs)) (\<lambda>_.
       bnd (lift_res (message E ev lang)) (\<lambda>text.
       let msg = \<lparr>nm_nsec = nsec, nm_recipient = recipient, nm_relays = rs, nm_proxy = proxy,
                  nm_connect_secs = connect_secs, nm_send_secs = send_secs, nm_text = text\<rparr> in
       bnd (put_outbox (ToNostr msg)) (\<lambda>_.
       bnd (draw (\<lambda>n. nostr_dm_at E n msg)) (\<lambda>r.
       lift_res (nostr_result r))))))))"

section \<open>Attempts\<close>

definition max_attempts :: nat where
  "max_attempts = 3"

definition with_retries :: "unit wact \<Rightarrow> bool wact" where
  "with_retries m = for_loop (\<lambda>n _. bnd (attempt m) (\<lambda>r.
     ret (if is_ok r then Break True else Continue False))) [0..<max_attempts] False"

definition deliver :: "env \<Rightarrow> notifications_config \<Rightarrow> broadcast_event \<Rightarrow> unit wact" where
  "deliver E cfg ev =
     (if \<not> nostr_active cfg then ret ()
      else bnd (with_retries (send_nostr E (notif_nostr cfg) ev (from_code (notif_language cfg)))) (\<lambda>_.
        ret ()))"

section \<open>What leaves, and how often\<close>

text \<open>The run appended at most \<open>n\<close> messages, all with \<open>P\<close>, and only the clock moved besides.\<close>
definition says :: "nat \<Rightarrow> (outmsg \<Rightarrow> bool) \<Rightarrow> world \<Rightarrow> world \<Rightarrow> bool" where
  "says n P w v \<longleftrightarrow> (\<exists>k out. v = w\<lparr>w_clock := k, w_outbox := w_outbox w @ out\<rparr>
     \<and> length out \<le> n \<and> list_all P out)"

lemma says_clock: "only_clock w v \<Longrightarrow> says n P w v"
proof -
  assume "only_clock w v"
  then obtain k where "v = w\<lparr>w_clock := k\<rparr>" by (auto simp: only_clock_def)
  then have "v = w\<lparr>w_clock := k, w_outbox := w_outbox w @ []\<rparr>" by simp
  moreover have "length ([] :: outmsg list) \<le> n \<and> list_all P []" by simp
  ultimately show ?thesis unfolding says_def by blast
qed

lemma says_mono: "says m P w v \<Longrightarrow> m \<le> n \<Longrightarrow> says n P w v"
  unfolding says_def by (elim exE conjE, rule exI, rule exI, intro conjI, assumption) simp_all

lemma says_trans: "says m P w v \<Longrightarrow> says n P v u \<Longrightarrow> says (m + n) P w u"
  unfolding says_def by (elim exE conjE, rule_tac x = ka in exI, rule_tac x = "out @ outa" in exI) auto

lemma says_put: "P m \<Longrightarrow> says 1 P w (w\<lparr>w_outbox := w_outbox w @ [m]\<rparr>)"
  unfolding says_def by (rule exI [of _ "w_clock w"], rule exI [of _ "[m]"]) simp

lemma says_bnd:
  assumes "moves (says a P) m" "\<And>x. moves (says b P) (f x)"
  shows "moves (says (a + b) P) (bnd m f)"
proof (rule movesI)
  fix w r v
  assume run: "bnd m f w = (r, v)"
  obtain x u where m: "m w = (x, u)" by (cases "m w")
  have 1: "says a P w u" using movesD [OF assms(1) m] .
  show "says (a + b) P w v"
  proof (cases x)
    case (Ok y)
    then have "f y u = (r, v)" using run m by (simp add: bnd_apply)
    then show ?thesis using says_trans [OF 1 movesD [OF assms(2)]] by blast
  qed (use run m says_mono [OF 1, of "a + b"] in \<open>simp_all add: bnd_apply\<close>)
qed

lemma says_quiet: "moves only_clock m \<Longrightarrow> moves (says n P) m"
  by (simp add: moves_def says_clock)

lemma says_quiet_then:
  assumes "moves only_clock m" "\<And>x. moves (says n P) (f x)"
  shows "moves (says n P) (bnd m f)"
  using says_bnd [OF says_quiet [OF assms(1), of 0] assms(2)] by simp

text \<open>The messages of one delivery.\<close>
definition notice_msg :: "env \<Rightarrow> nostr_config \<Rightarrow> broadcast_event \<Rightarrow> language \<Rightarrow> outmsg \<Rightarrow> bool" where
  "notice_msg E cfg ev lang m \<longleftrightarrow> (\<exists>dm. m = ToNostr dm \<and> message E ev lang = Ok (nm_text dm)
     \<and> nm_recipient dm = trim (recipient_npub cfg) \<and> nm_relays dm = nonblank_relays cfg
     \<and> (has_onion_relay cfg \<longrightarrow> nm_proxy dm \<noteq> None))"

lemma quiet_build_client: "moves only_clock (build_client E cfg)"
  unfolding build_client_def resolve_socks_addr_def
  by (auto intro!: quiet_rules split: option.split)

lemma build_client_proxy: "yields (\<lambda>(proxy, c, s). has_onion_relay cfg \<longrightarrow> proxy \<noteq> None) (build_client E cfg)"
  unfolding build_client_def by (auto intro!: yields_then yields_ret yields_bail split: option.split)

lemma says_send: "moves (says 1 (notice_msg E cfg ev lang)) (send_nostr E cfg ev lang)"
proof (rule movesI)
  fix w r v
  assume run: "send_nostr E cfg ev lang w = (r, v)"
  show "says 1 (notice_msg E cfg ev lang) w v"
  proof (cases "\<exists>k t. parse_keys E (app_nsec cfg) = Ok k \<and> parse_recipient E (recipient_npub cfg) = Ok t
      \<and> nonblank_relays cfg \<noteq> []")
    case False
    then have "v = w"
      using run
      by (auto simp: send_nostr_def bnd_apply act_simps Let_def split: res.splits if_splits)
    then show ?thesis by (simp add: says_clock quiet.refl)
  next
    case True
    then obtain k where keys: "parse_keys E (app_nsec cfg) = Ok k"
      "parse_recipient E (recipient_npub cfg) = Ok (trim (recipient_npub cfg))"
      "nonblank_relays cfg \<noteq> []"
      by (auto simp: parse_recipient_def split: if_splits)
    obtain b u where b: "build_client E cfg w = (b, u)" by (cases "build_client E cfg w")
    have u: "only_clock w u" using movesD [OF quiet_build_client b] .
    show ?thesis
    proof (cases "\<exists>t x. b = Ok t \<and> add_relays E (nonblank_relays cfg) = Ok () \<and> message E ev lang = Ok x")
      case False
      then have "v = u"
        using run keys b
        by (auto simp: send_nostr_def bnd_apply act_simps Let_def split: res.splits prod.splits)
      then show ?thesis using u by (simp add: says_clock)
    next
      case True
      then obtain proxy c s x where t: "b = Ok (proxy, c, s)" "add_relays E (nonblank_relays cfg) = Ok ()"
        "message E ev lang = Ok x" by (metis prod_cases3)
      let ?m = "\<lparr>nm_nsec = k, nm_recipient = trim (recipient_npub cfg), nm_relays = nonblank_relays cfg,
        nm_proxy = proxy, nm_connect_secs = c, nm_send_secs = s, nm_text = x\<rparr>"
      have "has_onion_relay cfg \<longrightarrow> proxy \<noteq> None"
        using yieldsD [OF build_client_proxy b [unfolded t]] by simp
      then have m: "notice_msg E cfg ev lang (ToNostr ?m)" using t by (simp add: notice_msg_def)
      have "v = tick (u\<lparr>w_outbox := w_outbox u @ [ToNostr ?m]\<rparr>)"
        using run keys b t by (simp add: send_nostr_def bnd_apply act_simps Let_def)
      then have "says 1 (notice_msg E cfg ev lang) u v"
        using says_trans [OF says_put [where P = "notice_msg E cfg ev lang", OF m] says_clock [OF only_clock_tick, of 0]]
        by simp
      from says_trans [OF says_clock [OF u, of 0] this] show ?thesis by simp
    qed
  qed
qed

lemma says_attempt: "moves (says n P) m \<Longrightarrow> moves (says n P) (attempt m)"
  unfolding moves_def by (auto simp: attempt_apply split: prod.split res.split) (metis snd_conv)+

lemma says_ret: "moves (says 0 P) (ret x)"
  by (simp add: says_quiet quiet.pure_ret)

lemma says_for_loop:
  assumes "\<And>x acc. moves (says 1 P) (body x acc)"
  shows "moves (says (length xs) P) (for_loop body xs acc)"
proof (induction xs arbitrary: acc)
  case (Cons x xs)
  have "moves (says (1 + length xs) P) (for_loop body (x # xs) acc)"
    unfolding for_loop.simps
    by (rule says_bnd [OF assms]) (auto split: flow.split intro: Cons says_quiet quiet.pure_ret)
  then show ?case by simp
qed (simp add: says_ret)

text \<open>
  A notification is sent at most three times, and only where the user wants it.  When the
  channel is not fully configured nothing leaves; otherwise at most three messages do, each
  with the text of this event, to the configured recipient over the configured relays, and
  never to an onion relay without a proxy.  Nothing else of the state changes.
\<close>
theorem notification_attempts:
  "says (if nostr_active cfg then 3 else 0)
     (notice_msg E (notif_nostr cfg) ev (from_code (notif_language cfg)))
     w (snd (deliver E cfg ev w))"
proof (cases "nostr_active cfg")
  case True
  let ?lang = "from_code (notif_language cfg)"
  let ?P = "notice_msg E (notif_nostr cfg) ev ?lang"
  have "moves (says (1 + 0) ?P) (bnd (attempt (send_nostr E (notif_nostr cfg) ev ?lang)) (\<lambda>r.
     ret (if is_ok r then Break True else Continue False)))"
    by (intro says_bnd says_attempt says_send says_ret)
  then have "moves (says (length [0..<max_attempts]) ?P) (with_retries (send_nostr E (notif_nostr cfg) ev ?lang))"
    unfolding with_retries_def by (intro says_for_loop) simp
  then have "moves (says 3 ?P) (with_retries (send_nostr E (notif_nostr cfg) ev ?lang))"
    by (simp add: max_attempts_def)
  from says_bnd [OF this, of 0 "\<lambda>_. ret ()", OF says_ret] have "moves (says 3 ?P) (deliver E cfg ev)"
    unfolding deliver_def using True by simp
  then show ?thesis using True by (simp add: moves_snd)
qed (simp add: deliver_def act_simps says_clock quiet.refl)

section \<open>Grouped digits\<close>

text \<open>The suffix of the digits that is left, grouped.\<close>
lemma group_steps_suffix:
  assumes "length cs \<le> len"
  shows "concat (map (group_step len sep) (enumerate (len - length cs) cs))
    = (case cs of [] \<Rightarrow> [] | c # r \<Rightarrow>
        group_step len sep (len - length cs, c) @ concat (map (group_step len sep) (enumerate (len - length r) r)))"
  using assms by (cases cs) (auto simp: Suc_diff_Suc)

lemma mod3_pred:
  fixes n :: nat
  shows "n mod 3 = 0 \<Longrightarrow> 0 < n \<Longrightarrow> (n - 1) mod 3 + 1 = 3"
    "n mod 3 \<noteq> 0 \<Longrightarrow> Suc ((n - 1) mod 3 + 1) = n mod 3 + 1"
  by (cases n; auto simp: mod_Suc split: if_splits)+

lemma group_parts:
  assumes "sep \<notin> set cs" "length cs \<le> len" "cs \<noteq> []"
  shows "\<exists>g gs. concat (map (group_step len sep) (enumerate (len - length cs) cs))
      = (if 0 < len - length cs \<and> length cs mod 3 = 0 then [sep] else []) @ join [sep] (g # gs)
    \<and> concat (g # gs) = cs \<and> length g = (length cs - 1) mod 3 + 1 \<and> (\<forall>x \<in> set gs. length x = 3)"
  using assms
proof (induction cs)
  case (Cons c r)
  let ?pre = "if 0 < len - length (c # r) \<and> length (c # r) mod 3 = 0 then [sep] else []"
  have len: "len - (len - length (c # r)) = length (c # r)" using Cons.prems(2) by simp
  have head: "group_step len sep (len - length (c # r), c) = ?pre @ [c]"
    unfolding group_step_def using len by simp
  show ?case
  proof (cases "r = []")
    case True
    then show ?thesis using head
      by (intro exI [of _ "[c]"] exI [of _ "[]"]) (simp add: group_steps_suffix Cons.prems(2))
  next
    case False
    let ?tail = "concat (map (group_step len sep) (enumerate (len - length r) r))"
    obtain g gs where IH: "?tail = (if 0 < len - length r \<and> length r mod 3 = 0 then [sep] else []) @ join [sep] (g # gs)"
      "concat (g # gs) = r" "length g = (length r - 1) mod 3 + 1" "\<forall>x \<in> set gs. length x = 3"
      using Cons.IH Cons.prems False by auto
    have pos: "0 < len - length r" using Cons.prems(2) by simp
    have whole: "concat (map (group_step len sep) (enumerate (len - length (c # r)) (c # r))) = ?pre @ c # ?tail"
      by (subst group_steps_suffix [OF Cons.prems(2)]) (simp add: head [simplified])
    show ?thesis
    proof (cases "length r mod 3 = 0")
      case True
      then have "?tail = sep # join [sep] (g # gs)" using IH(1) pos by simp
      then have "c # ?tail = join [sep] ([c] # g # gs)" by simp
      then have "concat (map (group_step len sep) (enumerate (len - length (c # r)) (c # r)))
          = ?pre @ join [sep] ([c] # g # gs)"
        by (simp only: whole)
      moreover have "length g = 3" using IH(3) mod3_pred(1) [OF True] False by simp
      then have "\<forall>x \<in> set (g # gs). length x = 3" using IH(4) by simp
      moreover have "length [c] = (length (c # r) - 1) mod 3 + 1" using True by simp
      moreover have "concat ([c] # g # gs) = c # r" using IH(2) by simp
      ultimately show ?thesis by blast
    next
      case no: False
      then have "c # ?tail = join [sep] ((c # g) # gs)" using IH(1) by (cases gs) simp_all
      moreover have "length (c # g) = (length (c # r) - 1) mod 3 + 1"
        using IH(3) mod3_pred(2) [OF no] by simp
      moreover have "concat ((c # g) # gs) = c # r" using IH(2) by simp
      ultimately show ?thesis using whole IH(4) by metis
    qed
  qed
qed simp

text \<open>
  An amount is grouped in threes from the right: cut at the separator, the text is the
  digits of the number in groups of three, the first of one to three digits.
\<close>
theorem amounts_grouped_in_threes:
  assumes "\<not> is_digit sep"
  shows "\<exists>g gs. split_on sep (group_digits n sep) = g # gs \<and> concat (g # gs) = show_int (uint n)
    \<and> 1 \<le> length g \<and> length g \<le> 3 \<and> (\<forall>x \<in> set gs. length x = 3)"
proof -
  let ?ds = "show_digits (uint n)"
  have ds: "?ds \<noteq> []" "sep \<notin> set ?ds"
    using show_digits_digits [of "uint n"] show_digits_chars [of "uint n" sep] assms by auto
  obtain g gs where *: "group_digits n sep = join [sep] (g # gs)" "concat (g # gs) = ?ds"
    "length g = (length ?ds - 1) mod 3 + 1" "\<forall>x \<in> set gs. length x = 3"
    using group_parts [OF ds(2) order_refl ds(1)]
    by (auto simp: group_digits_def show_int_def Let_def)
  have "set (concat (g # gs)) = set ?ds" using *(2) by simp
  then have "\<forall>x \<in> set (g # gs). sep \<notin> set x" using ds(2) by auto
  then have "split_on sep (group_digits n sep) = g # gs"
    unfolding *(1) by (intro split_on_join_parts) auto
  then show ?thesis using * by (intro exI [of _ g] exI [of _ gs]) (simp add: show_int_def)
qed

theorem amounts_grouped_in_threes_witness:
  "group_digits 100000000 (CHR ''.'') = ''100.000.000''
     \<and> (\<exists>g gs. split_on (CHR ''.'') ''100.000.000'' = g # gs \<and> concat (g # gs) = ''100000000''
          \<and> 1 \<le> length g \<and> length g \<le> 3 \<and> (\<forall>x \<in> set gs. length x = 3))"
proof -
  have run: "group_digits 100000000 (CHR ''.'') = ''100.000.000''" by code_simp
  have "show_int (uint (100000000 :: u64)) = ''100000000''" by code_simp
  moreover have "\<not> is_digit (CHR ''.'')" by code_simp
  ultimately show ?thesis using amounts_grouped_in_threes [of "CHR ''.''" 100000000] run by simp
qed

end
