(* ===== verification/Pool_Manager.thy ===== *)
theory Pool_Manager
  imports Chain_Clock Pending_Map Price_Feed Notify
begin

text \<open>
  The pool manager (\<open>src/src/pool/manager.rs\<close>): scheduling, the price triggers, the
  broadcast of due transactions and on request, retries, confirmations, and what the user sees
  of a transaction's locktime.  A method of \<open>PoolManager\<close> is an action on \<open>world\<close>; locks
  are not poisoned.
\<close>

section \<open>Sending\<close>

definition no_chain_source :: string where
  "no_chain_source = ''no chain data source available''"

definition em_dash :: string where
  "em_dash = [CHR 0xE2, CHR 0x80, CHR 0x94]"

definition broadcast_via_core :: "env \<Rightarrow> string \<Rightarrow> err option \<Rightarrow> string wact" where
  "broadcast_via_core E hex indexer_err =
     bnd (gets w_rpc) (\<lambda>rpc.
     if rpc then core_broadcast E hex
     else case indexer_err of
         Some e \<Rightarrow> lift_res (Err e)
       | None \<Rightarrow> bail ''No broadcast backend available (neither Indexer nor RPC)'')"

definition broadcast_transaction :: "env \<Rightarrow> string \<Rightarrow> string wact" where
  "broadcast_transaction E hex =
     bnd (gets w_health) (\<lambda>h.
     bnd (gets w_indexer) (\<lambda>ic.
     if should_try_indexer h \<and> ic \<noteq> None then
       bnd (attempt (indexer_broadcast E hex)) (\<lambda>r. case r of
           Ok txid \<Rightarrow> ret txid
         | Err e \<Rightarrow> broadcast_via_core E hex (Some e)
         | Panic p \<Rightarrow> lift_res (Panic p))
     else broadcast_via_core E hex None))"

definition import_transaction :: "env \<Rightarrow> new_broadcast_tx \<Rightarrow> broadcast_tx wact" where
  "import_transaction E tx = insert_broadcast_tx E tx"

definition mark_broadcast :: "env \<Rightarrow> string \<Rightarrow> string \<Rightarrow> f64 \<Rightarrow> unit wact" where
  "mark_broadcast E i txid fee_rate =
     bnd (db_mark_broadcast E i txid fee_rate) (\<lambda>_.
     bnd (remove_pending_tx txid) (\<lambda>_. ret ()))"

definition emit_event :: "env \<Rightarrow> broadcast_tx \<Rightarrow> string \<Rightarrow> unit wact" where
  "emit_event E tx txid =
     bnd (draw (now_at E)) (\<lambda>now.
     modify (\<lambda>w. w\<lparr>w_bcast_events := w_bcast_events w @
       [\<lparr>be_txid = txid, be_amount_sats = btc_to_sats (t_total_value_btc tx),
         be_source_label = t_source_label tx, be_created_at = Some (t_created_at tx),
         be_broadcast_at = now, be_network = t_network tx\<rparr>]\<rparr>))"

definition refuse_blind :: "err \<Rightarrow> string" where
  "refuse_blind e = ''Cannot verify this transaction's nLockTime without a chain data source (''
     @ err_to_string e @ ''). Refusing to broadcast blind.''"

text \<open>\<open>is_locktime_satisfied\<close> with its error rewritten.\<close>
definition locktime_or_refuse :: "env \<Rightarrow> u64 option \<Rightarrow> bool wact" where
  "locktime_or_refuse E n =
     bnd (attempt (is_locktime_satisfied E n)) (\<lambda>r. case r of
         Ok b \<Rightarrow> ret b
       | Err e \<Rightarrow> bail (refuse_blind e)
       | Panic p \<Rightarrow> lift_res (Panic p))"

text \<open>The locktime is a time: a value above the threshold.\<close>
definition time_locked :: "u64 option \<Rightarrow> bool" where
  "time_locked n = (case n of None \<Rightarrow> False | Some k \<Rightarrow> locktime_threshold < k)"

section \<open>Broadcast on request\<close>

definition refuse_locked :: "env \<Rightarrow> u64 \<Rightarrow> string wact" where
  "refuse_locked E n =
     (if locktime_threshold < n then
        bnd (attempt (get_median_time_past_cached E)) (\<lambda>r.
        bail (''The transaction's own nLockTime is not reached yet (~''
          @ show_int (uint (case res_ok r of Some mtp \<Rightarrow> sat_sub n mtp | None \<Rightarrow> 0))
          @ ''s to go). The network would reject it as non-final.''))
      else bail (''The transaction's own nLockTime targets block '' @ show_int (uint n)
          @ '', which the chain has not reached. The network would reject it as non-final.''))"

definition send_and_record :: "env \<Rightarrow> broadcast_tx \<Rightarrow> string wact" where
  "send_and_record E tx =
     bnd (broadcast_transaction E (t_tx_hex tx)) (\<lambda>txid.
     bnd (mark_broadcast E (t_id tx) txid (unwrap_or 0 (t_target_fee_rate tx))) (\<lambda>_.
     bnd (emit_event E tx txid) (\<lambda>_.
     ret txid)))"

definition send_if_final :: "env \<Rightarrow> broadcast_tx \<Rightarrow> string wact" where
  "send_if_final E tx =
     bnd (locktime_or_refuse E (t_nlocktime tx)) (\<lambda>ok.
     if \<not> ok then refuse_locked E (unwrap_or 0 (t_nlocktime tx)) else send_and_record E tx)"

definition broadcast_now :: "env \<Rightarrow> string \<Rightarrow> string wact" where
  "broadcast_now E i =
     bnd (gets w_safe_mode) (\<lambda>safe.
     if safe then bail (''Safe mode is active after a tampered row was detected '' @ em_dash
         @ '' broadcasting is halted until it is acknowledged.'')
     else bnd (get_broadcast_tx_by_id E i) (\<lambda>tx.
     if t_tampered tx = Some True then
       seq (enter_safe_mode (t_id tx))
         (bail (''This row failed its integrity check '' @ em_dash @ '' broadcasting halted.''))
     else if t_status tx = Broadcast then bail ''This transaction has already been broadcast.''
     else if t_status tx = Confirmed then bail ''This transaction is already confirmed.''
     else send_if_final E tx))"

section \<open>Broadcast of what is due\<close>

definition is_retriable_broadcast_error :: "string \<Rightarrow> bool" where
  "is_retriable_broadcast_error msg =
     (let m = to_lower msg in
      str_contains m ''non-final'' \<or> str_contains m ''non final'' \<or> str_contains m ''not final''
      \<or> str_contains m ''locktime'' \<or> str_contains m ''too-long-mempool-chain'')"

definition is_tx_due_for_broadcast :: "env \<Rightarrow> broadcast_tx \<Rightarrow> datetime \<Rightarrow> bool wact" where
  "is_tx_due_for_broadcast E tx now =
     (if t_schedule_trigger tx = Some ''price'' \<and> t_status tx = Pending then ret False
      else bnd (is_locktime_satisfied E (t_nlocktime tx)) (\<lambda>locktime_ok.
        ret (case t_defer_until tx of
            Some d \<Rightarrow> if now < d then False else locktime_ok
          | None \<Rightarrow> (case t_scheduled_time tx of
                Some t \<Rightarrow> if t \<le> now then locktime_ok else False
              | None \<Rightarrow> False))))"

text \<open>\<open>filter(.. unwrap_or(false))\<close>: a locktime that cannot be read counts as not due.\<close>
definition keep_due :: "env \<Rightarrow> datetime \<Rightarrow> broadcast_tx \<Rightarrow> broadcast_tx list \<Rightarrow> broadcast_tx list wact" where
  "keep_due E now tx due =
     bnd (attempt (is_tx_due_for_broadcast E tx now)) (\<lambda>r.
     ret (if unwrap_or False (res_ok r) then due @ [tx] else due))"

definition filter_due :: "env \<Rightarrow> datetime \<Rightarrow> broadcast_tx list \<Rightarrow> broadcast_tx list wact" where
  "filter_due E now txs = for_each (keep_due E now) txs []"

text \<open>What the loop does with a due transaction whose locktime is not reached after all.\<close>
definition note_miss :: "env \<Rightarrow> datetime \<Rightarrow> broadcast_tx \<Rightarrow> unit wact" where
  "note_miss E now tx =
     (if time_locked (t_nlocktime tx) then
        bnd (if t_broadcast_missed_at tx = None
             then bnd (attempt (record_broadcast_miss E (t_id tx) (to_rfc3339 E now)
                    (map_option (to_rfc3339 E) (t_scheduled_time tx)))) (\<lambda>_. ret ())
             else ret ()) (\<lambda>_.
        bnd (attempt (get_median_time_past_cached E)) (\<lambda>_. ret ()))
      else ret ())"

type_synonym tx_results = "(string \<times> string res) list"

definition broadcast_due_one :: "env \<Rightarrow> broadcast_tx \<Rightarrow> tx_results \<Rightarrow> tx_results wact" where
  "broadcast_due_one E tx results =
     bnd (attempt (broadcast_transaction E (t_tx_hex tx))) (\<lambda>r. case r of
         Ok txid \<Rightarrow>
           bnd (mark_broadcast E (t_id tx) txid (unwrap_or 0 (t_target_fee_rate tx))) (\<lambda>_.
           bnd (emit_event E tx txid) (\<lambda>_.
           ret (results @ [(t_id tx, Ok txid)])))
       | Err e \<Rightarrow>
           if is_retriable_broadcast_error (err_to_string e) then ret (results @ [(t_id tx, Err e)])
           else bnd (update_tx_status E (t_id tx) Failed (Some (err_to_string e))) (\<lambda>_.
             ret (results @ [(t_id tx, Err e)]))
       | Panic p \<Rightarrow> lift_res (Panic p))"

definition due_step :: "env \<Rightarrow> datetime \<Rightarrow> broadcast_tx \<Rightarrow> tx_results \<Rightarrow> (world, tx_results flow) act" where
  "due_step E now tx results =
     bnd (gets w_safe_mode) (\<lambda>safe.
     if safe then ret (Break results)
     else if t_tampered tx = Some True then seq (enter_safe_mode (t_id tx)) (ret (Break results))
     else bnd (locktime_or_refuse E (t_nlocktime tx)) (\<lambda>ok.
       if \<not> ok then seq (note_miss E now tx) (ret (Continue results))
       else bnd (broadcast_due_one E tx results) (\<lambda>rs. ret (Continue rs))))"

definition broadcast_due_transactions :: "env \<Rightarrow> tx_results wact" where
  "broadcast_due_transactions E =
     bnd (gets w_safe_mode) (\<lambda>safe.
     if safe then ret []
     else bnd (gets network_name) (\<lambda>net.
     bnd (draw (now_at E)) (\<lambda>now.
     bnd (get_due_transactions E net) (\<lambda>candidates.
     bnd (filter_due E now candidates) (\<lambda>due.
     for_loop (due_step E now) due [])))))"

section \<open>The tick of the scheduler\<close>

definition requeue_one :: "env \<Rightarrow> broadcast_tx \<Rightarrow> nat \<Rightarrow> nat wact" where
  "requeue_one E tx count =
     (let err = unwrap_or [] (t_error_message tx) in
      if is_retriable_broadcast_error err
         \<or> (case t_nlocktime tx of None \<Rightarrow> False | Some n \<Rightarrow> n > 0) \<and> str_contains err ''Failed to broadcast''
      then bnd (reset_failed_to_scheduled E (t_id tx)) (\<lambda>_. ret (count + 1))
      else ret count)"

definition requeue_retriable_failures :: "env \<Rightarrow> nat wact" where
  "requeue_retriable_failures E =
     bnd (gets network_name) (\<lambda>net.
     bnd (list_broadcast_txs E (Some ''failed'') net 1000) (\<lambda>failed.
     for_each (requeue_one E) failed 0))"

definition mark_as_due :: "env \<Rightarrow> string \<Rightarrow> unit wact" where
  "mark_as_due E i = mark_due E i"

definition advance_pending :: "env \<Rightarrow> broadcast_tx \<Rightarrow> unit \<Rightarrow> (world, unit flow) act" where
  "advance_pending E tx _ =
     bnd (gets w_safe_mode) (\<lambda>safe.
     if safe then ret (Break ())
     else if t_tampered tx = Some True then seq (enter_safe_mode (t_id tx)) (ret (Break ()))
     else if \<not> (is_user_scheduled_mode (t_broadcast_mode tx) \<or> t_broadcast_mode tx = Some ''scheduled'')
     then ret (Continue ())
     else if t_schedule_trigger tx = Some ''price'' then ret (Continue ())
     else bnd (attempt (mark_as_due E (t_id tx))) (\<lambda>_. ret (Continue ())))"

definition run_scheduler_tick :: "env \<Rightarrow> tx_results wact" where
  "run_scheduler_tick E =
     bnd (gets w_safe_mode) (\<lambda>safe.
     if safe then ret []
     else bnd (gets w_health) (\<lambda>h.
     if \<not> clock_available h then bail no_chain_source
     else bnd (gets network_name) (\<lambda>net.
     bnd (get_pending_by_scheduled_time E net) (\<lambda>txs.
     bnd (for_loop (advance_pending E) txs ()) (\<lambda>_.
     bnd (attempt (requeue_retriable_failures E)) (\<lambda>_.
     broadcast_due_transactions E))))))"

section \<open>Rebroadcast and confirmations\<close>

definition rebroadcast_one :: "env \<Rightarrow> broadcast_tx \<Rightarrow> tx_results \<Rightarrow> tx_results wact" where
  "rebroadcast_one E tx results =
     bnd (attempt (broadcast_transaction E (t_tx_hex tx))) (\<lambda>r. case r of
         Ok txid \<Rightarrow>
           bnd (draw (\<lambda>n. to_rfc3339 E (now_at E n))) (\<lambda>now.
           bnd (execute_raw E (by_id (t_id tx))
                  (\<lambda>q. q\<lparr>c_broadcast_at := Some now, c_updated_at := now\<rparr>)) (\<lambda>_.
           ret (results @ [(t_id tx, Ok txid)])))
       | Err e \<Rightarrow> ret (results @ [(t_id tx, Err e)])
       | Panic p \<Rightarrow> lift_res (Panic p))"

text \<open>The interval is cast to 32 bits.\<close>
definition rebroadcast_pending :: "env \<Rightarrow> tx_results wact" where
  "rebroadcast_pending E =
     bnd (gets w_config) (\<lambda>c.
     bnd (get_pending_rebroadcast E
            (sint (ucast (rebroadcast_interval_minutes (cf_pool c)) :: u32))
            (data_dir_name (network_type (cf_network c)))) (\<lambda>txs.
     for_each (rebroadcast_one E) txs []))"

definition notify_tx_confirmed :: "env \<Rightarrow> string \<Rightarrow> unit wact" where
  "notify_tx_confirmed E hex =
     bnd (gets get_indexer_url) (\<lambda>url.
     bnd (case unwrap_or [] url of
            [] \<Rightarrow> ret (extract_output_scripthashes E hex)
          | u # us \<Rightarrow> attempt (extract_affected_scripthashes E hex (u # us))) (\<lambda>r.
     case res_ok r of None \<Rightarrow> ret () | Some shs \<Rightarrow> announce_all shs))"

type_synonym conf_results = "(string \<times> bool \<times> u64 option) list"

definition confirm_one :: "env \<Rightarrow> broadcast_tx \<Rightarrow> conf_results \<Rightarrow> conf_results wact" where
  "confirm_one E tx results = (case t_txid tx of
       None \<Rightarrow> ret (results @ [(t_id tx, False, None)])
     | Some txid \<Rightarrow>
         bnd (attempt (core_get_transaction E txid)) (\<lambda>r. case r of
             Ok (Some blockhash) \<Rightarrow>
               bnd (attempt (core_get_block_count E)) (\<lambda>hr. case res_ok hr of
                   Some height \<Rightarrow>
                     bnd (attempt (mark_confirmed E (t_id tx) height)) (\<lambda>_.
                     bnd (notify_tx_confirmed E (t_tx_hex tx)) (\<lambda>_.
                     ret (results @ [(t_id tx, True, Some height)])))
                 | None \<Rightarrow> ret (results @ [(t_id tx, True, None)]))
           | _ \<Rightarrow> ret (results @ [(t_id tx, False, None)])))"

definition core_alive :: "env \<Rightarrow> bool wact" where
  "core_alive E = bnd (gets w_rpc) (\<lambda>rpc.
     if rpc then bnd (attempt (core_test_connection E)) (\<lambda>r. ret (unwrap_or False (res_ok r)))
     else ret False)"

definition indexer_alive :: "env \<Rightarrow> bool wact" where
  "indexer_alive E = bnd (gets w_indexer) (\<lambda>ic.
     if ic \<noteq> None then bnd (attempt (indexer_test_connection E)) (\<lambda>r. ret (unwrap_or False (res_ok r)))
     else ret False)"

definition check_confirmations :: "env \<Rightarrow> conf_results wact" where
  "check_confirmations E =
     bnd (gets network_name) (\<lambda>net.
     bnd (list_broadcast_txs E (Some ''broadcast'') net 1000) (\<lambda>txs.
     bnd (core_alive E) (\<lambda>core.
     if core then for_each (confirm_one E) txs []
     else bnd (indexer_alive E) (\<lambda>ix.
       ret (if ix then map (\<lambda>tx. (t_id tx, False, None)) txs else [])))))"

end
