(* ===== verification/Pool_Schedule.thy ===== *)
theory Pool_Schedule
  imports Pool_Manager
begin

text \<open>
  The scheduling methods of the pool manager (\<open>src/src/pool/manager.rs\<close>), what they return
  (a transaction with its locktime resolved), removal, statistics and the connection to the
  indexer; and the \<open>Broadcaster\<close> of \<open>src/src/pool/broadcaster.rs\<close>, which shares the
  backends of the process.
\<close>

section \<open>What the user sees of a locktime\<close>

definition tx_has_broadcast_schedule :: "broadcast_tx \<Rightarrow> bool" where
  "tx_has_broadcast_schedule tx \<longleftrightarrow>
     t_broadcast_mode tx = Some ''scheduled'' \<or> is_user_scheduled_mode (t_broadcast_mode tx)
     \<or> t_scheduled_time tx \<noteq> None \<or> t_defer_until tx \<noteq> None \<or> t_broadcast_missed_at tx \<noteq> None
     \<or> t_schedule_trigger tx = Some ''price''"

definition tx_can_reschedule :: "broadcast_tx \<Rightarrow> bool" where
  "tx_can_reschedule tx \<longleftrightarrow> t_status tx \<in> {Pending, Scheduled} \<and> tx_has_broadcast_schedule tx"

definition emitted :: "broadcast_tx \<Rightarrow> bool" where
  "emitted tx \<longleftrightarrow> t_status tx \<in> {Broadcast, Confirmed}"

definition reset_locktime_view :: "broadcast_tx \<Rightarrow> broadcast_tx" where
  "reset_locktime_view tx = tx\<lparr>t_locktime_waiting := None, t_chain_mtp := None,
     t_locktime_target := None, t_locktime_remaining_secs := None, t_locktime_kind := None,
     t_locktime_remaining_blocks := None, t_locktime_satisfied := None,
     t_locktime_deferred := Some (t_broadcast_missed_at tx \<noteq> None \<and> \<not> emitted tx),
     t_can_reschedule := Some (\<not> emitted tx \<and> tx_can_reschedule tx)\<rparr>"

definition with_cached_price :: "world \<Rightarrow> broadcast_tx \<Rightarrow> broadcast_tx" where
  "with_cached_price w tx =
     (if t_schedule_trigger tx = Some ''price'' then
        (case (t_price_currency tx, cached_prices w) of
           (Some currency, Some prices) \<Rightarrow> tx\<lparr>t_current_btc_price := map_of prices currency\<rparr>
         | _ \<Rightarrow> tx)
      else tx)"

definition waits_for :: "broadcast_tx \<Rightarrow> bool \<Rightarrow> bool" where
  "waits_for tx satisfied \<longleftrightarrow> \<not> emitted tx \<and> t_status tx \<in> {Pending, Scheduled} \<and> \<not> satisfied"

definition height_view :: "u64 \<Rightarrow> u64 option \<Rightarrow> broadcast_tx \<Rightarrow> broadcast_tx" where
  "height_view nlock height tx = (case height of
       None \<Rightarrow> tx
     | Some h \<Rightarrow> tx\<lparr>t_locktime_satisfied := Some (nlock \<le> h),
         t_locktime_remaining_blocks := Some (if nlock \<le> h then 0 else sint nlock - sint h),
         t_locktime_waiting := Some (waits_for tx (nlock \<le> h))\<rparr>)"

definition mtp_view :: "u64 \<Rightarrow> u64 option \<Rightarrow> broadcast_tx \<Rightarrow> broadcast_tx" where
  "mtp_view nlock mtp tx = (case mtp of
       None \<Rightarrow> tx
     | Some m \<Rightarrow> tx\<lparr>t_chain_mtp := Some m, t_locktime_satisfied := Some (nlock \<le> m),
         t_locktime_remaining_secs := Some (if nlock \<le> m then 0 else sint nlock - sint m),
         t_locktime_waiting := Some (waits_for tx (nlock \<le> m))\<rparr>)"

definition enrich_tx_locktime :: "env \<Rightarrow> broadcast_tx \<Rightarrow> broadcast_tx wact" where
  "enrich_tx_locktime E tx0 =
     bnd (gets (\<lambda>w. with_cached_price w (reset_locktime_view tx0))) (\<lambda>tx.
     let nlock = unwrap_or 0 (t_nlocktime tx) in
     if nlock = 0 then ret (tx\<lparr>t_locktime_waiting := Some False\<rparr>)
     else
       let tx = tx\<lparr>t_locktime_target := Some nlock,
                  t_locktime_kind := Some (if nlock < locktime_threshold then ''height'' else ''time'')\<rparr> in
       if nlock < locktime_threshold then
         bnd (gets w_health) (\<lambda>h. ret (height_view nlock (ch_height h) tx))
       else
         bnd (attempt (get_median_time_past_cached E)) (\<lambda>r. ret (mtp_view nlock (res_ok r) tx)))"

definition get_transaction :: "env \<Rightarrow> string \<Rightarrow> broadcast_tx wact" where
  "get_transaction E i = bnd (get_broadcast_tx_by_id E i) (enrich_tx_locktime E)"

definition list_transactions :: "env \<Rightarrow> string option \<Rightarrow> int \<Rightarrow> broadcast_tx list wact" where
  "list_transactions E filt max_rows =
     bnd (gets network_name) (\<lambda>net.
     bnd (list_broadcast_txs E filt net max_rows) (\<lambda>txs.
     for_each (\<lambda>tx out. bnd (enrich_tx_locktime E tx) (\<lambda>tx'. ret (out @ [tx']))) txs []))"

section \<open>Scheduling\<close>

definition schedule_at :: "env \<Rightarrow> string \<Rightarrow> datetime \<Rightarrow> f64 \<Rightarrow> broadcast_tx wact" where
  "schedule_at E i scheduled_time fee_rate =
     bnd (get_broadcast_tx_by_id E i) (\<lambda>tx.
     bnd (draw (now_at E)) (\<lambda>now.
     if scheduled_time \<le> now then bail ''Scheduled time must be in the future''
     else
       let n = unwrap_or 0 (t_nlocktime tx) in
       if time_locked (t_nlocktime tx) \<and> of_int (max 0 (timestamp scheduled_time)) < n
       then bail (''Scheduled time cannot be before nLockTime (unix '' @ show_int (uint n)
         @ ''). The network will only accept this transaction when chain MTP reaches the signed nLockTime.'')
       else
         let scheduled_str = to_rfc3339 E scheduled_time;
             is_reschedule = (t_broadcast_missed_at tx \<noteq> None \<or> t_defer_until tx \<noteq> None
               \<or> t_scheduled_time tx \<noteq> None \<or> t_schedule_trigger tx = Some ''price''
               \<or> t_broadcast_mode tx = Some ''scheduled'' \<or> is_user_scheduled_mode (t_broadcast_mode tx))
         in bnd (update_reschedule E i scheduled_str (if is_reschedule then Some scheduled_str else None) fee_rate) (\<lambda>_.
            bnd (get_broadcast_tx_by_id E i) (enrich_tx_locktime E))))"

definition schedule_by_price ::
  "env \<Rightarrow> string \<Rightarrow> f64 \<Rightarrow> string \<Rightarrow> string \<Rightarrow> f64 \<Rightarrow> broadcast_tx wact" where
  "schedule_by_price E i target currency condition fee_rate =
     (if f64_le target 0 then bail ''Target price must be positive''
      else if to_lower currency \<notin> {''eur'', ''usd''} then bail ''price_currency must be eur or usd''
      else if to_lower condition \<notin> {''above'', ''below''} then bail ''price_condition must be above or below''
      else
        bnd (get_broadcast_tx_by_id E i) (\<lambda>tx.
        if t_status tx \<notin> {Pending, Scheduled}
        then bail (''Cannot set price trigger on transaction in status '' @ tx_status_as_str (t_status tx))
        else if \<not> is_user_scheduled_mode (t_broadcast_mode tx)
        then bail ''Price trigger scheduling is only available for manual/imported (pending) transactions''
        else if (case t_nlocktime tx of None \<Rightarrow> False | Some n \<Rightarrow> n > 0)
        then bail ''Price trigger scheduling is only available when nLockTime is disabled (0)''
        else
          bnd (update_price_schedule E i target (to_lower currency) (to_lower condition) fee_rate) (\<lambda>_.
          bnd (get_broadcast_tx_by_id E i) (enrich_tx_locktime E))))"

definition price_trigger_met :: "prices \<Rightarrow> broadcast_tx \<Rightarrow> bool" where
  "price_trigger_met prices tx =
     (case (t_target_price tx, map_of prices (unwrap_or ''usd'' (t_price_currency tx))) of
        (Some target, Some current) \<Rightarrow>
          price_condition_met current target (unwrap_or ''above'' (t_price_condition tx))
      | _ \<Rightarrow> False)"

definition check_price_triggers :: "env \<Rightarrow> prices \<Rightarrow> nat wact" where
  "check_price_triggers E prices =
     bnd (gets network_name) (\<lambda>net.
     bnd (get_price_triggered_pending E net) (\<lambda>txs.
     for_each (\<lambda>tx triggered.
       if price_trigger_met prices tx then
         bnd (attempt (mark_due_from_price_trigger E (t_id tx))) (\<lambda>r.
         ret (if is_ok r then triggered + 1 else triggered))
       else ret triggered) txs 0))"

text \<open>\<open>Duration::hours\<close> panics when the milliseconds do not fit 64 bits.\<close>
definition duration_hours :: "u64 \<Rightarrow> int res" where
  "duration_hours n = (let s = sint n * 3600 in
     if \<bar>s\<bar> * 1000 \<le> 2 ^ 63 - 1 then Ok (secs s) else Panic ''TimeDelta::hours out of bounds'')"

text \<open>\<open>gen_range(lo..=hi)\<close> on floats: the range must be ordered and of finite length.\<close>
definition gen_range_f64 :: "env \<Rightarrow> f64 \<Rightarrow> f64 \<Rightarrow> f64 wact" where
  "gen_range_f64 E lo hi =
     (if \<not> f64_le lo hi then lift_res (Panic ''cannot sample empty range'')
      else if \<not> f64_is_finite (f64_sub hi lo) then lift_res (Panic ''range overflow'')
      else draw (\<lambda>n. rand_f64_at E n lo hi))"

definition schedule_transaction ::
  "env \<Rightarrow> string \<Rightarrow> u64 option \<Rightarrow> u64 option \<Rightarrow> f64 option \<Rightarrow> f64 option \<Rightarrow> f64 option \<Rightarrow> broadcast_tx wact" where
  "schedule_transaction E i min_delay max_delay min_fee max_fee fixed_fee =
     bnd (gets (\<lambda>w. cf_schedule (w_config w))) (\<lambda>sc.
     let lo = unwrap_or (min_delay_hours sc) min_delay;
         hi = unwrap_or (max_delay_hours sc) max_delay;
         fee_lo = unwrap_or (min_fee_rate sc) min_fee;
         fee_hi = unwrap_or (max_fee_rate sc) max_fee
     in
     bnd (draw (\<lambda>n. rand_u64_at E n lo (max hi lo))) (\<lambda>delay.
     bnd (case fixed_fee of Some f \<Rightarrow> ret f | None \<Rightarrow> gen_range_f64 E fee_lo (f64_max fee_hi fee_lo)) (\<lambda>fee.
     bnd (draw (now_at E)) (\<lambda>now.
     bnd (lift_res (duration_hours delay)) (\<lambda>d.
     let t = now + d in
     if \<not> datetime_ok E t then bail ''Failed to calculate scheduled time''
     else
       bnd (draw (\<lambda>n. to_rfc3339 E (now_at E n))) (\<lambda>updated.
       bnd (execute_raw E (by_id i) (\<lambda>q. q\<lparr>c_status := ''scheduled'',
              c_scheduled_time := Some (to_rfc3339 E t),
              c_target_fee_rate := Some (sql_real_of_text E (show_f64 fee)),
              c_updated_at := updated\<rparr>)) (\<lambda>_.
       get_broadcast_tx_by_id E i)))))))"

definition schedule_all_pending :: "env \<Rightarrow> string \<Rightarrow> broadcast_tx list wact" where
  "schedule_all_pending E net =
     bnd (list_broadcast_txs E (Some ''pending'') net 1000) (\<lambda>pending.
     for_each (\<lambda>tx out.
       bnd (schedule_transaction E (t_id tx) None None None None None) (\<lambda>s. ret (out @ [s]))) pending [])"

definition retry_failed_transaction :: "env \<Rightarrow> string \<Rightarrow> broadcast_tx wact" where
  "retry_failed_transaction E i =
     bnd (get_broadcast_tx_by_id E i) (\<lambda>tx.
     if t_status tx \<noteq> Failed then bail (''Transaction '' @ i @ '' is not in failed state'')
     else bnd (reset_failed_to_scheduled E i) (\<lambda>_.
       bnd (get_broadcast_tx_by_id E i) (enrich_tx_locktime E)))"

definition remove_transaction :: "env \<Rightarrow> string \<Rightarrow> unit wact" where
  "remove_transaction E i =
     bnd (get_broadcast_tx_by_id E i) (\<lambda>tx.
     let txid = or_else (t_txid tx) (res_ok (compute_txid E (t_tx_hex tx))) in
     bnd (remove_broadcast_tx E i) (\<lambda>removed.
     if removed = 0 then bail ''Transaction not found''
     else case txid of
         None \<Rightarrow> ret ()
       | Some t \<Rightarrow> bnd (remove_pending_tx t) (\<lambda>_. ret ())))"

definition get_stats :: "env \<Rightarrow> pool_stats wact" where
  "get_stats E = bnd (gets network_name) (get_pool_stats E)"

section \<open>The connection to the indexer\<close>

definition set_indexer :: "electrum_client option \<Rightarrow> unit wact" where
  "set_indexer c = modify (\<lambda>w. w\<lparr>w_indexer := c\<rparr>)"

definition rpc_connected :: "env \<Rightarrow> bool wact" where
  "rpc_connected E = core_alive E"

definition reconnect_indexer_from_config :: "env \<Rightarrow> unit wact" where
  "reconnect_indexer_from_config E =
     bnd (gets get_indexer_url) (\<lambda>u.
     bnd (lift_res (some_or ''No indexer URL configured'' u)) (\<lambda>url.
     bnd (gets (\<lambda>w. network_type (cf_network (w_config w)))) (\<lambda>net.
     bnd (resolve_working_indexer_url E url net) (\<lambda>r.
     let working = unwrap_or url r in
     bnd (run_if (working \<noteq> url) (modify (\<lambda>w. w\<lparr>w_config :=
            set_indexer_url working (is_manual (w_config w)) (w_config w)\<rparr>))) (\<lambda>_.
     set_indexer (Some \<lparr>ec_server = working, ec_resolved = None\<rparr>))))))"

section \<open>The broadcaster of the command line\<close>

definition broadcast_raw :: "env \<Rightarrow> string \<Rightarrow> string wact" where
  "broadcast_raw E hex =
     (let core = bnd (gets w_rpc) (\<lambda>rpc.
          if rpc then core_broadcast E hex else bail ''No broadcast backend available'') in
      bnd (gets w_indexer) (\<lambda>ic.
      if ic \<noteq> None then
        bnd (attempt (indexer_broadcast E hex)) (\<lambda>r. case r of
            Ok txid \<Rightarrow> ret txid
          | Err e \<Rightarrow> core
          | Panic p \<Rightarrow> lift_res (Panic p))
      else core))"

definition broadcast_single :: "env \<Rightarrow> string \<Rightarrow> string wact" where
  "broadcast_single E i =
     bnd (get_broadcast_tx_by_id E i) (\<lambda>tx.
     if t_status tx = Confirmed then bail (''Transaction '' @ i @ '' is already confirmed'')
     else bnd (with_ctx (''Failed to broadcast transaction '' @ i) (broadcast_raw E (t_tx_hex tx))) (\<lambda>txid.
       bnd (db_mark_broadcast E i txid (unwrap_or 0 (t_target_fee_rate tx))) (\<lambda>_. ret txid)))"

definition broadcast_all_pending :: "env \<Rightarrow> string \<Rightarrow> tx_results wact" where
  "broadcast_all_pending E net =
     bnd (list_broadcast_txs E (Some ''pending'') net 1000) (\<lambda>txs.
     for_each (\<lambda>tx results. bnd (attempt (broadcast_single E (t_id tx))) (\<lambda>r.
       ret (results @ [(t_id tx, r)]))) txs [])"

definition broadcaster_test_connection :: "env \<Rightarrow> bool wact" where
  "broadcaster_test_connection E =
     bnd (gets w_indexer) (\<lambda>ic.
     if ic \<noteq> None then bnd (indexer_test_connection E) (\<lambda>_. ret True)
     else bnd (gets w_rpc) (\<lambda>rpc.
       if rpc then bnd (core_test_connection E) (\<lambda>_. ret True)
       else bail ''No backend configured''))"

end
