(* ===== verification/Electrum_Session.thy ===== *)
theory Electrum_Session
  imports Client_Lines Virtual_Headers Pool_Schedule Notify
begin

text \<open>
  One wallet session of the Electrum server (\<open>src/src/electrum_server/mod.rs\<close>): what it
  remembers, the replies it makes itself, the requests it passes on to the indexer, and the
  replies of the indexer with the waiting transactions added.
\<close>

section \<open>State of a session\<close>

record session =
  se_subscribed :: "string list"
  se_pending_methods :: "(json \<times> string \<times> string) list"
  se_client_busy :: bool
  se_deferred :: "bytes list"
  se_intercepted :: bool
  se_recent_txid :: "string option"
  se_rpc_lines :: u32
  se_saw_version :: bool
  se_wallet_label :: "string option"
  se_subscribed_headers :: bool

definition new_session :: session where
  "new_session = \<lparr>se_subscribed = [], se_pending_methods = [], se_client_busy = False,
     se_deferred = [], se_intercepted = False, se_recent_txid = None, se_rpc_lines = 0,
     se_saw_version = False, se_wallet_label = None, se_subscribed_headers = False\<rparr>"

text \<open>
  Work a session leaves to the runtime: refresh the cached tip, take a broadcast transaction
  into the pool and then find the script hashes of its inputs.
\<close>
datatype task = RefreshTip string | Ingest string string | Enrich string string string

text \<open>The process as one connection sees it, with the bytes written to its client.\<close>
record conn =
  cn_world :: world
  cn_session :: session
  cn_out :: bytes
  cn_tasks :: "task list"

type_synonym 'a cact = "(conn, 'a) act"

definition on_world :: "'a wact \<Rightarrow> 'a cact" where
  "on_world m = (\<lambda>c. case m (cn_world c) of (r, v) \<Rightarrow> (r, c\<lparr>cn_world := v\<rparr>))"

definition session_of :: "(session \<Rightarrow> 'a) \<Rightarrow> 'a cact" where
  "session_of f = gets (\<lambda>c. f (cn_session c))"

definition upd_session :: "(session \<Rightarrow> session) \<Rightarrow> unit cact" where
  "upd_session f = modify (\<lambda>c. c\<lparr>cn_session := f (cn_session c)\<rparr>)"

definition spawn_task :: "task \<Rightarrow> unit cact" where
  "spawn_task t = modify (\<lambda>c. c\<lparr>cn_tasks := cn_tasks c @ [t]\<rparr>)"

section \<open>Which wallet it is\<close>

definition effective_source :: "session \<Rightarrow> string \<Rightarrow> string" where
  "effective_source s listener =
     (if listener = ''sparrow''
         \<and> ((case se_wallet_label s of None \<Rightarrow> False | Some l \<Rightarrow> str_contains (to_lower l) ''liana'')
            \<or> \<not> se_saw_version s)
      then ''liana'' else listener)"

definition note_version :: "json \<Rightarrow> session \<Rightarrow> session" where
  "note_version item s =
     (if opt_bind (jget ''method'' item) as_str \<noteq> Some ''server.version'' then s
      else let s = s\<lparr>se_saw_version := True\<rparr> in
        case opt_bind (opt_bind (opt_bind (jget ''params'' item) as_array) (\<lambda>a. jidx 0 (JArr a))) as_str of
          Some (c # cs) \<Rightarrow> s\<lparr>se_wallet_label := Some (c # cs)\<rparr>
        | _ \<Rightarrow> s)"

definition capture_wallet_fingerprint :: "env \<Rightarrow> string \<Rightarrow> session \<Rightarrow> session" where
  "capture_wallet_fingerprint E line s = (case json_parse E (trim line) of
       None \<Rightarrow> s
     | Some v \<Rightarrow> foldl (\<lambda>s item. note_version item s) s (unwrap_or [v] (as_array v)))"

definition tracked_methods :: "string list" where
  "tracked_methods = [''blockchain.scripthash.subscribe'', ''blockchain.scripthash.get_history'',
     ''blockchain.scripthash.get_balance'', ''blockchain.scripthash.listunspent'',
     ''blockchain.scripthash.get_mempool'']"

definition track_request :: "client_request \<Rightarrow> session \<Rightarrow> session" where
  "track_request r s =
     (let sh = unwrap_or [] (scripthash_from_params r);
          s = (if rq_method r = ''blockchain.scripthash.subscribe''
               then s\<lparr>se_subscribed := set_insert sh (se_subscribed s)\<rparr> else s)
      in if rq_method r \<in> set tracked_methods
         then s\<lparr>se_pending_methods := AList.update (rq_id r) (rq_method r, sh) (se_pending_methods s)\<rparr>
         else s)"

definition track_scripthash_interest :: "string \<Rightarrow> unit cact" where
  "track_scripthash_interest sh =
     (if sh = [] then ret ()
      else seq (upd_session (\<lambda>s. s\<lparr>se_subscribed := set_insert sh (se_subscribed s)\<rparr>))
        (on_world (watch_scripthash sh)))"

section \<open>Replies\<close>

definition ok_reply :: "json \<Rightarrow> json \<Rightarrow> json" where
  "ok_reply i result = JObj [(''jsonrpc'', JStr ''2.0''), (''result'', result), (''id'', i)]"

definition err_reply :: "json \<Rightarrow> int \<Rightarrow> string \<Rightarrow> json" where
  "err_reply i code msg = JObj [(''jsonrpc'', JStr ''2.0''),
     (''error'', JObj [(''code'', JInt code), (''message'', JStr msg)]), (''id'', i)]"

definition unavailable :: "json \<Rightarrow> json" where
  "unavailable i = err_reply i (- 32000) ''Indexer temporarily unavailable''"

definition tip_json :: "u64 \<Rightarrow> string \<Rightarrow> json" where
  "tip_json height hex = JObj [(''height'', JInt (uint height)), (''hex'', JStr hex)]"

text \<open>Writing a line to the wallet: it fails, or the whole line goes out.\<close>
definition write_bytes :: "env \<Rightarrow> bytes \<Rightarrow> unit cact" where
  "write_bytes E b =
     bnd (on_world (draw (client_fault_at E))) (\<lambda>f. case f of
         Some e \<Rightarrow> bail e
       | None \<Rightarrow> modify (\<lambda>c. c\<lparr>cn_out := cn_out c @ b\<rparr>))"

definition write_json_rpc_response :: "env \<Rightarrow> json \<Rightarrow> unit cact" where
  "write_json_rpc_response E v = write_bytes E (json_print E v @ [nl])"

definition write_client_responses :: "env \<Rightarrow> json list \<Rightarrow> bool \<Rightarrow> unit cact" where
  "write_client_responses E responses batch =
     (if batch then write_json_rpc_response E (JArr responses)
      else case responses of
          [] \<Rightarrow> lift_res (Panic ''index out of bounds'')
        | r # _ \<Rightarrow> write_json_rpc_response E r)"

section \<open>Requests answered without the indexer\<close>

definition pkg_version :: string where
  "pkg_version = ''0.3.25''"

definition local_electrum_methods :: "string list" where
  "local_electrum_methods = [''server.version'', ''server.banner'', ''server.ping'', ''server.features'']"

definition is_local_handshake_method :: "string \<Rightarrow> bool" where
  "is_local_handshake_method m \<longleftrightarrow> m \<in> set local_electrum_methods"

definition right_arrow :: string where
  "right_arrow = map char_of [0xE2, 0x86, 0x92 :: nat]"

definition tor_warning :: string where
  "tor_warning = ''Disable Sparrow Settings'' @ right_arrow
     @ ''Network proxy/Tor or broadcasts bypass this pool''"

definition features_json :: "config \<Rightarrow> json" where
  "features_json c = JObj [
     (''genesis_hash'', JStr (unwrap_or (genesis_hash (network_type (cf_network c)))
        (resolved_genesis (cf_network c)))),
     (''protocol_max'', JStr ''1.4''), (''protocol_min'', JStr ''1.0''),
     (''protocol_version'', JStr ''1.4''),
     (''server_version'', JStr (''broadcast-pool '' @ pkg_version)),
     (''hash_function'', JStr ''sha256''), (''broadcast_pool'', JBool True),
     (''sparrow_tor_warning'', JStr tor_warning)]"

definition local_electrum_response :: "client_request \<Rightarrow> config \<Rightarrow> json option" where
  "local_electrum_response r c =
     (if rq_method r = ''server.version''
      then Some (ok_reply (rq_id r) (JArr [JStr ''broadcast-pool Electrum'', JStr ''1.4'']))
      else if rq_method r = ''server.banner''
      then Some (ok_reply (rq_id r) (JStr (''broadcast-pool '' @ pkg_version
        @ '' - disable Sparrow Tor proxy so broadcasts reach this pool'')))
      else if rq_method r = ''server.ping'' then Some (ok_reply (rq_id r) (JBool True))
      else if rq_method r = ''server.features'' then Some (ok_reply (rq_id r) (features_json c))
      else None)"

text \<open>\<open>0.00001\<close>\<close>
definition min_fee_btc :: f64 where
  "min_fee_btc = 0x3EE4F8B588E368F1"

definition block_stats :: "client_request \<Rightarrow> json" where
  "block_stats r = JObj [
     (''height'', JInt (uint (unwrap_or 0 (opt_bind (request_param r 0) as_u64)))),
     (''time'', JInt 0), (''median_fee'', JFloat min_fee_btc)]"

definition local_fast_response :: "client_request \<Rightarrow> json option" where
  "local_fast_response r =
     (if rq_method r = ''blockchain.estimatefee'' \<or> rq_method r = ''blockchain.relayfee''
      then Some (ok_reply (rq_id r) (JFloat min_fee_btc))
      else if rq_method r = ''mempool.get_fee_histogram'' then Some (ok_reply (rq_id r) (JArr []))
      else if rq_method r = ''blockchain.block.stats'' then Some (ok_reply (rq_id r) (block_stats r))
      else None)"

text \<open>Every request of the line, and any of them.\<close>
definition batch_is_handshake :: "client_request list \<Rightarrow> bool" where
  "batch_is_handshake rs = list_all (\<lambda>r. is_local_handshake_method (rq_method r)) rs"

definition batch_contains_local_handshake :: "client_request list \<Rightarrow> bool" where
  "batch_contains_local_handshake rs = list_ex (\<lambda>r. is_local_handshake_method (rq_method r)) rs"

section \<open>The indexer's replies with the waiting transactions added\<close>

text \<open>\<open>msg[key] = value\<close>: null becomes an object, anything else but an object panics.\<close>
definition jset :: "string \<Rightarrow> json \<Rightarrow> json \<Rightarrow> json res" where
  "jset k v msg = (case msg of
       JObj kvs \<Rightarrow> Ok (JObj (AList.update k v kvs))
     | JNull \<Rightarrow> Ok (JObj [(k, v)])
     | _ \<Rightarrow> Panic ''cannot access key in JSON value'')"

definition modify_upstream_response :: "env \<Rightarrow> world \<Rightarrow> string \<Rightarrow> string \<Rightarrow> json \<Rightarrow> json res" where
  "modify_upstream_response E w method sh msg =
     (let result = jget ''result'' msg; pending = pending_txids_for w sh in
      if method = ''blockchain.scripthash.get_history'' then
        (case opt_bind result as_array of None \<Rightarrow> Ok msg
         | Some h \<Rightarrow> jset ''result'' (JArr (inject_in_history h pending)) msg)
      else if method = ''blockchain.scripthash.subscribe'' then
        (if pending = [] then Ok msg
         else case compute_modified_status_hash E [] pending of None \<Rightarrow> Ok msg
           | Some hash \<Rightarrow> jset ''result'' (JStr hash) msg)
      else if method = ''blockchain.scripthash.get_balance'' then
        (case result of None \<Rightarrow> Ok msg
         | Some r \<Rightarrow> jset ''result'' (inject_balance_unconfirmed r (pending_unconfirmed_value w sh)) msg)
      else if method = ''blockchain.scripthash.listunspent'' then
        (case opt_bind result as_array of None \<Rightarrow> Ok msg
         | Some us \<Rightarrow> jset ''result'' (JArr (inject_listunspent us (pending_utxos_for w sh))) msg)
      else if method = ''blockchain.scripthash.get_mempool'' then
        (case result of None \<Rightarrow> Ok msg
         | Some r \<Rightarrow> jset ''result'' (inject_get_mempool r pending) msg)
      else Ok msg)"

definition modify_upstream_notification :: "env \<Rightarrow> world \<Rightarrow> json \<Rightarrow> json res" where
  "modify_upstream_notification E w msg =
     (if unwrap_or [] (opt_bind (jget ''method'' msg) as_str) \<noteq> ''blockchain.scripthash.subscribe''
      then Ok msg
      else case opt_bind (jget ''params'' msg) as_array of
          None \<Rightarrow> Ok msg
        | Some [] \<Rightarrow> Ok msg
        | Some (p # ps) \<Rightarrow>
            let sh = unwrap_or [] (as_str p) in
            if \<not> has_pending_for_scripthash w sh then Ok msg
            else case compute_modified_status_hash E [] (pending_txids_for w sh) of
                None \<Rightarrow> Ok msg
              | Some hash \<Rightarrow>
                  if ps = [] then Ok msg else jset ''params'' (JArr (p # (ps[0 := JStr hash]))) msg)"

text \<open>The method a reply belongs to, forgotten once it has come.\<close>
definition take_pending_method :: "json \<Rightarrow> (string \<times> string) option cact" where
  "take_pending_method i =
     bnd (session_of (\<lambda>s. map_of (se_pending_methods s) i)) (\<lambda>m.
     bnd (upd_session (\<lambda>s. s\<lparr>se_pending_methods := AList.delete i (se_pending_methods s)\<rparr>)) (\<lambda>_.
     ret m))"

definition add_waiting :: "env \<Rightarrow> json \<Rightarrow> json \<Rightarrow> json cact" where
  "add_waiting E i msg =
     bnd (take_pending_method i) (\<lambda>m. case m of
         None \<Rightarrow> ret msg
       | Some (method, sh) \<Rightarrow>
           bnd (gets cn_world) (\<lambda>w. lift_res (modify_upstream_response E w method sh msg)))"

definition process_indexer_line :: "env \<Rightarrow> bytes \<Rightarrow> bytes cact" where
  "process_indexer_line E line = (case json_parse E (trim (from_utf8_lossy line)) of
       None \<Rightarrow> ret (line @ [nl])
     | Some msg \<Rightarrow>
         bnd (case jget ''id'' msg of
              None \<Rightarrow> ret msg
            | Some i \<Rightarrow> if i = JNull then ret msg else add_waiting E i msg) (\<lambda>msg.
         bnd (if jget ''method'' msg = None then ret msg
              else bnd (gets cn_world) (\<lambda>w. lift_res (modify_upstream_notification E w msg))) (\<lambda>msg.
         ret (json_print E msg @ [nl]))))"

section \<open>Passing a request on\<close>

text \<open>
  One connection, one line, one reply line; no connection and a reply that does not come in
  time are both \<open>None\<close>.
\<close>
definition forward_to_indexer_sync :: "env \<Rightarrow> client_request \<Rightarrow> string \<Rightarrow> string option wact" where
  "forward_to_indexer_sync E r url =
     bnd (put_outbox (ToIndexer url (rq_method r) (unwrap_or JNull (rq_params r)))) (\<lambda>_.
     draw (\<lambda>n. res_ok (wire_at E n url (json_print E (request_json r)))))"

definition forward_subrequest_sync :: "env \<Rightarrow> client_request \<Rightarrow> string \<Rightarrow> json cact" where
  "forward_subrequest_sync E r url =
     (if is_broadcast_method (rq_method r)
      then bail ''broadcast must not be forwarded to upstream electrs''
      else
        bnd (upd_session (track_request r)) (\<lambda>_.
        bnd (on_world (forward_to_indexer_sync E r url)) (\<lambda>reply. case reply of
            None \<Rightarrow> ret (unavailable (rq_id r))
          | Some s \<Rightarrow>
              bnd (lift_res (some_or ''json'' (json_parse E (trim s)))) (\<lambda>msg.
              add_waiting E (rq_id r) msg))))"

definition own_request :: "string \<Rightarrow> json list \<Rightarrow> client_request" where
  "own_request method params = \<lparr>rq_jsonrpc = Some ''2.0'', rq_method = method,
     rq_params = Some (JArr params), rq_id = JInt 0\<rparr>"

definition fetch_scripthash_history :: "env \<Rightarrow> string \<Rightarrow> string \<Rightarrow> json list wact" where
  "fetch_scripthash_history E url sh =
     (if url = [] then ret []
      else bnd (forward_to_indexer_sync E (own_request ''blockchain.scripthash.get_history'' [JStr sh]) url)
        (\<lambda>reply. ret (unwrap_or []
          (opt_bind (opt_bind (opt_bind reply (\<lambda>s. json_parse E (trim s))) (jget ''result'')) as_array))))"

definition resolve_live_indexer_url :: "world \<Rightarrow> string" where
  "resolve_live_indexer_url w = unwrap_or [] (get_indexer_url w)"

section \<open>The tip of the chain\<close>

definition parse_headers_subscribe_result :: "json \<Rightarrow> (u64 \<times> string) option" where
  "parse_headers_subscribe_result msg =
     opt_bind (jget ''result'' msg) (\<lambda>result.
     opt_bind (opt_bind (jget ''height'' result) as_u64) (\<lambda>height.
     opt_bind (opt_bind (jget ''hex'' result) as_str) (\<lambda>hex.
     if height = 0 \<or> hex = [] then None else Some (height, hex))))"

definition refresh_chain_tip_cache :: "env \<Rightarrow> string \<Rightarrow> unit wact" where
  "refresh_chain_tip_cache E url =
     (if url = [] then ret ()
      else bnd (forward_to_indexer_sync E (own_request ''blockchain.headers.subscribe'' []) url) (\<lambda>reply.
        case opt_bind (opt_bind reply (\<lambda>s. json_parse E (trim s))) parse_headers_subscribe_result of
          None \<Rightarrow> ret ()
        | Some (height, hex) \<Rightarrow> cache_chain_tip height hex))"

text \<open>Up to five attempts; waiting between them is not modelled.\<close>
definition warm_chain_tip_cache :: "env \<Rightarrow> string \<Rightarrow> unit wact" where
  "warm_chain_tip_cache E url =
     (if url = [] then ret ()
      else for_loop (\<lambda>attempt _.
        bnd (refresh_chain_tip_cache E url) (\<lambda>_.
        bnd (gets w_chain_tip) (\<lambda>tip.
        ret (if tip = None then Continue () else Break ())))) [1 ..< 6 :: nat] ())"

definition spawn_chain_tip_refresh :: "string \<Rightarrow> unit cact" where
  "spawn_chain_tip_refresh url = (if url = [] then ret () else spawn_task (RefreshTip url))"

definition virtual_tip_height :: "config \<Rightarrow> bool \<Rightarrow> u64 option" where
  "virtual_tip_height c is_liana =
     (let vb = sc_virtual_block (cf_schedule c) in
      if is_liana \<and> vb_enabled vb \<and> vb_target_height vb > 0 then Some (vb_target_height vb) else None)"

definition should_use_instant_headers_cache :: "bool \<Rightarrow> config \<Rightarrow> bool" where
  "should_use_instant_headers_cache is_liana c \<longleftrightarrow> virtual_tip_height c is_liana = None"

definition virtual_header_in_range :: "u64 \<Rightarrow> u64 option \<Rightarrow> bool" where
  "virtual_header_in_range height vtip = (case vtip of None \<Rightarrow> False | Some v \<Rightarrow> height \<le> v)"

text \<open>What a session may see above the tip: its own wallet and the armed height decide.\<close>
definition session_virtual_tip :: "string \<Rightarrow> u64 option cact" where
  "session_virtual_tip source =
     gets (\<lambda>c. virtual_tip_height (w_config (cn_world c))
       (effective_source (cn_session c) source = ''liana''))"

end
