(* ===== verification/Pool_Laws.thy ===== *)
theory Pool_Laws
  imports Pool_Schedule
begin

text \<open>
  What the methods of the pool manager may do to the shared state.  Three relations on states,
  each closed under sequencing: \<open>calm\<close> (nothing leaves, the clock is not touched, safe mode is
  not left), \<open>guards P\<close> (from a consistent clock, what leaves satisfies \<open>P\<close>), and \<open>halted\<close>
  (in safe mode no transaction leaves and safe mode stays).
\<close>

section \<open>The relations\<close>

definition sends :: "(outmsg \<Rightarrow> bool) \<Rightarrow> world \<Rightarrow> world \<Rightarrow> bool" where
  "sends P w v \<longleftrightarrow> (\<exists>out. w_outbox v = w_outbox w @ out \<and> list_all P out)"

definition calm :: "world \<Rightarrow> world \<Rightarrow> bool" where
  "calm w v \<longleftrightarrow> w_health v = w_health w \<and> w_mtp_cache v = w_mtp_cache w
     \<and> w_outbox v = w_outbox w \<and> (w_safe_mode w \<longrightarrow> w_safe_mode v)"

definition guards :: "env \<Rightarrow> (outmsg \<Rightarrow> bool) \<Rightarrow> world \<Rightarrow> world \<Rightarrow> bool" where
  "guards E P w v \<longleftrightarrow> (clock_ok E w \<longrightarrow> clock_ok E v \<and> sends P w v)"

definition halted :: "world \<Rightarrow> world \<Rightarrow> bool" where
  "halted w v \<longleftrightarrow> (w_safe_mode w \<longrightarrow> w_safe_mode v \<and> sends no_send w v)"

lemma sends_refl: "sends P w w"
  by (simp add: sends_def)

lemma sends_same: "w_outbox v = w_outbox w \<Longrightarrow> sends P w v"
  by (simp add: sends_def)

lemma sends_trans: "sends P w v \<Longrightarrow> sends P v u \<Longrightarrow> sends P w u"
  by (auto simp: sends_def)

lemma sends_mono: "sends P w v \<Longrightarrow> (\<And>m. P m \<Longrightarrow> Q m) \<Longrightarrow> sends Q w v"
  by (auto simp: sends_def list_all_iff)

interpretation calm: act_rel calm
  by unfold_locales (auto simp: calm_def)

interpretation guards: act_rel "guards E P" for E P
  by unfold_locales (auto simp: guards_def sends_refl intro: sends_trans)

interpretation halted: act_rel halted
  by unfold_locales (auto simp: halted_def sends_refl intro: sends_trans)

lemma guards_calm: "moves calm m \<Longrightarrow> moves (guards E P) m"
  by (auto simp: moves_def calm_def guards_def clock_ok_def sends_same)

lemma halted_calm: "moves calm m \<Longrightarrow> moves halted m"
  by (auto simp: moves_def calm_def halted_def sends_same)

section \<open>Calm operations\<close>

lemma calm_quiet: "moves only_clock m \<Longrightarrow> moves calm m"
  unfolding moves_def calm_def by (metis only_clock_proj(12,14,18,27))

lemma calm_touch: "moves (touches_row i) m \<Longrightarrow> moves calm m"
  by (rule movesI) (drule (1) movesD, auto simp: touches_row_def calm_def)

lemma calm_modify:
  assumes "\<And>w. w_health (f w) = w_health w" "\<And>w. w_mtp_cache (f w) = w_mtp_cache w"
    "\<And>w. w_outbox (f w) = w_outbox w" "\<And>w. w_safe_mode w \<Longrightarrow> w_safe_mode (f w)"
  shows "moves calm (modify f)"
  by (rule calm.step_modify) (simp add: calm_def assms)

lemma calm_sql_update: "moves calm (sql_update E p f)"
  unfolding moves_def sql_update_def sql_def calm_def tick_def by (auto split: option.split)

lemma calm_delete: "moves calm (sql_delete E p)"
  unfolding moves_def sql_delete_def sql_def calm_def tick_def by (auto split: option.split)

lemma calm_insert: "moves calm (sql_insert E r)"
  unfolding moves_def sql_insert_def sql_def calm_def tick_def by (auto split: option.split)

lemmas calm_rules = calm.rules calm_quiet [OF quiet_draw] calm_quiet [OF quiet_draw_res]
  calm_sql_update calm_delete calm_insert

lemma calm_safe: "moves calm (enter_safe_mode i)"
  unfolding enter_safe_mode_def by (rule calm_modify) auto

lemma calm_announce: "moves calm (announce_all shs)"
  by (simp add: moves_def announce_all_run calm_def)

lemma calm_pending: "moves calm (modify (\<lambda>w. w\<lparr>w_pending := f w\<rparr>))"
  by (rule calm_modify) auto

lemma calm_remove_pending: "moves calm (remove_pending_tx txid)"
  unfolding remove_pending_tx_def
  by (auto intro!: calm_rules calm_announce calm_pending split: option.split)

lemma calm_event: "moves calm (emit_event E tx txid)"
  unfolding emit_event_def by (intro calm_rules calm_modify) auto

lemma calm_miss: "moves calm (record_broadcast_miss E i a b)"
  unfolding record_broadcast_miss_def by (auto intro!: calm_rules split: option.split)

lemmas calm_writes = calm_touch [OF update_tx_status.touches] calm_touch [OF reset_failed.touches]
  calm_touch [OF db_mark_broadcast.touches] calm_touch [OF mark_confirmed.touches]
  calm_touch [OF update_reschedule.touches] calm_touch [OF update_price_schedule.touches]
  calm_touch [OF mark_due.touches] calm_touch [OF mark_due_from_price_trigger.touches]

lemmas calm_reads = calm_quiet [OF quiet_get_broadcast_tx_by_id] calm_quiet [OF quiet_list_broadcast_txs]
  calm_quiet [OF quiet_get_due_transactions] calm_quiet [OF quiet_get_price_triggered_pending]
  calm_quiet [OF quiet_get_pending_by_block_height] calm_quiet [OF quiet_get_pending_by_scheduled_time]
  calm_quiet [OF quiet_get_pending_rebroadcast]

lemma calm_mark_broadcast: "moves calm (mark_broadcast E i txid fee)"
  unfolding mark_broadcast_def by (intro calm_rules calm_writes calm_remove_pending)

lemma calm_mark_as_due: "moves calm (mark_as_due E i)"
  unfolding mark_as_due_def by (rule calm_writes)

lemma calm_requeue: "moves calm (requeue_retriable_failures E)"
  unfolding requeue_retriable_failures_def requeue_one_def Let_def
  by (intro calm_rules calm_reads) (auto intro!: calm_rules calm_writes)

lemma calm_advance: "moves calm (for_loop (advance_pending E) txs ())"
  unfolding advance_pending_def
  by (intro calm_rules) (auto intro!: calm_rules calm_safe calm_mark_as_due)

lemma calm_price_triggers: "moves calm (check_price_triggers E prices)"
  unfolding check_price_triggers_def
  by (intro calm_rules calm_reads) (auto intro!: calm_rules calm_writes)

section \<open>Reading the chain\<close>

lemma sends_reads: "reads_chain no_send w v \<Longrightarrow> sends no_send w v"
  by (auto simp: reads_chain_def sends_def)

lemma halted_reads: "moves (reads_chain no_send) m \<Longrightarrow> moves halted m"
  by (rule movesI) (drule (1) movesD, auto simp: halted_def sends_reads reads_proj(6))

lemma halted_calls: "moves (calls_out no_send) m \<Longrightarrow> moves halted m"
  by (intro halted_reads reads_moves_calls)

lemma guards_reads:
  assumes "moves (reads_chain no_send) m" "moves (clock_kept E) m" "\<And>x. no_send x \<Longrightarrow> P x"
  shows "moves (guards E P) m"
proof (rule movesI)
  fix w r v
  assume m: "m w = (r, v)"
  have "sends P w v"
    using sends_mono [OF sends_reads [OF movesD [OF assms(1) m]] assms(3)] .
  then show "guards E P w v"
    using movesD [OF assms(2) m] by (simp add: guards_def clock_kept_def)
qed

lemma guards_calls:
  assumes "moves (calls_out P) m"
  shows "moves (guards E P) m"
proof (rule movesI)
  fix w r v
  assume "m w = (r, v)"
  from movesD [OF assms this] have c: "calls_out P w v" .
  have "sends P w v" using c by (auto simp: calls_out_def sends_def)
  then show "guards E P w v"
    by (simp add: guards_def clock_ok_def calls_proj(11) [OF c] calls_proj(13) [OF c])
qed

lemma guards_locktime: "(\<And>x. no_send x \<Longrightarrow> P x) \<Longrightarrow> moves (guards E P) (is_locktime_satisfied E n)"
  by (intro guards_reads reads_locktime kept_locktime)

lemma guards_mtp: "(\<And>x. no_send x \<Longrightarrow> P x) \<Longrightarrow> moves (guards E P) (get_median_time_past_cached E)"
  by (intro guards_reads reads_mtp_cached kept_mtp_cached)

lemma guards_locktime_or_refuse:
  "(\<And>x. no_send x \<Longrightarrow> P x) \<Longrightarrow> moves (guards E P) (locktime_or_refuse E n)"
  unfolding locktime_or_refuse_def
  by (intro guards.rules guards_locktime) (auto intro!: guards.rules split: res.split)

lemma locktime_or_refuse_Ok:
  assumes "clock_ok E w" "locktime_or_refuse E n w = (Ok True, v)"
  shows "locktime_reached E n"
proof -
  obtain r u where r: "is_locktime_satisfied E n w = (r, u)"
    and k: "(case r of Ok b \<Rightarrow> ret b
       | Err e \<Rightarrow> bail (refuse_blind e)
       | Panic p \<Rightarrow> lift_res (Panic p)) u = (Ok True, v)"
    using assms(2) unfolding locktime_or_refuse_def by (auto simp: bnd_Ok_iff attempt_Ok_iff)
  have "r = Ok True" using k by (cases r) (simp_all add: act_simps)
  then show ?thesis using locktime_gate [OF assms(1)] r by simp
qed

lemma halted_locktime_or_refuse: "moves halted (locktime_or_refuse E n)"
  unfolding locktime_or_refuse_def
  using halted_reads [OF reads_locktime] by (auto intro!: halted.rules split: res.split)

section \<open>Sending\<close>

lemma guards_core_broadcast: "P (ToCore ''sendrawtransaction'' [hex]) \<Longrightarrow> moves (guards E P) (core_broadcast E hex)"
  unfolding core_broadcast_def by (intro guards_calls calls_rules calls_put)

lemma guards_broadcast:
  assumes "\<And>m. no_send m \<or> sends_hex E hex m \<Longrightarrow> P m"
  shows "moves (guards E P) (broadcast_transaction E hex)"
proof -
  have ix: "moves (guards E P) (indexer_broadcast E hex)"
    by (intro guards_calls calls_moves_mono [OF calls_indexer_broadcast] assms)
  have core: "moves (guards E P) (broadcast_via_core E hex e)" for e
    unfolding broadcast_via_core_def
    by (auto intro!: guards.rules guards_core_broadcast assms simp: sends_hex_def split: option.split)
  show ?thesis
    unfolding broadcast_transaction_def
    by (auto intro!: guards.rules ix core split: res.split)
qed

end
