(* ===== verification/Pool_Properties.thy ===== *)
theory Pool_Properties
  imports Pool_Laws
begin

text \<open>
  What the pool manager guarantees: which transactions it sends, that a tampered row halts it,
  and what scheduling checks.
\<close>

lemmas guards_calms = calm_mark_broadcast [THEN guards_calm] calm_event [THEN guards_calm]
  calm_writes [THEN guards_calm] calm_miss [THEN guards_calm] calm_safe [THEN guards_calm]

lemmas halted_calms = calm_mark_broadcast [THEN halted_calm] calm_event [THEN halted_calm]
  calm_writes [THEN halted_calm] calm_miss [THEN halted_calm] calm_safe [THEN halted_calm]
  calm_reads [THEN halted_calm]

section \<open>Only what is due is sent\<close>

text \<open>The transaction's own schedule has come at the time \<open>now\<close>.\<close>
definition schedule_reached :: "datetime \<Rightarrow> broadcast_tx \<Rightarrow> bool" where
  "schedule_reached now tx = (case t_defer_until tx of
       Some d \<Rightarrow> d \<le> now
     | None \<Rightarrow> (case t_scheduled_time tx of None \<Rightarrow> False | Some t \<Rightarrow> t \<le> now))"

text \<open>
  A row of \<open>w\<close> that may be sent at \<open>now\<close>: it is scheduled on this network, its MAC is right,
  its schedule has come, and its locktime is reached.
\<close>
definition sendable :: "env \<Rightarrow> world \<Rightarrow> datetime \<Rightarrow> broadcast_tx \<Rightarrow> bool" where
  "sendable E w now tx \<longleftrightarrow> (\<exists>q \<in> set (w_pool w). tx_of_row E (w_db_key w) q tx
     \<and> c_status q = ''scheduled'' \<and> c_network q = network_name w \<and> row_sealed E (w_db_key w) q
     \<and> schedule_reached now tx \<and> locktime_reached E (t_nlocktime tx))"

text \<open>A message that carries the bytes of such a row, or no transaction at all.\<close>
definition due_message :: "env \<Rightarrow> world \<Rightarrow> datetime \<Rightarrow> outmsg \<Rightarrow> bool" where
  "due_message E w now m \<longleftrightarrow> no_send m \<or> (\<exists>tx. sendable E w now tx \<and> sends_hex E (t_tx_hex tx) m)"

text \<open>What \<open>filter_due\<close> lets through.\<close>
lemma is_due_Ok:
  "is_tx_due_for_broadcast E tx now w = (Ok True, v) \<Longrightarrow> schedule_reached now tx"
  by (auto simp: is_tx_due_for_broadcast_def schedule_reached_def ok_iffs act_simps
      split: if_splits option.splits)

lemma keep_due_Ok:
  assumes "keep_due E now tx due w = (Ok due', v)"
  obtains r where "is_tx_due_for_broadcast E tx now w = (r, v)"
    "due' = (if r = Ok True then due @ [tx] else due)"
proof -
  obtain r where r: "is_tx_due_for_broadcast E tx now w = (r, v)"
    "due' = (if unwrap_or False (res_ok r) then due @ [tx] else due)"
    using assms by (auto simp: keep_due_def ok_iffs act_simps)
  have "unwrap_or False (res_ok r) \<longleftrightarrow> r = Ok True" by (cases r) (auto simp: unwrap_or_def)
  then show thesis using that r by simp
qed

lemma filter_due_Ok:
  assumes "filter_due E now txs w = (Ok due, v)"
  shows "set due \<subseteq> {tx \<in> set txs. schedule_reached now tx}"
proof -
  let ?P = "\<lambda>due (v :: world). set due \<subseteq> {tx \<in> set txs. schedule_reached now tx}"
  show ?thesis
  proof (rule for_each_Ok_inv [where P = ?P, OF assms [unfolded filter_due_def]])
    fix tx due and s :: world and due' t
    assume tx: "tx \<in> set txs" "set due \<subseteq> {tx \<in> set txs. schedule_reached now tx}"
      and run: "keep_due E now tx due s = (Ok due', t)"
    then show "set due' \<subseteq> {tx \<in> set txs. schedule_reached now tx}"
      by (elim keep_due_Ok) (auto split: if_splits dest: is_due_Ok)
  qed simp
qed

lemma guards_filter_due: "moves (guards E (due_message E w now)) (filter_due E t txs)"
proof -
  have "moves (guards E (due_message E w now)) (is_tx_due_for_broadcast E tx t)" for tx
    unfolding is_tx_due_for_broadcast_def
    by (auto intro!: guards.rules guards_locktime simp: due_message_def)
  then show ?thesis unfolding filter_due_def keep_due_def by (auto intro!: guards.rules)
qed

lemma guards_due_one:
  assumes "sendable E w now tx"
  shows "moves (guards E (due_message E w now)) (broadcast_due_one E tx rs)"
proof -
  have "moves (guards E (due_message E w now)) (broadcast_transaction E (t_tx_hex tx))"
    by (rule guards_broadcast) (use assms in \<open>auto simp: due_message_def\<close>)
  then show ?thesis
    unfolding broadcast_due_one_def
    by (auto intro!: guards.rules guards_calms split: res.split)
qed

lemma guards_note_miss: "moves (guards E (due_message E w now)) (note_miss E t tx)"
proof -
  have "moves (guards E (due_message E w now)) (get_median_time_past_cached E)"
    by (rule guards_mtp) (simp add: due_message_def)
  then show ?thesis
    unfolding note_miss_def by (auto intro!: guards.rules guards_calms)
qed

lemma guards_due_step:
  assumes "q \<in> set (w_pool w)" "tx_of_row E (w_db_key w) q tx" "c_status q = ''scheduled''"
    "c_network q = network_name w" "schedule_reached now tx"
  shows "moves (guards E (due_message E w now)) (due_step E now tx rs)"
proof -
  let ?G = "guards E (due_message E w now)"
  have send: "moves ?G (bnd (locktime_or_refuse E (t_nlocktime tx)) (\<lambda>ok.
       if \<not> ok then seq (note_miss E now tx) (ret (Continue rs))
       else bnd (broadcast_due_one E tx rs) (\<lambda>rs. ret (Continue rs))))"
    if "t_tampered tx \<noteq> Some True"
  proof (rule guards.step_bnd_when)
    show "moves ?G (locktime_or_refuse E (t_nlocktime tx))"
      by (rule guards_locktime_or_refuse) (simp add: due_message_def)
    fix s ok t
    assume run: "locktime_or_refuse E (t_nlocktime tx) s = (Ok ok, t)" and st: "?G s t"
    show "?G s (snd ((if \<not> ok then seq (note_miss E now tx) (ret (Continue rs))
         else bnd (broadcast_due_one E tx rs) (\<lambda>rs. ret (Continue rs))) t))"
    proof (cases "ok \<and> clock_ok E s")
      case True
      then have "sendable E w now tx"
        using assms that locktime_or_refuse_Ok [of E s] run by (auto simp: sendable_def tx_of_row_def)
      then have "moves ?G (bnd (broadcast_due_one E tx rs) (\<lambda>rs. ret (Continue rs)))"
        by (intro guards.rules guards_due_one)
      then show ?thesis using True guards.then_moves [OF st] by simp
    next
      case False
      have "moves ?G (seq (note_miss E now tx) (ret (Continue rs)))"
        by (intro guards.rules guards_note_miss)
      then show ?thesis
        using False guards.then_moves [OF st] by (cases ok) (auto simp: guards_def)
    qed
  qed
  show ?thesis
    unfolding due_step_def
    by (auto intro!: guards.rules guards_calms send)
qed

text \<open>
  C1: The scheduler sends only what is due.  From a state whose clock is consistent, every
  transaction that a run of the broadcast step sends carries the bytes of a row of the pool as
  it was when the run began that was scheduled on the configured network, whose MAC was right,
  whose scheduled or deferred time was not after the time read at the start, and whose locktime
  a backend has confirmed as reached; in safe mode nothing is sent at all.
\<close>
theorem broadcast_sends_only_due:
  assumes "clock_ok E w" "broadcast_due_transactions E w = (r, v)"
  shows "clock_ok E v \<and> sends (due_message E w (now_at E (w_clock w))) w v
    \<and> (w_safe_mode w \<longrightarrow> v = w)"
proof (cases "w_safe_mode w")
  case True
  then show ?thesis
    using assms by (auto simp: broadcast_due_transactions_def bnd_apply act_simps sends_refl)
next
  case False
  let ?now = "now_at E (w_clock w)"
  let ?G = "guards E (due_message E w ?now)"
  have v: "v = snd (bnd (get_due_transactions E (network_name w)) (\<lambda>candidates.
     bnd (filter_due E ?now candidates) (\<lambda>due. for_loop (due_step E ?now) due [])) (tick w))"
    using assms(2) False by (simp add: broadcast_due_transactions_def bnd_apply act_simps)
  obtain cr u where q: "get_due_transactions E (network_name w) (tick w) = (cr, u)"
    by (cases "get_due_transactions E (network_name w) (tick w)")
  have wu: "?G w u"
    using guards.trans [OF _ movesD [OF guards_calm [OF calm_quiet [OF quiet_get_due_transactions]] q]]
      movesD [OF guards_calm [OF calm_quiet [OF quiet_draw]], of "\<lambda>n. ()" w "Ok ()" "tick w"]
    by (simp add: act_simps)
  have "?G w v"
  proof (cases cr)
    case (Ok txs)
    obtain fr u2 where f: "filter_due E ?now txs u = (fr, u2)" by (cases "filter_due E ?now txs u")
    have wu2: "?G w u2" by (rule guards.trans [OF wu movesD [OF guards_filter_due f]])
    show ?thesis
    proof (cases fr)
      case fr: (Ok due)
      have "moves ?G (for_loop (due_step E ?now) due [])"
      proof (rule guards.step_for_loop)
        fix tx rs
        assume "tx \<in> set due"
        then have tx: "tx \<in> set txs" "schedule_reached ?now tx"
          using filter_due_Ok [OF f [unfolded fr]] by auto
        obtain q0 where "q0 \<in> set (w_pool w)" "c_status q0 = ''scheduled''" "c_network q0 = network_name w"
          "tx_of_row E (w_db_key w) q0 tx"
          using query_txs_member [OF q [unfolded Ok get_due_transactions_def] tx(1)] by (auto simp: tick_def)
        then show "moves ?G (due_step E ?now tx rs)" using tx(2) by (intro guards_due_step)
      qed
      then show ?thesis
        using guards.then_moves [OF wu2] v q Ok f fr by (simp add: bnd_apply)
    qed (use v q Ok f wu2 in \<open>simp_all add: bnd_apply\<close>)
  qed (use v q wu in \<open>simp_all add: bnd_apply\<close>)
  then show ?thesis using assms(1) False by (simp add: guards_def)
qed

definition seal_chain :: "pool_row \<Rightarrow> pool_row" where
  "seal_chain r = r\<lparr>c_row_mac := Some (expected_mac env_chain ''k'' r)\<rparr>"

text \<open>Two rows: one due since time 0, one at time 1000.\<close>
definition world_due :: world where
  "world_due = world_ix\<lparr>w_pool := [seal_chain ((row0 ''a'' ''scheduled'' (Some ''0''))\<lparr>c_nlocktime := Some 3\<rparr>),
     seal_chain (row0 ''b'' ''scheduled'' (Some ''1000''))]\<rparr>"

lemma clock_ok_ix: "clock_ok E (world_ix\<lparr>w_pool := rows\<rparr>)"
  by (simp add: clock_ok_def world_ix_def world0_def health0_def decide_chain_source_def)

theorem broadcast_sends_only_due_witness:
  "map fst (the (res_ok (fst (broadcast_due_transactions env_chain world_due)))) = [''a'']
    \<and> list_ex is_tx_send (w_outbox (snd (broadcast_due_transactions env_chain world_due)))
    \<and> sends (due_message env_chain world_due 0) world_due (snd (broadcast_due_transactions env_chain world_due))"
proof -
  have "map fst (the (res_ok (fst (broadcast_due_transactions env_chain world_due)))) = [''a'']"
    "list_ex is_tx_send (w_outbox (snd (broadcast_due_transactions env_chain world_due)))"
    by code_simp+
  moreover have "now_at env_chain (w_clock world_due) = 0" by code_simp
  moreover have "clock_ok env_chain world_due" unfolding world_due_def by (rule clock_ok_ix)
  ultimately show ?thesis
    using broadcast_sends_only_due [OF _ surjective_pairing, of env_chain world_due] by simp
qed

end
