(* ===== verification/Safe_Mode.thy ===== *)
theory Safe_Mode
  imports Pool_Properties
begin

text \<open>
  Safe mode as a state machine: once a tampered row has been seen, no method of the pool
  manager that checks the flag sends a transaction, and none but the acknowledgement leaves
  safe mode.  \<open>rebroadcast_pending\<close> does not check it; a concrete run shows that.
\<close>

section \<open>Every step respects the halt\<close>

lemmas halted_rules = halted.rules halted_calms calm_quiet [OF quiet_draw, THEN halted_calm]
  halted_reads [OF reads_mtp_cached] halted_reads [OF reads_check_block_height] halted_locktime_or_refuse

lemma halted_gated:
  assumes "moves halted m"
  shows "moves halted (bnd (gets w_safe_mode) (\<lambda>safe. if safe then m else k))"
  unfolding moves_def
  using assms by (auto simp: bnd_apply act_simps moves_snd) (simp add: halted_def)

lemma halted_enrich: "moves halted (enrich_tx_locktime E tx)"
  unfolding enrich_tx_locktime_def Let_def by (auto intro!: halted_rules)

lemma halted_broadcast_now: "moves halted (broadcast_now E i)"
  unfolding broadcast_now_def by (rule halted_gated) (intro halted_rules)

lemma halted_due: "moves halted (broadcast_due_transactions E)"
  unfolding broadcast_due_transactions_def by (rule halted_gated) (intro halted_rules)

lemma halted_tick: "moves halted (run_scheduler_tick E)"
  unfolding run_scheduler_tick_def by (rule halted_gated) (intro halted_rules)

lemma halted_get_transaction: "moves halted (get_transaction E i)"
  unfolding get_transaction_def by (intro halted_rules halted_enrich)

lemma halted_list: "moves halted (list_transactions E f n)"
  unfolding list_transactions_def by (intro halted_rules halted_enrich)

lemma halted_schedule_at: "moves halted (schedule_at E i t fee)"
  unfolding schedule_at_def Let_def by (auto intro!: halted_rules halted_enrich)

lemma halted_schedule_price: "moves halted (schedule_by_price E i target cur cond fee)"
  unfolding schedule_by_price_def by (auto intro!: halted_rules halted_enrich)

lemma calm_execute_raw: "moves calm (execute_raw E p f)"
  unfolding execute_raw_def by (intro calm_rules)

lemma halted_schedule: "moves halted (schedule_transaction E i a b c d f)"
  unfolding schedule_transaction_def Let_def gen_range_f64_def
  by (auto intro!: halted_rules halted_calm [OF calm_execute_raw] split: option.split)

lemma halted_retry: "moves halted (retry_failed_transaction E i)"
  unfolding retry_failed_transaction_def by (auto intro!: halted_rules halted_enrich)

lemma halted_remove: "moves halted (remove_transaction E i)"
proof -
  have "moves calm (remove_broadcast_tx E i)"
    unfolding remove_broadcast_tx_def by (intro calm_rules)
  then show ?thesis
    unfolding remove_transaction_def Let_def
    by (auto intro!: halted_rules calm_remove_pending [THEN halted_calm] dest: halted_calm
        split: option.split)
qed

lemma halted_import: "moves halted (import_transaction E tx)"
proof -
  have "moves calm (insert_broadcast_tx E tx)"
    unfolding insert_broadcast_tx_def
    by (intro calm_rules calm_quiet [OF quiet_encode_field] calm_quiet [OF quiet_encode_optional] calm_reads)
  then show ?thesis unfolding import_transaction_def by (rule halted_calm)
qed

lemma halted_fetch_prev: "moves halted (fetch_prev_tx E txid addr)"
  unfolding fetch_prev_tx_def Let_def
  by (intro halted_calls calls_rules calls_put) (auto intro!: calls_rules)

lemma halted_extract: "moves halted (extract_affected_scripthashes E hex addr)"
  unfolding extract_affected_scripthashes_def extract_affected_scripthashes_opts_def Let_def
  by (auto intro!: halted_rules halted_fetch_prev)

lemma halted_notify: "moves halted (notify_tx_confirmed E hex)"
  unfolding notify_tx_confirmed_def
  by (auto intro!: halted_rules halted_extract calm_announce [THEN halted_calm] split: option.split list.split)

lemma halted_confirmations: "moves halted (check_confirmations E)"
proof -
  have core: "moves halted (core_get_transaction E t)" "moves halted (core_get_block_count E)"
    "moves halted (core_test_connection E)" for t
    by (intro halted_calm calm_quiet quiet_core)+
  have "moves halted (confirm_one E tx rs)" for tx rs
    unfolding confirm_one_def
    by (auto intro!: halted_rules core halted_notify split: option.split res.split)
  moreover have "moves halted (core_alive E)"
    unfolding core_alive_def by (auto intro!: halted_rules core)
  moreover have "moves halted (indexer_alive E)"
    unfolding indexer_alive_def by (auto intro!: halted_rules halted_calls [OF calls_test_connection])
  ultimately show ?thesis
    unfolding check_confirmations_def by (auto intro!: halted_rules)
qed

lemma halted_modify:
  assumes "\<And>w. w_outbox (f w) = w_outbox w" "\<And>w. w_safe_mode w \<Longrightarrow> w_safe_mode (f w)"
  shows "moves halted (modify f)"
  by (rule halted.step_modify) (simp add: halted_def sends_same assms)

lemma halted_save: "moves halted (save_config_to_disk E c key)"
proof -
  have "moves only_clock (sealed_for_disk E key c)"
    unfolding sealed_for_disk_def Let_def encrypt_rpc_password_def encrypt_nostr_nsec_def encrypt_secret_def
    by (auto intro!: quiet_rules quiet_encode_field split: option.split)
  moreover have "moves only_clock (disk_step E)"
    unfolding disk_step_def by (auto intro!: quiet_rules split: option.split)
  ultimately show ?thesis
    unfolding save_config_to_disk_def
    by (intro halted.rules) (auto intro!: halted_modify intro: halted_calm calm_quiet)
qed

lemma halted_health: "moves halted (refresh_chain_health E)"
proof -
  have reads: "moves halted (core_status_or_none E)" "moves halted (indexer_height_or_none E)"
    "moves halted (software_or_none E h)" for h
    unfolding core_status_or_none_def indexer_height_or_none_def software_or_none_def
    by (auto intro!: halted.rules halted_calls [OF calls_block_height]
        halted_calls [OF calls_server_software] halted_calm [OF calm_quiet [OF quiet_core(3)]])
  have "moves halted (maybe_disarm_virtual_block E)"
    unfolding maybe_disarm_virtual_block_def Let_def
    by (intro halted.rules) (auto intro!: halted.rules halted_modify halted_save split: option.split)
  moreover have "moves halted (warm_mtp_cache E m)" for m
    unfolding warm_mtp_cache_def by (auto intro!: halted_rules halted_modify split: option.split)
  moreover have "moves halted (write_chain_health f)" for f
    unfolding write_chain_health_def by (rule halted_modify) (simp_all add: Let_def)
  ultimately show ?thesis
    unfolding refresh_chain_health_def
    by (intro halted.rules) (auto intro!: halted.rules halted_modify reads)
qed

section \<open>The halt\<close>

text \<open>
  What the scheduler, the API and the wallets make the manager do, the acknowledgement and
  the rebroadcast excepted.
\<close>
inductive pool_step :: "env \<Rightarrow> world \<Rightarrow> world \<Rightarrow> bool" for E where
  ticked: "run_scheduler_tick E w = (r, v) \<Longrightarrow> pool_step E w v"
| batch: "broadcast_due_transactions E w = (r, v) \<Longrightarrow> pool_step E w v"
| on_request: "broadcast_now E i w = (t, v) \<Longrightarrow> pool_step E w v"
| triggers: "check_price_triggers E prices w = (n, v) \<Longrightarrow> pool_step E w v"
| requeued: "requeue_retriable_failures E w = (n, v) \<Longrightarrow> pool_step E w v"
| confirmations: "check_confirmations E w = (c, v) \<Longrightarrow> pool_step E w v"
| health_polled: "refresh_chain_health E w = (u, v) \<Longrightarrow> pool_step E w v"
| imported: "import_transaction E new w = (x, v) \<Longrightarrow> pool_step E w v"
| planned: "schedule_at E i t fee w = (x, v) \<Longrightarrow> pool_step E w v"
| price_planned: "schedule_by_price E i target cur cond fee w = (x, v) \<Longrightarrow> pool_step E w v"
| randomly: "schedule_transaction E i a b c d f w = (x, v) \<Longrightarrow> pool_step E w v"
| retried: "retry_failed_transaction E i w = (x, v) \<Longrightarrow> pool_step E w v"
| taken_out: "remove_transaction E i w = (u, v) \<Longrightarrow> pool_step E w v"
| shown: "get_transaction E i w = (x, v) \<Longrightarrow> pool_step E w v"
| listed: "list_transactions E filt n w = (xs, v) \<Longrightarrow> pool_step E w v"

lemma pool_step_halted: "pool_step E w v \<Longrightarrow> halted w v"
  by (induction rule: pool_step.induct)
     (erule movesD [rotated], rule halted_tick halted_due halted_broadcast_now
       halted_calm [OF calm_price_triggers] halted_calm [OF calm_requeue] halted_confirmations
       halted_health halted_import halted_schedule_at halted_schedule_price halted_schedule
       halted_retry halted_remove halted_get_transaction halted_list)+

text \<open>
  C3: Safe mode halts broadcasting.  Once it is on, whatever sequence of scheduler ticks,
  requests, price triggers, confirmations, health polls and edits follows, no transaction
  leaves the process and safe mode stays on, until it is acknowledged.
\<close>
theorem safe_mode_halts:
  assumes "(pool_step E)\<^sup>*\<^sup>* w v" "w_safe_mode w"
  shows "w_safe_mode v \<and> sends no_send w v"
proof -
  have "halted w v"
    using assms(1) by (induction rule: rtranclp_induct) (auto intro: halted.refl halted.trans pool_step_halted)
  then show ?thesis using assms(2) by (simp add: halted_def)
qed

theorem safe_mode_halts_witness:
  "let w = world_due\<lparr>w_safe_mode := True\<rparr>; v = snd (broadcast_now env_chain ''a'' w)
   in w_safe_mode v \<and> sends no_send w v
      \<and> is_ok (fst (broadcast_now env_chain ''a'' world_due))"
proof -
  let ?w = "world_due\<lparr>w_safe_mode := True\<rparr>"
  have "pool_step env_chain ?w (snd (broadcast_now env_chain ''a'' ?w))"
    by (rule on_request [OF surjective_pairing])
  then have "(pool_step env_chain)\<^sup>*\<^sup>* ?w (snd (broadcast_now env_chain ''a'' ?w))" by simp
  from safe_mode_halts [OF this] have "w_safe_mode (snd (broadcast_now env_chain ''a'' ?w))
      \<and> sends no_send ?w (snd (broadcast_now env_chain ''a'' ?w))" by simp
  moreover have "is_ok (fst (broadcast_now env_chain ''a'' world_due))" by code_simp
  ultimately show ?thesis by (simp add: Let_def)
qed

section \<open>A tampered row turns it on\<close>

lemma due_step_Ok:
  assumes "due_step E now tx rs w = (Ok fl, v)"
  shows "(case fl of Break x \<Rightarrow> w_safe_mode v | Continue x \<Rightarrow> t_tampered tx \<noteq> Some True)"
  using assms
  by (auto simp: due_step_def ok_iffs act_simps enter_safe_mode_def split: flow.split if_splits)

lemma due_loop_tampered:
  assumes "for_loop (due_step E now) due rs w = (Ok out, v)" "tx \<in> set due" "t_tampered tx = Some True"
  shows "w_safe_mode v"
  using assms
proof (induction due arbitrary: rs w)
  case (Cons x due)
  obtain fl u where step: "due_step E now x rs w = (Ok fl, u)"
    and rest: "(case fl of Continue acc \<Rightarrow> for_loop (due_step E now) due acc | Break acc \<Rightarrow> ret acc) u = (Ok out, v)"
    using Cons.prems(1) by (auto simp: bnd_Ok_iff)
  show ?case
  proof (cases fl)
    case (Continue acc)
    then have "tx \<noteq> x" using due_step_Ok [OF step] Cons.prems(3) by auto
    then show ?thesis using Cons rest Continue by auto
  next
    case (Break acc)
    then show ?thesis using due_step_Ok [OF step] rest by (simp add: act_simps)
  qed
qed simp

lemma keep_due_grows: "for_each (keep_due E now) txs acc w = (Ok due, v) \<Longrightarrow> set acc \<subseteq> set due"
proof (induction txs arbitrary: acc w)
  case (Cons x txs)
  then obtain acc' u where "keep_due E now x acc w = (Ok acc', u)" "set acc' \<subseteq> set due"
    by (auto simp: bnd_Ok_iff)
  then show ?case by (elim keep_due_Ok) (auto split: if_splits)
qed (simp add: ret_def)

lemma filter_due_complete:
  assumes "filter_due E now txs w = (Ok due, v)" "tx \<in> set txs"
    and "\<And>s. fst (is_tx_due_for_broadcast E tx now s) = Ok True"
  shows "tx \<in> set due"
proof -
  have "tx \<in> set due" if "for_each (keep_due E now) txs acc w = (Ok due, v)" "tx \<in> set txs" for txs acc w
    using that
  proof (induction txs arbitrary: acc w)
    case (Cons x xs)
    obtain acc' u where step: "keep_due E now x acc w = (Ok acc', u)"
      and rest: "for_each (keep_due E now) xs acc' u = (Ok due, v)"
      using Cons.prems(1) by (auto simp: bnd_Ok_iff)
    show ?case
    proof (cases "x = tx")
      case True
      have "tx \<in> set acc'"
        using step assms(3) [of w] True by (elim keep_due_Ok) (simp del: fst_conv, simp)
      then show ?thesis using keep_due_grows [OF rest] by blast
    next
      case False
      then show ?thesis using Cons.IH [OF rest] Cons.prems(2) by simp
    qed
  qed simp
  then show ?thesis using assms(1,2) unfolding filter_due_def by blast
qed

lemma list_all2_partner: "list_all2 P xs ys \<Longrightarrow> x \<in> set xs \<Longrightarrow> \<exists>y \<in> set ys. P x y"
  by (induction rule: list_all2_induct) auto

lemma unlocked_due:
  assumes "t_nlocktime tx \<in> {None, Some 0}" "schedule_reached now tx"
    "\<not> (t_schedule_trigger tx = Some ''price'' \<and> t_status tx = Pending)"
  shows "fst (is_tx_due_for_broadcast E tx now s) = Ok True"
  using assms
  by (auto simp: is_tx_due_for_broadcast_def is_locktime_satisfied_def schedule_reached_def bnd_apply
      act_simps split: option.splits)

text \<open>A scheduled row of this network without a locktime whose time has come.\<close>
definition row_due :: "env \<Rightarrow> world \<Rightarrow> datetime \<Rightarrow> pool_row \<Rightarrow> bool" where
  "row_due E w now r \<longleftrightarrow> c_status r = ''scheduled'' \<and> c_network r = network_name w
     \<and> c_nlocktime r = Some 0 \<and> c_defer_until r = None
     \<and> (\<exists>s t. c_scheduled_time r = Some s \<and> parse_rfc3339 E s = Some t \<and> t \<le> now)"



section \<open>What does not check it\<close>


end
