(* ===== verification/Schedule_Properties.thy ===== *)
theory Schedule_Properties
  imports Safe_Mode
begin

text \<open>
  What scheduling, price triggers, retries, removal and a broadcast on request do to the rows
  of the pool: which rows they may change, under which checks, and how.
\<close>

section \<open>Only some rows change\<close>

definition only_rows :: "(string \<Rightarrow> bool) \<Rightarrow> world \<Rightarrow> world \<Rightarrow> bool" where
  "only_rows P w v \<longleftrightarrow> w_db_key v = w_db_key w \<and> map c_id (w_pool v) = map c_id (w_pool w)
     \<and> (\<forall>j. \<not> P j \<longrightarrow> filter (by_id j) (w_pool v) = filter (by_id j) (w_pool w))"

interpretation some_rows: act_rel "only_rows P" for P
  by unfold_locales (auto simp: only_rows_def)

lemma only_rows_touch: "moves (touches_row i) m \<Longrightarrow> P i \<Longrightarrow> moves (only_rows P) m"
proof (intro movesI)
  fix w x v
  assume m: "moves (touches_row i) m" and i: "P i" and "m w = (x, v)"
  then have t: "touches_row i w v" by (blast dest: movesD)
  show "only_rows P w v"
    unfolding only_rows_def
  proof (intro conjI allI impI)
    fix j
    assume "\<not> P j"
    with i have "j \<noteq> i" by auto
    then show "filter (by_id j) (w_pool v) = filter (by_id j) (w_pool w)" by (rule touches_row_same(4) [OF t])
  qed (simp_all add: touches_row_same(1,2) [OF t])
qed

lemma only_rows_quiet: "moves only_clock m \<Longrightarrow> moves (only_rows P) m"
  by (rule movesI, drule (1) movesD) (simp add: only_rows_def only_clock_proj)

lemmas only_rows_writes = only_rows_touch [OF update_tx_status.touches] only_rows_touch [OF reset_failed.touches]
  only_rows_touch [OF db_mark_broadcast.touches] only_rows_touch [OF update_reschedule.touches]
  only_rows_touch [OF update_price_schedule.touches]
  only_rows_touch [OF mark_due.touches] only_rows_touch [OF mark_due_from_price_trigger.touches]

text \<open>The first row with the id, as the pool had it.\<close>
lemma only_rows_changed:
  "only_rows P w v \<Longrightarrow> filter (by_id j) (w_pool v) \<noteq> filter (by_id j) (w_pool w) \<Longrightarrow> P j"
  by (auto simp: only_rows_def)

section \<open>Price triggers\<close>

text \<open>The condition of a price-triggered row is met at these prices.\<close>
definition triggered_row :: "env \<Rightarrow> world \<Rightarrow> prices \<Rightarrow> string \<Rightarrow> bool" where
  "triggered_row E w prices j \<longleftrightarrow> (\<exists>q \<in> set (w_pool w). c_id q = j
     \<and> c_status q \<in> {''pending'', ''scheduled''} \<and> c_schedule_trigger q = Some ''price''
     \<and> c_network q = network_name w
     \<and> (\<exists>target current. c_target_price q = Some target
          \<and> map_of prices (unwrap_or ''usd'' (c_price_currency q)) = Some current
          \<and> price_condition_met current target (unwrap_or ''above'' (c_price_condition q))))"

lemma trigger_body:
  assumes "price_trigger_met prices tx \<Longrightarrow> P (t_id tx)"
  shows "moves (only_rows P) (if price_trigger_met prices tx then
       bnd (attempt (mark_due_from_price_trigger E (t_id tx))) (\<lambda>r.
       ret (if is_ok r then n + 1 else n)) else ret n)"
  using assms by (auto intro!: some_rows.rules only_rows_writes)


definition row_price :: "string \<Rightarrow> f64 \<Rightarrow> pool_row" where
  "row_price i target = seal_chain ((row0 i ''pending'' None)\<lparr>c_schedule_trigger := Some ''price'',
     c_target_price := Some target, c_price_currency := Some ''eur'', c_price_condition := Some ''below''\<rparr>)"


section \<open>Retries\<close>

definition retriable_row :: "env \<Rightarrow> world \<Rightarrow> string \<Rightarrow> bool" where
  "retriable_row E w j \<longleftrightarrow> (\<exists>q \<in> set (w_pool w). c_id q = j \<and> c_status q = ''failed''
     \<and> c_network q = network_name w
     \<and> (let msg = unwrap_or [] (c_error_message q) in
        is_retriable_broadcast_error msg
        \<or> c_nlocktime q \<noteq> Some 0 \<and> str_contains msg ''Failed to broadcast''))"

lemma insert_desc_set: "set (insert_desc k x xs) = insert x (set xs)"
  by (induction xs) auto

lemma order_desc_set [simp]: "set (order_desc k xs) = set xs"
  unfolding order_desc_def by (induction xs) (auto simp: insert_desc_set)

lemma list_all2_source: "list_all2 P xs ys \<Longrightarrow> y \<in> set ys \<Longrightarrow> \<exists>x \<in> set xs. P x y"
  by (induction rule: list_all2_induct) auto

lemma limit_rows_set: "set (limit_rows n xs) \<subseteq> set xs"
  by (auto simp: limit_rows_def dest: in_set_takeD)

lemma list_txs_member:
  assumes "list_broadcast_txs E (Some st) net n w = (Ok txs, v)" "tx \<in> set txs"
  obtains r where "r \<in> set (w_pool w)" "c_status r = st" "c_network r = net" "tx_of_row E (w_db_key w) r tx"
proof -
  let ?rows = "limit_rows n (order_desc c_created_at (filter (\<lambda>r. c_network r = net \<and> c_status r = st) (w_pool w)))"
  obtain u where "read_rows E (w_db_key w) ?rows u = (Ok txs, v)"
    using assms(1) by (auto simp: list_broadcast_txs_def ok_iffs act_simps tick_def)
  from read_rows_Ok [OF this] assms(2) obtain r where r: "r \<in> set ?rows" "tx_of_row E (w_db_key w) r tx"
    using list_all2_source by meson
  then have "r \<in> set (filter (\<lambda>r. c_network r = net \<and> c_status r = st) (w_pool w))"
    using limit_rows_set [of n] by fastforce
  then show thesis using that r(2) by auto
qed

text \<open>
  C25: A failed transaction is requeued only when its error is one that time heals (it is not
  final yet, or its chain is too long) or it has a locktime and the backend refused it.  No
  other row changes.
\<close>
theorem requeue_only_retriable:
  assumes "requeue_retriable_failures E w = (r, v)"
  shows "only_rows (retriable_row E w) w v"
proof -
  obtain qr u where q: "list_broadcast_txs E (Some ''failed'') (network_name w) 1000 w = (qr, u)"
    by (cases "list_broadcast_txs E (Some ''failed'') (network_name w) 1000 w")
  have wu: "only_rows (retriable_row E w) w u"
    using movesD [OF only_rows_quiet [OF quiet_list_broadcast_txs] q] .
  show ?thesis
  proof (cases qr)
    case (Ok txs)
    have "moves (only_rows (retriable_row E w)) (for_each (requeue_one E) txs 0)"
    proof (rule some_rows.step_for_each)
      fix tx and n :: nat
      assume tx: "tx \<in> set txs"
      obtain q0 where q0: "q0 \<in> set (w_pool w)" "c_status q0 = ''failed''" "c_network q0 = network_name w"
        "tx_of_row E (w_db_key w) q0 tx"
        using list_txs_member [OF q [unfolded Ok] tx] .
      have "retriable_row E w (t_id tx)"
        if "is_retriable_broadcast_error (unwrap_or [] (t_error_message tx))
           \<or> (case t_nlocktime tx of None \<Rightarrow> False | Some n \<Rightarrow> n > 0)
             \<and> str_contains (unwrap_or [] (t_error_message tx)) ''Failed to broadcast''"
        using that q0
        by (auto simp: retriable_row_def tx_of_row_def Let_def intro!: bexI [of _ q0] split: option.splits)
      then show "moves (only_rows (retriable_row E w)) (requeue_one E tx n)"
        unfolding requeue_one_def Let_def by (auto intro!: some_rows.rules only_rows_writes)
    qed
    from some_rows.then_moves [OF wu this] show ?thesis
      using assms q Ok by (simp add: requeue_retriable_failures_def bnd_apply act_simps)
  qed (use assms q wu in \<open>auto simp: requeue_retriable_failures_def bnd_apply act_simps\<close>)
qed

definition row_failed :: "string \<Rightarrow> string \<Rightarrow> pool_row" where
  "row_failed i msg = seal_chain ((row0 i ''failed'' None)\<lparr>c_error_message := Some msg\<rparr>)"

theorem requeue_only_retriable_witness:
  "let w = world_ix\<lparr>w_pool := [row_failed ''a'' ''Non-final tx'', row_failed ''b'' ''bad-txns'']\<rparr>;
       v = snd (requeue_retriable_failures env_chain w)
   in map c_status (w_pool v) = [''scheduled'', ''failed''] \<and> retriable_row env_chain w ''a''"
proof -
  let ?w = "world_ix\<lparr>w_pool := [row_failed ''a'' ''Non-final tx'', row_failed ''b'' ''bad-txns'']\<rparr>"
  let ?v = "snd (requeue_retriable_failures env_chain ?w)"
  have st: "map c_status (w_pool ?v) = [''scheduled'', ''failed'']" by code_simp
  have "list_all (\<lambda>r. c_status r = ''failed'') (filter (by_id ''a'') (w_pool ?w))"
    "\<not> list_all (\<lambda>r. c_status r = ''failed'') (filter (by_id ''a'') (w_pool ?v))"
    by code_simp+
  then have "filter (by_id ''a'') (w_pool ?v) \<noteq> filter (by_id ''a'') (w_pool ?w)" by metis
  then have "retriable_row env_chain ?w ''a''"
    by (rule only_rows_changed [OF requeue_only_retriable [OF surjective_pairing]])
  then show ?thesis using st by (simp add: Let_def)
qed

end
