(* ===== verification/Scheduler_Loops.thy ===== *)
theory Scheduler_Loops
  imports Archive_Key Electrum_Session Price_Feed Schedule_Properties
begin

text \<open>
  \<open>src/src/pool/scheduler.rs\<close>: one tick of each background loop.  A loop repeats its tick for
  ever with a pause in between, which is not modelled; what a tick reports to the log is not
  kept.  The last section shows which rows the block height monitor makes due.
\<close>

section \<open>A tick on a worker thread\<close>

text \<open>\<open>spawn_blocking(..).await\<close>: a panic of the closure stays in the join error.\<close>
definition spawn_blocking :: "('s, 'a) act \<Rightarrow> ('s, 'a res) act" where
  "spawn_blocking m = (\<lambda>s. case m s of (r, t) \<Rightarrow> (Ok r, t))"

lemma spawn_apply [run_simps]: "spawn_blocking m s = (case m s of (r, t) \<Rightarrow> (Ok r, t))"
  by (simp add: spawn_blocking_def)

section \<open>Broadcasting, with its back-off\<close>

definition max_backoff :: nat where
  "max_backoff = 60"

text \<open>The seconds to wait when no chain source is usable: what the next tick starts from.\<close>
definition next_backoff :: "nat \<Rightarrow> tx_results res \<Rightarrow> nat" where
  "next_backoff backoff r = (case r of
       Ok results \<Rightarrow> 1
     | Err e \<Rightarrow> if str_contains (err_to_string e) no_chain_source then min (backoff * 2) max_backoff else backoff
     | Panic p \<Rightarrow> backoff)"

definition broadcast_loop_tick :: "env \<Rightarrow> nat \<Rightarrow> nat wact" where
  "broadcast_loop_tick E backoff =
     bnd (gets w_safe_mode) (\<lambda>safe.
     if safe then ret backoff
     else bnd (spawn_blocking (run_scheduler_tick E)) (\<lambda>r. ret (next_backoff backoff r)))"

section \<open>Block heights\<close>

definition by_block_due :: "u64 \<Rightarrow> broadcast_tx \<Rightarrow> bool" where
  "by_block_due height tx \<longleftrightarrow> t_broadcast_mode tx = Some ''by_block''
     \<and> (case t_nlocktime tx of None \<Rightarrow> False
        | Some n \<Rightarrow> n > 0 \<and> n < 500000000 \<and> height \<ge> n)"

definition mark_block_due :: "env \<Rightarrow> u64 \<Rightarrow> broadcast_tx \<Rightarrow> unit \<Rightarrow> unit wact" where
  "mark_block_due E height tx _ =
     (if by_block_due height tx then bnd (attempt (mark_as_due E (t_id tx))) (\<lambda>_. ret ()) else ret ())"

definition height_monitor_work :: "env \<Rightarrow> unit wact" where
  "height_monitor_work E =
     bnd (gets network_name) (\<lambda>net.
     bnd (gets w_health) (\<lambda>h.
     if \<not> clock_available h then ret ()
     else bnd (check_block_height E) (\<lambda>height. case height of
         None \<Rightarrow> ret ()
       | Some current \<Rightarrow>
           bnd (get_pending_by_block_height E net) (\<lambda>txs.
           for_each (mark_block_due E current) txs ()))))"

definition height_monitor_tick :: "env \<Rightarrow> unit wact" where
  "height_monitor_tick E = bnd (spawn_blocking (height_monitor_work E)) (\<lambda>_. ret ())"

section \<open>Rebroadcast, confirmations, prices, health\<close>

definition when_clock :: "'a wact \<Rightarrow> 'a \<Rightarrow> 'a wact" where
  "when_clock m none = bnd (gets w_health) (\<lambda>h. if \<not> clock_available h then ret none else m)"

definition rebroadcast_tick :: "env \<Rightarrow> unit wact" where
  "rebroadcast_tick E = bnd (spawn_blocking (when_clock (rebroadcast_pending E) [])) (\<lambda>_. ret ())"

definition confirmation_tick :: "env \<Rightarrow> unit wact" where
  "confirmation_tick E = bnd (spawn_blocking (when_clock (check_confirmations E) [])) (\<lambda>_. ret ())"

text \<open>Stale prices trigger nothing.\<close>
definition fetch_and_check :: "env \<Rightarrow> nat wact" where
  "fetch_and_check E =
     bnd (fetch_snapshot E) (\<lambda>s.
     if ps_stale s then ret 0
     else bnd (spawn_blocking (check_price_triggers E (ps_prices s))) (\<lambda>r. case r of
         Ok n \<Rightarrow> ret n
       | Err e \<Rightarrow> lift_res (Err e)
       | Panic p \<Rightarrow> bail ''task panicked''))"

definition price_tick :: "env \<Rightarrow> unit wact" where
  "price_tick E = bnd (attempt (fetch_and_check E)) (\<lambda>_. ret ())"

definition health_tick :: "env \<Rightarrow> unit wact" where
  "health_tick E =
     bnd (spawn_blocking (
       bnd (refresh_chain_health E) (\<lambda>_.
       bnd (gets resolve_live_indexer_url) (\<lambda>url.
       refresh_chain_tip_cache E url)))) (\<lambda>_. ret ())"

section \<open>Retention\<close>

text \<open>\<open>Duration::days\<close> panics when the milliseconds do not fit 64 bits.\<close>
definition duration_days :: "u64 \<Rightarrow> int res" where
  "duration_days n = (let s = sint n * 86400 in
     if \<bar>s\<bar> * 1000 \<le> 2 ^ 63 - 1 then Ok (secs s) else Panic ''TimeDelta::days out of bounds'')"

definition retention_cutoff :: "env \<Rightarrow> u64 \<Rightarrow> string wact" where
  "retention_cutoff E days =
     bnd (draw (now_at E)) (\<lambda>now.
     bnd (lift_res (duration_days days)) (\<lambda>d.
     if datetime_ok E (now - d) then ret (to_rfc3339 E (now - d))
     else lift_res (Panic ''DateTime - TimeDelta overflowed'')))"

text \<open>With the archive locked the sweep does nothing.\<close>
definition retention_work :: "env \<Rightarrow> unit wact" where
  "retention_work E =
     bnd (archive_key E) (\<lambda>k. case k of
         None \<Rightarrow> ret ()
       | Some key \<Rightarrow>
           bnd (gets network_name) (\<lambda>net.
           bnd (gets (\<lambda>w. expiry_days (cf_pool (w_config w)))) (\<lambda>days.
           bnd (retention_cutoff E days) (\<lambda>cutoff.
           bnd (archive_terminal_older_than E key net cutoff) (\<lambda>_. ret ())))))"

definition retention_tick :: "env \<Rightarrow> unit wact" where
  "retention_tick E = bnd (spawn_blocking (retention_work E)) (\<lambda>_. ret ())"

section \<open>Notifications\<close>

text \<open>One event from the channel.\<close>
definition dispatch_notification :: "env \<Rightarrow> broadcast_event \<Rightarrow> unit wact" where
  "dispatch_notification E ev =
     bnd (gets (\<lambda>w. cf_notifications (w_config w))) (\<lambda>cfg.
     if \<not> nostr_active cfg then ret () else deliver E cfg ev)"

section \<open>The back-off stays in its bounds\<close>

lemma backoff_bounds:
  assumes "broadcast_loop_tick E b w = (Ok b', v)" "1 \<le> b" "b \<le> max_backoff"
  shows "1 \<le> b' \<and> b' \<le> max_backoff"
  using assms
  by (auto simp: broadcast_loop_tick_def next_backoff_def max_backoff_def ok_iffs act_simps run_simps
      split: if_splits res.splits prod.splits)

section \<open>Which rows the block height monitor makes due\<close>

text \<open>A pending row that waits for a block, on this network, whose height a backend reported.\<close>
definition block_reached_row :: "env \<Rightarrow> world \<Rightarrow> string \<Rightarrow> bool" where
  "block_reached_row E w j \<longleftrightarrow> (\<exists>q \<in> set (w_pool w). c_id q = j \<and> c_status q = ''pending''
     \<and> c_broadcast_mode q = Some ''by_block'' \<and> c_network q = network_name w
     \<and> (\<exists>n h. c_nlocktime q = Some n \<and> 0 < n \<and> n < 500000000 \<and> height_seen E h \<and> n \<le> uint h))"

lemma only_rows_reads: "moves (reads_chain no_send) m \<Longrightarrow> moves (only_rows P) m"
  by (rule movesI) (drule (1) movesD, simp add: only_rows_def reads_proj)

lemma small_locktime: "0 < n \<Longrightarrow> n < 500000000 \<Longrightarrow> uint (of_int n :: u64) = n"
  by (rule uint_of_int_bounded) simp_all

text \<open>
  C22: The block height monitor makes a transaction due only when its block has come: whatever a
  tick does, it changes only pending rows of the configured network that wait for a block and
  whose locktime is at or below a height a backend reported, and adds or loses none.
\<close>
theorem height_monitor_marks_reached:
  assumes "height_monitor_tick E w = (r, v)"
  shows "only_rows (block_reached_row E w) w v"
proof -
  let ?R = "only_rows (block_reached_row E w)"
  have "?R w (snd (height_monitor_work E w))"
  proof (cases "check_block_height E w")
    case (Pair hr u)
    have wu: "?R w u" using movesD [OF only_rows_reads [OF reads_check_block_height] Pair] .
    have same: "w_pool u = w_pool w" "w_db_key u = w_db_key w"
      using movesD [OF reads_check_block_height Pair] by (auto dest: reads_proj)
    have mark: "moves ?R (for_each (mark_block_due E h) txs ())"
      if q: "get_pending_by_block_height E (network_name w) u = (Ok txs, t)" and h: "height_seen E h" for h txs t
    proof (intro some_rows.step_for_each)
      fix tx acc
      assume tx: "tx \<in> set txs"
      show "moves ?R (mark_block_due E h tx acc)"
      proof (cases "by_block_due h tx")
        case True
        obtain q0 where q0: "q0 \<in> set (w_pool u)" "c_status q0 = ''pending'' \<and> c_broadcast_mode q0 = Some ''by_block''
            \<and> sql_between (c_nlocktime q0) 0 500000000 \<and> c_network q0 = network_name w"
          "tx_of_row E (w_db_key u) q0 tx"
          using query_txs_member [OF q [unfolded get_pending_by_block_height_def] tx] .
        then have "block_reached_row E w (t_id tx)"
          using True h same
          by (auto simp: block_reached_row_def by_block_due_def tx_of_row_def sql_between_def word_le_def
              small_locktime intro!: bexI [of _ q0] split: option.splits)
        then show ?thesis
          unfolding mark_block_due_def mark_as_due_def by (auto intro!: some_rows.rules only_rows_writes)
      qed (simp add: mark_block_due_def some_rows.pure_ret)
    qed
    have "?R u (snd (bnd (get_pending_by_block_height E (network_name w))
        (\<lambda>txs. for_each (mark_block_due E h) txs ()) u))" if "height_seen E h" for h
    proof (cases "get_pending_by_block_height E (network_name w) u")
      case (Pair qr t)
      then have "?R u t" using movesD [OF only_rows_quiet [OF quiet_get_pending_by_block_height]] by blast
      then show ?thesis
        using Pair mark that
        by (cases qr) (auto simp: bnd_apply intro: some_rows.then_moves)
    qed
    then show ?thesis
      using Pair wu check_height_someD some_rows.trans [OF wu]
      by (cases hr) (auto simp: height_monitor_work_def bnd_apply act_simps some_rows.refl split: option.split)
  qed
  then show ?thesis
    using assms by (auto simp: height_monitor_tick_def bnd_apply spawn_blocking_def act_simps split: prod.splits)
qed

definition row_block :: "string \<Rightarrow> int \<Rightarrow> pool_row" where
  "row_block i n = seal_chain ((row0 i ''pending'' None)\<lparr>c_broadcast_mode := Some ''by_block'', c_nlocktime := Some n\<rparr>)"

theorem height_monitor_marks_reached_witness:
  "let w = world_ix\<lparr>w_pool := [row_block ''a'' 4, row_block ''b'' 5], w_health := (w_health world_ix)\<lparr>ch_source := Indexer\<rparr>\<rparr>;
       v = snd (height_monitor_tick env_chain w)
   in map c_status (w_pool v) = [''scheduled'', ''pending''] \<and> block_reached_row env_chain w ''a''"
proof -
  let ?w = "world_ix\<lparr>w_pool := [row_block ''a'' 4, row_block ''b'' 5], w_health := (w_health world_ix)\<lparr>ch_source := Indexer\<rparr>\<rparr>"
  let ?v = "snd (height_monitor_tick env_chain ?w)"
  have st: "map c_status (w_pool ?v) = [''scheduled'', ''pending'']" by code_simp
  have "list_all (\<lambda>r. c_status r = ''pending'') (filter (by_id ''a'') (w_pool ?w))"
    "\<not> list_all (\<lambda>r. c_status r = ''pending'') (filter (by_id ''a'') (w_pool ?v))"
    by code_simp+
  then have "filter (by_id ''a'') (w_pool ?v) \<noteq> filter (by_id ''a'') (w_pool ?w)" by metis
  then have "block_reached_row env_chain ?w ''a''"
    by (rule only_rows_changed [OF height_monitor_marks_reached [OF surjective_pairing]])
  then show ?thesis using st by (simp add: Let_def)
qed

end
