(* ===== verification/Indexer_Hints.thy ===== *)
theory Indexer_Hints
  imports Discovery
begin

text \<open>
  The diagnostics of \<open>src/src/discovery.rs\<close>: what the user of an Umbrel node is told when the
  indexer cannot be reached.
\<close>

definition umbrel_electrs_probe_failure :: "env \<Rightarrow> network_type \<Rightarrow> host_probe_failure option wact" where
  "umbrel_electrs_probe_failure E net =
     (let hosts = umbrel_indexer_hosts E; ports = umbrel_indexer_ports E in
      if hosts = [] then ret None
      else bnd (for_loop (\<lambda>host (ok, mismatch).
          bnd (try_host E net host ports) (\<lambda>r. ret (case r of
              Inr url \<Rightarrow> Break (True, mismatch)
            | Inl HostGenesisMismatch \<Rightarrow> Continue (ok, True)
            | Inl HostTcpRefused \<Rightarrow> Continue (ok, mismatch)))) hosts (False, False)) (\<lambda>(ok, mismatch).
        ret (if ok then None else Some (if mismatch then HostGenesisMismatch else HostTcpRefused))))"

definition long_dash :: string where
  "long_dash = '' '' @ map char_of [0xE2, 0x80, 0x94 :: nat] @ '' ''"

primrec network_mismatch_hint :: "network_type \<Rightarrow> string" where
  "network_mismatch_hint Signet = ''Electrs responds but is not on signet'' @ long_dash
     @ ''reinstall or reconfigure Electrs for signet (must match Bitcoin Core chain=signet)''"
| "network_mismatch_hint Mainnet = ''Electrs responds but is not on mainnet'' @ long_dash
     @ ''verify Electrs matches Bitcoin Core''"
| "network_mismatch_hint Testnet4 = ''Electrs responds but is not on testnet'' @ long_dash
     @ ''verify Electrs matches Bitcoin Core''"

definition port_phrase :: "string list \<Rightarrow> string" where
  "port_phrase ports = (case ports of [p] \<Rightarrow> '' '' @ p | _ \<Rightarrow> ''s '' @ join ''/'' ports)"

definition refused_hint :: "env \<Rightarrow> string \<Rightarrow> string" where
  "refused_hint E ip = ''Cannot reach electrs at '' @ ip @ '' (TCP refused on port''
     @ port_phrase (map show_u16 (umbrel_indexer_ports E)) @ '')'' @ long_dash
     @ ''ensure the Electrs container is running and fully started''"

definition umbrel_indexer_status_hint :: "env \<Rightarrow> config \<Rightarrow> bool \<Rightarrow> string wact" where
  "umbrel_indexer_status_hint E c up =
     (if \<not> is_umbrel_mode E \<or> up then ret []
      else let ip = trim (unwrap_or [] (env_var E ''APP_ELECTRS_NODE_IP'')); net = network_type (cf_network c) in
        if ip = [] \<or> str_contains ip ''${'' then
          ret (''APP_ELECTRS_NODE_IP is not set'' @ long_dash @ ''install Electrs and list it as a dependency'')
        else bnd (umbrel_electrs_probe_failure E net) (\<lambda>f. ret (case f of
            Some HostGenesisMismatch \<Rightarrow> network_mismatch_hint net
          | Some HostTcpRefused \<Rightarrow> refused_hint E ip
          | None \<Rightarrow> (case cf_indexer c of
              Some i \<Rightarrow> ''Indexer '' @ display_indexer_url (ix_url i) @ '' not responding'' @ long_dash
                @ ''check Electrs is running''
            | None \<Rightarrow> ''Cannot reach electrs at '' @ ip @ '' (ports 50001/50002)'' @ long_dash
                @ ''ensure Electrs is synced and running''))))"

section \<open>The boot log\<close>

definition drop_cr :: "string \<Rightarrow> string" where
  "drop_cr s = (if ends_with s [CHR 0x0D] then butlast s else s)"

text \<open>\<open>str::lines\<close>: a line ends at a line feed, with or without a carriage return before it.\<close>
definition text_lines :: "string \<Rightarrow> string list" where
  "text_lines s = (let parts = split_on (CHR 0x0A) s in
     map drop_cr (butlast parts) @ (if last parts = [] then [] else [last parts]))"

text \<open>\<open>Path::join\<close> with a relative name.\<close>
definition path_join :: "string \<Rightarrow> string \<Rightarrow> string" where
  "path_join dir name = (if dir = [] \<or> ends_with dir ''/'' then dir @ name else dir @ ''/'' @ name)"

definition read_boot_log_tail :: "env \<Rightarrow> nat \<Rightarrow> string option wact" where
  "read_boot_log_tail E max_lines = (case env_var E ''BROADCAST_POOL_DATA_DIR'' of
       None \<Rightarrow> ret None
     | Some dir \<Rightarrow>
         bnd (draw (\<lambda>n. read_file_at E n (path_join dir ''umbrel-boot.log''))) (\<lambda>r. ret (case r of
             Ok content \<Rightarrow> (let ls = text_lines content in
               Some (join [CHR 0x0A] (drop (length ls - max_lines) ls)))
           | _ \<Rightarrow> None)))"

record umbrel_indexer_diagnostics =
  ud_umbrel_mode :: bool
  ud_electrs_ip :: "string option"
  ud_electrs_port :: "string option"
  ud_electrs_ssl_port :: "string option"
  ud_tcp_env :: "string option"
  ud_ssl_env :: "string option"
  ud_configured_url :: "string option"
  ud_reachable :: "bool option"
  ud_network :: string
  ud_status_hint :: string
  ud_boot_log_tail :: "string option"

definition configured_reachable :: "env \<Rightarrow> config \<Rightarrow> bool option wact" where
  "configured_reachable E c = (case cf_indexer c of
       None \<Rightarrow> ret None
     | Some i \<Rightarrow>
         bnd (resolve_working_indexer_url E (ix_url i) (network_type (cf_network c))) (\<lambda>r.
         ret (Some (r \<noteq> None))))"

definition indexer_diagnostics :: "env \<Rightarrow> config \<Rightarrow> bool \<Rightarrow> umbrel_indexer_diagnostics wact" where
  "indexer_diagnostics E c up =
     bnd (configured_reachable E c) (\<lambda>reachable.
     bnd (umbrel_indexer_status_hint E c up) (\<lambda>hint.
     bnd (read_boot_log_tail E 20) (\<lambda>tail.
     ret \<lparr>ud_umbrel_mode = is_umbrel_mode E,
       ud_electrs_ip = env_nonempty E ''APP_ELECTRS_NODE_IP'',
       ud_electrs_port = env_nonempty E ''APP_ELECTRS_NODE_PORT'',
       ud_electrs_ssl_port = env_nonempty E ''APP_ELECTRS_NODE_SSL_PORT'',
       ud_tcp_env = env_nonempty E ''BROADCAST_POOL_UMBREL_ELECTRS_TCP'',
       ud_ssl_env = env_nonempty E ''BROADCAST_POOL_UMBREL_ELECTRS_SSL'',
       ud_configured_url = map_option (\<lambda>i. display_indexer_url (ix_url i)) (cf_indexer c),
       ud_reachable = reachable, ud_network = data_dir_name (network_type (cf_network c)),
       ud_status_hint = hint, ud_boot_log_tail = tail\<rparr>)))"

end
