(* ===== verification/Fee_Estimate.thy ===== *)
theory Fee_Estimate
  imports Node_Rpc Sample
begin

text \<open>
  The fee the dashboard shows (\<open>resolve_fee_estimate\<close>, \<open>classify_mempool_congestion\<close> and
  \<open>get_mempool_status\<close> of \<open>src/src/pool/manager.rs\<close>): Bitcoin Core's estimate, checked
  against the mempool it can be observed with.
\<close>

section \<open>Estimates\<close>

definition uncongested_vbytes :: int where
  "uncongested_vbytes = 1000000"

definition max_credible_floor_multiple :: f64 where
  "max_credible_floor_multiple = f64_of_int 20"

text \<open>\<open>f64::EPSILON\<close>, two to the minus 52.\<close>
definition f64_epsilon :: f64 where
  "f64_epsilon = 0x3CB0000000000000"

record fee_estimate =
  fe_sat_vb :: f64
  fe_reliable :: bool

definition floor_rate :: "mempool_floor \<Rightarrow> f64" where
  "floor_rate f = f64_max (mf_min_fee f) (mf_relay_floor f)"

definition degenerate :: "f64 option \<Rightarrow> f64 option \<Rightarrow> bool" where
  "degenerate near far = (case (near, far) of
       (Some n, Some f) \<Rightarrow> f64_lt (f64_abs (f64_sub n f)) f64_epsilon
     | _ \<Rightarrow> False)"

definition contradicted :: "f64 \<Rightarrow> mempool_floor option \<Rightarrow> bool" where
  "contradicted estimate flr = (case flr of
       Some f \<Rightarrow> mf_vbytes f < uncongested_vbytes \<and> f64_lt 0 (floor_rate f)
         \<and> f64_lt (f64_mul (floor_rate f) max_credible_floor_multiple) estimate
     | None \<Rightarrow> False)"

definition resolve_fee_estimate :: "f64 option \<Rightarrow> f64 option \<Rightarrow> mempool_floor option \<Rightarrow> fee_estimate option" where
  "resolve_fee_estimate near far flr = (case near of
       None \<Rightarrow> map_option (\<lambda>f. \<lparr>fe_sat_vb = floor_rate f, fe_reliable = False\<rparr>) flr
     | Some estimate \<Rightarrow>
         if degenerate near far \<or> contradicted estimate flr
         then Some \<lparr>fe_sat_vb = unwrap_or estimate (map_option floor_rate flr), fe_reliable = False\<rparr>
         else Some \<lparr>fe_sat_vb = estimate, fe_reliable = True\<rparr>)"

definition classify_mempool_congestion :: "f64 \<Rightarrow> string \<Rightarrow> string" where
  "classify_mempool_congestion fee net =
     (let (low_max, high_min) = (if net = ''mainnet'' then (f64_of_int 10, f64_of_int 50)
                                 else (f64_of_int 2, f64_of_int 15))
      in if f64_lt fee low_max then ''low'' else if f64_lt fee high_min then ''medium'' else ''high'')"

definition unavailable_mempool :: mempool_status where
  "unavailable_mempool = \<lparr>ms_available = False, ms_tx_count = None, ms_fee_rate = None,
     ms_congestion = None, ms_reliable = False\<rparr>"

definition congestion_of :: "string \<Rightarrow> fee_estimate \<Rightarrow> string" where
  "congestion_of net e =
     (if fe_reliable e then classify_mempool_congestion (fe_sat_vb e) net else ''low'')"

definition get_mempool_status :: "env \<Rightarrow> mempool_status wact" where
  "get_mempool_status E =
     bnd (gets (\<lambda>w. data_dir_name (network_type (cf_network (w_config w))))) (\<lambda>net.
     bnd (gets w_rpc) (\<lambda>rpc.
     if \<not> rpc then ret unavailable_mempool
     else bnd (attempt (get_node_status E)) (\<lambda>r. case res_ok r of
         None \<Rightarrow> ret unavailable_mempool
       | Some node \<Rightarrow>
           bnd (attempt (estimate_smart_fee E 2)) (\<lambda>near.
           bnd (attempt (estimate_smart_fee E 144)) (\<lambda>far.
           bnd (attempt (get_mempool_floor E)) (\<lambda>flr.
           let estimate = resolve_fee_estimate (opt_bind (res_ok near) (\<lambda>x. x))
                 (opt_bind (res_ok far) (\<lambda>x. x)) (res_ok flr)
           in ret \<lparr>ms_available = True, ms_tx_count = ns_mempool_size node,
                ms_fee_rate = map_option fe_sat_vb estimate,
                ms_congestion = map_option (congestion_of net) estimate,
                ms_reliable = (case estimate of None \<Rightarrow> False | Some e \<Rightarrow> fe_reliable e)\<rparr>))))))"

section \<open>Which figure is reported\<close>

lemma f64_le_max: "\<not> f64_is_nan x \<Longrightarrow> \<not> f64_is_nan y \<Longrightarrow> f64_le x (f64_max x y) \<and> f64_le y (f64_max x y)"
  by (auto simp: f64_max_def f64_le_def)

text \<open>
  The reported fee is Core's estimate only when nothing speaks against it.  A reliable
  figure is the estimate for the near target; the two ends of the curve then differ by an
  epsilon at least or the far end is unknown, and on a mempool with less than a block's worth
  of transactions and a positive floor it is not above twenty times the floor.  An unreliable
  figure is the floor, the larger of the two minimum rates, whenever the floor is known.
  There is no figure only when neither is known.
\<close>
theorem fee_estimate_is_credible:
  "(case resolve_fee_estimate near far flr of
      None \<Rightarrow> near = None \<and> flr = None
    | Some e \<Rightarrow>
        if fe_reliable e
        then near = Some (fe_sat_vb e) \<and> \<not> degenerate near far
          \<and> (case flr of None \<Rightarrow> True | Some f \<Rightarrow>
               \<not> (mf_vbytes f < 1000000 \<and> f64_lt 0 (floor_rate f)
                  \<and> f64_lt (f64_mul (floor_rate f) (f64_of_int 20)) (fe_sat_vb e)))
        else (case flr of Some f \<Rightarrow> fe_sat_vb e = floor_rate f | None \<Rightarrow> near = Some (fe_sat_vb e)))"
  by (auto simp: resolve_fee_estimate_def contradicted_def uncongested_vbytes_def
      max_credible_floor_multiple_def split: option.splits)

definition congestion_rank :: "string \<Rightarrow> nat" where
  "congestion_rank c = (if c = ''low'' then 0 else if c = ''medium'' then 1 else 2)"

lemma f64_lt_le_trans: "f64_le x y \<Longrightarrow> f64_lt y z \<Longrightarrow> f64_lt x z"
  by (auto simp: f64_le_def f64_lt_def)

lemma congestion_mono:
  assumes "f64_le a b"
  shows "congestion_rank (classify_mempool_congestion a net) \<le> congestion_rank (classify_mempool_congestion b net)"
  using f64_lt_le_trans [OF assms]
  by (auto simp: classify_mempool_congestion_def congestion_rank_def Let_def)

end
