(* ===== verification/Api.thy ===== *)
theory Api
  imports Scheduler_Loops Indexer_Hints Fee_Estimate
begin

text \<open>
  The handlers of the HTTP API (\<open>src/src/api/mod.rs\<close>), in the order of the file.  A handler
  returns a value or a status with a message; a request body is the record it is decoded into.
  The router and the dashboard page are in \<open>Api_Routes\<close>; the JSON encoding is not modelled.
\<close>

section \<open>Answers\<close>

type_synonym status = nat

type_synonym 'a api = "(world, (status \<times> string) + 'a) act"

definition internal :: "err \<Rightarrow> status \<times> string" where
  "internal e = (500, err_to_string e)"

text \<open>\<open>.map_err(f)\<close> on a call in place, and on a worker thread.\<close>
definition api_call :: "(err \<Rightarrow> status \<times> string) \<Rightarrow> 'a wact \<Rightarrow> 'a api" where
  "api_call f m = bnd (attempt m) (\<lambda>r. case r of
       Ok x \<Rightarrow> ret (Inr x)
     | Err e \<Rightarrow> ret (Inl (f e))
     | Panic p \<Rightarrow> lift_res (Panic p))"

definition api_blocking :: "(err \<Rightarrow> status \<times> string) \<Rightarrow> 'a wact \<Rightarrow> 'a api" where
  "api_blocking f m = bnd (spawn_blocking m) (\<lambda>r. ret (case r of
       Ok x \<Rightarrow> Inr x
     | Err e \<Rightarrow> Inl (f e)
     | Panic p \<Rightarrow> Inl (500, ''Task failed: panic'')))"

text \<open>\<open>?\<close>: the first error ends the handler.\<close>
definition api_bnd :: "'a api \<Rightarrow> ('a \<Rightarrow> 'b api) \<Rightarrow> 'b api" where
  "api_bnd m f = bnd m (\<lambda>r. case r of Inl e \<Rightarrow> ret (Inl e) | Inr x \<Rightarrow> f x)"

definition reject :: "status \<Rightarrow> string \<Rightarrow> 'a api" where
  "reject code msg = ret (Inl (code, msg))"

definition answer :: "'a \<Rightarrow> 'a api" where
  "answer x = ret (Inr x)"

section \<open>The configuration as the dashboard sees it\<close>

definition supported_networks :: "string list" where
  "supported_networks = [''mainnet'', ''testnet4'', ''signet'']"

record config_response =
  cs_indexer_url :: string
  cs_indexer_node_url :: string
  cs_indexer_use_ssl :: bool
  cs_indexer_is_manual :: bool
  cs_network_editable :: bool
  cs_umbrel_mode :: bool
  cs_startos_mode :: bool
  cs_network :: string
  cs_schedule :: schedule_config
  cs_web_port :: u16
  cs_electrum_port :: u16
  cs_electrum_host :: string
  cs_wallet_connect_url :: string
  cs_indexer_auto_detected :: bool
  cs_network_changed :: bool
  cs_supported_networks :: "string list"
  cs_notifications_enabled :: bool
  cs_notifications_language :: string
  cs_nostr_enabled :: bool
  cs_nostr_recipient_npub :: string
  cs_nostr_relays :: "string list"
  cs_nostr_app_npub :: string
  cs_nostr_tor_socks :: string
  cs_nostr_tor_socks_effective :: string

definition mistaken_host :: "env \<Rightarrow> string \<Rightarrow> bool" where
  "mistaken_host E url = (case extract_indexer_host url of
       None \<Rightarrow> False | Some h \<Rightarrow> is_mistaken_umbrel_lan_override E h)"

text \<open>The secret key never leaves: only the public identity derived from it.\<close>
definition app_npub :: "env \<Rightarrow> nostr_config \<Rightarrow> string" where
  "app_npub E n = (if app_nsec n = [] then [] else unwrap_or [] (res_ok (npub_from_nsec E (app_nsec n))))"

definition config_to_response :: "env \<Rightarrow> config \<Rightarrow> bool \<Rightarrow> config_response wact" where
  "config_to_response E c changed =
     (let umbrel = is_umbrel_mode E;
          pinned = env_var E ''BROADCAST_POOL_INDEXER_URL'' \<noteq> None;
          url = (case cf_indexer c of None \<Rightarrow> [] | Some i \<Rightarrow> ix_url i);
          manual = is_manual c \<and> \<not> mistaken_host E url;
          display = (if url = [] \<or> mistaken_host E url then [] else display_indexer_url url);
          n = notif_nostr (cf_notifications c)
      in bnd (wallet_connect_url E c (es_port (cf_electrum c))) (\<lambda>wallet_url.
         ret \<lparr>cs_indexer_url = (if manual then display else []), cs_indexer_node_url = display,
           cs_indexer_use_ssl = indexer_url_uses_ssl url, cs_indexer_is_manual = manual,
           cs_network_editable = \<not> umbrel, cs_umbrel_mode = umbrel, cs_startos_mode = is_startos_mode E,
           cs_network = data_dir_name (network_type (cf_network c)), cs_schedule = cf_schedule c,
           cs_web_port = web_port (cf_web c), cs_electrum_port = es_port (cf_electrum c),
           cs_electrum_host = es_host (cf_electrum c), cs_wallet_connect_url = wallet_url,
           cs_indexer_auto_detected = (\<not> pinned \<and> \<not> manual), cs_network_changed = changed,
           cs_supported_networks = supported_networks,
           cs_notifications_enabled = notif_enabled (cf_notifications c),
           cs_notifications_language = notif_language (cf_notifications c),
           cs_nostr_enabled = nostr_enabled n, cs_nostr_recipient_npub = recipient_npub n,
           cs_nostr_relays = relays n, cs_nostr_app_npub = app_npub E n, cs_nostr_tor_socks = tor_socks n,
           cs_nostr_tor_socks_effective = unwrap_or [] (resolved_tor_socks E n umbrel)\<rparr>))"

section \<open>The virtual block height\<close>

definition max_virtual_block_gap :: u64 where
  "max_virtual_block_gap = 100000"

definition show_u64 :: "u64 \<Rightarrow> string" where
  "show_u64 n = show_int (uint n)"

definition a_acute :: string where
  "a_acute = map char_of [0xC3, 0xA1 :: nat]"

text \<open>The addition wraps in a release build.\<close>
definition validate_virtual_height :: "u64 \<Rightarrow> u64 option \<Rightarrow> string + unit" where
  "validate_virtual_height target real_height =
     (if target = 0 then Inl ''Introduce una altura de bloque virtual futura.''
      else case real_height of
          None \<Rightarrow> Inr ()
        | Some h \<Rightarrow>
            if target \<le> h then Inl (''La altura virtual '' @ show_u64 target
              @ '' debe ser mayor que la altura actual '' @ show_u64 h @ ''.'')
            else if target > h + max_virtual_block_gap then
              Inl (''La altura virtual '' @ show_u64 target @ '' est'' @ a_acute @ '' demasiado lejos de la actual ''
                @ show_u64 h @ '' (m'' @ a_acute @ ''ximo +'' @ show_u64 max_virtual_block_gap @ '').'')
            else Inr ())"

section \<open>Reading the pool\<close>

definition api_get_stats :: "env \<Rightarrow> pool_stats api" where
  "api_get_stats E = api_call internal (get_stats E)"

definition api_mempool_status :: "env \<Rightarrow> mempool_status wact" where
  "api_mempool_status E =
     bnd (spawn_blocking (get_mempool_status E)) (\<lambda>r. ret (unwrap_or unavailable_mempool (res_ok r)))"

definition api_btc_price :: "env \<Rightarrow> price_snapshot api" where
  "api_btc_price E = api_call (\<lambda>e. (502, err_to_string e)) (fetch_snapshot E)"

text \<open>The prices are fetched first, so that the rows show the current one.\<close>
definition api_list_transactions :: "env \<Rightarrow> broadcast_tx list api" where
  "api_list_transactions E =
     bnd (attempt (fetch_snapshot E)) (\<lambda>_.
     api_blocking internal (list_transactions E None 100))"

definition api_get_transaction :: "env \<Rightarrow> string \<Rightarrow> broadcast_tx api" where
  "api_get_transaction E i = api_blocking (\<lambda>e. (404, err_to_string e)) (get_transaction E i)"

section \<open>Changing the pool\<close>

record import_request =
  ir_tx_hex :: string
  ir_label :: "string option"
  ir_target_fee_rate :: "f64 option"
  ir_network :: "string option"

definition not_signed :: string where
  "not_signed = ''This transaction is not signed'' @ long_dash @ ''its inputs carry no signature, so the network ''
     @ ''would reject it. Copy the final hex from your wallet after signing.''"

definition imported_tx :: "import_request \<Rightarrow> string \<Rightarrow> new_broadcast_tx" where
  "imported_tx req net = \<lparr>n_tx_hex = ir_tx_hex req, n_network = unwrap_or net (ir_network req),
     n_nlocktime = None, n_broadcast_mode = Some ''imported'', n_scheduled_time = None,
     n_target_fee_rate = ir_target_fee_rate req, n_source_label = ir_label req,
     n_destination_address = None, n_utxo_count = Some 1, n_total_value_btc = None,
     n_replacement_of = None\<rparr>"

text \<open>An unsigned transaction is refused: it could never be broadcast.\<close>
definition api_import :: "env \<Rightarrow> import_request \<Rightarrow> broadcast_tx api" where
  "api_import E req =
     bnd (gets network_name) (\<lambda>net. case is_unsigned E (ir_tx_hex req) of
         Ok True \<Rightarrow> reject 400 not_signed
       | Ok False \<Rightarrow> api_call internal (import_transaction E (imported_tx req net))
       | Err e \<Rightarrow> reject 400 (''Could not decode this transaction: '' @ err_to_string e)
       | Panic p \<Rightarrow> lift_res (Panic p))"

record schedule_request =
  sr_scheduled_time :: "string option"
  sr_min_delay :: "u64 option"
  sr_max_delay :: "u64 option"
  sr_min_fee :: "f64 option"
  sr_max_fee :: "f64 option"
  sr_fixed_fee :: "f64 option"
  sr_target_price :: "f64 option"
  sr_price_currency :: "string option"
  sr_price_condition :: "string option"

text \<open>A refusal of the pool is told apart from a failure by its text.\<close>
definition by_text :: "string list \<Rightarrow> err \<Rightarrow> status \<times> string" where
  "by_text words e = (if list_ex (str_contains (err_to_string e)) words then 400 else 500, err_to_string e)"

definition default_fee :: f64 where
  "default_fee = f64_of_int 5"

definition api_schedule :: "env \<Rightarrow> string \<Rightarrow> schedule_request \<Rightarrow> broadcast_tx api" where
  "api_schedule E i req = (case sr_target_price req of
       Some target \<Rightarrow>
         api_call (by_text [''must be'', ''only available'', ''Cannot set''])
           (schedule_by_price E i target (unwrap_or ''usd'' (sr_price_currency req))
             (unwrap_or ''above'' (sr_price_condition req)) (unwrap_or default_fee (sr_fixed_fee req)))
     | None \<Rightarrow> (case opt_bind (sr_scheduled_time req) (parse_rfc3339 E) of
         Some t \<Rightarrow>
           api_call (by_text [''must be in the future'', ''cannot be before nLockTime''])
             (schedule_at E i t (unwrap_or default_fee (sr_fixed_fee req)))
       | None \<Rightarrow>
           api_call internal (schedule_transaction E i (sr_min_delay req) (sr_max_delay req)
             (sr_min_fee req) (sr_max_fee req) (sr_fixed_fee req))))"

definition api_remove :: "env \<Rightarrow> string \<Rightarrow> unit api" where
  "api_remove E i = api_blocking
     (\<lambda>e. (if str_contains (err_to_string e) ''not found'' then 404 else 500, err_to_string e))
     (remove_transaction E i)"

definition api_retry :: "env \<Rightarrow> string \<Rightarrow> broadcast_tx api" where
  "api_retry E i = api_call (\<lambda>e. (400, err_to_string e)) (retry_failed_transaction E i)"

text \<open>\<open>{:#}\<close>: the whole chain of messages.\<close>
definition whole_chain :: "err \<Rightarrow> string" where
  "whole_chain e = join '': '' e"

definition api_broadcast_now :: "env \<Rightarrow> string \<Rightarrow> string api" where
  "api_broadcast_now E i = api_blocking (\<lambda>e. (400, whole_chain e)) (broadcast_now E i)"

definition api_acknowledge :: "unit wact" where
  "api_acknowledge = clear_safe_mode"

section \<open>Notifications\<close>

definition sample_event :: "string \<Rightarrow> datetime \<Rightarrow> datetime \<Rightarrow> broadcast_event" where
  "sample_event net created sent = \<lparr>be_txid = replicate 64 (CHR ''0''), be_amount_sats = 80235,
     be_source_label = Some ''broadcast-pool'', be_created_at = Some created, be_broadcast_at = sent,
     be_network = net\<rparr>"

text \<open>One attempt; the answer is what the channel reported, \<open>None\<close> for success.\<close>
definition api_test_notification :: "env \<Rightarrow> string option api" where
  "api_test_notification E =
     bnd (gets (\<lambda>w. cf_notifications (w_config w))) (\<lambda>cfg.
     if \<not> nostr_active cfg then
       reject 400 ''Nostr notifications are not enabled and fully configured. Save your settings first.''
     else
       bnd (draw (now_at E)) (\<lambda>created.
       bnd (draw (now_at E)) (\<lambda>sent.
       bnd (gets network_name) (\<lambda>net.
       bnd (attempt (send_nostr E (notif_nostr cfg) (sample_event net created sent)
              (from_code (notif_language cfg)))) (\<lambda>r.
       answer (case r of Err e \<Rightarrow> Some (err_to_string e) | _ \<Rightarrow> None))))))"

section \<open>Reading and saving the configuration\<close>

definition put_config :: "config \<Rightarrow> unit wact" where
  "put_config c = modify (\<lambda>w. w\<lparr>w_config := c\<rparr>)"

definition save_live_config :: "env \<Rightarrow> unit wact" where
  "save_live_config E =
     bnd (gets w_config) (\<lambda>c. bnd (gets w_db_key) (\<lambda>key. save_config_to_disk E c key))"

definition reconnect_or_log :: "env \<Rightarrow> unit wact" where
  "reconnect_or_log E = bnd (attempt (reconnect_indexer_from_config E)) (\<lambda>_. ret ())"

text \<open>Whether the stored indexer was a mistake and has been dropped, in memory and on disk.\<close>
definition sanitize_live_config :: "env \<Rightarrow> bool wact" where
  "sanitize_live_config E =
     bnd (gets w_config) (\<lambda>c. case sanitize_umbrel_indexer_config E c of (changed, c') \<Rightarrow>
       bnd (put_config c') (\<lambda>_.
       bnd (if changed then bnd (attempt (save_live_config E)) (\<lambda>_. ret ()) else ret ()) (\<lambda>_.
       ret changed)))"

definition api_get_config :: "env \<Rightarrow> config_response api" where
  "api_get_config E =
     bnd (sanitize_live_config E) (\<lambda>reconnect.
     bnd (gets w_config) (\<lambda>c.
     bnd (config_to_response E c False) (\<lambda>response.
     bnd (run_if reconnect (reconnect_or_log E)) (\<lambda>_.
     answer response))))"

record save_config_request =
  sv_network :: "string option"
  sv_broadcast_mode :: "string option"
  sv_default_delay_hours :: "u64 option"
  sv_scheduled_datetime :: "string option"
  sv_min_delay_hours :: "u64 option"
  sv_max_delay_hours :: "u64 option"
  sv_min_fee_rate :: "f64 option"
  sv_max_fee_rate :: "f64 option"
  sv_vb_enabled :: "bool option"
  sv_vb_target_height :: "u64 option"
  sv_notifications_enabled :: "bool option"
  sv_notifications_language :: "string option"
  sv_nostr_enabled :: "bool option"
  sv_nostr_recipient_npub :: "string option"
  sv_nostr_relays :: "string list option"
  sv_nostr_tor_socks :: "string option"

definition named_network :: "string \<Rightarrow> network_type \<Rightarrow> network_type" where
  "named_network name old = (if name = ''mainnet'' then Mainnet else if name = ''testnet4'' then Testnet4
     else if name = ''signet'' then Signet else old)"

text \<open>Whether the name asked for differs from the current one, and the network it names.\<close>
definition requested_network :: "env \<Rightarrow> save_config_request \<Rightarrow> config \<Rightarrow> bool \<times> config" where
  "requested_network E req c = (case sv_network req of
       None \<Rightarrow> (False, c)
     | Some net \<Rightarrow>
         if is_umbrel_mode E then (False, c)
         else let name = to_lower net; old = network_type (cf_network c) in
           (name \<noteq> data_dir_name old, c\<lparr>cf_network := (cf_network c)\<lparr>network_type := named_network name old\<rparr>\<rparr>))"

definition requested_schedule :: "save_config_request \<Rightarrow> schedule_config \<Rightarrow> schedule_config" where
  "requested_schedule req s = s\<lparr>
     sc_broadcast_mode := unwrap_or (sc_broadcast_mode s) (opt_bind (sv_broadcast_mode req) bcast_mode_from_str),
     default_delay_hours := unwrap_or (default_delay_hours s) (sv_default_delay_hours req),
     scheduled_datetime := (case sv_scheduled_datetime req of
         None \<Rightarrow> scheduled_datetime s | Some v \<Rightarrow> if v = [] then None else Some v),
     min_delay_hours := unwrap_or (min_delay_hours s) (sv_min_delay_hours req),
     max_delay_hours := unwrap_or (max_delay_hours s) (sv_max_delay_hours req),
     min_fee_rate := unwrap_or (min_fee_rate s) (sv_min_fee_rate req),
     max_fee_rate := unwrap_or (max_fee_rate s) (sv_max_fee_rate req)\<rparr>"

definition no_height :: string where
  "no_height = ''Altura de la cadena no disponible; reintenta en unos segundos.''"

text \<open>
  The target is stored first; arming then checks it against the tip and stamps the height.  A
  refusal leaves what has been stored.
\<close>
definition arm_virtual_block ::
  "save_config_request \<Rightarrow> u64 option \<Rightarrow> liana_virtual_block \<Rightarrow> (string + unit) \<times> liana_virtual_block" where
  "arm_virtual_block req real_height vb =
     (let vb = vb\<lparr>vb_target_height := unwrap_or (vb_target_height vb) (sv_vb_target_height req)\<rparr> in
      case sv_vb_enabled req of
        None \<Rightarrow> (Inr (), vb)
      | Some False \<Rightarrow> (Inr (), vb\<lparr>vb_enabled := False\<rparr>)
      | Some True \<Rightarrow> (case real_height of
          None \<Rightarrow> (Inl no_height, vb)
        | Some h \<Rightarrow> (case validate_virtual_height (vb_target_height vb) real_height of
            Inl msg \<Rightarrow> (Inl msg, vb)
          | Inr u \<Rightarrow> (Inr (), vb\<lparr>vb_armed_at_height := h, vb_enabled := True\<rparr>))))"

definition requested_language :: "string \<Rightarrow> string" where
  "requested_language v = (if trim v = [] then ''en'' else to_lower (trim v))"

definition requested_nostr :: "save_config_request \<Rightarrow> nostr_config \<Rightarrow> nostr_config" where
  "requested_nostr req n = n\<lparr>
     nostr_enabled := unwrap_or (nostr_enabled n) (sv_nostr_enabled req),
     recipient_npub := unwrap_or (recipient_npub n) (map_option trim (sv_nostr_recipient_npub req)),
     relays := unwrap_or (relays n) (map_option (\<lambda>rs. filter (\<lambda>r. r \<noteq> []) (map trim rs)) (sv_nostr_relays req)),
     tor_socks := unwrap_or (tor_socks n) (map_option trim (sv_nostr_tor_socks req))\<rparr>"

definition requested_notifications :: "save_config_request \<Rightarrow> notifications_config \<Rightarrow> notifications_config" where
  "requested_notifications req n = n\<lparr>
     notif_enabled := unwrap_or (notif_enabled n) (sv_notifications_enabled req),
     notif_language := unwrap_or (notif_language n) (map_option requested_language (sv_notifications_language req)),
     notif_nostr := requested_nostr req (notif_nostr n)\<rparr>"

definition with_virtual_block :: "liana_virtual_block \<Rightarrow> config \<Rightarrow> config" where
  "with_virtual_block vb c = c\<lparr>cf_schedule := (cf_schedule c)\<lparr>sc_virtual_block := vb\<rparr>\<rparr>"

text \<open>The identity the process sends from is made on first use, never taken from a client.\<close>
definition with_identity :: "env \<Rightarrow> config \<Rightarrow> config api" where
  "with_identity E c =
     (let n = notif_nostr (cf_notifications c) in
      if nostr_enabled n \<and> app_nsec n = [] then
        api_bnd (api_call (\<lambda>e. (500, ''Could not generate a Nostr identity: '' @ err_to_string e)) (generate_nsec E))
          (\<lambda>nsec. answer (c\<lparr>cf_notifications := (cf_notifications c)\<lparr>notif_nostr := n\<lparr>app_nsec := nsec\<rparr>\<rparr>\<rparr>))
      else answer c)"

definition check_recipient :: "env \<Rightarrow> nostr_config \<Rightarrow> unit api" where
  "check_recipient E n =
     (if nostr_enabled n \<and> recipient_npub n \<noteq> []
      then api_call (\<lambda>e. (400, err_to_string e)) (lift_res (validate_npub E (recipient_npub n)))
      else answer ())"

text \<open>Everything after the network: what is refused leaves the changes made before it.\<close>
definition store_request :: "env \<Rightarrow> save_config_request \<Rightarrow> u64 option \<Rightarrow> config \<Rightarrow> unit api" where
  "store_request E req real_height c =
     (let c1 = c\<lparr>cf_schedule := requested_schedule req (cf_schedule c)\<rparr> in
      case arm_virtual_block req real_height (sc_virtual_block (cf_schedule c1)) of (verdict, vb) \<Rightarrow>
      bnd (put_config (with_virtual_block vb c1)) (\<lambda>_. case verdict of
          Inl msg \<Rightarrow> reject 400 msg
        | Inr u \<Rightarrow>
            (let c2 = (with_virtual_block vb c1)\<lparr>cf_notifications := requested_notifications req (cf_notifications c1)\<rparr> in
             bnd (put_config c2) (\<lambda>_.
             api_bnd (with_identity E c2) (\<lambda>c3.
             bnd (put_config c3) (\<lambda>_.
             api_bnd (check_recipient E (notif_nostr (cf_notifications c3))) (\<lambda>_.
             api_call (\<lambda>e. (500, ''File write error: '' @ err_to_string e)) (save_live_config E))))))))"

definition api_save_config :: "env \<Rightarrow> save_config_request \<Rightarrow> config_response api" where
  "api_save_config E req =
     bnd (gets (\<lambda>w. ch_height (w_health w))) (\<lambda>real_height.
     bnd (gets w_config) (\<lambda>old. case requested_network E req old of (net_changed, c1) \<Rightarrow>
     bnd (if net_changed then apply_indexer_discovery E c1 else ret (False, c1)) (\<lambda>(found, c2).
     let indexer_updated = (net_changed \<and> found \<and> cf_indexer c2 \<noteq> None) in
     api_bnd (store_request E req real_height c2) (\<lambda>_.
     bnd (gets w_config) (\<lambda>c.
     bnd (config_to_response E c net_changed) (\<lambda>response.
     bnd (run_if indexer_updated (reconnect_or_log E)) (\<lambda>_.
     answer response)))))))"

section \<open>Status\<close>

record status_response =
  ss_network :: string
  ss_network_display :: string
  ss_supported_networks :: "string list"
  ss_rpc_connected :: bool
  ss_electrum_connected :: bool
  ss_indexer_height :: "u64 option"
  ss_chain_mtp :: "u64 option"
  ss_chain_source :: chain_source
  ss_chain_height :: "u64 option"
  ss_indexer_url :: string
  ss_indexer_software :: "string option"
  ss_core_ibd :: bool
  ss_core_sync_pct :: "f64 option"
  ss_pool_stats :: pool_stats
  ss_retain_by_default :: bool
  ss_wallet_connect_url :: string
  ss_indexer_status_hint :: string
  ss_sparrow_ready :: bool
  ss_sparrow_tor_warning :: string
  ss_vb_enabled :: bool
  ss_vb_target_height :: u64
  ss_vb_disarm_height :: u64
  ss_safe_mode :: bool
  ss_tampered_ids :: "string list"
  ss_app_version :: string
  ss_archive_locked :: bool
  ss_archive_password_set :: bool

definition status_tor_warning :: string where
  "status_tor_warning = ''Disable Sparrow Settings'' @ right_arrow
     @ ''Network proxy/Tor or broadcasts bypass this pool (mempool.space). Use tcp://LAN:50050 only.''"

definition status_of ::
  "world \<Rightarrow> pool_stats \<Rightarrow> string \<Rightarrow> string \<Rightarrow> bool \<Rightarrow> bool \<Rightarrow> status_response" where
  "status_of w stats wallet_url hint is_open has_password =
     (let h = w_health w; c = w_config w; vb = sc_virtual_block (cf_schedule c) in
      \<lparr>ss_network = network_name w, ss_network_display = display_name (network_type (cf_network c)),
        ss_supported_networks = supported_networks, ss_rpc_connected = core_up h,
        ss_electrum_connected = indexer_up h,
        ss_indexer_height = (if indexer_up h then ch_height h else None), ss_chain_mtp = ch_mtp h,
        ss_chain_source = ch_source h, ss_chain_height = ch_height h,
        ss_indexer_url = unwrap_or [] (map_option (\<lambda>i. display_indexer_url (ix_url i)) (cf_indexer c)),
        ss_indexer_software = indexer_software h, ss_core_ibd = core_ibd h,
        ss_core_sync_pct = core_sync_pct h, ss_pool_stats = stats, ss_retain_by_default = True,
        ss_wallet_connect_url = wallet_url, ss_indexer_status_hint = hint,
        ss_sparrow_ready = (wallet_url \<noteq> [] \<and> \<not> str_contains wallet_url ''<''),
        ss_sparrow_tor_warning = status_tor_warning, ss_vb_enabled = vb_enabled vb,
        ss_vb_target_height = vb_target_height vb, ss_vb_disarm_height = vb_armed_at_height vb + 10,
        ss_safe_mode = w_safe_mode w, ss_tampered_ids = w_tampered_ids w, ss_app_version = pkg_version,
        ss_archive_locked = \<not> is_open, ss_archive_password_set = has_password\<rparr>)"

definition api_status :: "env \<Rightarrow> status_response api" where
  "api_status E =
     bnd (sanitize_live_config E) (\<lambda>reconnect.
     bnd (run_if reconnect (reconnect_or_log E)) (\<lambda>_.
     api_bnd (api_blocking internal (get_stats E)) (\<lambda>stats.
     bnd (gets w_config) (\<lambda>c.
     bnd (wallet_connect_url E c (es_port (cf_electrum c))) (\<lambda>wallet_url.
     bnd (gets (\<lambda>w. indexer_up (w_health w))) (\<lambda>up.
     bnd (umbrel_indexer_status_hint E c up) (\<lambda>hint.
     bnd (is_unlocked E) (\<lambda>is_open.
     bnd (attempt (password_is_set E)) (\<lambda>r.
     bnd (gets (\<lambda>w. status_of w stats wallet_url hint is_open (unwrap_or False (res_ok r)))) (\<lambda>s.
     answer s))))))))))"

section \<open>Fees and diagnostics\<close>

text \<open>\<open>ElectrumClient::new(url)\<close>: a client of its own, with no URL resolved yet.\<close>
definition with_own_client :: "string \<Rightarrow> 'a wact \<Rightarrow> 'a wact" where
  "with_own_client url m = (\<lambda>w.
     case m (w\<lparr>w_indexer := Some \<lparr>ec_server = url, ec_resolved = None\<rparr>\<rparr>) of
       (r, v) \<Rightarrow> (r, v\<lparr>w_indexer := w_indexer w\<rparr>))"

record fee_response =
  fe_rate :: f64
  fe_sat :: u64
  fe_vsize :: int

text \<open>Without an answer from the indexer, the virtual size is guessed from the bytes.\<close>
definition guessed_fee :: "env \<Rightarrow> string \<Rightarrow> fee_response res" where
  "guessed_fee E hex = (case hex_decode E hex of
       Some raw \<Rightarrow> Ok \<lparr>fe_rate = 0, fe_sat = 0, fe_vsize = int (length raw) * 3 div 4\<rparr>
     | None \<Rightarrow> Err [''Invalid transaction hex''])"

definition estimate_fee_work :: "env \<Rightarrow> config \<Rightarrow> string \<Rightarrow> fee_response wact" where
  "estimate_fee_work E c hex = (case cf_indexer c of
       None \<Rightarrow> lift_res (guessed_fee E hex)
     | Some ix \<Rightarrow>
         bnd (attempt (with_own_client (ix_url ix) (calculate_tx_fee E hex))) (\<lambda>r. case r of
           Ok (rate, fee, vsize) \<Rightarrow> ret \<lparr>fe_rate = rate, fe_sat = fee, fe_vsize = vsize\<rparr>
         | Err e \<Rightarrow> lift_res (guessed_fee E hex)
         | Panic p \<Rightarrow> lift_res (Panic p)))"

definition api_estimate_fee :: "env \<Rightarrow> string \<Rightarrow> fee_response api" where
  "api_estimate_fee E hex =
     bnd (gets w_config) (\<lambda>c. api_blocking internal (estimate_fee_work E c hex))"

definition api_indexer_debug :: "env \<Rightarrow> umbrel_indexer_diagnostics api" where
  "api_indexer_debug E = api_blocking internal (
     bnd (refresh_chain_health E) (\<lambda>_.
     bnd (gets (\<lambda>w. indexer_up (w_health w))) (\<lambda>up.
     bnd (gets w_config) (\<lambda>c. indexer_diagnostics E c up))))"

section \<open>The archive\<close>

definition api_archive_set_password :: "env \<Rightarrow> string \<Rightarrow> unit api" where
  "api_archive_set_password E password =
     api_bnd (api_call internal (password_is_set E)) (\<lambda>already.
     if already then reject 409 ''archive password is already set''
     else api_call internal (set_password E password))"

definition api_archive_unlock :: "env \<Rightarrow> string \<Rightarrow> bool api" where
  "api_archive_unlock E password =
     api_bnd (api_call internal (password_is_set E)) (\<lambda>is_set.
     if \<not> is_set then reject 400 ''no archive password set''
     else api_call internal (unlock E password))"

definition api_archive_lock :: "unit wact" where
  "api_archive_lock = lock_archive"

text \<open>Without a key the handlers answer 401; a key that is used lives on.\<close>
definition with_archive_key :: "env \<Rightarrow> (bytes \<Rightarrow> 'a api) \<Rightarrow> 'a api" where
  "with_archive_key E f =
     bnd (archive_key E) (\<lambda>k. case k of None \<Rightarrow> reject 401 ''locked'' | Some key \<Rightarrow> f key)"

definition api_list_archive :: "env \<Rightarrow> int option \<Rightarrow> int option \<Rightarrow> archive_meta list api" where
  "api_list_archive E max_rows offset = with_archive_key E (\<lambda>_.
     bnd (gets network_name) (\<lambda>net.
     api_call internal (list_archive E net (unwrap_or 50 max_rows) (unwrap_or 0 offset))))"

definition api_archive_item :: "env \<Rightarrow> string \<Rightarrow> json api" where
  "api_archive_item E i = with_archive_key E (\<lambda>key.
     api_bnd (api_call internal (get_archive_blob E i)) (\<lambda>found. case found of
         None \<Rightarrow> reject 404 ''archive item not found''
       | Some blob \<Rightarrow> (case res_ok (open_blob E key blob i) of
             None \<Rightarrow> reject 500 ''failed to decrypt archive item''
           | Some plaintext \<Rightarrow> (case json_parse E plaintext of
                 None \<Rightarrow> reject 500 ''failed to parse archive item''
               | Some v \<Rightarrow> answer v))))"

text \<open>The cutoff is now: every finished transaction goes.\<close>
definition api_archive_flush :: "env \<Rightarrow> nat api" where
  "api_archive_flush E = with_archive_key E (\<lambda>key.
     bnd (gets network_name) (\<lambda>net.
     bnd (draw (\<lambda>n. to_rfc3339 E (now_at E n))) (\<lambda>now.
     api_call internal (archive_terminal_older_than E key net now))))"

end
