(* ===== verification/Electrum_Ingest.thy ===== *)
theory Electrum_Ingest
  imports Electrum_Session
begin

text \<open>
  What the Electrum server does with a transaction a wallet broadcasts
  (\<open>src/src/electrum_server/mod.rs\<close>): it keeps it.  The schedule it gets depends on the wallet,
  on the transaction's locktime and on the configuration.
\<close>

section \<open>The plan\<close>

text \<open>A random delay between the configured bounds, from now.\<close>
definition delayed_plan :: "env \<Rightarrow> config \<Rightarrow> (bcast_mode \<times> datetime option) wact" where
  "delayed_plan E c =
     (let lo = min_delay_hours (cf_schedule c); hi = max (max_delay_hours (cf_schedule c)) lo in
      bnd (draw (\<lambda>n. rand_u64_at E n lo hi)) (\<lambda>delay.
      bnd (draw (now_at E)) (\<lambda>now.
      bnd (lift_res (duration_hours delay)) (\<lambda>d.
      ret (BmScheduled, if datetime_ok E (now + d) then Some (now + d) else None)))))"

definition resolve_broadcast_plan :: "env \<Rightarrow> config \<Rightarrow> (bcast_mode \<times> datetime option) wact" where
  "resolve_broadcast_plan E c = (case sc_broadcast_mode (cf_schedule c) of
       Immediate \<Rightarrow> bnd (draw (now_at E)) (\<lambda>now. ret (Immediate, Some now))
     | BmScheduled \<Rightarrow>
         (case opt_bind (scheduled_datetime (cf_schedule c))
                 (\<lambda>s. or_else (parse_rfc3339 E s) (parse_naive_minute E s)) of
            Some t \<Rightarrow> ret (BmScheduled, Some t)
          | None \<Rightarrow> delayed_plan E c)
     | ByBlock \<Rightarrow> ret (ByBlock, None)
     | Manual \<Rightarrow> ret (Manual, None))"

text \<open>Whether a block-height locktime is reached at the known tip.\<close>
definition already_final :: "u32 \<Rightarrow> u64 option \<Rightarrow> bool" where
  "already_final nlocktime tip = (case tip of None \<Rightarrow> False | Some t \<Rightarrow> ucast nlocktime \<le> t)"

definition resolve_ingest_plan ::
  "env \<Rightarrow> string \<Rightarrow> u32 \<Rightarrow> config \<Rightarrow> u64 option \<Rightarrow> (bcast_mode \<times> datetime option) wact" where
  "resolve_ingest_plan E source nlocktime c tip =
     (if source = ''liana'' then
        ret (if vb_enabled (sc_virtual_block (cf_schedule c)) then ByBlock else Manual, None)
      else if source = ''sparrow'' \<and> nlocktime = 0 then ret (Manual, None)
      else if 500000000 < nlocktime then ret (BmScheduled, Some (secs (uint nlocktime)))
      else if 0 < nlocktime \<and> nlocktime < 500000000 then
        (if already_final nlocktime tip
         then bnd (draw (now_at E)) (\<lambda>now. ret (Immediate, Some now))
         else ret (ByBlock, None))
      else resolve_broadcast_plan E c)"

section \<open>Into the pool\<close>

record broadcast_result =
  br_txid :: string
  br_tx_hex :: string
  br_retained :: bool
  br_scripthashes :: "string list"

text \<open>
  The block an armed Liana virtual block holds the transaction until; the armed height moves on
  by two, in memory and on disk.
\<close>
definition capture_virtual_target :: "env \<Rightarrow> string \<Rightarrow> bcast_mode \<Rightarrow> u64 option wact" where
  "capture_virtual_target E source mode =
     bnd (gets w_config) (\<lambda>c.
     let vb = sc_virtual_block (cf_schedule c); target = vb_target_height vb;
         c' = c\<lparr>cf_schedule := (cf_schedule c)\<lparr>sc_virtual_block := vb\<lparr>vb_target_height := sat_add target 2\<rparr>\<rparr>\<rparr>
     in
     if mode = ByBlock \<and> source = ''liana'' \<and> vb_enabled vb then
       bnd (modify (\<lambda>w. w\<lparr>w_config := c'\<rparr>)) (\<lambda>_.
       bnd (gets w_db_key) (\<lambda>key.
       bnd (attempt (save_config_to_disk E c' key)) (\<lambda>_. ret (Some target))))
     else ret None)"

definition outputs_or_none :: "env \<Rightarrow> string \<Rightarrow> pending_output list" where
  "outputs_or_none E hex = outputs_of (unwrap_or [] (res_ok (extract_outputs E hex)))"

text \<open>The transaction is visible under the script hashes of its outputs from now on.\<close>
definition store_pending_outputs :: "env \<Rightarrow> string \<Rightarrow> string \<Rightarrow> string list wact" where
  "store_pending_outputs E txid hex =
     bnd (attempt (extract_affected_scripthashes_opts E hex [] True)) (\<lambda>r.
     let shs = unwrap_or [] (res_ok r) in
     bnd (store_pending_tx txid hex shs (outputs_or_none E hex)) (\<lambda>_. ret shs))"

definition ingested_tx ::
  "string \<Rightarrow> btc_tx \<Rightarrow> string \<Rightarrow> string \<Rightarrow> bcast_mode \<times> datetime option \<Rightarrow> u64 option \<Rightarrow> new_broadcast_tx" where
  "ingested_tx hex tx net source plan target = \<lparr>n_tx_hex = hex, n_network = net,
     n_nlocktime = or_else target (if 0 < bt_lock_time tx then Some (ucast (bt_lock_time tx)) else None),
     n_broadcast_mode = Some (show_bcast_mode (fst plan)), n_scheduled_time = snd plan,
     n_target_fee_rate = None, n_source_label = Some source, n_destination_address = None,
     n_utxo_count = Some (sint (of_nat (length (bt_inputs tx)) :: u32)),
     n_total_value_btc = None, n_replacement_of = None\<rparr>"

definition decode_broadcast :: "env \<Rightarrow> string \<Rightarrow> btc_tx res" where
  "decode_broadcast E hex = (case hex_decode E hex of
       None \<Rightarrow> Err [''Invalid transaction hex'', ''hex'']
     | Some raw \<Rightarrow> (case tx_consensus_decode E raw of
         None \<Rightarrow> Err [''Failed to decode transaction'', ''consensus'']
       | Some (tx, rest) \<Rightarrow> Ok tx))"

definition handle_broadcast :: "env \<Rightarrow> string \<Rightarrow> string \<Rightarrow> broadcast_result wact" where
  "handle_broadcast E tx_hex source =
     (let hex = trim tx_hex in
      bnd (lift_res (decode_broadcast E hex)) (\<lambda>tx.
      bnd (lift_res (compute_txid E hex)) (\<lambda>txid.
      bnd (gets network_name) (\<lambda>net.
      bnd (gets (\<lambda>w. ch_height (w_health w))) (\<lambda>height.
      bnd (gets w_config) (\<lambda>c.
      bnd (resolve_ingest_plan E source (bt_lock_time tx) c height) (\<lambda>plan.
      bnd (capture_virtual_target E source (fst plan)) (\<lambda>target.
      bnd (import_transaction E (ingested_tx hex tx net source plan target)) (\<lambda>imported.
      bnd (store_pending_outputs E txid hex) (\<lambda>shs.
      bnd (if fst plan = Immediate
           then bnd (attempt (mark_as_due E (t_id imported))) (\<lambda>_. ret ()) else ret ()) (\<lambda>_.
      ret \<lparr>br_txid = txid, br_tx_hex = hex, br_retained = True, br_scripthashes = shs\<rparr>)))))))))))"

definition enrich_pending_input_scripthashes :: "env \<Rightarrow> string \<Rightarrow> string \<Rightarrow> string \<Rightarrow> unit wact" where
  "enrich_pending_input_scripthashes E txid hex url =
     bnd (attempt (enrich_input_scripthashes E hex (strip_indexer_host url) (secs 8)
            (Some (lookup_tx_hex E)))) (\<lambda>r. case res_ok r of
         None \<Rightarrow> ret ()
       | Some extra \<Rightarrow> run_if (extra \<noteq> []) (merge_pending_scripthashes txid extra))"

section \<open>The request of the wallet\<close>

definition quick_broadcast_preview :: "env \<Rightarrow> string \<Rightarrow> string res" where
  "quick_broadcast_preview E hex = (case hex_decode E (trim hex) of
       None \<Rightarrow> Err [''Invalid transaction hex'', ''hex'']
     | Some raw \<Rightarrow> compute_txid E (trim hex))"

text \<open>
  What a wallet polls for after the answer must be there before it: the transaction is stored
  first, then acknowledged, and the pool takes it in later.
\<close>
definition accept_broadcast :: "env \<Rightarrow> json \<Rightarrow> string \<Rightarrow> string \<Rightarrow> string \<Rightarrow> unit cact" where
  "accept_broadcast E i hex source txid =
     bnd (on_world (store_pending_outputs E txid hex)) (\<lambda>_.
     bnd (upd_session (\<lambda>s. s\<lparr>se_recent_txid := Some txid\<rparr>)) (\<lambda>_.
     bnd (write_json_rpc_response E (ok_reply i (JStr txid))) (\<lambda>_.
     bnd (session_of (\<lambda>s. effective_source s source)) (\<lambda>src.
     spawn_task (Ingest hex src)))))"

definition intercept_and_handle_broadcast :: "env \<Rightarrow> json \<Rightarrow> string \<Rightarrow> string \<Rightarrow> unit cact" where
  "intercept_and_handle_broadcast E i hex source =
     bnd (upd_session (\<lambda>s. s\<lparr>se_intercepted := True\<rparr>)) (\<lambda>_.
     bnd (on_world (draw (task_late_at E))) (\<lambda>late.
     if late then write_json_rpc_response E (err_reply i (- 25) ''Invalid transaction hex'')
     else case quick_broadcast_preview E hex of
         Ok txid \<Rightarrow> accept_broadcast E i hex source txid
       | Err e \<Rightarrow> write_json_rpc_response E (err_reply i (- 25) (err_to_string e))
       | Panic p \<Rightarrow> write_json_rpc_response E (err_reply i (- 25) ''task panicked'')))"

section \<open>What the session left to the runtime\<close>

text \<open>
  A panic of such a task stops there.  Taking in a transaction that needs more than ten seconds
  still ends, but nobody looks for the script hashes of its inputs.
\<close>
definition run_task :: "env \<Rightarrow> task \<Rightarrow> unit cact" where
  "run_task E t = (case t of
       RefreshTip url \<Rightarrow> on_world (refresh_chain_tip_cache E url)
     | Enrich txid hex url \<Rightarrow> on_world (enrich_pending_input_scripthashes E txid hex url)
     | Ingest hex source \<Rightarrow>
         bnd (on_world (draw (task_late_at E))) (\<lambda>late.
         bnd (attempt (on_world (handle_broadcast E hex source))) (\<lambda>r. case res_ok r of
             None \<Rightarrow> ret ()
           | Some b \<Rightarrow> if late then ret ()
               else bnd (gets (\<lambda>c. get_indexer_url (cn_world c))) (\<lambda>url.
                 spawn_task (Enrich (br_txid b) (br_tx_hex b) (unwrap_or [] url))))))"

end
