(* ===== verification/Electrum_Server.thy ===== *)
theory Electrum_Server
  imports Electrum_Ingest
begin

text \<open>
  The dispatcher of the Electrum server (\<open>src/src/electrum_server/mod.rs\<close>): one client line
  from its bytes to its answer, and the loop of a connection, which waits for bytes of its
  client, for a new tip of the chain and for a change of a script hash.
\<close>

section \<open>Block headers\<close>

text \<open>The fabricated tip above the real one, when the wallet is to see one.\<close>
definition virtual_tip_reply :: "env \<Rightarrow> json \<Rightarrow> u64 option \<Rightarrow> json option cact" where
  "virtual_tip_reply E i vtip =
     bnd (gets (\<lambda>c. w_chain_tip (cn_world c))) (\<lambda>tip. case (vtip, tip) of
         (Some v, Some (height, hex)) \<Rightarrow>
           let up_to = max v (height + 1) in
           bnd (attempt (lift_res (header_hex_at E height hex up_to))) (\<lambda>r. ret (case r of
               Ok (Some x) \<Rightarrow> Some (ok_reply i (tip_json up_to x))
             | _ \<Rightarrow> None))
       | _ \<Rightarrow> ret None)"

definition cached_tip_reply :: "json \<Rightarrow> json option cact" where
  "cached_tip_reply i = gets (\<lambda>c. map_option (\<lambda>(height, hex). ok_reply i (tip_json height hex))
     (w_chain_tip (cn_world c)))"

text \<open>Ask the indexer: its answer goes out as it came, and refreshes the cache.\<close>
definition upstream_tip :: "env \<Rightarrow> client_request \<Rightarrow> string \<Rightarrow> json option cact" where
  "upstream_tip E r url =
     (if url = [] then ret None
      else bnd (on_world (forward_to_indexer_sync E r url)) (\<lambda>reply.
        case opt_bind reply (\<lambda>s. json_parse E (trim s)) of
          None \<Rightarrow> ret None
        | Some msg \<Rightarrow> (case parse_headers_subscribe_result msg of
            None \<Rightarrow> ret None
          | Some (height, hex) \<Rightarrow>
              bnd (on_world (cache_chain_tip height hex)) (\<lambda>_. ret (Some msg)))))"

text \<open>The first answer there is: \<open>None\<close> passes on to the next source.\<close>
definition or_ask :: "json option cact \<Rightarrow> (unit \<Rightarrow> json cact) \<Rightarrow> json cact" where
  "or_ask m k = bnd m (\<lambda>r. case r of Some v \<Rightarrow> ret v | None \<Rightarrow> k ())"

definition handle_headers_subscribe ::
  "env \<Rightarrow> client_request \<Rightarrow> string \<Rightarrow> u64 option \<Rightarrow> json cact" where
  "handle_headers_subscribe E r url vtip =
     or_ask (virtual_tip_reply E (rq_id r) vtip) (\<lambda>_.
     or_ask (bnd (cached_tip_reply (rq_id r)) (\<lambda>a.
               bnd (run_if (a \<noteq> None) (spawn_chain_tip_refresh url)) (\<lambda>_. ret a))) (\<lambda>_.
     or_ask (upstream_tip E r url) (\<lambda>_.
     or_ask (cached_tip_reply (rq_id r)) (\<lambda>_.
     ret (err_reply (rq_id r) (- 32000) (''Indexer temporarily unavailable '' @ em_dash
        @ '' retry in a few seconds''))))))"

definition serve_virtual_block_header :: "env \<Rightarrow> client_request \<Rightarrow> u64 option \<Rightarrow> json option cact" where
  "serve_virtual_block_header E r vtip =
     (if rq_method r \<noteq> ''blockchain.block.header'' then ret None
      else case opt_bind (request_param r 0) as_u64 of
          None \<Rightarrow> ret None
        | Some height \<Rightarrow>
            if \<not> virtual_header_in_range height vtip then ret None
            else bnd (gets (\<lambda>c. w_chain_tip (cn_world c))) (\<lambda>tip. case tip of
                None \<Rightarrow> ret None
              | Some (tip_height, hex) \<Rightarrow>
                  bnd (attempt (lift_res (header_hex_at E tip_height hex height))) (\<lambda>x. ret (case x of
                      Ok (Some h) \<Rightarrow> Some (ok_reply (rq_id r) (JStr h))
                    | _ \<Rightarrow> None))))"

section \<open>One request\<close>

text \<open>\<open>&s[..s.len().min(n)]\<close> in a log line panics when it cuts a character.\<close>
definition check_slice :: "nat \<Rightarrow> string \<Rightarrow> unit cact" where
  "check_slice n s = (if char_boundary s (min n (length s)) then ret ()
     else lift_res (Panic ''byte index is not a char boundary''))"

definition build_scripthash_mempool_result :: "string \<Rightarrow> string list \<Rightarrow> json" where
  "build_scripthash_mempool_result method pending =
     (if method = ''blockchain.scripthash.get_mempool''
      then inject_get_mempool (JArr [JInt 0, JArr []]) pending
      else JArr (map history_entry pending))"

text \<open>Polls after a broadcast are answered from the waiting transactions alone.\<close>
definition fast_history :: "client_request \<Rightarrow> json option cact" where
  "fast_history r =
     (if rq_method r \<notin> {''blockchain.scripthash.get_history'', ''blockchain.scripthash.get_mempool''}
      then ret None
      else case scripthash_from_params r of
          None \<Rightarrow> ret None
        | Some sh \<Rightarrow>
            bnd (track_scripthash_interest sh) (\<lambda>_.
            bnd (gets (\<lambda>c. pending_txids_for (cn_world c) sh)) (\<lambda>pending.
            if pending = [] then ret None
            else bnd (check_slice 16 sh) (\<lambda>_.
              ret (Some (ok_reply (rq_id r) (build_scripthash_mempool_result (rq_method r) pending)))))))"

definition fast_subscribe :: "env \<Rightarrow> client_request \<Rightarrow> json option cact" where
  "fast_subscribe E r =
     (if rq_method r \<noteq> ''blockchain.scripthash.subscribe'' then ret None
      else case scripthash_from_params r of
          None \<Rightarrow> ret None
        | Some sh \<Rightarrow>
            bnd (track_scripthash_interest sh) (\<lambda>_.
            bnd (gets (\<lambda>c. pending_txids_for (cn_world c) sh)) (\<lambda>pending.
            if pending = [] then ret None
            else case compute_modified_status_hash E [] pending of
                None \<Rightarrow> ret None
              | Some hash \<Rightarrow> bnd (check_slice 16 sh) (\<lambda>_. ret (Some (ok_reply (rq_id r) (JStr hash)))))))"

definition known_transaction :: "env \<Rightarrow> client_request \<Rightarrow> json option cact" where
  "known_transaction E r =
     (if rq_method r \<noteq> ''blockchain.transaction.get'' then ret None
      else case opt_bind (request_param r 0) as_str of
          None \<Rightarrow> ret None
        | Some txid \<Rightarrow>
            if unwrap_or False (opt_bind (request_param r 1) as_bool) then ret None
            else bnd (on_world (lookup_tx_hex E txid)) (\<lambda>h.
              ret (map_option (\<lambda>hex. ok_reply (rq_id r) (JStr hex)) h)))"

definition virtual_header_reply :: "env \<Rightarrow> client_request \<Rightarrow> string \<Rightarrow> json option cact" where
  "virtual_header_reply E r source =
     (if rq_method r \<notin> {''blockchain.block.header'', ''blockchain.block.headers''} then ret None
      else bnd (session_virtual_tip source) (\<lambda>vtip.
        if vtip = None then ret None else serve_virtual_block_header E r vtip))"

definition handle_one_subrequest :: "env \<Rightarrow> client_request \<Rightarrow> string \<Rightarrow> string \<Rightarrow> json cact" where
  "handle_one_subrequest E r url source =
     (if is_local_handshake_method (rq_method r) then
        bnd (gets (\<lambda>c. local_electrum_response r (w_config (cn_world c)))) (\<lambda>a.
        lift_res (some_or (''no local response for '' @ rq_method r) a))
      else or_ask (ret (local_fast_response r)) (\<lambda>_.
      if is_broadcast_method (rq_method r)
      then ret (err_reply (rq_id r) (- 32603) (rq_method r @ '' must use intercept path''))
      else
        or_ask (fast_history r) (\<lambda>_.
        or_ask (fast_subscribe E r) (\<lambda>_.
        or_ask (known_transaction E r) (\<lambda>_.
        or_ask (virtual_header_reply E r source) (\<lambda>_.
        if rq_method r = ''blockchain.headers.subscribe'' then
          bnd (upd_session (\<lambda>s. s\<lparr>se_subscribed_headers := True\<rparr>)) (\<lambda>_.
          bnd (session_virtual_tip source) (\<lambda>vtip.
          handle_headers_subscribe E r url vtip))
        else if url \<noteq> [] then forward_subrequest_sync E r url
        else ret (unavailable (rq_id r))))))))"

text \<open>An error of a handler becomes an error reply under the id of its request.\<close>
definition answer_request :: "env \<Rightarrow> string \<Rightarrow> string \<Rightarrow> client_request \<Rightarrow> json list \<Rightarrow> json list cact" where
  "answer_request E url source r replies =
     bnd (attempt (handle_one_subrequest E r url source)) (\<lambda>a. case a of
         Ok v \<Rightarrow> ret (replies @ [v])
       | Err e \<Rightarrow> ret (replies @ [err_reply (rq_id r) (- 32603) (err_to_string e)])
       | Panic p \<Rightarrow> lift_res (Panic p))"

section \<open>One line\<close>

text \<open>Each step says whether it answered the line.\<close>
definition unless_done :: "bool cact \<Rightarrow> unit cact \<Rightarrow> unit cact" where
  "unless_done m k = bnd m (\<lambda>done. if done then ret () else k)"

definition answer_handshake :: "env \<Rightarrow> string \<Rightarrow> bool cact" where
  "answer_handshake E line = (case res_ok (parse_subrequests E line) of
       None \<Rightarrow> ret False
     | Some rs \<Rightarrow>
         if rs = [] \<or> \<not> batch_is_handshake rs then ret False
         else bnd (gets (\<lambda>c. those (map (\<lambda>r. local_electrum_response r (w_config (cn_world c))) rs))) (\<lambda>a.
           case a of
             None \<Rightarrow> ret False
           | Some replies \<Rightarrow>
               bnd (write_client_responses E replies (line_is_batch line)) (\<lambda>_. ret True)))"

definition answer_instant_tip :: "env \<Rightarrow> string \<Rightarrow> string \<Rightarrow> string \<Rightarrow> bool cact" where
  "answer_instant_tip E line url source = (case res_ok (parse_subrequests E line) of
       Some [r] \<Rightarrow>
         if rq_method r \<noteq> ''blockchain.headers.subscribe'' then ret False
         else
           bnd (upd_session (\<lambda>s. s\<lparr>se_subscribed_headers := True\<rparr>)) (\<lambda>_.
           bnd (session_virtual_tip source) (\<lambda>vtip.
           bnd (cached_tip_reply (rq_id r)) (\<lambda>a. case a of
               None \<Rightarrow> ret False
             | Some reply \<Rightarrow>
                 if vtip \<noteq> None then ret False
                 else bnd (spawn_chain_tip_refresh url) (\<lambda>_.
                   bnd (write_json_rpc_response E reply) (\<lambda>_. ret True)))))
     | _ \<Rightarrow> ret False)"

definition log_incoming_client_line :: "string \<Rightarrow> unit cact" where
  "log_incoming_client_line line =
     (if line_mentions_tx_rpc line then check_slice 200 line else ret ())"

text \<open>A broadcast never reaches the indexer; whatever goes wrong in here is only logged.\<close>
definition take_broadcast :: "env \<Rightarrow> json \<Rightarrow> string \<Rightarrow> string \<Rightarrow> unit cact" where
  "take_broadcast E i hex source =
     bnd (attempt (intercept_and_handle_broadcast E i hex source)) (\<lambda>_. ret ())"

definition invalid_broadcast :: "env \<Rightarrow> json \<Rightarrow> unit cact" where
  "invalid_broadcast E i =
     write_json_rpc_response E (err_reply i (- 32602) ''Invalid broadcast params'')"

definition answer_broadcast :: "env \<Rightarrow> string \<Rightarrow> string \<Rightarrow> bool cact" where
  "answer_broadcast E line source = (case extract_broadcast_hex E line of
       Some (i, hex) \<Rightarrow> bnd (take_broadcast E i hex source) (\<lambda>_. ret True)
     | None \<Rightarrow>
         if line_looks_like_broadcast line then
           bnd (check_slice 240 line) (\<lambda>_.
           bnd (invalid_broadcast E (line_json_rpc_id E line)) (\<lambda>_. ret True))
         else ret False)"

definition flush_deferred_indexer_out :: "env \<Rightarrow> unit cact" where
  "flush_deferred_indexer_out E =
     bnd (session_of se_deferred) (\<lambda>outs.
     bnd (upd_session (\<lambda>s. s\<lparr>se_client_busy := False, se_deferred := []\<rparr>)) (\<lambda>_.
     for_each (\<lambda>out _. write_bytes E out) outs ()))"

definition answer_requests ::
  "env \<Rightarrow> client_request list \<Rightarrow> bool \<Rightarrow> string \<Rightarrow> string \<Rightarrow> unit cact" where
  "answer_requests E rs batch url source =
     bnd (upd_session (\<lambda>s. s\<lparr>se_client_busy := True\<rparr>)) (\<lambda>_.
     bnd (for_each (answer_request E url source) rs []) (\<lambda>replies.
     bnd (write_client_responses E replies batch) (\<lambda>_.
     flush_deferred_indexer_out E)))"

text \<open>A line that is no broadcast by its text may still be one once decoded.\<close>
definition answer_parsed :: "env \<Rightarrow> string \<Rightarrow> string \<Rightarrow> string \<Rightarrow> unit cact" where
  "answer_parsed E line url source = (case parse_subrequests E line of
       Ok rs \<Rightarrow> (case filter (\<lambda>r. is_broadcast_method (rq_method r)) rs of
           r # _ \<Rightarrow> (case opt_bind (rq_params r) params_first_string of
               Some hex \<Rightarrow> take_broadcast E (rq_id r) hex source
             | None \<Rightarrow> invalid_broadcast E (rq_id r))
         | [] \<Rightarrow> answer_requests E rs (line_is_batch line) url source)
     | Err e \<Rightarrow>
         bnd (if line_mentions_tx_rpc line then check_slice 200 line else ret ()) (\<lambda>_.
         write_json_rpc_response E (err_reply (line_json_rpc_id E line) (- 32700) ''Parse error''))
     | Panic p \<Rightarrow> lift_res (Panic p))"

definition process_client_line :: "env \<Rightarrow> string \<Rightarrow> string \<Rightarrow> string \<Rightarrow> unit cact" where
  "process_client_line E line url source =
     (if trim line = [] then ret ()
      else
        bnd (upd_session (\<lambda>s. capture_wallet_fingerprint E line
               (s\<lparr>se_rpc_lines := se_rpc_lines s + 1\<rparr>))) (\<lambda>_.
        unless_done (answer_handshake E line)
        (unless_done (answer_instant_tip E line url source)
        (bnd (log_incoming_client_line line) (\<lambda>_.
        unless_done (answer_broadcast E line source)
        (answer_parsed E line url source))))))"

section \<open>The connection\<close>

text \<open>The lines of the buffer, one after the other; an error ends the connection.\<close>
primrec serve_lines :: "env \<Rightarrow> string \<Rightarrow> nat \<Rightarrow> bytes \<Rightarrow> bytes cact" where
  "serve_lines E source 0 buf = ret buf"
| "serve_lines E source (Suc n) buf = (case pop_client_line E buf of
       None \<Rightarrow> ret buf
     | Some ((b, line), buf') \<Rightarrow>
         bnd (gets (\<lambda>c. resolve_live_indexer_url (cn_world c))) (\<lambda>url.
         bnd (process_client_line E line url source) (\<lambda>_.
         serve_lines E source n buf')))"

text \<open>Bytes of the client arrive; there are no more lines in a buffer than bytes.\<close>
definition on_client_bytes :: "env \<Rightarrow> string \<Rightarrow> bytes \<Rightarrow> bytes \<Rightarrow> bytes cact" where
  "on_client_bytes E source buf new =
     (let all = buf @ new in serve_lines E source (length all) all)"

definition push_json :: "env \<Rightarrow> string \<Rightarrow> json \<Rightarrow> bool cact" where
  "push_json E method params =
     bnd (attempt (write_json_rpc_response E (JObj [(''jsonrpc'', JStr ''2.0''),
        (''method'', JStr method), (''params'', params)]))) (\<lambda>r. ret (is_ok r))"

definition on_chain_tip :: "env \<Rightarrow> string \<Rightarrow> u64 \<Rightarrow> string \<Rightarrow> unit cact" where
  "on_chain_tip E source height hex =
     bnd (session_of (\<lambda>s. se_subscribed_headers s \<and> \<not> se_client_busy s)) (\<lambda>push.
     if \<not> push then ret ()
     else bnd (session_virtual_tip source) (\<lambda>vtip.
       bnd (case vtip of
            None \<Rightarrow> ret (Some (height, hex))
          | Some v \<Rightarrow>
              let up_to = max v (height + 1) in
              bnd (attempt (lift_res (header_hex_at E height hex up_to))) (\<lambda>r.
              ret (case r of Ok (Some h) \<Rightarrow> Some (up_to, h) | _ \<Rightarrow> None))) (\<lambda>pushed.
       case pushed of
         None \<Rightarrow> ret ()
       | Some (h, x) \<Rightarrow>
           bnd (push_json E ''blockchain.headers.subscribe'' (JArr [tip_json h x])) (\<lambda>_. ret ()))))"

definition forget_sent_txid :: "unit cact" where
  "forget_sent_txid =
     bnd (gets (\<lambda>c. (se_recent_txid (cn_session c), cn_world c))) (\<lambda>(recent, w).
     case recent of
       None \<Rightarrow> ret ()
     | Some txid \<Rightarrow> run_if (pending_of w txid = None)
         (bnd (check_slice 16 txid) (\<lambda>_. upd_session (\<lambda>s. s\<lparr>se_recent_txid := None\<rparr>))))"

definition on_scripthash :: "env \<Rightarrow> string \<Rightarrow> unit cact" where
  "on_scripthash E sh =
     bnd forget_sent_txid (\<lambda>_.
     bnd (session_of (\<lambda>s. sh \<in> set (se_subscribed s))) (\<lambda>subscribed.
     if \<not> subscribed then ret ()
     else
       bnd (gets (\<lambda>c. resolve_live_indexer_url (cn_world c))) (\<lambda>url.
       bnd (gets (\<lambda>c. pending_txids_for (cn_world c) sh)) (\<lambda>pending.
       bnd (on_world (fetch_scripthash_history E url sh)) (\<lambda>history.
       let status = (case compute_modified_status_hash E history pending of
             Some hash \<Rightarrow> JStr hash | None \<Rightarrow> JNull) in
       bnd (push_json E ''blockchain.scripthash.subscribe'' (JArr [JStr sh, status])) (\<lambda>ok.
       if ok then check_slice 16 sh else ret ()))))))"

end
