(* ===== verification/Electrum_Laws.thy ===== *)
theory Electrum_Laws
  imports Electrum_Server Pool_Laws
begin

text \<open>
  What a wallet session may do to the process: nothing it does broadcasts a transaction.
\<close>

section \<open>Messages that broadcast nothing\<close>

text \<open>Neither a transaction nor a package of them.\<close>
definition no_broadcast :: "outmsg \<Rightarrow> bool" where
  "no_broadcast m = (case m of
       ToIndexer url method params \<Rightarrow> \<not> is_broadcast_method method
     | ToCore method args \<Rightarrow> method \<noteq> ''sendrawtransaction''
     | ToNostr x \<Rightarrow> True)"

lemma no_broadcast_no_send: "no_broadcast m \<Longrightarrow> no_send m"
  by (auto simp: no_broadcast_def is_tx_send_def is_broadcast_method_def broadcast_methods_def
      split: outmsg.splits)

text \<open>Nothing is broadcast, and safe mode is not left.\<close>
definition silent :: "world \<Rightarrow> world \<Rightarrow> bool" where
  "silent w v \<longleftrightarrow> sends no_broadcast w v \<and> (w_safe_mode w \<longrightarrow> w_safe_mode v)"

interpretation silent: act_rel silent
  by unfold_locales (auto simp: silent_def sends_refl intro: sends_trans)

lemma silent_calm: "moves calm m \<Longrightarrow> moves silent m"
  by (auto simp: moves_def calm_def silent_def sends_same)

lemma silent_calls: "moves (calls_out no_broadcast) m \<Longrightarrow> moves silent m"
  by (rule movesI) (drule (1) movesD, auto simp: silent_def calls_out_def sends_def sans_calls_def
      dest!: arg_cong [where f = w_safe_mode])

lemmas silent_rules = silent.rules silent_calls [OF calls_quiet [OF quiet_draw]]

lemma silent_forward:
  "\<not> is_broadcast_method (rq_method r) \<Longrightarrow> moves silent (forward_to_indexer_sync E r url)"
  unfolding forward_to_indexer_sync_def
  by (intro silent_rules silent_calls calls_put) (simp add: no_broadcast_def)

lemma silent_fetch_history: "moves silent (fetch_scripthash_history E url sh)"
  unfolding fetch_scripthash_history_def own_request_def
  by (auto intro!: silent_rules silent_forward simp: is_broadcast_method_def broadcast_methods_def)

lemma calm_cache_tip: "moves calm (cache_chain_tip height hex)"
  unfolding cache_chain_tip_def by (auto intro!: calm_rules calm_modify)

lemma silent_refresh_tip: "moves silent (refresh_chain_tip_cache E url)"
  unfolding refresh_chain_tip_cache_def own_request_def
  by (auto intro!: silent_rules silent_forward silent_calm [OF calm_cache_tip]
      simp: is_broadcast_method_def broadcast_methods_def split: option.split)

lemma calm_watch: "moves calm (watch_scripthash sh)"
  unfolding watch_scripthash_def by (auto intro!: calm_rules calm_modify)

section \<open>Keeping a transaction\<close>

lemma calm_store_pending: "moves calm (store_pending_tx txid hex shs outs)"
  unfolding store_pending_tx_def by (auto intro!: calm_rules calm_announce calm_modify)

lemma calm_merge_pending: "moves calm (merge_pending_scripthashes txid extra)"
  unfolding merge_pending_scripthashes_def Let_def
  by (auto intro!: calm_rules calm_announce calm_modify split: option.split)

lemma calm_store_outputs: "moves calm (store_pending_outputs E txid hex)"
  unfolding store_pending_outputs_def extract_affected_scripthashes_opts_def Let_def
  by (auto intro!: calm_rules calm_store_pending)

lemma calm_lookup: "moves calm (lookup_tx_hex E txid)"
  unfolding lookup_tx_hex_def or_try_def with_alt_def lookup_in_db_def get_pending_tx_hex_def Let_def
  by (auto intro!: calm_rules calm_quiet [OF quiet_get_tx_hex_by_txid] split: option.split)

lemma calm_insert_tx: "moves calm (insert_broadcast_tx E tx)"
  unfolding insert_broadcast_tx_def
  by (intro calm_rules calm_quiet [OF quiet_encode_field] calm_quiet [OF quiet_encode_optional]
      calm_quiet [OF quiet_get_broadcast_tx_by_id])

lemma calm_save_config: "moves calm (save_config_to_disk E c key)"
  unfolding save_config_to_disk_def sealed_for_disk_def disk_step_def encrypt_rpc_password_def
    encrypt_nostr_nsec_def encrypt_secret_def Let_def
  by (auto intro!: calm_rules calm_quiet [OF quiet_encode_field] calm_modify split: option.split)

lemma calm_capture: "moves calm (capture_virtual_target E source mode)"
  unfolding capture_virtual_target_def Let_def
  by (auto intro!: calm_rules calm_save_config calm_modify)

lemma calm_plan: "moves calm (resolve_ingest_plan E source n c tip)"
  unfolding resolve_ingest_plan_def resolve_broadcast_plan_def delayed_plan_def Let_def
  by (auto intro!: calm_rules split: bcast_mode.split option.split)

lemma calm_handle_broadcast: "moves calm (handle_broadcast E hex source)"
  unfolding handle_broadcast_def import_transaction_def Let_def
  by (auto intro!: calm_rules calm_plan calm_capture calm_insert_tx calm_store_outputs calm_mark_as_due)

lemma silent_fetch_prev: "moves silent (fetch_prev_tx E txid addr)"
  unfolding fetch_prev_tx_def Let_def
  by (auto intro!: silent_rules silent_calls [OF calls_put] silent_calls [OF calls_quiet [OF quiet_draw_res]]
      simp: no_broadcast_def is_broadcast_method_def broadcast_methods_def split: prod.split)

lemma silent_resolve_prev:
  assumes "\<And>t. moves silent (f t)"
  shows "moves silent (resolve_prev_tx E txid addr (Some f))"
  unfolding resolve_prev_tx_def lookup_prev_tx_hex_def
  by (auto intro!: silent_rules assms silent_fetch_prev split: option.split)

lemma silent_enrich: "moves silent (enrich_pending_input_scripthashes E txid hex url)"
  unfolding enrich_pending_input_scripthashes_def enrich_input_scripthashes_def Let_def
  by (auto intro!: silent_rules silent_resolve_prev silent_calm [OF calm_lookup]
      silent_calm [OF calm_merge_pending] split: option.split)

section \<open>The session\<close>

text \<open>The process broadcast nothing between two states of a connection.\<close>
definition withholds :: "conn \<Rightarrow> conn \<Rightarrow> bool" where
  "withholds c d \<longleftrightarrow> silent (cn_world c) (cn_world d)"

interpretation withholds: act_rel withholds
  by unfold_locales (auto simp: withholds_def silent.refl intro: silent.trans)

lemma withholds_world: "moves silent m \<Longrightarrow> moves withholds (on_world m)"
  by (simp add: moves_def withholds_def on_world_def split: prod.split)
     (metis snd_conv)

lemma withholds_calm: "moves calm m \<Longrightarrow> moves withholds (on_world m)"
  by (intro withholds_world silent_calm)

lemma withholds_modify: "(\<And>c. cn_world (f c) = cn_world c) \<Longrightarrow> moves withholds (modify f)"
  by (rule withholds.step_modify) (simp add: withholds_def silent.refl)

lemma withholds_session:
  "moves withholds (upd_session f)" "moves withholds (session_of g)" "moves withholds (spawn_task t)"
  unfolding upd_session_def session_of_def spawn_task_def
  by (auto intro!: withholds_modify withholds.pure_gets)

lemma withholds_draw: "moves withholds (on_world (draw f))"
  by (rule withholds_calm) (auto intro!: calm_rules)

lemma withholds_write:
  "moves withholds (write_bytes E b)" "moves withholds (write_json_rpc_response E v)"
  "moves withholds (write_client_responses E vs batch)"
  unfolding write_bytes_def write_json_rpc_response_def write_client_responses_def
  by (auto intro!: withholds.rules withholds_draw withholds_modify split: option.split list.split)

lemmas withholds_rules = withholds.rules withholds_session withholds_write withholds_draw

lemma withholds_interest: "moves withholds (track_scripthash_interest sh)"
  unfolding track_scripthash_interest_def
  by (auto intro!: withholds_rules withholds_calm [OF calm_watch])

lemma withholds_slice: "moves withholds (check_slice n s)"
  unfolding check_slice_def by (auto intro!: withholds_rules)

lemma withholds_add_waiting: "moves withholds (add_waiting E i msg)"
  unfolding add_waiting_def take_pending_method_def
  by (auto intro!: withholds_rules split: option.split prod.split)

lemma withholds_forward: "moves withholds (forward_subrequest_sync E r url)"
  unfolding forward_subrequest_sync_def
  by (auto intro!: withholds_rules withholds_world silent_forward withholds_add_waiting split: option.split)

lemma withholds_or_ask: "moves withholds m \<Longrightarrow> moves withholds (k ()) \<Longrightarrow> moves withholds (or_ask m k)"
  unfolding or_ask_def by (auto intro!: withholds_rules split: option.split)

lemma withholds_headers:
  assumes "\<not> is_broadcast_method (rq_method r)"
  shows "moves withholds (handle_headers_subscribe E r url vtip)"
  unfolding handle_headers_subscribe_def virtual_tip_reply_def cached_tip_reply_def upstream_tip_def
    spawn_chain_tip_refresh_def Let_def
  by (auto intro!: withholds_rules withholds_or_ask withholds_world silent_forward assms
      silent_calm [OF calm_cache_tip] split: option.split prod.split)

lemma withholds_parts:
  "moves withholds (fast_history r)" "moves withholds (fast_subscribe E r)"
  "moves withholds (known_transaction E r)" "moves withholds (virtual_header_reply E r source)"
  unfolding fast_history_def fast_subscribe_def known_transaction_def virtual_header_reply_def
    serve_virtual_block_header_def session_virtual_tip_def
  by (auto intro!: withholds_rules withholds_interest withholds_slice withholds_calm [OF calm_lookup]
      split: option.split prod.split)

lemma withholds_one: "moves withholds (handle_one_subrequest E r url source)"
proof -
  have m: "\<not> is_broadcast_method ''blockchain.headers.subscribe''"
    by (simp add: is_broadcast_method_def broadcast_methods_def)
  show ?thesis
    unfolding handle_one_subrequest_def session_virtual_tip_def
    by (auto intro!: withholds_rules withholds_or_ask withholds_parts withholds_headers withholds_forward m)
qed

lemma withholds_broadcast: "moves withholds (intercept_and_handle_broadcast E i hex source)"
  unfolding intercept_and_handle_broadcast_def accept_broadcast_def
  by (auto intro!: withholds_rules withholds_calm [OF calm_store_outputs] split: res.split)

lemma withholds_unless:
  "moves withholds m \<Longrightarrow> moves withholds k \<Longrightarrow> moves withholds (unless_done m k)"
  unfolding unless_done_def by (auto intro!: withholds_rules)

lemma withholds_handshake: "moves withholds (answer_handshake E line)"
  unfolding answer_handshake_def by (auto intro!: withholds_rules split: option.split)

lemma withholds_instant: "moves withholds (answer_instant_tip E line url source)"
  unfolding answer_instant_tip_def cached_tip_reply_def session_virtual_tip_def spawn_chain_tip_refresh_def
  by (auto intro!: withholds_rules split: option.split list.split)

lemma withholds_taken: "moves withholds (take_broadcast E i hex source)"
  unfolding take_broadcast_def by (auto intro!: withholds_rules withholds_broadcast)

lemma withholds_invalid: "moves withholds (invalid_broadcast E i)"
  unfolding invalid_broadcast_def by (rule withholds_write)

lemma withholds_answer_broadcast: "moves withholds (answer_broadcast E line source)"
  unfolding answer_broadcast_def
  by (auto intro!: withholds_rules withholds_taken withholds_invalid withholds_slice
      split: option.split prod.split)

lemma withholds_requests: "moves withholds (answer_requests E rs batch url source)"
  unfolding answer_requests_def answer_request_def flush_deferred_indexer_out_def
  by (auto intro!: withholds_rules withholds_one split: res.split)

lemma withholds_parsed: "moves withholds (answer_parsed E line url source)"
  unfolding answer_parsed_def
  by (auto intro!: withholds_rules withholds_taken withholds_invalid withholds_slice withholds_requests
      split: res.split list.split option.split)

lemma withholds_line: "moves withholds (process_client_line E line url source)"
  unfolding process_client_line_def log_incoming_client_line_def
  by (auto intro!: withholds_rules withholds_unless withholds_handshake withholds_instant
      withholds_answer_broadcast withholds_parsed withholds_slice)

lemma withholds_lines: "moves withholds (serve_lines E source n buf)"
  by (induction n arbitrary: buf) (auto intro!: withholds_rules withholds_line split: option.split)

lemma withholds_push: "moves withholds (push_json E method params)"
  unfolding push_json_def by (auto intro!: withholds_rules)

lemma withholds_tip: "moves withholds (on_chain_tip E source height hex)"
  unfolding on_chain_tip_def session_virtual_tip_def Let_def
  by (auto intro!: withholds_rules withholds_push split: option.split)

lemma withholds_scripthash: "moves withholds (on_scripthash E sh)"
  unfolding on_scripthash_def forget_sent_txid_def Let_def
  by (auto intro!: withholds_rules withholds_push withholds_slice withholds_world [OF silent_fetch_history]
      split: option.split)

lemma withholds_task: "moves withholds (run_task E t)"
  unfolding run_task_def
  by (auto intro!: withholds_rules withholds_world silent_refresh_tip silent_enrich
      withholds_calm [OF calm_handle_broadcast] split: task.split option.split)

end
