(* ===== verification/Electrum_Replies.thy ===== *)
theory Electrum_Replies
  imports Electrum_Server
begin

text \<open>
  What a wallet reads back: which parts of the server write nothing, and that serving a line
  writes one line.
\<close>

section \<open>The order in which lines are served\<close>

definition serve_one :: "env \<Rightarrow> string \<Rightarrow> bytes \<Rightarrow> unit cact" where
  "serve_one E source b =
     bnd (gets (\<lambda>c. resolve_live_indexer_url (cn_world c))) (\<lambda>url.
     process_client_line E (line_text b) url source)"

definition serve_all :: "env \<Rightarrow> string \<Rightarrow> bytes list \<Rightarrow> unit cact" where
  "serve_all E source ls = for_each (\<lambda>b _. serve_one E source b) ls ()"

lemma bnd_assoc: "bnd (bnd m f) g = bnd m (\<lambda>x. bnd (f x) g)"
  by (rule ext) (simp add: bnd_apply split: prod.split res.split)

lemma bnd_ret [simp]: "bnd (ret x) f = f x"
  by (rule ext) (simp add: bnd_apply ret_def)

lemma pop_unsplit:
  assumes "list_all (\<lambda>l. nl \<notin> set l) ls" "nl \<notin> set r"
  shows "pop_client_line E (unsplit ls r) =
    (if ls = [] then None
     else let k = pick_line E ls in
       Some ((ls ! k, line_text (ls ! k)), unsplit (take k ls @ drop (Suc k) ls) r))"
  using split_unsplit [OF assms] by (simp add: pop_client_line_def Let_def)

lemma serve_unsplit:
  assumes "list_all (\<lambda>l. nl \<notin> set l) ls" "nl \<notin> set r" "length ls \<le> n"
  shows "serve_lines E source n (unsplit ls r)
    = bnd (serve_all E source (serving_order E ls)) (\<lambda>_. ret r)"
  using assms(1,3)
proof (induction n arbitrary: ls)
  case 0
  then show ?case by (simp add: unsplit_def serving_order_def serve_all_def)
next
  case (Suc n)
  show ?case
  proof (cases "ls = []")
    case True
    then have "pop_client_line E (unsplit ls r) = None" "unsplit ls r = r"
      using pop_unsplit [of "[]" r E] assms(2) by (simp_all add: unsplit_def)
    then show ?thesis using True by (simp add: serving_order_def serve_all_def)
  next
    case ne: False
    define k where "k = pick_line E ls"
    define ls' where "ls' = take k ls @ drop (Suc k) ls"
    note pick = serving_order_pick [OF ne k_def]
    have "pop_client_line E (unsplit ls r) = Some ((ls ! k, line_text (ls ! k)), unsplit ls' r)"
      using ne by (simp add: pop_unsplit [OF Suc.prems(1) assms(2)] k_def ls'_def Let_def)
    moreover have "list_all (\<lambda>l. nl \<notin> set l) ls'" "length ls' \<le> n"
      using Suc.prems pick(1) by (auto simp: ls'_def list_all_iff dest: in_set_takeD in_set_dropD)
    then have "serve_lines E source n (unsplit ls' r)
        = bnd (serve_all E source (serving_order E ls')) (\<lambda>_. ret r)"
      by (rule Suc.IH)
    ultimately show ?thesis
      using pick(2) by (simp add: serve_all_def serve_one_def bnd_assoc ls'_def)
  qed
qed

lemma length_unsplit: "length ls \<le> length (unsplit ls r)"
  by (induction ls) (simp_all add: unsplit_def)

lemma on_client_bytes_order:
  assumes "split_lines (buf @ new) = (ls, r)"
  shows "on_client_bytes E source buf new = bnd (serve_all E source (serving_order E ls)) (\<lambda>_. ret r)"
proof -
  have "list_all (\<lambda>l. nl \<notin> set l) ls" "nl \<notin> set r" using split_lines_clean [OF assms] by blast+
  then show ?thesis
    using serve_unsplit [of ls r "length (unsplit ls r)"] length_unsplit unsplit_split [OF assms]
    by (simp add: on_client_bytes_def Let_def)
qed

section \<open>Parts that write nothing\<close>

definition mute :: "conn \<Rightarrow> conn \<Rightarrow> bool" where
  "mute c d \<longleftrightarrow> cn_out d = cn_out c \<and> se_deferred (cn_session d) = se_deferred (cn_session c)"

interpretation mute: act_rel mute
  by unfold_locales (auto simp: mute_def)

lemma mute_parts:
  "moves mute (on_world m)" "moves mute (session_of g)" "moves mute (spawn_task t)"
  "moves mute (check_slice n s)"
  "(\<And>s. se_deferred (f s) = se_deferred s) \<Longrightarrow> moves mute (upd_session f)"
  unfolding on_world_def session_of_def spawn_task_def upd_session_def check_slice_def
  by (auto simp: moves_def mute_def act_simps split: prod.split)

lemmas mute_rules = mute.rules mute_parts

lemma mute_or_ask: "moves mute m \<Longrightarrow> moves mute (k ()) \<Longrightarrow> moves mute (or_ask m k)"
  unfolding or_ask_def by (auto intro!: mute_rules split: option.split)

lemma track_request_deferred [simp]: "se_deferred (track_request r s) = se_deferred s"
  by (simp add: track_request_def Let_def)

lemma capture_deferred [simp]: "se_deferred (capture_wallet_fingerprint E line s) = se_deferred s"
proof -
  have one: "se_deferred (note_version item s) = se_deferred s" for item s
    by (auto simp: note_version_def Let_def split: option.split list.split)
  have "se_deferred (foldl (\<lambda>s item. note_version item s) s items) = se_deferred s" for items
    by (induction items arbitrary: s) (simp_all add: one)
  then show ?thesis by (simp add: capture_wallet_fingerprint_def split: option.split)
qed

lemma mute_add_waiting: "moves mute (add_waiting E i msg)"
  unfolding add_waiting_def take_pending_method_def
  by (auto intro!: mute_rules split: option.split prod.split)

lemma mute_forward: "moves mute (forward_subrequest_sync E r url)"
  unfolding forward_subrequest_sync_def
  by (auto intro!: mute_rules mute_add_waiting split: option.split)

lemma mute_headers: "moves mute (handle_headers_subscribe E r url vtip)"
  unfolding handle_headers_subscribe_def virtual_tip_reply_def cached_tip_reply_def upstream_tip_def
    spawn_chain_tip_refresh_def Let_def
  by (auto intro!: mute_rules mute_or_ask split: option.split prod.split)

lemma mute_replies:
  "moves mute (fast_history r)" "moves mute (fast_subscribe E r)" "moves mute (known_transaction E r)"
  "moves mute (virtual_header_reply E r source)"
  unfolding fast_history_def fast_subscribe_def known_transaction_def virtual_header_reply_def
    serve_virtual_block_header_def session_virtual_tip_def track_scripthash_interest_def
  by (auto intro!: mute_rules split: option.split prod.split)

lemma mute_one: "moves mute (handle_one_subrequest E r url source)"
  unfolding handle_one_subrequest_def session_virtual_tip_def
  by (auto intro!: mute_rules mute_or_ask mute_replies mute_headers mute_forward)

section \<open>Actions that return no error\<close>

definition errorless :: "('s, 'a) act \<Rightarrow> bool" where
  "errorless m \<longleftrightarrow> (\<forall>s e t. m s \<noteq> (Err e, t))"

lemma errorless_simple:
  "errorless (ret x)" "errorless (gets f)" "errorless (modify g)" "errorless (attempt m)"
  "errorless (session_of h)" "errorless (upd_session u)" "errorless (spawn_task t)"
  "errorless (check_slice n s)" "errorless (lift_res (Panic p))" "errorless (on_world (draw d))"
  by (auto simp: errorless_def session_of_def upd_session_def spawn_task_def check_slice_def
      on_world_def act_simps attempt_def split: prod.splits res.splits if_splits)

lemma errorless_bnd: "errorless m \<Longrightarrow> (\<And>x. errorless (f x)) \<Longrightarrow> errorless (bnd m f)"
  unfolding errorless_def bnd_def by (auto split: prod.splits res.splits)

lemma errorless_for_each: "(\<And>x acc. errorless (body x acc)) \<Longrightarrow> errorless (for_each body xs acc)"
  by (induction xs arbitrary: acc) (auto intro: errorless_simple errorless_bnd)

lemmas errorless_rules = errorless_simple errorless_bnd errorless_for_each

section \<open>One line for one line\<close>

text \<open>The wallet takes whatever is written to it.\<close>
definition client_takes_all :: "env \<Rightarrow> bool" where
  "client_takes_all E \<longleftrightarrow> (\<forall>n. client_fault_at E n = None)"

definition reply_line :: "env \<Rightarrow> json \<Rightarrow> bytes" where
  "reply_line E v = json_print E v @ [nl]"

text \<open>
  How a run from \<open>c\<close> may end: not with an error; a value for which \<open>k\<close> holds comes with one
  reply, any other with none; and nothing is left deferred.
\<close>
primrec outcome :: "env \<Rightarrow> ('a \<Rightarrow> bool) \<Rightarrow> conn \<Rightarrow> conn \<Rightarrow> 'a res \<Rightarrow> bool" where
  "outcome E k c d (Ok x) \<longleftrightarrow> se_deferred (cn_session d) = [] \<and>
     (if k x then \<exists>v. cn_out d = cn_out c @ reply_line E v else cn_out d = cn_out c)"
| "outcome E k c d (Err e) \<longleftrightarrow> False"
| "outcome E k c d (Panic p) \<longleftrightarrow> True"

definition replies :: "env \<Rightarrow> ('a \<Rightarrow> bool) \<Rightarrow> 'a cact \<Rightarrow> bool" where
  "replies E k m \<longleftrightarrow>
     (\<forall>c r d. se_deferred (cn_session c) = [] \<longrightarrow> m c = (r, d) \<longrightarrow> outcome E k c d r)"

abbreviation "replies_none E \<equiv> replies E (\<lambda>_. False)"
abbreviation "replies_one E \<equiv> replies E (\<lambda>_. True)"

lemma repliesI:
  "(\<And>c r d. se_deferred (cn_session c) = [] \<Longrightarrow> m c = (r, d) \<Longrightarrow> outcome E k c d r) \<Longrightarrow> replies E k m"
  by (simp add: replies_def)

lemma repliesD: "replies E k m \<Longrightarrow> se_deferred (cn_session c) = [] \<Longrightarrow> m c = (r, d) \<Longrightarrow> outcome E k c d r"
  by (simp add: replies_def)

lemma replies_mute: "moves mute m \<Longrightarrow> errorless m \<Longrightarrow> replies_none E m"
  by (rule repliesI, rename_tac c r d, case_tac r)
     (auto simp: mute_def errorless_def dest: movesD)

lemma outcome_shift:
  "cn_out c' = cn_out c \<Longrightarrow> outcome E k c' d r \<Longrightarrow> outcome E k c d r"
  by (cases r) auto

text \<open>Sequencing: what follows an action that replied must be silent.\<close>
lemma replies_bnd:
  assumes m: "replies E k m" and none: "\<And>x. \<not> k x \<Longrightarrow> replies E j (f x)"
    and one: "\<And>x. k x \<Longrightarrow> replies_none E (f x) \<and> (\<forall>c y d. f x c = (Ok y, d) \<longrightarrow> j y)"
  shows "replies E j (bnd m f)"
proof (rule repliesI)
  fix c r d
  assume c: "se_deferred (cn_session c) = []" and run: "bnd m f c = (r, d)"
  obtain r1 c1 where m1: "m c = (r1, c1)" by (cases "m c")
  note o = repliesD [OF m c m1]
  show "outcome E j c d r"
  proof (cases r1)
    case (Ok x)
    then have fx: "f x c1 = (r, d)" using run m1 by (simp add: bnd_apply)
    show ?thesis
    proof (cases "k x")
      case True
      then have "outcome E (\<lambda>_. False) c1 d r"
        using one [OF True] o Ok fx by (auto dest: repliesD)
      then show ?thesis using o Ok True one [OF True] fx by (cases r) auto
    next
      case False
      then have "outcome E j c1 d r" using none [OF False] o Ok fx by (auto dest: repliesD)
      then show ?thesis using o Ok False by (auto intro: outcome_shift)
    qed
  qed (use o run m1 in \<open>auto simp: bnd_apply\<close>)
qed

lemma replies_after: "replies_none E m \<Longrightarrow> (\<And>x. replies E j (f x)) \<Longrightarrow> replies E j (bnd m f)"
  by (rule replies_bnd [where k = "\<lambda>_. False"]) auto

lemma replies_then_ret: "replies_one E m \<Longrightarrow> j y \<Longrightarrow> replies E j (bnd m (\<lambda>_. ret y))"
  by (rule replies_bnd) (auto simp: replies_def act_simps)

lemma replies_ret: "\<not> k x \<Longrightarrow> replies E k (ret x)"
  by (auto simp: replies_def act_simps)

lemma replies_panic: "replies E k (lift_res (Panic p))"
  by (auto simp: replies_def act_simps)

lemma replies_then_quiet:
  "replies_one E m \<Longrightarrow> (\<And>x. replies_none E (f x)) \<Longrightarrow> replies_one E (bnd m f)"
  by (rule replies_bnd) auto

lemma replies_unless:
  assumes "replies E id m" "replies_one E k"
  shows "replies_one E (unless_done m k)"
  unfolding unless_done_def
  by (rule replies_bnd [OF assms(1)]) (auto simp: assms(2) intro: replies_ret)

lemma replies_attempt:
  assumes "replies_one E m"
  shows "replies_one E (bnd (attempt m) (\<lambda>_. ret ()))"
proof (rule repliesI)
  fix c r d
  assume c: "se_deferred (cn_session c) = []" and run: "bnd (attempt m) (\<lambda>_. ret ()) c = (r, d)"
  obtain r1 c1 where m1: "m c = (r1, c1)" by (cases "m c")
  from repliesD [OF assms c m1] m1 run show "outcome E (\<lambda>_. True) c d r"
    by (cases r1) (auto simp: run_simps act_simps)
qed

lemma replies_write: "client_takes_all E \<Longrightarrow> replies_one E (write_json_rpc_response E v)"
  by (auto simp: replies_def client_takes_all_def write_json_rpc_response_def write_bytes_def
      bnd_apply on_world_def act_simps reply_line_def)


lemma replies_responses: "client_takes_all E \<Longrightarrow> replies_one E (write_client_responses E vs batch)"
  unfolding write_client_responses_def
  by (auto intro: replies_write replies_panic split: list.split)

section \<open>A line of the wallet\<close>

lemma replies_quiet:
  "replies_none E (gets f)" "replies_none E (session_of h)" "replies_none E (spawn_task t)"
  "replies_none E (check_slice n s)" "replies_none E (on_world (draw g))"
  "(\<And>s. se_deferred (u s) = se_deferred s) \<Longrightarrow> replies_none E (upd_session u)"
  by (rule replies_mute; intro mute_rules errorless_rules; assumption?)+

lemma replies_store: "replies_none E (on_world (store_pending_outputs E txid hex))"
proof (rule replies_mute [OF mute_parts(1)])
  show "errorless (on_world (store_pending_outputs E txid hex))"
    by (auto simp: errorless_def on_world_def store_pending_outputs_def bnd_apply Let_def store_run
        act_simps attempt_def split: prod.splits res.splits)
qed

lemma replies_intercept:
  assumes "client_takes_all E"
  shows "replies_one E (intercept_and_handle_broadcast E i hex source)"
proof -
  have "replies_one E (accept_broadcast E i hex source txid)" for txid
    unfolding accept_broadcast_def
    by (intro replies_after [OF replies_store] replies_after [OF replies_quiet(6)]
        replies_then_quiet [OF replies_write [OF assms]] replies_after [OF replies_quiet(2)] replies_quiet) simp
  then show ?thesis
    unfolding intercept_and_handle_broadcast_def
    by (auto intro!: replies_after [OF replies_quiet(6)] replies_after [OF replies_quiet(5)]
        replies_write [OF assms] split: res.split)
qed

lemma replies_take:
  assumes "client_takes_all E"
  shows "replies_one E (take_broadcast E i hex source)" "replies_one E (invalid_broadcast E i)"
  unfolding take_broadcast_def invalid_broadcast_def
  by (rule replies_attempt [OF replies_intercept [OF assms]]) (rule replies_write [OF assms])

lemma replies_flush: "replies_none E (flush_deferred_indexer_out E)"
  by (auto simp: replies_def flush_deferred_indexer_out_def session_of_def upd_session_def bnd_apply act_simps)

lemma replies_requests:
  assumes "client_takes_all E"
  shows "replies_one E (answer_requests E rs batch url source)"
proof -
  have "replies_none E (for_each (answer_request E url source) rs [])"
    unfolding answer_request_def
    by (rule replies_mute; intro mute_rules mute_one errorless_rules)
       (auto intro!: mute_rules errorless_rules split: res.split)
  then show ?thesis
    unfolding answer_requests_def
    by (intro replies_after [OF replies_quiet(6)] replies_after [of E "for_each f x y" for f x y]
        replies_then_quiet [OF replies_responses [OF assms]] replies_flush) simp_all
qed

lemma replies_parsed:
  assumes "client_takes_all E"
  shows "replies_one E (answer_parsed E line url source)"
  unfolding answer_parsed_def
  by (auto intro!: replies_requests replies_take replies_after [OF replies_quiet(4)] replies_write assms
      replies_panic split: res.split list.split option.split)

lemma replies_steps:
  assumes "client_takes_all E"
  shows "replies E id (answer_handshake E line)" "replies E id (answer_instant_tip E line url source)"
    "replies E id (answer_broadcast E line source)"
proof -
  show "replies E id (answer_handshake E line)"
    unfolding answer_handshake_def
    by (auto intro!: replies_ret replies_after [OF replies_quiet(1)]
        replies_then_ret [OF replies_responses [OF assms]] split: option.split)
  show "replies E id (answer_instant_tip E line url source)"
    unfolding answer_instant_tip_def session_virtual_tip_def cached_tip_reply_def spawn_chain_tip_refresh_def
    by (auto intro!: replies_ret replies_after [OF replies_quiet(6)] replies_after [OF replies_quiet(1)]
        replies_after [OF replies_quiet(3)] replies_then_ret [OF replies_write [OF assms]]
        split: option.split list.split)
  show "replies E id (answer_broadcast E line source)"
    unfolding answer_broadcast_def
    by (auto intro!: replies_ret replies_after [OF replies_quiet(4)] replies_then_ret [OF replies_take(1)]
        replies_then_ret [OF replies_take(2)] assms split: option.split)
qed

lemma replies_line:
  assumes "client_takes_all E" "trim line \<noteq> []"
  shows "replies_one E (process_client_line E line url source)"
proof -
  have "replies_none E (log_incoming_client_line line)"
    unfolding log_incoming_client_line_def by (auto intro: replies_quiet replies_ret)
  then show ?thesis
    unfolding process_client_line_def using assms(2)
    by (auto intro!: replies_after [OF replies_quiet(6)] replies_unless replies_steps replies_parsed
        replies_after [of E "log_incoming_client_line line"] assms(1))
qed


definition asks :: "bytes \<Rightarrow> bool" where
  "asks b \<longleftrightarrow> trim (line_text b) \<noteq> []"

lemma replies_serve: "client_takes_all E \<Longrightarrow> replies E (\<lambda>_. asks b) (serve_one E source b)"
proof (cases "asks b")
  case True
  then show "client_takes_all E \<Longrightarrow> ?thesis"
    unfolding serve_one_def
    by (auto intro!: replies_after [OF replies_quiet(1)] replies_line simp: asks_def)
next
  case False
  then have "process_client_line E (line_text b) url source = ret ()" for url
    by (simp add: asks_def process_client_line_def)
  then show ?thesis
    unfolding serve_one_def using False
    by (auto intro!: replies_after [OF replies_quiet(1)] intro: replies_ret)
qed

lemma serve_all_replies:
  assumes "client_takes_all E" "se_deferred (cn_session c) = []" "serve_all E source ls c = (r, d)"
    "\<forall>p. r \<noteq> Panic p"
  shows "r = Ok () \<and> se_deferred (cn_session d) = [] \<and>
    (\<exists>vs. length vs = length (filter asks ls) \<and> cn_out d = cn_out c @ concat (map (reply_line E) vs))"
  using assms(2-4) unfolding serve_all_def
proof (induction ls arbitrary: c)
  case (Cons b ls)
  obtain r1 c1 where one: "serve_one E source b c = (r1, c1)" by (cases "serve_one E source b c")
  note o = repliesD [OF replies_serve [OF assms(1)] Cons.prems(1) one]
  show ?case
  proof (cases r1)
    case (Ok x)
    then have "for_each (\<lambda>b _. serve_one E source b) ls () c1 = (r, d)"
      using Cons.prems(2) one by (simp add: bnd_apply)
    then obtain vs where vs: "r = Ok ()" "se_deferred (cn_session d) = []"
      "length vs = length (filter asks ls)" "cn_out d = cn_out c1 @ concat (map (reply_line E) vs)"
      using Cons.IH [of c1] o Ok Cons.prems(3) by auto
    show ?thesis
    proof (cases "asks b")
      case True
      then obtain v where "cn_out c1 = cn_out c @ reply_line E v" using o Ok by auto
      then show ?thesis using vs True by (intro conjI exI [of _ "v # vs"]) simp_all
    next
      case False
      then show ?thesis using vs o Ok by auto
    qed
  qed (use o one Cons.prems in \<open>auto simp: bnd_apply\<close>)
qed (simp add: act_simps)

lemma filter_serving_order: "length (filter P (serving_order E ls)) = length (filter P ls)"
  by (induction ls) (simp_all add: serving_order_def)

end
