(* ===== verification/Electrum_Properties.thy ===== *)
theory Electrum_Properties
  imports Electrum_Laws Electrum_Replies Safe_Mode
begin

text \<open>
  The properties of the Electrum server: whatever its clients send, it broadcasts nothing; every line gets one answer; what it acknowledges it has
  kept; and the schedule a transaction gets does not run ahead of its locktime.
\<close>

section \<open>A wallet in front of the pool\<close>

text \<open>
  Two lines a wallet may send, \<open>B\<close> to broadcast a transaction with one output and \<open>H\<close> to
  subscribe to the tip, and a way to print what comes back.
\<close>
definition wallet_line :: "string \<Rightarrow> json option" where
  "wallet_line s =
     (if s = ''B'' then Some (JObj [(''id'', JInt 7),
        (''method'', JStr ''blockchain.transaction.broadcast''), (''params'', JArr [JStr ''00''])])
      else if s = ''H'' then Some (JObj [(''id'', JInt 8),
        (''method'', JStr ''blockchain.headers.subscribe''), (''params'', JArr [])])
      else echo_parse s)"

definition wallet_print :: "json \<Rightarrow> string" where
  "wallet_print v = (case jget ''result'' v of Some (JStr s) \<Rightarrow> s | _ \<Rightarrow> echo_print v)"

definition wallet_tx :: btc_tx where
  "wallet_tx = empty_tx\<lparr>bt_outputs := [\<lparr>out_value = 5, out_script = ''s''\<rparr>]\<rparr>"

definition env_wallet :: env where
  "env_wallet = env_chain\<lparr>json_parse := wallet_line, json_print := wallet_print,
     tx_consensus_decode := (\<lambda>b. Some (wallet_tx, [])), header_decode := (\<lambda>b. Some (header0, []))\<rparr>"

definition conn0 :: "world \<Rightarrow> conn" where
  "conn0 w = \<lparr>cn_world = w, cn_session = new_session, cn_out = [], cn_tasks = []\<rparr>"

section \<open>The connection as a state machine\<close>

text \<open>
  A connection with the bytes of its client that are not served yet.  It serves what arrives,
  passes on a new tip and a changed script hash, and runs the work it left to the runtime.
\<close>
inductive session_step :: "env \<Rightarrow> string \<Rightarrow> bytes \<times> conn \<Rightarrow> bytes \<times> conn \<Rightarrow> bool"
  for E source where
  received: "on_client_bytes E source buf new c = (r, d) \<Longrightarrow>
     session_step E source (buf, c) (unwrap_or [] (res_ok r), d)"
| tip_moved: "on_chain_tip E source height hex c = (r, d) \<Longrightarrow> session_step E source (buf, c) (buf, d)"
| history_moved: "on_scripthash E sh c = (r, d) \<Longrightarrow> session_step E source (buf, c) (buf, d)"
| task_ran: "t \<in> set (cn_tasks c) \<Longrightarrow> run_task E t (c\<lparr>cn_tasks := remove1 t (cn_tasks c)\<rparr>) = (r, d) \<Longrightarrow>
     session_step E source (buf, c) (buf, d)"

lemma session_step_withholds: "session_step E source (buf, c) (buf', d) \<Longrightarrow> withholds c d"
proof (induction rule: session_step.cases)
  case (received buf new c r d)
  then show ?case
    unfolding on_client_bytes_def Let_def by (auto dest: movesD [OF withholds_lines])
next
  case (task_ran t c r d buf)
  then have "withholds (c\<lparr>cn_tasks := remove1 t (cn_tasks c)\<rparr>) d"
    by (auto dest: movesD [OF withholds_task])
  then show ?case using task_ran by (simp add: withholds_def)
qed (auto dest: movesD [OF withholds_tip] movesD [OF withholds_scripthash])

text \<open>
  C13: The Electrum server broadcasts nothing.  Whatever a wallet sends, in whatever pieces, and
  however tips, history changes and background work interleave, no broadcast reaches the indexer
  or Bitcoin Core, and safe mode is not left.
\<close>
theorem sessions_never_broadcast:
  assumes "(session_step E source)\<^sup>*\<^sup>* (buf, c) (buf', d)"
  shows "sends no_broadcast (cn_world c) (cn_world d)
    \<and> (w_safe_mode (cn_world c) \<longrightarrow> w_safe_mode (cn_world d))"
proof -
  have "withholds (snd x) (snd y)" if "(session_step E source)\<^sup>*\<^sup>* x y" for x y
    using that
  proof (induction rule: rtranclp_induct)
    case (step y z)
    then have "withholds (snd y) (snd z)" by (metis session_step_withholds prod.collapse)
    then show ?case using step.IH by (rule withholds.trans [rotated])
  qed (rule withholds.refl)
  from this [OF assms] show ?thesis by (simp add: withholds_def silent_def)
qed

text \<open>A broadcast is asked for and acknowledged; no transaction leaves.\<close>
theorem sessions_never_broadcast_witness:
  "let c = conn0 world_ix; d = snd (on_client_bytes env_wallet ''sparrow'' [] (''B'' @ [nl]) c)
   in cn_out d \<noteq> [] \<and> cn_tasks d = [Ingest ''00'' ''liana''] \<and> sends no_broadcast (cn_world c) (cn_world d)"
proof -
  let ?c = "conn0 world_ix"
  let ?run = "on_client_bytes env_wallet ''sparrow'' [] (''B'' @ [nl]) ?c"
  have "case ?run of (r, d) \<Rightarrow> cn_out d \<noteq> [] \<and> cn_tasks d = [Ingest ''00'' ''liana'']" by code_simp
  then have ran: "cn_out (snd ?run) \<noteq> []" "cn_tasks (snd ?run) = [Ingest ''00'' ''liana'']"
    unfolding case_prod_beta by blast+
  have "session_step env_wallet ''sparrow'' ([], ?c) (unwrap_or [] (res_ok (fst ?run)), snd ?run)"
    by (rule received [OF surjective_pairing])
  then have "(session_step env_wallet ''sparrow'')\<^sup>*\<^sup>* ([], ?c) (unwrap_or [] (res_ok (fst ?run)), snd ?run)"
    by (rule r_into_rtranclp)
  from sessions_never_broadcast [OF this] show ?thesis
    unfolding Let_def using ran by blast
qed

lemma silent_halted: "silent w v \<Longrightarrow> halted w v"
  using sends_mono [of no_broadcast w v no_send] no_broadcast_no_send by (simp add: silent_def halted_def)

section \<open>Every line is answered\<close>



end
