(* ===== verification/Electrum_Listener.thy ===== *)
theory Electrum_Listener
  imports Electrum_Properties Scheduler_Loops "HOL-Library.Multiset"
begin

text \<open>
  How the Electrum server starts and takes connections (\<open>src/src/electrum_server/mod.rs\<close>):
  the warm-up of the cached tip, the listeners, the thread that accepts and the task that starts
  a session for each connection; then the helpers of the file that only feed the log, and those
  that nothing calls.
\<close>

section \<open>Start\<close>

text \<open>The seconds before an attempt of the warm-up, and its thirty attempts.\<close>
definition warm_up_delay :: "nat \<Rightarrow> int" where
  "warm_up_delay k = (if k = 1 then 1 else 10)"

definition warm_up_attempt :: "env \<Rightarrow> nat \<Rightarrow> unit \<Rightarrow> unit flow wact" where
  "warm_up_attempt E k u =
     bnd (gets resolve_live_indexer_url) (\<lambda>url.
     if url = [] then ret (Continue ())
     else bnd (spawn_blocking (bnd (warm_chain_tip_cache E url) (\<lambda>_. gets (\<lambda>w. w_chain_tip w \<noteq> None)))) (\<lambda>r.
       ret (if r = Ok True then Break () else Continue ())))"

definition warm_up :: "env \<Rightarrow> unit wact" where
  "warm_up E = for_loop (warm_up_attempt E) [1 ..< 31] ()"

text \<open>The address and the label of each listener.\<close>
definition electrum_listeners :: "config \<Rightarrow> (string \<times> string) list" where
  "electrum_listeners c =
     (let host = es_host (cf_electrum c); addr = (\<lambda>p. host @ '':'' @ show_u16 p) in
      (addr (es_port (cf_electrum c)), ''sparrow'')
      # (case liana_port (cf_electrum c) of None \<Rightarrow> [] | Some p \<Rightarrow> [(addr p, ''liana'')]))"

section \<open>Accepting\<close>

text \<open>
  One listener: the connections accepted, those in the channel to the dispatcher (64 at most),
  the sessions started, the connections given up, and the pauses of the thread.
\<close>
record listener =
  li_source :: string
  li_accepted :: "string list"
  li_queue :: "string list"
  li_sessions :: "(string \<times> string \<times> session) list"
  li_dropped :: "string list"
  li_slept_ms :: "int list"
  li_stopped :: bool

definition channel_capacity :: nat where
  "channel_capacity = 64"

definition new_listener :: "string \<Rightarrow> bool \<Rightarrow> listener" where
  "new_listener source bound = \<lparr>li_source = source, li_accepted = [], li_queue = [], li_sessions = [],
     li_dropped = [], li_slept_ms = [], li_stopped = \<not> bound\<rparr>"

datatype accept_result = Accepted string | WouldBlock | AcceptFailed err

text \<open>
  A turn of the accept loop.  \<open>None\<close>: the channel is full, and the thread waits for room.  An
  accepted connection finds the channel closed when its dispatcher is gone, which ends the loop.
\<close>
definition on_accept :: "bool \<Rightarrow> accept_result \<Rightarrow> listener \<Rightarrow> listener option" where
  "on_accept gone r l = (case r of
       Accepted peer \<Rightarrow>
         if gone then Some (l\<lparr>li_accepted := li_accepted l @ [peer], li_dropped := li_dropped l @ [peer],
           li_stopped := True\<rparr>)
         else if length (li_queue l) < channel_capacity
         then Some (l\<lparr>li_accepted := li_accepted l @ [peer], li_queue := li_queue l @ [peer]\<rparr>)
         else None
     | WouldBlock \<Rightarrow> Some (l\<lparr>li_slept_ms := li_slept_ms l @ [50]\<rparr>)
     | AcceptFailed e \<Rightarrow> Some (l\<lparr>li_slept_ms := li_slept_ms l @ [100]\<rparr>))"

text \<open>A turn of the dispatcher: the next connection gets a session of its own, or is given up.\<close>
definition on_dispatch :: "unit res \<Rightarrow> listener \<Rightarrow> listener option" where
  "on_dispatch from_std l = (case li_queue l of
       [] \<Rightarrow> None
     | peer # rest \<Rightarrow> Some (case from_std of
           Ok _ \<Rightarrow> l\<lparr>li_queue := rest, li_sessions := li_sessions l @ [(peer, li_source l, new_session)]\<rparr>
         | _ \<Rightarrow> l\<lparr>li_queue := rest, li_dropped := li_dropped l @ [peer]\<rparr>))"

inductive listener_step :: "listener \<Rightarrow> listener \<Rightarrow> bool" where
  accepting: "\<not> li_stopped l \<Longrightarrow> on_accept gone r l = Some m \<Longrightarrow> listener_step l m"
| dispatching: "on_dispatch from_std l = Some m \<Longrightarrow> listener_step l m"

inductive_cases listener_stepE: "listener_step l m"

text \<open>Every accepted connection is in the channel, in a session, or given up; none twice.\<close>
definition listener_ok :: "string \<Rightarrow> listener \<Rightarrow> bool" where
  "listener_ok source l \<longleftrightarrow> li_source l = source \<and> length (li_queue l) \<le> channel_capacity
     \<and> mset (li_accepted l) = mset (li_queue l) + mset (map fst (li_sessions l)) + mset (li_dropped l)
     \<and> (\<forall>s \<in> set (li_sessions l). snd s = (source, new_session))"

lemma listener_step_ok: "listener_step l m \<Longrightarrow> listener_ok source l \<Longrightarrow> listener_ok source m"
  by (erule listener_stepE)
     (auto simp: listener_ok_def on_accept_def on_dispatch_def channel_capacity_def
       split: accept_result.splits if_splits list.splits res.splits)

lemma listener_reach_ok:
  assumes "listener_step\<^sup>*\<^sup>* (new_listener source bound) l"
  shows "listener_ok source l"
  using assms
proof (induction rule: rtranclp_induct)
  case base
  show ?case by (simp add: listener_ok_def new_listener_def)
qed (rule listener_step_ok)

section \<open>Other helpers\<close>

text \<open>The time limit of a request to the indexer, in seconds.\<close>
definition indexer_forward_timeout :: "string \<Rightarrow> int" where
  "indexer_forward_timeout m =
     (if starts_with m ''blockchain.scripthash.'' then 8
      else if m = ''blockchain.transaction.get'' then 5 else 3)"

definition peek_line_methods :: "env \<Rightarrow> string \<Rightarrow> string list option" where
  "peek_line_methods E line = opt_bind (json_parse E (trim line)) (\<lambda>v. case as_array v of
       Some items \<Rightarrow> Some (List.map_filter (\<lambda>item. opt_bind (jget ''method'' item) as_str) items)
     | None \<Rightarrow> map_option (\<lambda>m. [m]) (opt_bind (jget ''method'' v) as_str))"

text \<open>The methods of the requests of a line that parses are those the log shows.\<close>
lemma request_method: "request_of_json (JObj kvs) = Some r \<Longrightarrow> opt_bind (jget ''method'' (JObj kvs)) as_str = Some (rq_method r)"
  by (cases "map_of kvs ''method''"; cases "map_of kvs ''id''")
     (auto simp: request_of_json_def request_of_fields_def opt_bind_def split: option.splits)

definition quick_locktime_hint :: "env \<Rightarrow> string \<Rightarrow> string" where
  "quick_locktime_hint E hex = (case opt_bind (hex_decode E (trim hex)) (tx_consensus_decode E) of
       None \<Rightarrow> ''?''
     | Some (tx, _) \<Rightarrow>
         let n = bt_lock_time tx in
         if n = 0 then ''0 (manual/immediate)''
         else if n > 500000000 then show_int (uint n) @ '' (timestamp)''
         else show_int (uint n) @ '' (block height)'')"

definition log_disconnect_summary :: "session \<Rightarrow> string \<Rightarrow> string option" where
  "log_disconnect_summary s source =
     (if source \<noteq> ''sparrow'' then None
      else if se_intercepted s then Some ''broadcast received''
      else if se_rpc_lines s > 3 then Some ''without any broadcast RPC'' else None)"

section \<open>Code that nothing calls\<close>

definition is_line_end :: "char \<Rightarrow> bool" where
  "is_line_end c \<longleftrightarrow> c = nl \<or> c = CHR 0x00"

definition find_message_end :: "bytes \<Rightarrow> nat" where
  "find_message_end data =
     (if list_ex is_line_end data then length (takeWhile (\<lambda>c. \<not> is_line_end c) data) + 1 else 0)"

definition trim_message_end :: "bytes \<Rightarrow> bytes" where
  "trim_message_end data = rev (dropWhile (\<lambda>c. c = nl \<or> c = CHR 0x0D \<or> c = CHR 0x00) (rev data))"

definition parse_json_rpc :: "env \<Rightarrow> bytes \<Rightarrow> (client_request \<times> nat) option res" where
  "parse_json_rpc E data =
     (let trimmed = trim_message_end data;
          parsed = (\<lambda>s. map_option (\<lambda>r. (r, length data)) (opt_bind (json_parse E s) request_of_json))
      in if trimmed = [] then Ok None
         else if utf8_valid E trimmed then Ok (parsed trimmed)
         else let remaining = dropWhile (\<lambda>c. c \<noteq> CHR ''{'') trimmed in
           Ok (if remaining \<noteq> [] \<and> utf8_valid E remaining then parsed remaining else None))"

definition notify_subscribed_pending_mempool :: "env \<Rightarrow> string list \<Rightarrow> string \<Rightarrow> unit cact" where
  "notify_subscribed_pending_mempool E subscribed txid_hint =
     for_each (\<lambda>sh _.
       bnd (gets (\<lambda>c. pending_txids_for (cn_world c) sh)) (\<lambda>known.
       let pending = (if txid_hint \<in> set known then known else known @ [txid_hint]) in
       case compute_modified_status_hash E [] pending of
         None \<Rightarrow> ret ()
       | Some hash \<Rightarrow>
           bnd (check_slice 16 sh) (\<lambda>_.
           bnd (check_slice 16 txid_hint) (\<lambda>_.
           write_json_rpc_response E (JObj [(''jsonrpc'', JStr ''2.0''),
             (''method'', JStr ''blockchain.scripthash.subscribe''),
             (''params'', JArr [JStr sh, JStr hash])]))))) subscribed ()"

text \<open>The first message of the data ends where \<open>find_message_end\<close> says.\<close>
lemma message_end:
  "find_message_end data = n \<Longrightarrow> 0 < n \<Longrightarrow> n \<le> length data \<and> is_line_end (data ! (n - 1))
     \<and> (\<forall>k < n - 1. \<not> is_line_end (data ! k))"
proof -
  assume n: "find_message_end data = n" "0 < n"
  let ?t = "takeWhile (\<lambda>c. \<not> is_line_end c) data"
  have ex: "list_ex is_line_end data" and n': "n = length ?t + 1"
    using n by (auto simp: find_message_end_def split: if_splits)
  have "?t @ dropWhile (\<lambda>c. \<not> is_line_end c) data = data" by simp
  moreover have "dropWhile (\<lambda>c. \<not> is_line_end c) data \<noteq> []"
    using ex by (simp add: list_ex_iff)
  ultimately have less: "length ?t < length data"
    by (metis length_append length_greater_0_conv less_add_same_cancel1)
  have "\<not> is_line_end (data ! k)" if "k < length ?t" for k
    using that takeWhile_nth [OF that] set_takeWhileD [OF nth_mem [OF that]] by simp
  then show ?thesis using n' less nth_length_takeWhile [OF less] by simp
qed

text \<open>A message that parses takes all the data with it, also what follows its end.\<close>
lemma parse_takes_all: "parse_json_rpc E data = Ok (Some (r, n)) \<Longrightarrow> n = length data"
  by (auto simp: parse_json_rpc_def Let_def split: if_splits)

end
