(* ===== verification/Indexer_Transport.thy ===== *)
theory Indexer_Transport
  imports Indexer_Url Electrum_Session
begin

text \<open>
  The connections to the indexer below the request level: \<open>src/src/rpc/indexer_transport.rs\<close>,
  and \<open>connect_indexer\<close> and \<open>forward_to_indexer_sync\<close> of
  \<open>src/src/electrum_server/mod.rs\<close>.  Which certificates are accepted, how a reply line is
  read from a stream that delivers it in pieces, and what happens when a peer never ends it.
\<close>

section \<open>The network\<close>

text \<open>
  How the certificate of a server is checked, and the name it is checked against.  Resolving
  names, sockets and the TLS handshake are the operating system's and the crates': functions of
  the number of the connection, and for a read also of the number of the read.
\<close>

datatype cert_check = AcceptAnyCert | WebPkiRoots

datatype tls_name = IpAddress string | DnsName string

datatype transport_stream = Plain | Tls cert_check tls_name

record net =
  resolve_at :: "nat \<Rightarrow> string \<Rightarrow> string list res"
  tcp_late_at :: "nat \<Rightarrow> bool"
  tcp_connect_at :: "nat \<Rightarrow> string \<Rightarrow> int \<Rightarrow> unit res"
  set_timeouts_at :: "nat \<Rightarrow> int \<Rightarrow> int \<Rightarrow> unit res"
  dns_name_ok :: "string \<Rightarrow> bool"
  tls_setup_at :: "nat \<Rightarrow> cert_check \<Rightarrow> tls_name \<Rightarrow> unit res"
  tls_handshake_at :: "nat \<Rightarrow> cert_check \<Rightarrow> tls_name \<Rightarrow> unit res"
  write_all_at :: "nat \<Rightarrow> transport_stream \<Rightarrow> bytes \<Rightarrow> unit res"
  flush_at :: "nat \<Rightarrow> transport_stream \<Rightarrow> unit res"
  read_at :: "nat \<Rightarrow> transport_stream \<Rightarrow> nat \<Rightarrow> bytes res"

section \<open>Hosts\<close>

definition strip_scheme :: "string \<Rightarrow> string" where
  "strip_scheme url = unwrap_or url (or_else (strip_prefix url ''tcp://'') (strip_prefix url ''ssl://''))"

text \<open>One part of a dotted address: at most three digits, no leading zero, at most 255.\<close>
definition is_octet :: "string \<Rightarrow> bool" where
  "is_octet s \<longleftrightarrow> all_digits s \<and> length s \<le> 3 \<and> digits_val s \<le> 255 \<and> (hd s = CHR ''0'' \<longrightarrow> length s = 1)"

text \<open>
  \<open>host.parse::<IpAddr>().is_ok()\<close>.  The host is what stands before the first colon, so
  it is never an IPv6 address.
\<close>
definition parses_as_ip :: "string \<Rightarrow> bool" where
  "parses_as_ip host \<longleftrightarrow> length (split_on (CHR ''.'') host) = 4 \<and> list_all is_octet (split_on (CHR ''.'') host)"

definition host_of_addr :: "string \<Rightarrow> string" where
  "host_of_addr addr = takeWhile (\<lambda>c. c \<noteq> CHR '':'') addr"

definition tls_config_for_host :: "string \<Rightarrow> cert_check" where
  "tls_config_for_host host = (if parses_as_ip host then AcceptAnyCert else WebPkiRoots)"

definition server_name :: "net \<Rightarrow> string \<Rightarrow> tls_name res" where
  "server_name N host =
     (if parses_as_ip host then Ok (IpAddress host)
      else if dns_name_ok N host then Ok (DnsName host)
      else Err [''Invalid TLS server name: invalid dns name''])"

text \<open>Two seconds where the indexer is on the same machine, five elsewhere.\<close>
definition connect_timeout_secs :: "env \<Rightarrow> int" where
  "connect_timeout_secs E =
     (if env_flag E ''BROADCAST_POOL_UMBREL''
        \<or> (case env_var E ''APP_ELECTRS_NODE_IP'' of None \<Rightarrow> False
           | Some v \<Rightarrow> trim v \<noteq> [] \<and> \<not> str_contains v ''${'')
      then 2 else 5)"

definition resolve_socket_addr :: "net \<Rightarrow> nat \<Rightarrow> string \<Rightarrow> string res" where
  "resolve_socket_addr N n addr =
     res_bind (with_context (''Could not resolve indexer address ('' @ addr @ '')'') (resolve_at N n addr))
       (\<lambda>socks. some_or (''No address resolved for indexer ('' @ addr @ '')'')
          (case socks of [] \<Rightarrow> None | s # _ \<Rightarrow> Some s))"

section \<open>One request on a connection of its own\<close>

definition connect_stream :: "env \<Rightarrow> net \<Rightarrow> nat \<Rightarrow> string \<Rightarrow> transport_stream res" where
  "connect_stream E N n url =
     (let addr = strip_scheme url; host = host_of_addr addr in
      res_bind (resolve_socket_addr N n addr) (\<lambda>sock.
      res_bind (with_context (''TCP connect failed ('' @ addr @ '')'')
        (tcp_connect_at N n sock (connect_timeout_secs E))) (\<lambda>_.
      res_bind (set_timeouts_at N n 15 10) (\<lambda>_.
      if starts_with url ''ssl://'' then
        res_bind (server_name N host) (\<lambda>sn.
        res_bind (with_context ''TLS client setup failed''
          (tls_setup_at N n (tls_config_for_host host) sn)) (\<lambda>_.
        Ok (Tls (tls_config_for_host host) sn)))
      else Ok Plain))))"

text \<open>
  Read until a newline has come or the peer has closed.  \<open>None\<close> is a read that never ends:
  nothing bounds the length of a reply.
\<close>
partial_function (option) read_until_newline ::
  "(bytes \<Rightarrow> err \<Rightarrow> bytes res) \<Rightarrow> (nat \<Rightarrow> bytes res) \<Rightarrow> nat \<Rightarrow> bytes \<Rightarrow> bytes res option" where
  "read_until_newline on_err reads k response =
     (case reads k of
        Err e \<Rightarrow> Some (on_err response e)
      | Panic p \<Rightarrow> Some (Panic p)
      | Ok b \<Rightarrow>
          if b = [] then Some (Ok response)
          else if nl \<in> set (response @ b) then Some (Ok (response @ b))
          else read_until_newline on_err reads (Suc k) (response @ b))"

definition read_json_line :: "env \<Rightarrow> (nat \<Rightarrow> bytes res) \<Rightarrow> string res option" where
  "read_json_line E reads =
     map_option (\<lambda>r. res_bind r (\<lambda>b. if utf8_valid E b then Ok b
         else Err [''Invalid UTF-8 from indexer'', ''utf8'']))
       (read_until_newline (\<lambda>_ e. Err (''Read from indexer failed'' # e)) reads 0 [])"

definition send_request :: "env \<Rightarrow> net \<Rightarrow> nat \<Rightarrow> string \<Rightarrow> string \<Rightarrow> string res option" where
  "send_request E N n url request =
     (case res_bind (connect_stream E N n url) (\<lambda>s.
           res_bind (with_context ''Write to indexer failed'' (write_all_at N n s (request @ [nl])))
             (\<lambda>_. Ok s)) of
        Ok s \<Rightarrow> read_json_line E (read_at N n s)
      | Err e \<Rightarrow> Some (Err e)
      | Panic p \<Rightarrow> Some (Panic p))"

section \<open>The connections of the Electrum server\<close>

text \<open>\<open>forward_to_indexer_sync\<close>: every failure is \<open>None\<close>, and a reply cut short counts.\<close>
definition sync_stream :: "net \<Rightarrow> nat \<Rightarrow> string \<Rightarrow> transport_stream res" where
  "sync_stream N n url =
     (let addr = strip_scheme url; host = host_of_addr addr in
      res_bind (resolve_socket_addr N n addr) (\<lambda>sock.
      res_bind (tcp_connect_at N n sock 3) (\<lambda>_.
      res_bind (set_timeouts_at N n 30 5) (\<lambda>_.
      if starts_with url ''ssl://'' then
        res_bind (server_name N host) (\<lambda>sn.
        res_bind (tls_setup_at N n WebPkiRoots sn) (\<lambda>_.
        Ok (Tls WebPkiRoots sn)))
      else Ok Plain))))"

definition sync_exchange :: "env \<Rightarrow> net \<Rightarrow> nat \<Rightarrow> string \<Rightarrow> string \<Rightarrow> string option option" where
  "sync_exchange E N n request url =
     (case res_bind (sync_stream N n url) (\<lambda>s.
           res_bind (write_all_at N n s (request @ [nl])) (\<lambda>_. Ok s)) of
        Ok s \<Rightarrow> map_option (\<lambda>r. opt_bind (res_ok r) (\<lambda>b. if utf8_valid E b then Some b else None))
          (read_until_newline (\<lambda>response _. Ok response) (read_at N n s) 0 [])
      | _ \<Rightarrow> Some None)"

text \<open>\<open>connect_indexer\<close> of the subscription relay: the connect resolves the name itself.\<close>
definition connect_indexer :: "net \<Rightarrow> nat \<Rightarrow> string \<Rightarrow> transport_stream res" where
  "connect_indexer N n url =
     (let addr = strip_indexer_host url; host = host_of_addr addr in
      res_bind (if tcp_late_at N n then Err [''TCP connect to indexer timed out ('' @ addr @ '')'']
        else with_context (''TCP connect to indexer failed ('' @ addr @ '')'')
          (tcp_connect_at N n addr 3)) (\<lambda>_.
      if starts_with url ''ssl://'' then
        res_bind (server_name N host) (\<lambda>sn.
        res_bind (tls_handshake_at N n WebPkiRoots sn) (\<lambda>_.
        Ok (Tls WebPkiRoots sn)))
      else Ok Plain))"

section \<open>Which certificates are accepted\<close>

lemma server_name_ok: "server_name N host = Ok sn \<Longrightarrow> (sn = IpAddress host \<longleftrightarrow> parses_as_ip host)"
  by (auto simp: server_name_def split: if_splits)

text \<open>
  C30: An unverified certificate is accepted only from a server that is given as a literal
  address: a connection made under \<open>ssl://\<close> with a host name checks the name against the
  web roots, whatever the network does, and without \<open>ssl://\<close> there is no TLS.
\<close>
theorem names_are_verified:
  assumes "connect_stream E N n url = Ok s"
  shows "case s of
      Plain \<Rightarrow> \<not> starts_with url ''ssl://''
    | Tls check sn \<Rightarrow> starts_with url ''ssl://''
        \<and> (check = AcceptAnyCert \<longleftrightarrow> parses_as_ip (host_of_addr (strip_scheme url)))
        \<and> (check = WebPkiRoots \<longrightarrow> sn = DnsName (host_of_addr (strip_scheme url)))"
  using assms
  by (auto simp: connect_stream_def Let_def res_bind_Ok_iff tls_config_for_host_def server_name_def
      split: if_splits)

section \<open>Reading a reply\<close>

lemma read_pieces:
  assumes "\<And>i. i < length bs \<Longrightarrow> reads (k + i) = Ok (bs ! i)" "\<forall>b \<in> set bs. b \<noteq> []"
    and "concat bs = u @ [nl]" "nl \<notin> set u" "nl \<notin> set acc"
  shows "read_until_newline f reads k acc = Some (Ok (acc @ u @ [nl]))"
  using assms
proof (induction bs arbitrary: k acc u)
  case (Cons b bs)
  have b: "reads k = Ok b" "b \<noteq> []" using Cons.prems(1) [of 0] Cons.prems(2) by auto
  show ?case
  proof (cases "nl \<in> set b")
    case True
    from Cons.prems(3) have "b @ concat bs = u @ [nl]" by simp
    then have "concat bs = []"
      using True Cons.prems(4) by (auto simp: append_eq_append_conv2 append_eq_Cons_conv Cons_eq_append_conv)
    then have "b = u @ [nl]" using \<open>b @ concat bs = u @ [nl]\<close> by (metis append_Nil2)
    then show ?thesis using b by (subst read_until_newline.simps) simp
  next
    case False
    then obtain u' where u': "u = b @ u'"
      using Cons.prems(3) by (auto simp: append_eq_append_conv2 append_eq_Cons_conv Cons_eq_append_conv)
    then have "concat bs = u' @ [nl]" using Cons.prems(3) by simp
    note u' = this u'
    have "read_until_newline f reads (Suc k) (acc @ b) = Some (Ok ((acc @ b) @ u' @ [nl]))"
    proof (rule Cons.IH)
      show "reads (Suc k + i) = Ok (bs ! i)" if "i < length bs" for i
        using Cons.prems(1) [of "Suc i"] that by simp
    qed (use Cons.prems False u' in auto)
    then show ?thesis using b False Cons.prems(5) u'(2) by (subst read_until_newline.simps) simp
  qed
qed simp

text \<open>
  C31: A reply line is read whole however the network cuts it: when the bytes that arrive in
  any number of pieces form one line and its newline, \<open>send_request\<close> returns exactly them.
\<close>
theorem reply_read_whole:
  assumes "connect_stream E N n url = Ok s" "write_all_at N n s (request @ [nl]) = Ok ()"
    and "\<forall>k < length pieces. read_at N n s k = Ok (pieces ! k)" "\<forall>b \<in> set pieces. b \<noteq> []"
    and "concat pieces = line @ [nl]" "nl \<notin> set line" "utf8_valid E (line @ [nl])"
  shows "send_request E N n url request = Some (Ok (line @ [nl]))"
  using assms read_pieces [of pieces "read_at N n s" 0 line "[]"]
  by (simp add: send_request_def read_json_line_def)

text \<open>A peer that keeps sending and never ends the line.\<close>
definition drips :: "(nat \<Rightarrow> bytes res) \<Rightarrow> bool" where
  "drips reads \<longleftrightarrow> (\<forall>k. \<exists>b. reads k = Ok b \<and> b \<noteq> [] \<and> nl \<notin> set b)"

lemma drip_stuck:
  "read_until_newline f reads k acc = Some r \<Longrightarrow> drips reads \<Longrightarrow> nl \<in> set acc"
proof (rule read_until_newline.raw_induct
    [where P = "\<lambda>f reads k acc r. drips reads \<longrightarrow> nl \<in> set acc", THEN mp])
  fix g f' reads' k' acc' r'
  assume IH: "\<And>f reads k acc r. g f reads k acc = Some r \<Longrightarrow> drips reads \<longrightarrow> nl \<in> set acc"
    and eq: "(case reads' k' of
        Ok b \<Rightarrow> if b = [] then Some (Ok acc')
          else if nl \<in> set (acc' @ b) then Some (Ok (acc' @ b)) else g f' reads' (Suc k') (acc' @ b)
      | Err e \<Rightarrow> Some (f' acc' e) | Panic p \<Rightarrow> Some (Panic p)) = Some r'"
  show "drips reads' \<longrightarrow> nl \<in> set acc'"
  proof
    assume d: "drips reads'"
    then obtain b where "reads' k' = Ok b" "b \<noteq> []" "nl \<notin> set b" unfolding drips_def by blast
    then show "nl \<in> set acc'" using eq IH [of f' reads' "Suc k'" "acc' @ b" r'] d
      by (auto split: if_splits)
  qed
qed

text \<open>Such a peer holds the request for ever: the time limit of 15 seconds is for each read.\<close>
lemma drip_holds_request:
  assumes "connect_stream E N n url = Ok s" "write_all_at N n s (request @ [nl]) = Ok ()"
    and "drips (read_at N n s)"
  shows "send_request E N n url request = None"
  using assms drip_stuck [of _ "read_at N n s" 0 "[]"]
  by (cases "read_until_newline (\<lambda>_ e. Err (''Read from indexer failed'' # e)) (read_at N n s) 0 []")
     (simp_all add: send_request_def read_json_line_def)

text \<open>
  The Electrum server checks every certificate against the web roots, also that of a literal
  address, for which \<open>connect_stream\<close> accepts any: with an \<open>ssl://\<close> indexer on the
  LAN the two never ask the crate for the same check.
\<close>
lemma tls_policies_differ:
  assumes "connect_stream E N n url = Ok (Tls c sn)" "parses_as_ip (host_of_addr (strip_scheme url))"
  shows "c = AcceptAnyCert" "sync_stream N n url \<noteq> Ok (Tls c sn')" "connect_indexer N n url \<noteq> Ok (Tls c sn')"
  using assms
  by (auto simp: connect_stream_def sync_stream_def connect_indexer_def Let_def res_bind_Ok_iff
      tls_config_for_host_def split: if_splits)

section \<open>A network\<close>

text \<open>A server on 10.0.0.5 that answers in three pieces, behind TLS.\<close>
definition net0 :: net where
  "net0 = \<lparr>resolve_at = (\<lambda>n a. Ok [a]), tcp_late_at = (\<lambda>n. False), tcp_connect_at = (\<lambda>n a t. Ok ()),
     set_timeouts_at = (\<lambda>n r w. Ok ()), dns_name_ok = (\<lambda>h. h \<noteq> []), tls_setup_at = (\<lambda>n c sn. Ok ()),
     tls_handshake_at = (\<lambda>n c sn. if c = WebPkiRoots then Err [''UnknownIssuer''] else Ok ()),
     write_all_at = (\<lambda>n s b. Ok ()), flush_at = (\<lambda>n s. Ok ()),
     read_at = (\<lambda>n s k. Ok (if k = 0 then ''{'' else if k = 1 then ''}'' else [nl]))\<rparr>"

theorem names_are_verified_witness:
  "connect_stream env0 net0 0 ''ssl://fulcrum:50002'' = Ok (Tls WebPkiRoots (DnsName ''fulcrum''))
   \<and> connect_stream env0 net0 0 ''ssl://10.0.0.5:50002'' = Ok (Tls AcceptAnyCert (IpAddress ''10.0.0.5''))
   \<and> \<not> parses_as_ip (host_of_addr (strip_scheme ''ssl://fulcrum:50002''))"
proof -
  have c: "connect_stream env0 net0 0 ''ssl://fulcrum:50002'' = Ok (Tls WebPkiRoots (DnsName ''fulcrum''))"
    "connect_stream env0 net0 0 ''ssl://10.0.0.5:50002'' = Ok (Tls AcceptAnyCert (IpAddress ''10.0.0.5''))"
    by code_simp+
  from names_are_verified [OF c(1)] have "\<not> parses_as_ip (host_of_addr (strip_scheme ''ssl://fulcrum:50002''))"
    by simp
  then show ?thesis using c by blast
qed

theorem reply_read_whole_witness:
  "send_request env0 net0 0 ''ssl://10.0.0.5:50002'' ''{}'' = Some (Ok (''{}'' @ [nl]))"
proof (rule reply_read_whole [where pieces = "[''{'', ''}'', [nl]]"])
  show "connect_stream env0 net0 0 ''ssl://10.0.0.5:50002'' = Ok (Tls AcceptAnyCert (IpAddress ''10.0.0.5''))"
    by code_simp
  show "\<forall>k < length [''{'', ''}'', [nl]]. read_at net0 0 (Tls AcceptAnyCert (IpAddress ''10.0.0.5'')) k
      = Ok ([''{'', ''}'', [nl]] ! k)"
    by (auto simp: net0_def less_Suc_eq nth_Cons split: nat.splits)
qed (simp_all add: net0_def env0_def)

end
