(* ===== verification/Indexer_Relay.thy ===== *)
theory Indexer_Relay
  imports Indexer_Transport Electrum_Server Electrum_Laws
begin

text \<open>
  \<open>run_indexer_subscription_relay\<close> of \<open>src/src/electrum_server/mod.rs\<close>: the one
  lasting connection to the indexer, on which every script hash a wallet cares about is
  subscribed, and whose notifications are passed on to the wallet sessions.  The task is a
  state machine: it dials, and while it is connected it takes a tick of its timer or a line of
  the indexer, in any order; a panic ends it.
\<close>

section \<open>State\<close>

text \<open>The connection: what it subscribed, the id of the next request, the lines written.\<close>
record link =
  lk_url :: string
  lk_stream :: transport_stream
  lk_subscribed :: "string list"
  lk_next_id :: u64
  lk_lines :: "json list"

text \<open>The task, with the seconds it waits after a failed connect and the waits it made.\<close>
record relay =
  rl_world :: world
  rl_backoff :: int
  rl_link :: "link option"
  rl_slept :: "int list"

type_synonym 'a ract = "(relay, 'a) act"

definition in_relay :: "'a wact \<Rightarrow> 'a ract" where
  "in_relay m = (\<lambda>r. case m (rl_world r) of (x, v) \<Rightarrow> (x, r\<lparr>rl_world := v\<rparr>))"

definition sleep_secs :: "int \<Rightarrow> unit ract" where
  "sleep_secs n = modify (\<lambda>r. r\<lparr>rl_slept := rl_slept r @ [n]\<rparr>)"

definition set_link :: "link option \<Rightarrow> unit ract" where
  "set_link l = modify (\<lambda>r. r\<lparr>rl_link := l\<rparr>)"

definition idle_tick :: int where
  "idle_tick = 5"

definition relay_max_backoff :: int where
  "relay_max_backoff = 60"

definition relay_start :: "world \<Rightarrow> relay" where
  "relay_start w = \<lparr>rl_world = w, rl_backoff = 2, rl_link = None, rl_slept = []\<rparr>"

section \<open>Dialling\<close>

definition new_link :: "string \<Rightarrow> transport_stream \<Rightarrow> link" where
  "new_link url s = \<lparr>lk_url = url, lk_stream = s, lk_subscribed = [], lk_next_id = 1000000, lk_lines = []\<rparr>"

definition relay_dial :: "net \<Rightarrow> unit ract" where
  "relay_dial N =
     bnd (gets (\<lambda>r. resolve_live_indexer_url (rl_world r))) (\<lambda>url.
     if url = [] then sleep_secs idle_tick
     else bnd (attempt (in_relay (draw_res (\<lambda>n. connect_indexer N n url)))) (\<lambda>c. case c of
         Ok s \<Rightarrow> modify (\<lambda>r. r\<lparr>rl_backoff := 2, rl_link := Some (new_link url s)\<rparr>)
       | Err e \<Rightarrow>
           bnd (gets rl_backoff) (\<lambda>b.
           bnd (sleep_secs b) (\<lambda>_.
           modify (\<lambda>r. r\<lparr>rl_backoff := min (b * 2) relay_max_backoff\<rparr>)))
       | Panic p \<Rightarrow> lift_res (Panic p)))"

text \<open>After the inner loop ends: the connection is dropped, and a second passes.\<close>
definition relay_hang_up :: "unit ract" where
  "relay_hang_up = bnd (set_link None) (\<lambda>_. sleep_secs 1)"

section \<open>A tick\<close>

definition subscribe_line :: "string \<Rightarrow> u64 \<Rightarrow> json" where
  "subscribe_line sh i = rpc_request ''blockchain.scripthash.subscribe'' (JArr [JStr sh]) i"

definition write_line :: "env \<Rightarrow> net \<Rightarrow> link \<Rightarrow> json \<Rightarrow> unit ract" where
  "write_line E N l v = in_relay (draw_res (\<lambda>n. write_all_at N n (lk_stream l) (json_print E v @ [nl])))"

definition subscription :: "string \<Rightarrow> string \<Rightarrow> outmsg" where
  "subscription url sh = ToIndexer url ''blockchain.scripthash.subscribe'' (JArr [JStr sh])"

text \<open>One script hash of the set, unless it is subscribed already; the flag says that a write failed.\<close>
definition subscribe_one :: "env \<Rightarrow> net \<Rightarrow> string \<Rightarrow> link \<times> bool \<Rightarrow> (link \<times> bool) flow ract" where
  "subscribe_one E N sh acc = (case acc of (l, _) \<Rightarrow>
     if sh \<in> set (lk_subscribed l) then ret (Continue (l, False))
     else
       let line = subscribe_line sh (lk_next_id l); l = l\<lparr>lk_next_id := lk_next_id l + 1\<rparr> in
       bnd (attempt (write_line E N l line)) (\<lambda>r. case r of
           Ok _ \<Rightarrow>
             bnd (in_relay (put_outbox (subscription (lk_url l) sh))) (\<lambda>_.
             ret (Continue (l\<lparr>lk_subscribed := lk_subscribed l @ [sh], lk_lines := lk_lines l @ [line]\<rparr>, False)))
         | Err e \<Rightarrow> ret (Break (l, True))
         | Panic p \<Rightarrow> lift_res (Panic p)))"

definition relay_tick :: "env \<Rightarrow> net \<Rightarrow> link \<Rightarrow> unit ract" where
  "relay_tick E N l =
     bnd (gets (\<lambda>r. w_watched (rl_world r))) (\<lambda>wanted.
     bnd (for_loop (subscribe_one E N) wanted (l, False)) (\<lambda>(l, failed).
     if failed then relay_hang_up
     else bnd (attempt (in_relay (draw_res (\<lambda>n. flush_at N n (lk_stream l))))) (\<lambda>r. case r of
         Ok _ \<Rightarrow> set_link (Some l)
       | Err e \<Rightarrow> relay_hang_up
       | Panic p \<Rightarrow> lift_res (Panic p))))"

section \<open>A line of the indexer\<close>

text \<open>Only a notification means a change: an answer to a subscription has no method.\<close>
definition scripthash_from_notification :: "env \<Rightarrow> string \<Rightarrow> string option" where
  "scripthash_from_notification E line =
     opt_bind (json_parse E (trim line)) (\<lambda>msg.
     opt_bind (opt_bind (jget ''method'' msg) as_str) (\<lambda>method.
     if method \<noteq> ''blockchain.scripthash.subscribe'' then None
     else opt_bind (opt_bind (opt_bind (jget ''params'' msg) as_array) (\<lambda>xs. jidx 0 (JArr xs))) (\<lambda>v.
       opt_bind (as_str v) (\<lambda>sh. if sh = [] then None else Some sh))))"

text \<open>\<open>Ok None\<close> is the end of the stream.  The log line slices the script hash at byte 16.\<close>
definition relay_line :: "env \<Rightarrow> string option res \<Rightarrow> unit ract" where
  "relay_line E line = (case line of
       Ok (Some text) \<Rightarrow> (case scripthash_from_notification E text of
           None \<Rightarrow> ret ()
         | Some sh \<Rightarrow>
             if char_boundary sh (min 16 (length sh)) then in_relay (announce_scripthash_change sh)
             else lift_res (Panic ''byte index is not a char boundary''))
     | Ok None \<Rightarrow> relay_hang_up
     | Err e \<Rightarrow> relay_hang_up
     | Panic p \<Rightarrow> lift_res (Panic p))"

section \<open>The task\<close>

text \<open>What the rest of the process does to the shared state meanwhile is left open.\<close>
inductive relay_step :: "env \<Rightarrow> net \<Rightarrow> relay \<Rightarrow> relay \<Rightarrow> bool" for E N where
  dialled: "rl_link r = None \<Longrightarrow> relay_dial N r = (Ok u, s) \<Longrightarrow> relay_step E N r s"
| ticked: "rl_link r = Some l \<Longrightarrow> relay_tick E N l r = (Ok u, s) \<Longrightarrow> relay_step E N r s"
| heard: "rl_link r = Some l \<Longrightarrow> relay_line E line r = (Ok u, s) \<Longrightarrow> relay_step E N r s"
| elsewhere: "relay_step E N r (r\<lparr>rl_world := w\<rparr>)"

inductive_cases relay_stepE: "relay_step E N r s"

section \<open>What a connection has subscribed\<close>

text \<open>One request per script hash, each under an id of its own, in the order of the lines.\<close>
definition link_ok :: "link \<Rightarrow> bool" where
  "link_ok l \<longleftrightarrow> distinct (lk_subscribed l)
     \<and> lk_next_id l = 1000000 + of_nat (length (lk_subscribed l))
     \<and> lk_lines l = map (\<lambda>(k, sh). subscribe_line sh (1000000 + of_nat k)) (enumerate 0 (lk_subscribed l))"

lemma link_ok_new: "link_ok (new_link url s)"
  by (simp add: link_ok_def new_link_def)

lemma link_ok_more:
  assumes "link_ok l" "sh \<notin> set (lk_subscribed l)"
  shows "link_ok (l\<lparr>lk_next_id := lk_next_id l + 1, lk_subscribed := lk_subscribed l @ [sh],
    lk_lines := lk_lines l @ [subscribe_line sh (lk_next_id l)]\<rparr>)"
  using assms by (simp add: link_ok_def enumerate_append_eq)

text \<open>The state after the requests for \<open>new\<close>.\<close>
definition asked :: "string \<Rightarrow> string list \<Rightarrow> relay \<Rightarrow> relay \<Rightarrow> bool" where
  "asked url new r s \<longleftrightarrow> (\<exists>n. s = r\<lparr>rl_world := (rl_world r)\<lparr>w_clock := n,
     w_outbox := w_outbox (rl_world r) @ map (subscription url) new\<rparr>\<rparr>)"

lemma asked_refl: "asked url [] r r"
  by (auto simp: asked_def intro!: exI [of _ "w_clock (rl_world r)"])

lemma asked_trans: "asked url xs r s \<Longrightarrow> asked url ys s t \<Longrightarrow> asked url (xs @ ys) r t"
  by (auto simp: asked_def)

lemma asked_proj:
  assumes "asked url new r s"
  shows "rl_backoff s = rl_backoff r" "rl_link s = rl_link r" "rl_slept s = rl_slept r"
    "w_outbox (rl_world s) = w_outbox (rl_world r) @ map (subscription url) new"
  using assms by (auto simp: asked_def)

lemma write_line_apply: "write_line E N l v r =
    (write_all_at N (w_clock (rl_world r)) (lk_stream l) (json_print E v @ [nl]), r\<lparr>rl_world := tick (rl_world r)\<rparr>)"
  by (simp add: write_line_def in_relay_def act_simps)

lemma in_relay_outbox: "in_relay (put_outbox m) r =
    (Ok (), r\<lparr>rl_world := (rl_world r)\<lparr>w_outbox := w_outbox (rl_world r) @ [m]\<rparr>\<rparr>)"
  by (simp add: in_relay_def act_simps)

lemma subscribe_one_run:
  assumes "subscribe_one E N sh (l, b) r = (Ok (Continue (l', b')), s)" "link_ok l"
  shows "link_ok l' \<and> \<not> b' \<and> lk_url l' = lk_url l
    \<and> (\<exists>new. lk_subscribed l' = lk_subscribed l @ new \<and> set new = {sh} - set (lk_subscribed l)
         \<and> asked (lk_url l) new r s)"
proof (cases "sh \<in> set (lk_subscribed l)")
  case True
  then show ?thesis using assms by (auto simp: subscribe_one_def act_simps intro!: exI [of _ "[]"] asked_refl)
next
  case False
  let ?l = "l\<lparr>lk_next_id := lk_next_id l + 1, lk_subscribed := lk_subscribed l @ [sh],
    lk_lines := lk_lines l @ [subscribe_line sh (lk_next_id l)]\<rparr>"
  have "(l', b') = (?l, False) \<and> s = r\<lparr>rl_world := (tick (rl_world r))
      \<lparr>w_outbox := w_outbox (rl_world r) @ [subscription (lk_url l) sh]\<rparr>\<rparr>"
    using assms(1) False
    by (cases "write_all_at N (w_clock (rl_world r)) (lk_stream l)
          (json_print E (subscribe_line sh (lk_next_id l)) @ [nl])")
       (simp_all add: subscribe_one_def Let_def bnd_apply attempt_apply ret_apply lift_res_apply write_line_apply
        in_relay_outbox tick_def)
  then have eq: "l' = ?l" "b' = False" "asked (lk_url l) [sh] r s"
    by (auto simp: asked_def tick_def)
  show ?thesis
    unfolding eq(1,2) using False link_ok_more [OF assms(2) False] eq(3)
    by (intro conjI exI [of _ "[sh]"]) auto
qed

lemma subscribe_loop:
  assumes "for_loop (subscribe_one E N) wanted (l, b) r = (Ok (l', False), s)" "link_ok l"
  shows "link_ok l' \<and> lk_url l' = lk_url l
    \<and> (\<exists>new. lk_subscribed l' = lk_subscribed l @ new \<and> set new = set wanted - set (lk_subscribed l)
         \<and> asked (lk_url l) new r s)"
  using assms
proof (induction wanted arbitrary: l b r)
  case (Cons sh wanted)
  obtain f t where one: "subscribe_one E N sh (l, b) r = (Ok f, t)"
    and rest: "(case f of Continue acc \<Rightarrow> for_loop (subscribe_one E N) wanted acc | Break acc \<Rightarrow> ret acc) t
      = (Ok (l', False), s)"
    using Cons.prems(1) by (auto simp: bnd_Ok_iff)
  show ?case
  proof (cases f)
    case (Continue acc)
    obtain l1 b1 where acc: "acc = (l1, b1)" by (cases acc)
    obtain xs where xs: "link_ok l1" "lk_url l1 = lk_url l" "lk_subscribed l1 = lk_subscribed l @ xs"
      "set xs = {sh} - set (lk_subscribed l)" "asked (lk_url l) xs r t"
      using subscribe_one_run [OF one [unfolded Continue acc] Cons.prems(2)] by blast
    obtain ys where ys: "link_ok l'" "lk_url l' = lk_url l1" "lk_subscribed l' = lk_subscribed l1 @ ys"
      "set ys = set wanted - set (lk_subscribed l1)" "asked (lk_url l1) ys t s"
      using Cons.IH rest xs(1) unfolding Continue acc flow.case by blast
    show ?thesis
      using xs ys asked_trans [OF xs(5), of ys s] by (intro conjI exI [of _ "xs @ ys"]) auto
  next
    case (Break acc)
    then show ?thesis
      using one rest
      by (auto simp: act_simps subscribe_one_def Let_def bnd_apply attempt_apply split: if_splits prod.splits res.splits)
  qed
qed (auto simp: act_simps intro!: exI [of _ "[]"] asked_refl)

section \<open>Invariant of the task\<close>

definition relay_ok :: "relay \<Rightarrow> bool" where
  "relay_ok r \<longleftrightarrow> 2 \<le> rl_backoff r \<and> rl_backoff r \<le> relay_max_backoff
     \<and> (\<forall>l. rl_link r = Some l \<longrightarrow> link_ok l)"

text \<open>What a tick leaves: no connection, or one on which everything watched is subscribed.\<close>
definition covered :: "link \<Rightarrow> relay \<Rightarrow> relay \<Rightarrow> bool" where
  "covered l r s \<longleftrightarrow> (\<exists>l' new. rl_link s = Some l' \<and> link_ok l' \<and> lk_subscribed l' = lk_subscribed l @ new
     \<and> set new = set (w_watched (rl_world r)) - set (lk_subscribed l)
     \<and> w_outbox (rl_world s) = w_outbox (rl_world r) @ map (subscription (lk_url l)) new)"

lemma hang_up_apply: "relay_hang_up r = (Ok (), r\<lparr>rl_link := None, rl_slept := rl_slept r @ [1]\<rparr>)"
  by (simp add: relay_hang_up_def set_link_def sleep_secs_def bnd_apply act_simps)

lemma relay_tick_run:
  assumes "relay_tick E N l r = (Ok u, s)" "link_ok l" "rl_link r = Some l"
  shows "rl_link s = None \<or> covered l r s"
proof -
  obtain l' failed t where loop: "for_loop (subscribe_one E N) (w_watched (rl_world r)) (l, False) r = (Ok (l', failed), t)"
    and rest: "(if failed then relay_hang_up
       else bnd (attempt (in_relay (draw_res (\<lambda>n. flush_at N n (lk_stream l'))))) (\<lambda>r. case r of
           Ok _ \<Rightarrow> set_link (Some l')
         | Err e \<Rightarrow> relay_hang_up
         | Panic p \<Rightarrow> lift_res (Panic p))) t = (Ok u, s)"
    using assms(1) by (auto simp: relay_tick_def bnd_Ok_iff act_simps)
  show ?thesis
  proof (cases failed)
    case True
    then show ?thesis using rest by (auto simp: hang_up_apply)
  next
    case False
    obtain new where new: "link_ok l'" "lk_subscribed l' = lk_subscribed l @ new"
      "set new = set (w_watched (rl_world r)) - set (lk_subscribed l)" "asked (lk_url l) new r t"
      using subscribe_loop [OF loop [unfolded False[THEN eq_False [THEN iffD2]]] assms(2)] by blast
    show ?thesis
    proof (cases "flush_at N (w_clock (rl_world t)) (lk_stream l')")
      case (Ok x)
      then have "s = t\<lparr>rl_world := tick (rl_world t), rl_link := Some l'\<rparr>"
        using rest False by (simp add: bnd_apply attempt_apply in_relay_def act_simps set_link_def)
      then have "rl_link s = Some l'" "w_outbox (rl_world s) = w_outbox (rl_world t)" by (simp_all add: tick_def)
      then have "covered l r s" using new asked_proj(4) [OF new(4)] by (auto simp: covered_def)
      then show ?thesis ..
    qed (use rest False in \<open>auto simp: bnd_apply attempt_apply in_relay_def act_simps hang_up_apply\<close>)
  qed
qed

lemma backoff_step:
  "2 \<le> b \<Longrightarrow> b \<le> relay_max_backoff \<Longrightarrow> 2 \<le> min (b * 2) relay_max_backoff \<and> min (b * 2) relay_max_backoff \<le> relay_max_backoff"
  by (simp add: relay_max_backoff_def)

lemma relay_dial_ok:
  assumes "relay_dial N r = (Ok u, s)" "relay_ok r" "rl_link r = None"
  shows "relay_ok s"
proof -
  let ?url = "resolve_live_indexer_url (rl_world r)"
  show ?thesis
    by (cases "connect_indexer N (w_clock (rl_world r)) ?url"; insert assms)
       (auto simp: relay_dial_def bnd_apply attempt_apply act_simps in_relay_def sleep_secs_def relay_ok_def
          link_ok_new relay_max_backoff_def split: if_splits)
qed

lemma relay_line_ok:
  assumes "relay_line E line r = (Ok u, s)" "relay_ok r"
  shows "relay_ok s"
proof (cases line)
  case (Ok x)
  show ?thesis
  proof (cases x)
    case None
    then show ?thesis using assms Ok by (auto simp: relay_line_def hang_up_apply relay_ok_def)
  next
    case (Some t)
    then show ?thesis using assms Ok
      by (auto simp: relay_line_def relay_ok_def in_relay_def announce_scripthash_change_def act_simps
          split: option.splits if_splits)
  qed
qed (use assms in \<open>auto simp: relay_line_def hang_up_apply relay_ok_def act_simps\<close>)

definition same_backoff :: "relay \<Rightarrow> relay \<Rightarrow> bool" where
  "same_backoff r s \<longleftrightarrow> rl_backoff s = rl_backoff r"

interpretation backoff: act_rel same_backoff
  by unfold_locales (auto simp: same_backoff_def)

lemma backoff_in_relay: "moves same_backoff (in_relay m)"
  by (auto simp: moves_def in_relay_def same_backoff_def split: prod.split)

lemma backoff_modify: "(\<And>r. rl_backoff (f r) = rl_backoff r) \<Longrightarrow> moves same_backoff (modify f)"
  by (simp add: moves_def act_simps same_backoff_def)

lemmas backoff_rules = backoff.rules backoff_in_relay backoff_modify

lemma relay_tick_backoff: "moves same_backoff (relay_tick E N l)"
  unfolding relay_tick_def subscribe_one_def relay_hang_up_def set_link_def sleep_secs_def write_line_def Let_def
  by (auto intro!: backoff_rules split: prod.split res.split)

lemma relay_step_ok:
  assumes "relay_step E N r s" "relay_ok r"
  shows "relay_ok s"
  using assms
proof cases
  case (ticked l u)
  then show ?thesis
    using assms(2) relay_tick_run [OF ticked(2)] movesD [OF relay_tick_backoff ticked(2)]
    by (auto simp: relay_ok_def covered_def same_backoff_def)
next
  case (elsewhere w)
  then show ?thesis using assms(2) by (simp add: relay_ok_def)
qed (use assms(2) in \<open>blast intro: relay_dial_ok relay_line_ok\<close>)+

lemma relay_reach_ok:
  assumes "(relay_step E N)\<^sup>*\<^sup>* (relay_start w) r"
  shows "relay_ok r"
  using assms
proof (induction rule: rtranclp_induct)
  case base
  show ?case by (simp add: relay_ok_def relay_start_def relay_max_backoff_def)
qed (rule relay_step_ok)

text \<open>
  C29: The relay watches everything wallets watch, once.  However ticks, lines, failed dials and
  changes of the shared state came before, a tick that keeps the connection has asked for every
  watched script hash that was not subscribed on it and for nothing else, each in one request
  under its own id; and the wait between failed dials stays between two seconds and a minute.
\<close>
theorem relay_covers_watched:
  assumes "(relay_step E N)\<^sup>*\<^sup>* (relay_start w) r" "rl_link r = Some l"
    and "relay_tick E N l r = (Ok u, s)" "rl_link s = Some l'"
  shows "set (w_watched (rl_world r)) \<subseteq> set (lk_subscribed l')
    \<and> (\<exists>new. lk_subscribed l' = lk_subscribed l @ new
         \<and> set new = set (w_watched (rl_world r)) - set (lk_subscribed l)
         \<and> w_outbox (rl_world s) = w_outbox (rl_world r) @ map (subscription (lk_url l)) new)
    \<and> distinct (lk_subscribed l')
    \<and> lk_lines l' = map (\<lambda>(k, sh). subscribe_line sh (1000000 + of_nat k)) (enumerate 0 (lk_subscribed l'))
    \<and> 2 \<le> rl_backoff s \<and> rl_backoff s \<le> 60"
proof -
  have ok: "relay_ok r" by (rule relay_reach_ok [OF assms(1)])
  then have "covered l r s" using relay_tick_run [OF assms(3) _ assms(2)] assms(2,4)
    by (auto simp: relay_ok_def)
  then show ?thesis
    using assms(4) ok movesD [OF relay_tick_backoff assms(3)]
    by (auto simp: covered_def link_ok_def relay_ok_def same_backoff_def relay_max_backoff_def)
qed

section \<open>What the relay announces\<close>

text \<open>A line is announced exactly when it is a notification; no other field of the process changes.\<close>
lemma relay_line_announces:
  assumes "relay_line E (Ok (Some text)) r = (Ok u, s)"
  shows "rl_world s = (rl_world r)\<lparr>w_sh_events := w_sh_events (rl_world r)
    @ (case scripthash_from_notification E text of None \<Rightarrow> [] | Some sh \<Rightarrow> [sh])\<rparr>"
  using assms
  by (auto simp: relay_line_def in_relay_def announce_scripthash_change_def act_simps split: option.splits if_splits)

lemma response_is_no_notification:
  "json_parse E (trim line) = Some v \<Longrightarrow> jget ''method'' v = None \<Longrightarrow> scripthash_from_notification E line = None"
  by (simp add: scripthash_from_notification_def)

text \<open>
  A notification whose script hash has a character across byte 16 panics: the task ends, is not
  restarted, and nothing of the indexer is passed on any more.
\<close>
lemma long_character_ends_relay:
  assumes "scripthash_from_notification E text = Some sh" "16 < length sh" "code_of (sh ! 16) div 64 = 2"
  shows "relay_line E (Ok (Some text)) r = (Panic ''byte index is not a char boundary'', r)"
  using assms by (simp add: relay_line_def char_boundary_def act_simps)

text \<open>A connection is kept whatever URL is configured later: only its end makes the task dial again.\<close>
lemma relay_keeps_old_url:
  assumes "relay_line E (Ok (Some text)) r = (Ok u, s)"
  shows "rl_link s = rl_link r"
  using assms
  by (auto simp: relay_line_def in_relay_def announce_scripthash_change_def act_simps split: option.splits if_splits)

definition world_relay :: world where
  "world_relay = world0\<lparr>w_watched := [''a'', ''b''],
     w_config := config0\<lparr>cf_indexer := Some \<lparr>ix_url = ''tcp://h:1'', manual_override = False\<rparr>\<rparr>\<rparr>"

theorem relay_covers_watched_witness:
  "let w = world_relay;
       r = snd (relay_dial net0 (relay_start w)); l = the (rl_link r); s = snd (relay_tick env0 net0 l r)
   in rl_link s \<noteq> None \<and> set (w_watched (rl_world r)) \<subseteq> set (lk_subscribed (the (rl_link s)))
     \<and> lk_subscribed (the (rl_link s)) = [''a'', ''b'']"
proof -
  let ?w = world_relay
  let ?r = "snd (relay_dial net0 (relay_start ?w))"
  let ?l = "the (rl_link ?r)"
  let ?s = "snd (relay_tick env0 net0 ?l ?r)"
  have run: "is_ok (fst (relay_dial net0 (relay_start ?w)))" "rl_link ?r \<noteq> None"
    "is_ok (fst (relay_tick env0 net0 ?l ?r))" "rl_link ?s \<noteq> None"
    "lk_subscribed (the (rl_link ?s)) = [''a'', ''b'']"
    by code_simp+
  have "relay_step env0 net0 (relay_start ?w) ?r"
    by (rule dialled [where u = "()"]) (use run(1) in \<open>simp_all add: relay_start_def is_ok_iff prod_eq_iff\<close>)
  moreover obtain u where "relay_tick env0 net0 ?l ?r = (Ok u, ?s)"
    using run(3) by (metis is_ok_iff prod.collapse)
  ultimately show ?thesis
    using relay_covers_watched [of env0 net0 ?w ?r ?l u ?s "the (rl_link ?s)"] run(2,4,5)
    by (auto simp: Let_def)
qed

end
