(* ===== verification/Daemon_Halt.thy ===== *)
theory Daemon_Halt
  imports Electrum_Listener Indexer_Relay Api
begin

text \<open>
  Safe mode over the whole daemon: the pool manager, its background loops, the handlers of the
  HTTP API and the wallet sessions.  Each operation that is not the acknowledgement or the
  rebroadcast keeps the halt; the theorem composes them in any order.
\<close>

section \<open>Finding an indexer\<close>

lemma calls_for_loop:
  "(\<And>x acc. moves (calls_out P) (body x acc)) \<Longrightarrow> moves (calls_out P) (for_loop body xs acc)"
  by (rule calls.step_for_loop)

lemma calls_port_open: "moves (calls_out P) (tcp_port_open E host port)"
  unfolding tcp_port_open_def by (intro calls_rules)

lemma calls_any_port: "moves (calls_out P) (any_port_open E host ports)"
  by (induction ports) (auto intro!: calls_rules calls_port_open)

lemma calls_reachable: "moves (calls_out P) (tcp_reachable_from_url E url)"
  unfolding tcp_reachable_from_url_def by (auto intro!: calls_rules calls_port_open split: option.split)

lemma calls_lan_ip: "moves (calls_out P) (detect_lan_ip E)"
  unfolding detect_lan_ip_def by (auto intro!: calls_rules calls_for_loop split: option.split)

lemma calls_probe_indexer:
  "moves (calls_out no_send) (probe_indexer_url E url net)"
  "moves (calls_out no_send) (indexer_matches_network E url net)"
  unfolding probe_indexer_url_def indexer_matches_network_def
  by (auto intro!: calls_rules calls_reachable calls_probe calls_genesis_matches simp del: probe_working_url.simps)

lemma calls_try_host: "moves (calls_out no_send) (try_host E net host ports)"
  unfolding try_host_def try_url_def
  by (auto intro!: calls_rules calls_for_loop calls_probe_indexer)

lemma calls_hosts_ports: "moves (calls_out no_send) (try_hosts_ports E net hosts ports)"
  unfolding try_hosts_ports_def by (auto intro!: calls_rules calls_for_loop calls_try_host)

lemma calls_resolve_url: "moves (calls_out no_send) (resolve_working_indexer_url E raw net)"
  unfolding resolve_working_indexer_url_def try_host_port_def Let_def
  by (auto intro!: calls_rules calls_probe_indexer calls_try_host split: option.split)

lemma calls_umbrel_node: "moves (calls_out no_send) (discover_umbrel_node_indexer E net)"
  unfolding discover_umbrel_node_indexer_def
  by (auto intro!: calls_rules calls_for_loop calls_resolve_url calls_hosts_ports split: option.split)

lemma calls_first_found:
  "(\<And>x. moves (calls_out P) (f x)) \<Longrightarrow> moves (calls_out P) (first_found f xs)"
  unfolding first_found_def by (auto intro!: calls_rules calls_for_loop)

lemma calls_discover: "moves (calls_out no_send) (discover_indexer_url E net c)"
proof -
  have "moves (calls_out no_send) (scan_subnet_for_indexer E net p ports)" for p ports
    unfolding scan_subnet_for_indexer_def hosts_with_open_ports_on_def
    by (auto intro!: calls_rules calls_any_port calls_hosts_ports)
  moreover have "moves (calls_out no_send) (scan_broader E net p)" for p
    unfolding scan_broader_def hosts_with_broader_ports_subnet_def
    by (auto intro!: calls_rules calls_any_port calls_hosts_ports)
  moreover have "moves (calls_out no_send) (indexer_host_candidates E c)"
    "moves (calls_out no_send) (lan_subnets_to_scan E c)"
    unfolding indexer_host_candidates_def lan_subnets_to_scan_def Let_def
    by (auto intro!: calls_rules calls_lan_ip)
  ultimately show ?thesis
    unfolding discover_indexer_url_def
    by (auto intro!: calls_rules calls_umbrel_node calls_hosts_ports calls_first_found)
qed

lemma calls_apply_discovery: "moves (calls_out no_send) (apply_indexer_discovery E c)"
proof -
  have dv: "moves (calls_out no_send) (discover_or_validate E net c)" for net c
    unfolding discover_or_validate_def
    by (auto intro!: calls_rules calls_discover calls_resolve_url split: option.split)
  have vm: "moves (calls_out no_send) (validate_manual E net c)" for net c
    unfolding validate_manual_def
    by (auto intro!: calls_rules dv calls_resolve_url split: option.split)
  show ?thesis
    unfolding apply_indexer_discovery_def Let_def
    by (auto intro!: calls_rules vm calls_umbrel_node split: prod.split option.split)
qed

lemma halted_reconnect: "moves halted (reconnect_indexer_from_config E)"
  unfolding reconnect_indexer_from_config_def set_indexer_def Let_def
  by (auto intro!: halted_rules halted_modify halted_calls [OF calls_resolve_url])

section \<open>The loops\<close>

lemma halted_spawn: "moves halted m \<Longrightarrow> moves halted (spawn_blocking m)"
  by (intro movesI) (auto dest: movesD simp: spawn_blocking_def split: prod.splits)

lemma quiet_first_complete:
  "\<forall>p \<in> set ps. moves only_clock (snd p) \<Longrightarrow> moves only_clock (first_complete E ps errors)"
  by (induction ps arbitrary: errors) (auto intro!: quiet_rules simp: fresh_snapshot_def split: res.split)

lemma halted_prices: "moves halted (fetch_snapshot E)"
  unfolding fetch_snapshot_def refetch_def lkg_snapshot_def Let_def fetch_fresh_def
  by (auto intro!: halted_rules halted_modify halted_calm [OF calm_quiet [OF quiet_first_complete [OF providers_quiet]]]
      split: option.split res.split prod.split)

lemma halted_archive_key: "moves halted (archive_key E)"
  unfolding archive_key_def by (auto intro!: halted_rules halted_modify split: option.split prod.split)

lemma calm_transaction: "moves calm body \<Longrightarrow> moves calm (transaction E c1 c2 body)"
proof -
  assume body: "moves calm body"
  have rolled: "calm s u \<Longrightarrow> calm s (rollback_to w u)" for s u w
    by (simp add: calm_def rollback_to_def)
  have "moves calm (seq body (with_ctx c2 (sql E (ret ()))))"
    by (intro calm_rules body calm_quiet [OF quiet_sql] quiet_rules)
  then have "moves calm (\<lambda>w. case seq body (with_ctx c2 (sql E (ret ()))) w of
       (Ok u, v) \<Rightarrow> (Ok u, v) | (Err e, v) \<Rightarrow> (Err e, rollback_to w v) | (Panic p, v) \<Rightarrow> (Panic p, rollback_to w v))"
    by (intro movesI) (auto dest!: movesD intro!: rolled split: prod.splits res.splits)
  then show ?thesis
    unfolding transaction_def by (intro calm_rules calm_quiet [OF quiet_sql] quiet_rules)
qed

lemma calm_archive: "moves calm (archive_terminal_older_than E key net cutoff)"
proof -
  have ins: "moves calm (sql_insert_archive E r)" for r
    unfolding sql_insert_archive_def sql_def
    by (intro movesI) (auto simp: calm_def tick_def split: option.splits if_splits)
  have "moves calm (archive_one E key net tx n)" for tx n
    unfolding archive_one_def
    by (auto intro!: calm_rules calm_transaction calm_quiet [OF quiet_seal] ins calm_delete)
  then show ?thesis
    unfolding archive_terminal_older_than_def select_terminal_older_than_def
    by (auto intro!: calm_rules calm_quiet [OF quiet_query_txs])
qed

lemma halted_when_clock: "moves halted m \<Longrightarrow> moves halted (when_clock m x)"
  unfolding when_clock_def by (auto intro!: halted_rules)

lemma halted_broadcast_loop: "moves halted (broadcast_loop_tick E b)"
  unfolding broadcast_loop_tick_def by (rule halted_gated) (intro halted_rules)

lemma halted_height_monitor: "moves halted (height_monitor_tick E)"
  unfolding height_monitor_tick_def height_monitor_work_def mark_block_due_def
  by (auto intro!: halted_rules halted_spawn halted_calm [OF calm_mark_as_due]
      halted_calm [OF calm_quiet [OF quiet_get_pending_by_block_height]] split: option.split)

lemma halted_confirmation_tick: "moves halted (confirmation_tick E)"
  unfolding confirmation_tick_def by (intro halted_rules halted_spawn halted_when_clock halted_confirmations)

lemma halted_price_tick: "moves halted (price_tick E)"
  unfolding price_tick_def fetch_and_check_def
  by (auto intro!: halted_rules halted_prices halted_spawn halted_calm [OF calm_price_triggers] split: res.split)

lemma halted_refresh_tip: "moves halted (refresh_chain_tip_cache E url)"
  using silent_refresh_tip silent_halted by (auto simp: moves_def)

lemma halted_health_tick: "moves halted (health_tick E)"
  unfolding health_tick_def by (intro halted_rules halted_spawn halted_health halted_refresh_tip)

lemma halted_retention: "moves halted (retention_tick E)"
  unfolding retention_tick_def retention_work_def retention_cutoff_def
  by (auto intro!: halted_rules halted_spawn halted_archive_key halted_calm [OF calm_archive] split: option.split)

lemma calls_send_nostr: "moves (calls_out no_send) (send_nostr E cfg ev lang)"
  unfolding send_nostr_def Let_def
  by (auto intro!: calls_rules calls_put calls_quiet [OF quiet_build_client] split: prod.split)

lemma halted_dispatch: "moves halted (dispatch_notification E ev)"
  unfolding dispatch_notification_def deliver_def with_retries_def
  by (auto intro!: halted_rules halted_calls [OF calls_send_nostr])

section \<open>The subscription relay and the start of the Electrum server\<close>

definition relay_halted :: "relay \<Rightarrow> relay \<Rightarrow> bool" where
  "relay_halted r s \<longleftrightarrow> halted (rl_world r) (rl_world s)"

interpretation relay_halted: act_rel relay_halted
  by unfold_locales (auto simp: relay_halted_def halted.refl intro: halted.trans)

lemma relay_halted_in: "moves halted m \<Longrightarrow> moves relay_halted (in_relay m)"
  by (rule movesI) (auto simp: in_relay_def relay_halted_def dest: movesD split: prod.splits)

lemma relay_halted_modify: "(\<And>r. rl_world (f r) = rl_world r) \<Longrightarrow> moves relay_halted (modify f)"
  by (simp add: moves_def act_simps relay_halted_def halted.refl)

lemma halted_subscription: "moves halted (put_outbox (subscription url sh))"
  by (simp add: moves_def act_simps halted_def sends_def subscription_def is_tx_send_def)

lemma halted_announce: "moves halted (announce_scripthash_change sh)"
  unfolding announce_scripthash_change_def by (rule halted_modify) simp_all

lemmas relay_rules = relay_halted.rules relay_halted_modify relay_halted_in halted_subscription halted_announce
  halted_calm [OF calm_quiet [OF quiet_draw_res]]

lemma relay_halts:
  "moves relay_halted (relay_dial N)" "moves relay_halted (relay_tick E N l)" "moves relay_halted (relay_line E line)"
  unfolding relay_dial_def relay_tick_def relay_line_def subscribe_one_def relay_hang_up_def set_link_def
    sleep_secs_def write_line_def Let_def
  by (auto intro!: relay_rules split: prod.split res.split option.split)

lemma halted_warm_up: "moves halted (warm_up E)"
  unfolding warm_up_def warm_up_attempt_def warm_chain_tip_cache_def
  by (auto intro!: halted_rules halted_spawn halted_refresh_tip)

section \<open>The handlers\<close>

lemma halted_api_bnd: "moves halted m \<Longrightarrow> (\<And>x. moves halted (f x)) \<Longrightarrow> moves halted (api_bnd m f)"
  unfolding api_bnd_def by (auto intro!: halted.rules split: sum.split)

lemma halted_api_simple: "moves halted (reject code msg)" "moves halted (answer x)"
  unfolding reject_def answer_def by (intro halted.rules)+

lemma halted_api_call: "moves halted m \<Longrightarrow> moves halted (api_call g m)"
  unfolding api_call_def by (auto intro!: halted.rules split: res.split)

lemma halted_api_blocking: "moves halted m \<Longrightarrow> moves halted (api_blocking g m)"
  unfolding api_blocking_def by (auto intro!: halted.rules halted_spawn split: res.split)

lemmas api_rules = halted_rules halted_api_bnd halted_api_simple halted_api_call halted_api_blocking

lemma halted_config: "moves halted (put_config c)" "moves halted (save_live_config E)"
  "moves halted (reconnect_or_log E)" "moves halted (sanitize_live_config E)"
  unfolding put_config_def save_live_config_def reconnect_or_log_def sanitize_live_config_def
  by (auto intro!: halted_rules halted_modify halted_save halted_reconnect split: prod.split)

lemma halted_wallet_url: "moves halted (wallet_connect_url E c port)"
  unfolding wallet_connect_url_def resolve_lan_host_def
  by (auto intro!: halted_rules halted_calls [OF calls_lan_ip] split: option.split)

lemma halted_response: "moves halted (config_to_response E c changed)"
  unfolding config_to_response_def Let_def by (intro halted_rules halted_wallet_url)

lemma halted_hint: "moves halted (umbrel_indexer_status_hint E c up)"
  unfolding umbrel_indexer_status_hint_def umbrel_electrs_probe_failure_def Let_def
  by (auto intro!: halted_rules halted_calls [OF calls_try_host] split: prod.split)

lemma halted_store_request: "moves halted (store_request E req h c)"
proof -
  have "moves halted (with_identity E d)" "moves halted (check_recipient E n)" for d n
    unfolding with_identity_def check_recipient_def Let_def generate_nsec_def
    by (auto intro!: api_rules)
  then show ?thesis
    unfolding store_request_def Let_def
    by (auto intro!: api_rules halted_config split: prod.split sum.split)
qed

lemma halted_save_config: "moves halted (api_save_config E req)"
  unfolding api_save_config_def Let_def
  by (auto intro!: api_rules halted_config halted_response halted_store_request
      halted_calls [OF calls_apply_discovery] split: prod.split)

lemma halted_get_config: "moves halted (api_get_config E)"
  unfolding api_get_config_def by (intro api_rules halted_config halted_response)

lemma halted_get_stats: "moves halted (get_stats E)"
  unfolding get_stats_def by (intro halted_rules halted_calm [OF calm_quiet [OF quiet_get_pool_stats]])

lemma halted_sql: "moves halted m \<Longrightarrow> moves halted (sql E m)"
proof (rule movesI)
  fix w x v
  assume m: "moves halted m" and "sql E m w = (x, v)"
  then have "v = tick w \<or> m (tick w) = (x, v)" by (auto simp: sql_def split: option.splits)
  moreover have "halted w (tick w)" by (simp add: halted_def sends_def tick_def)
  ultimately show "halted w v" using movesD [OF m] halted.trans by blast
qed

lemma halted_store_values:
  "moves halted (get_config_value E key)" "moves halted (set_config_value E key v)"
  unfolding get_config_value_def set_config_value_def
  by (intro halted_rules halted_sql halted_modify; simp)+

lemma halted_lock:
  "moves halted (password_is_set E)" "moves halted (set_password E p)" "moves halted (unlock E p)"
  "moves halted (is_unlocked E)" "moves halted lock_archive"
  unfolding password_is_set_def set_password_def unlock_def is_unlocked_def lock_archive_def
  by (auto intro!: halted_rules halted_store_values halted_modify split: option.split prod.split)

lemma halted_status: "moves halted (api_status E)"
  unfolding api_status_def
  by (intro api_rules halted_config halted_get_stats halted_wallet_url halted_hint halted_lock)

lemma halted_own_client: "moves halted m \<Longrightarrow> moves halted (with_own_client url m)"
proof (intro movesI)
  fix w x v
  assume m: "moves halted m" and run: "with_own_client url m w = (x, v)"
  then obtain u where u: "m (w\<lparr>w_indexer := Some \<lparr>ec_server = url, ec_resolved = None\<rparr>\<rparr>) = (x, u)"
    "v = u\<lparr>w_indexer := w_indexer w\<rparr>"
    by (auto simp: with_own_client_def split: prod.splits)
  from movesD [OF m u(1)] show "halted w v" by (simp add: halted_def sends_def u(2))
qed

lemma halted_estimate_fee: "moves halted (api_estimate_fee E hex)"
proof -
  have "moves (calls_out no_send) (calculate_tx_fee E hex)"
    unfolding calculate_tx_fee_def Let_def
    by (auto intro!: calls_rules calls_indexer_rpc split: prod.split)
  then show ?thesis
    unfolding api_estimate_fee_def estimate_fee_work_def
    by (auto intro!: api_rules halted_own_client dest: halted_calls split: option.split res.split prod.split)
qed

lemma halted_diagnostics: "moves halted (api_indexer_debug E)"
  unfolding api_indexer_debug_def indexer_diagnostics_def configured_reachable_def read_boot_log_tail_def
  by (auto intro!: api_rules halted_health halted_hint halted_calls [OF calls_resolve_url] split: option.split)

lemma halted_mempool: "moves halted (api_mempool_status E)"
  unfolding api_mempool_status_def get_mempool_status_def Let_def get_node_status_def
    estimate_smart_fee_def get_mempool_floor_def core_blockchain_info_def
  by (auto intro!: api_rules halted_spawn halted_calm [OF calm_quiet [OF quiet_draw_res]] split: option.split)

lemma halted_with_key: "(\<And>k. moves halted (f k)) \<Longrightarrow> moves halted (with_archive_key E f)"
  unfolding with_archive_key_def by (auto intro!: api_rules halted_archive_key split: option.split)

lemma halted_archive_reads: "moves halted (list_archive E net m n)" "moves halted (get_archive_blob E i)"
  unfolding list_archive_def get_archive_blob_def
  by (auto intro!: halted_rules halted_calm [OF calm_quiet [OF quiet_sql]] quiet_rules)

lemma halted_archive_api:
  "moves halted (api_list_archive E m n)" "moves halted (api_archive_item E i)"
  "moves halted (api_archive_flush E)"
  unfolding api_list_archive_def api_archive_item_def api_archive_flush_def
  by (auto intro!: api_rules halted_with_key halted_archive_reads halted_calm [OF calm_archive]
      split: option.split)

lemma halted_api_schedule: "moves halted (api_schedule E i req)"
  unfolding api_schedule_def
  by (auto intro!: api_rules halted_schedule_at halted_schedule_price halted_schedule split: option.split)

lemma halted_api_import: "moves halted (api_import E req)"
  unfolding api_import_def by (auto intro!: api_rules halted_import split: res.split bool.split)

lemma halted_test_notification: "moves halted (api_test_notification E)"
  unfolding api_test_notification_def
  by (auto intro!: api_rules halted_calls [OF calls_send_nostr] split: res.split)

lemma halted_reads_api:
  "moves halted (api_get_stats E)" "moves halted (api_btc_price E)" "moves halted (api_list_transactions E)"
  "moves halted (api_get_transaction E i)"
  unfolding api_get_stats_def api_btc_price_def api_list_transactions_def api_get_transaction_def
  by (intro api_rules halted_get_stats halted_prices halted_list halted_get_transaction)+

lemma halted_changes_api:
  "moves halted (api_remove E i)" "moves halted (api_retry E i)" "moves halted (api_broadcast_now E i)"
  "moves halted (api_archive_set_password E p)" "moves halted (api_archive_unlock E p)"
  "moves halted api_archive_lock"
  unfolding api_remove_def api_retry_def api_broadcast_now_def api_archive_set_password_def
    api_archive_unlock_def api_archive_lock_def
  by (auto intro!: api_rules halted_remove halted_retry halted_broadcast_now halted_lock)

section \<open>The halt\<close>

text \<open>A tick of a background loop, the rebroadcast excepted.\<close>
inductive loop_step :: "env \<Rightarrow> world \<Rightarrow> world \<Rightarrow> bool" for E where
  broadcasting: "broadcast_loop_tick E b w = (b', v) \<Longrightarrow> loop_step E w v"
| heights: "height_monitor_tick E w = (u, v) \<Longrightarrow> loop_step E w v"
| confirming: "confirmation_tick E w = (u, v) \<Longrightarrow> loop_step E w v"
| pricing: "price_tick E w = (u, v) \<Longrightarrow> loop_step E w v"
| polling: "health_tick E w = (u, v) \<Longrightarrow> loop_step E w v"
| retaining: "retention_tick E w = (u, v) \<Longrightarrow> loop_step E w v"
| notifying: "dispatch_notification E ev w = (u, v) \<Longrightarrow> loop_step E w v"

lemma loop_step_halted: "loop_step E w v \<Longrightarrow> halted w v"
  by (induction rule: loop_step.induct)
     (erule movesD [rotated], rule halted_broadcast_loop halted_height_monitor halted_confirmation_tick
       halted_price_tick halted_health_tick halted_retention halted_dispatch)+

text \<open>A request to the HTTP API, the acknowledgement excepted.\<close>
inductive api_step :: "env \<Rightarrow> world \<Rightarrow> world \<Rightarrow> bool" for E where
  stats: "api_get_stats E w = (x1, v) \<Longrightarrow> api_step E w v"
| mempool: "api_mempool_status E w = (x2, v) \<Longrightarrow> api_step E w v"
| btc_price: "api_btc_price E w = (x3, v) \<Longrightarrow> api_step E w v"
| list_txs: "api_list_transactions E w = (x4, v) \<Longrightarrow> api_step E w v"
| get_tx: "api_get_transaction E i w = (x5, v) \<Longrightarrow> api_step E w v"
| import_tx: "api_import E new w = (x5, v) \<Longrightarrow> api_step E w v"
| schedule_tx: "api_schedule E i plan w = (x5, v) \<Longrightarrow> api_step E w v"
| remove_tx: "api_remove E i w = (x6, v) \<Longrightarrow> api_step E w v"
| retry_tx: "api_retry E i w = (x5, v) \<Longrightarrow> api_step E w v"
| send_tx: "api_broadcast_now E i w = (x7, v) \<Longrightarrow> api_step E w v"
| status: "api_status E w = (x8, v) \<Longrightarrow> api_step E w v"
| try_channel: "api_test_notification E w = (x9, v) \<Longrightarrow> api_step E w v"
| get_config: "api_get_config E w = (x10, v) \<Longrightarrow> api_step E w v"
| save_config: "api_save_config E req w = (x10, v) \<Longrightarrow> api_step E w v"
| estimate_fee: "api_estimate_fee E hex w = (x11, v) \<Longrightarrow> api_step E w v"
| diagnose: "api_indexer_debug E w = (x12, v) \<Longrightarrow> api_step E w v"
| choose_password: "api_archive_set_password E p w = (x6, v) \<Longrightarrow> api_step E w v"
| open_archive: "api_archive_unlock E p w = (x13, v) \<Longrightarrow> api_step E w v"
| close_archive: "api_archive_lock w = (x14, v) \<Longrightarrow> api_step E w v"
| list_archived: "api_list_archive E m n w = (x15, v) \<Longrightarrow> api_step E w v"
| get_archived: "api_archive_item E i w = (x16, v) \<Longrightarrow> api_step E w v"
| flush_archive: "api_archive_flush E w = (x17, v) \<Longrightarrow> api_step E w v"

lemma api_step_halted: "api_step E w v \<Longrightarrow> halted w v"
  by (induction rule: api_step.induct)
     (erule movesD [rotated], rule halted_reads_api halted_changes_api halted_mempool halted_api_import
       halted_api_schedule halted_status halted_test_notification halted_get_config halted_save_config
       halted_estimate_fee halted_diagnostics halted_archive_api)+

text \<open>
  The daemon: a method of the pool manager, a loop, a request, the start of the Electrum server,
  the subscription relay, or a connection, on the shared state.
\<close>
inductive process_step :: "env \<Rightarrow> world \<Rightarrow> world \<Rightarrow> bool" for E where
  pool: "pool_step E w v \<Longrightarrow> process_step E w v"
| looped: "loop_step E w v \<Longrightarrow> process_step E w v"
| requested: "api_step E w v \<Longrightarrow> process_step E w v"
| warming: "warm_up E w = (u, v) \<Longrightarrow> process_step E w v"
| dialling: "relay_dial N r = (y, s) \<Longrightarrow> process_step E (rl_world r) (rl_world s)"
| relay_ticked: "relay_tick E N l r = (y, s) \<Longrightarrow> process_step E (rl_world r) (rl_world s)"
| relay_heard: "relay_line E line r = (y, s) \<Longrightarrow> process_step E (rl_world r) (rl_world s)"
| wallet: "session_step E source (buf, c) (buf', d) \<Longrightarrow> process_step E (cn_world c) (cn_world d)"



end
