(* ===== verification/Database_Properties.thy ===== *)
theory Database_Properties
  imports Database_Archive
begin

text \<open>
  The properties of encryption at rest, of the integrity MAC and of the store, with the
  transition system of the writes the pool makes.
\<close>

section \<open>Field encryption\<close>

text \<open>
  C34: A field encrypted at rest reads back as the text that was written when it is read with
  the same key and the same row id, and as an error with any other row id: an encrypted
  column cannot be moved to another row.
\<close>
theorem field_encryption:
  assumes "aead_inverts E" "aead_authenticates E" "hex_inverts E" "nonce_fits E"
    and "utf8_valid E s" "encode_field E key s i w = (Ok c, v)" "j \<noteq> i"
  shows "is_encoded c \<and> decode_field E key c i = Ok s \<and> (\<exists>e. decode_field E key c j = Err e)"
  using is_encoded_encode_field [OF assms(6)] decode_encode [OF assms(1,3-6)]
    decode_encode_other_aad [OF assms(2-4,7,6)] by simp

theorem field_encryption_witness:
  "let c = field_prefix @ hex_enc (replicate 12 (CHR 0x07) @
       frame_encrypt ''k'' (replicate 12 (CHR 0x07)) ''addr'' ''row-1'')
   in is_encoded c \<and> decode_field env0 ''k'' c ''row-1'' = Ok ''addr''
      \<and> (\<exists>e. decode_field env0 ''k'' c ''row-2'' = Err e)"
proof -
  have run: "encode_field env0 ''k'' ''addr'' ''row-1'' world0 =
     (Ok (field_prefix @ hex_enc (replicate 12 (CHR 0x07) @
        frame_encrypt ''k'' (replicate 12 (CHR 0x07)) ''addr'' ''row-1'')), tick world0)"
    by (simp add: encode_field_run env0_def)
  have "utf8_valid env0 ''addr''" by (simp add: env0_def)
  from field_encryption [OF env0_laws(1-4) this run, of "''row-2''"] show ?thesis
    by (simp add: Let_def)
qed

section \<open>The integrity MAC\<close>

text \<open>
  C4: Tampering is detected exactly on the covered columns.  Take a row the pool sealed and
  any row with the same stored MAC, however its other columns were rewritten: reading the
  second one flags it as tampered if and only if one of the ten covered values differs.
\<close>
theorem tamper_detection:
  assumes "mac_collision_free E" "hex_inverts E"
    and "row_sealed E key r" "fields_clean r" "c_row_mac r' = c_row_mac r"
    and "map_broadcast_row E key r' w = (Ok tx, v)"
  shows "t_tampered tx = Some (mac_fields r' \<noteq> mac_fields r)"
proof -
  have "t_tampered tx = Some (\<not> row_sealed E key r')"
    using map_broadcast_row_Ok [OF assms(6)] by (simp add: tx_of_row_def)
  moreover have "row_sealed E key r' \<longleftrightarrow> expected_mac E key r = expected_mac E key r'"
    using assms(3,5) by (auto simp: row_sealed_def)
  ultimately show ?thesis
    using expected_mac_inject [OF assms(1,2,4), of key r'] by auto
qed

theorem tamper_detection_witness:
  "let r = seal0 (row0 ''a'' ''scheduled'' None); r' = r\<lparr>c_status := ''pending''\<rparr>
   in t_tampered (the (res_ok (fst (map_broadcast_row env0 ''k'' r' world0)))) = Some True
      \<and> mac_fields r' \<noteq> mac_fields r"
proof -
  let ?r = "seal0 (row0 ''a'' ''scheduled'' None)"
  let ?r' = "?r\<lparr>c_status := ''pending''\<rparr>"
  have clean: "fields_clean ?r" by code_simp
  have ok: "is_ok (fst (map_broadcast_row env0 ''k'' ?r' world0))" by code_simp
  then obtain tx where run: "map_broadcast_row env0 ''k'' ?r' world0
      = (Ok tx, snd (map_broadcast_row env0 ''k'' ?r' world0))"
    by (metis is_ok_iff prod.collapse)
  have "mac_fields ?r' \<noteq> mac_fields ?r" by code_simp
  then show ?thesis
    using tamper_detection [OF env0_laws(5,3) _ clean _ run] run
    by (simp add: seal0_def row_sealed_def Let_def) (metis fst_conv option.sel res_ok.simps(1))
qed

section \<open>The writes of the pool as a transition system\<close>

text \<open>Rows only disappear.\<close>
definition shrinks :: "world \<Rightarrow> world \<Rightarrow> bool" where
  "shrinks w v \<longleftrightarrow> w_db_key v = w_db_key w \<and> set (w_pool v) \<subseteq> set (w_pool w)
     \<and> (ids_unique w \<longrightarrow> ids_unique v)"

interpretation shrink: act_rel shrinks
  by unfold_locales (auto simp: shrinks_def)

lemma shrinks_clock: "only_clock w v \<Longrightarrow> shrinks w v"
  by (auto simp: shrinks_def ids_unique_def only_clock_proj)

lemma shrinks_filter:
  "w_pool v = filter p (w_pool w) \<Longrightarrow> w_db_key v = w_db_key w \<Longrightarrow> shrinks w v"
  by (auto simp: shrinks_def ids_unique_def distinct_map_filter)

lemma shrinks_delete: "moves shrinks (sql_delete E p)"
  unfolding moves_def sql_delete_def sql_def
  by (auto simp: tick_def shrinks_def ids_unique_def distinct_map_filter split: option.split)

lemma shrinks_remove: "moves shrinks (remove_broadcast_tx E i)"
  unfolding remove_broadcast_tx_def by (intro shrink.rules shrinks_delete)

lemma shrinks_delete_tx: "moves shrinks (delete_broadcast_tx E i)"
  unfolding delete_broadcast_tx_def by (intro shrink.rules shrinks_delete)

text \<open>
  The writes: what returned \<open>Ok\<close>, a recorded miss, a removal, and a read (which moves
  the clock).
\<close>
inductive pool_write :: "env \<Rightarrow> world \<Rightarrow> world \<Rightarrow> bool" for E where
  inserted: "insert_broadcast_tx E tx w = (Ok out, v) \<Longrightarrow> pool_write E w v"
| status_set: "update_tx_status E i st err w = (Ok u, v) \<Longrightarrow> pool_write E w v"
| failed_reset: "reset_failed_to_scheduled E i w = (Ok u, v) \<Longrightarrow> pool_write E w v"
| broadcast: "db_mark_broadcast E i txid fee w = (Ok u, v) \<Longrightarrow> pool_write E w v"
| confirmed: "mark_confirmed E i h w = (Ok u, v) \<Longrightarrow> pool_write E w v"
| rescheduled: "update_reschedule E i at_time defer_to fee w = (Ok u, v) \<Longrightarrow> pool_write E w v"
| price_set: "update_price_schedule E i target cur cond fee w = (Ok u, v) \<Longrightarrow> pool_write E w v"
| due: "mark_due E i w = (Ok u, v) \<Longrightarrow> pool_write E w v"
| price_due: "mark_due_from_price_trigger E i w = (Ok u, v) \<Longrightarrow> pool_write E w v"
| due_at: "mark_due_with_schedule E i t w = (Ok u, v) \<Longrightarrow> pool_write E w v"
| missed: "record_broadcast_miss E i at_time orig w = (r, v) \<Longrightarrow> pool_write E w v"
| removed: "remove_broadcast_tx E i w = (n, v) \<Longrightarrow> pool_write E w v"
| deleted: "delete_broadcast_tx E i w = (d, v) \<Longrightarrow> pool_write E w v"
| read: "only_clock w v \<Longrightarrow> pool_write E w v"

inductive_cases pool_writeE: "pool_write E w v"

definition pool_sealed :: "env \<Rightarrow> world \<Rightarrow> bool" where
  "pool_sealed E w \<longleftrightarrow> ids_unique w \<and> all_sealed E w"

lemma pool_sealed_shrinks: "shrinks w v \<Longrightarrow> pool_sealed E w \<Longrightarrow> pool_sealed E v"
  by (auto simp: pool_sealed_def shrinks_def all_sealed_def)

context row_writer
begin

lemma keeps_pool_sealed: "m w = (Ok u, v) \<Longrightarrow> pool_sealed E w \<Longrightarrow> pool_sealed E v"
  using keeps_all_sealed keeps_ids_unique by (auto simp: pool_sealed_def)

end

lemmas mutators_keep_sealed = update_tx_status.keeps_pool_sealed
  reset_failed.keeps_pool_sealed db_mark_broadcast.keeps_pool_sealed
  mark_confirmed.keeps_pool_sealed update_reschedule.keeps_pool_sealed
  update_price_schedule.keeps_pool_sealed mark_due.keeps_pool_sealed
  mark_due_from_price_trigger.keeps_pool_sealed mark_due_with_schedule.keeps_pool_sealed

lemma pool_sealed_insert:
  assumes "insert_broadcast_tx E tx w = (Ok out, v)" "pool_sealed E w"
  shows "pool_sealed E v"
proof -
  obtain r where r: "w_pool v = w_pool w @ [r]" "c_id r \<notin> set (map c_id (w_pool w))"
    "row_sealed E (w_db_key w) r" and k: "w_db_key v = w_db_key w"
    using insert_broadcast_tx_Ok [OF assms(1)] insert_keeps_key [OF assms(1)] by blast
  then show ?thesis using assms(2) by (auto simp: pool_sealed_def ids_unique_def all_sealed_def)
qed

lemma row_sealed_miss:
  "row_sealed E key (r\<lparr>c_broadcast_missed_at := a, c_original_scheduled_time := b, c_updated_at := c\<rparr>)
     = row_sealed E key r"
  "row_sealed E key (r\<lparr>c_broadcast_missed_at := a, c_updated_at := c\<rparr>) = row_sealed E key r"
  by (simp_all add: row_sealed_def)

lemma pool_sealed_miss:
  assumes "record_broadcast_miss E i at_time orig w = (x, v)" "pool_sealed E w"
  shows "pool_sealed E v"
proof -
  have upd: "pool_sealed E v" if "sql_update E p f w = (y, v)" "pool_sealed E w"
    "\<And>r. c_id (f r) = c_id r" "\<And>r. row_sealed E (w_db_key w) (f r) = row_sealed E (w_db_key w) r"
    for p f y w v
    using that
    by (auto simp: sql_update_def sql_def tick_def pool_sealed_def ids_unique_def all_sealed_def
        set_update_where split: option.splits)
  obtain y v' where "(case orig of
          Some orig \<Rightarrow> sql_update E (\<lambda>r. by_id i r \<and> c_broadcast_missed_at r = None)
            (\<lambda>r. r\<lparr>c_broadcast_missed_at := Some at_time,
                   c_original_scheduled_time := or_else (c_original_scheduled_time r) (Some orig),
                   c_updated_at := to_rfc3339 E (now_at E (w_clock w))\<rparr>)
        | None \<Rightarrow> sql_update E (\<lambda>r. by_id i r \<and> c_broadcast_missed_at r = None)
            (\<lambda>r. r\<lparr>c_broadcast_missed_at := Some at_time,
               c_updated_at := to_rfc3339 E (now_at E (w_clock w))\<rparr>)) (tick w) = (y, v')" "v = v'"
    using assms(1)
    by (auto simp: record_broadcast_miss_def run_simps act_simps split: prod.splits res.splits)
  moreover have "pool_sealed E (tick w)" using assms(2)
    by (simp add: pool_sealed_def all_sealed_def tick_def ids_unique_def)
  ultimately show ?thesis
    by (cases orig) (auto elim!: upd simp: row_sealed_miss)
qed



section \<open>The archive\<close>

lemma archive_run_inv:
  assumes "aead_inverts E" "nonce_fits E" "ids_unique w"
    and run: "archive_terminal_older_than E key net cutoff w = (res, v)"
  shows "archive_inv E key w v"
proof -
  obtain q w1 where sel: "select_terminal_older_than E net cutoff w = (q, w1)"
    by (cases "select_terminal_older_than E net cutoff w")
  have w1: "only_clock w w1"
    using movesD [OF quiet_query_txs sel [unfolded select_terminal_older_than_def]] .
  show ?thesis
  proof (cases q)
    case (Ok txs)
    have "for_each (\<lambda>tx count. archive_one E key net tx count) txs 0 w1 = (res, v)"
      using run sel Ok by (simp add: archive_terminal_older_than_def bnd_apply)
    then show ?thesis
    proof (rule for_each_inv [where P = "archive_inv E key w"])
      show "archive_inv E key w w1" using archive_inv_clock [OF archive_inv_refl w1] .
      fix tx count s x t
      assume tx: "tx \<in> set txs" and s: "archive_inv E key w s"
        and step: "archive_one E key net tx count s = (x, t)"
      obtain r where "r \<in> set (w_pool w)" "c_status r \<in> {''confirmed'', ''failed'', ''broadcast''}"
        "tx_of_row E (w_db_key w) r tx"
        using query_txs_member [OF sel [unfolded Ok select_terminal_older_than_def] tx] by blast
      then show "archive_inv E key w t"
        using archive_inv_step [OF assms(1-3) s step] by blast
    qed
  qed (use run sel w1 archive_inv_clock [OF archive_inv_refl] in
        \<open>auto simp: archive_terminal_older_than_def bnd_apply\<close>)
qed

text \<open>
  C9: A retention run loses no transaction, whatever statement fails: every row of the pool
  is afterwards still in the pool, or it was an intact row in a terminal status and one of
  the archive blobs written by the run opens, with the archive key and its own id, to the
  JSON of that row.  A tampered row always stays, and archive blobs are only added.
\<close>
theorem archive_loses_nothing:
  assumes "aead_inverts E" "nonce_fits E" "ids_unique w"
    and run: "archive_terminal_older_than E key net cutoff w = (res, v)"
    and r: "r \<in> set (w_pool w)"
  shows "(\<exists>added. w_archive v = w_archive w @ added)
    \<and> (r \<in> set (w_pool v) \<or> moved_to_archive E key w v r)
    \<and> (\<not> row_sealed E (w_db_key w) r \<longrightarrow> r \<in> set (w_pool v))"
  using archive_run_inv [OF assms(1-3) run] r by (auto simp: archive_inv_def moved_to_archive_def)

theorem archive_loses_nothing_witness:
  "let w = world0\<lparr>w_pool := [seal0 (row0 ''a'' ''confirmed'' None), row0 ''b'' ''failed'' None]\<rparr>;
       v = snd (archive_terminal_older_than env0 ''x'' ''testnet4'' ''2'' w)
   in map c_id (w_pool v) = [''b''] \<and> moved_to_archive env0 ''x'' w v (seal0 (row0 ''a'' ''confirmed'' None))"
proof -
  let ?a = "seal0 (row0 ''a'' ''confirmed'' None)"
  let ?w = "world0\<lparr>w_pool := [?a, row0 ''b'' ''failed'' None]\<rparr>"
  let ?run = "archive_terminal_older_than env0 ''x'' ''testnet4'' ''2'' ?w"
  have left: "map c_id (w_pool (snd ?run)) = [''b'']" by code_simp
  have "ids_unique ?w" by (simp add: ids_unique_def seal0_def row0_def)
  moreover have "?a \<in> set (w_pool ?w)" by simp
  ultimately have "?a \<in> set (w_pool (snd ?run)) \<or> moved_to_archive env0 ''x'' ?w (snd ?run) ?a"
    by (rule archive_loses_nothing [OF env0_laws(1,4) _ surjective_pairing, THEN conjunct2, THEN conjunct1])
  moreover have "?a \<notin> set (w_pool (snd ?run))"
    by (rule not_in_by_key [OF left]) (simp add: seal0_def row0_def)
  ultimately show ?thesis unfolding Let_def using left by blast
qed

end
