(* ===== verification/Api_Properties.thy ===== *)
theory Api_Properties
  imports Daemon_Halt Database_Properties
begin

text \<open>
  What the HTTP API guarantees: the virtual block height it arms is one the wallets can be shown,
  a refused configuration is not written, the answers carry no secret, and an archived
  transaction is read back as it was.
\<close>

section \<open>Running a handler\<close>

lemma api_bnd_run: "api_bnd m f w = (case m w of
     (Ok (Inr x), v) \<Rightarrow> f x v
   | (Ok (Inl e), v) \<Rightarrow> (Ok (Inl e), v)
   | (Err e, v) \<Rightarrow> (Err e, v)
   | (Panic p, v) \<Rightarrow> (Panic p, v))"
  by (auto simp: api_bnd_def bnd_apply act_simps split: prod.split res.split sum.split)

lemma api_call_run: "api_call f m w = (case m w of
     (Ok x, v) \<Rightarrow> (Ok (Inr x), v)
   | (Err e, v) \<Rightarrow> (Ok (Inl (f e)), v)
   | (Panic p, v) \<Rightarrow> (Panic p, v))"
  by (auto simp: api_call_def bnd_apply act_simps run_simps split: prod.split res.split)

lemma answer_run: "answer x w = (Ok (Inr x), w)" "reject c m w = (Ok (Inl (c, m)), w)"
  by (simp_all add: answer_def reject_def act_simps)

lemmas api_runs = api_bnd_run api_call_run answer_run

section \<open>The virtual block\<close>

text \<open>Everything but the configuration, the file of it, and the effects of a probe.\<close>
definition schedule_of :: "world \<Rightarrow> schedule_config" where
  "schedule_of w = cf_schedule (w_config w)"

definition keeps_schedule :: "world \<Rightarrow> world \<Rightarrow> bool" where
  "keeps_schedule w v \<longleftrightarrow> schedule_of v = schedule_of w \<and> w_disk_config v = w_disk_config w"

interpretation steady: act_rel keeps_schedule
  by unfold_locales (auto simp: keeps_schedule_def)

lemma steady_calls: "moves (calls_out P) m \<Longrightarrow> moves keeps_schedule m"
  by (rule movesI) (drule (1) movesD, simp add: keeps_schedule_def schedule_of_def calls_proj)

lemma steady_quiet: "moves only_clock m \<Longrightarrow> moves keeps_schedule m"
  by (rule steady_calls [OF calls_quiet])

lemma steady_modify:
  "(\<And>w. schedule_of (f w) = schedule_of w \<and> w_disk_config (f w) = w_disk_config w) \<Longrightarrow> moves keeps_schedule (modify f)"
  by (rule steady.step_modify) (simp add: keeps_schedule_def)

lemma steady_reconnect: "moves keeps_schedule (reconnect_or_log E)"
  unfolding reconnect_or_log_def reconnect_indexer_from_config_def set_indexer_def Let_def
  by (auto intro!: steady.rules steady_calls [OF calls_resolve_url] steady_modify
      simp: schedule_of_def set_indexer_url_def)

lemma steady_response: "moves keeps_schedule (config_to_response E c changed)"
  unfolding config_to_response_def wallet_connect_url_def resolve_lan_host_def Let_def
  by (auto intro!: steady.rules steady_calls [OF calls_lan_ip] split: option.split)

lemma failed_save_keeps_file:
  assumes "save_config_to_disk E c key w = (x, v)" "x \<noteq> Ok ()"
  shows "w_disk_config v = w_disk_config w"
proof -
  have disk: "moves only_clock (disk_step E)" "moves only_clock (sealed_for_disk E key c)"
    unfolding disk_step_def sealed_for_disk_def Let_def encrypt_rpc_password_def encrypt_nostr_nsec_def
      encrypt_secret_def
    by (auto intro!: quiet_rules quiet_encode_field split: option.split)
  show ?thesis
    using assms
    by (auto simp: save_config_to_disk_def bnd_apply act_simps some_or_def
        dest!: movesD [OF disk(1)] movesD [OF disk(2)] simp: only_clock_proj
        split: prod.splits res.splits option.splits)
qed

definition same_config :: "world \<Rightarrow> world \<Rightarrow> bool" where
  "same_config w v \<longleftrightarrow> w_config v = w_config w"

interpretation same_config: act_rel same_config
  by unfold_locales (simp_all add: same_config_def)

lemma same_config_save: "moves same_config (save_live_config E)"
proof -
  have disk: "moves same_config (disk_step E)" "moves same_config (sealed_for_disk E key c)" for key c
  proof -
    have "moves only_clock (disk_step E)" "moves only_clock (sealed_for_disk E key c)"
      unfolding disk_step_def sealed_for_disk_def Let_def encrypt_rpc_password_def encrypt_nostr_nsec_def
        encrypt_secret_def
      by (auto intro!: quiet_rules quiet_encode_field split: option.split)
    then show "moves same_config (disk_step E)" "moves same_config (sealed_for_disk E key c)"
      by (auto simp: moves_def same_config_def only_clock_proj)
  qed
  show ?thesis
    unfolding save_live_config_def save_config_to_disk_def
    by (intro same_config.rules disk same_config.step_modify) (simp add: same_config_def)
qed

lemma arm_checked:
  assumes "arm_virtual_block req tip vb = (Inr u, vb')" "sv_vb_enabled req = Some True"
  shows "\<exists>h. tip = Some h \<and> vb_enabled vb' \<and> vb_armed_at_height vb' = h
    \<and> uint h < uint (vb_target_height vb') \<and> uint (vb_target_height vb') \<le> uint h + 100000"
proof -
  have gap: "h < t \<Longrightarrow> \<not> h + max_virtual_block_gap < t \<Longrightarrow> uint h < uint t \<and> uint t \<le> uint h + 100000" for h t :: u64
    unfolding max_virtual_block_gap_def by uint_arith
  show ?thesis
    using assms gap
    by (auto simp: arm_virtual_block_def validate_virtual_height_def Let_def
        split: option.splits sum.splits if_splits)
qed

lemma quiet_api_call: "moves only_clock m \<Longrightarrow> moves only_clock (api_call f m)"
  unfolding api_call_def by (auto intro!: quiet_rules split: res.split)

lemma quiet_identity: "moves only_clock (with_identity E c)" "moves only_clock (check_recipient E n)"
  unfolding with_identity_def check_recipient_def Let_def api_bnd_def answer_def generate_nsec_def
  by (auto intro!: quiet_rules quiet_api_call split: sum.split)

lemma identity_schedule: "with_identity E c w = (Ok (Inr d), v) \<Longrightarrow> cf_schedule d = cf_schedule c"
  by (auto simp: with_identity_def Let_def api_runs split: if_splits prod.splits res.splits sum.splits)

lemma finish_request:
  assumes "api_bnd (with_identity E c) (\<lambda>d. bnd (put_config d) (\<lambda>_.
      api_bnd (check_recipient E (notif_nostr (cf_notifications d))) (\<lambda>_.
      api_call f (save_live_config E)))) w = (Ok r, v)"
  shows "case r of Inl e \<Rightarrow> w_disk_config v = w_disk_config w | Inr u \<Rightarrow> schedule_of v = cf_schedule c"
proof -
  obtain x w1 where ident: "with_identity E c w = (x, w1)" by (cases "with_identity E c w")
  have w1: "w_disk_config w1 = w_disk_config w"
    using movesD [OF quiet_identity(1) ident] by (simp add: only_clock_proj)
  show ?thesis
  proof (cases "\<exists>d. x = Ok (Inr d)")
    case False
    then show ?thesis
      using assms ident w1 by (auto simp: api_bnd_run split: res.splits sum.splits)
  next
    case True
    then obtain d where d: "x = Ok (Inr d)" by blast
    let ?n = "notif_nostr (cf_notifications d)"
    obtain y w2 where chk: "check_recipient E ?n (w1\<lparr>w_config := d\<rparr>) = (y, w2)"
      by (cases "check_recipient E ?n (w1\<lparr>w_config := d\<rparr>)")
    have w2: "w_disk_config w2 = w_disk_config w" "w_config w2 = d"
      using movesD [OF quiet_identity(2) chk] w1 by (simp_all add: only_clock_proj)
    obtain z w3 where save: "save_live_config E w2 = (z, w3)" by (cases "save_live_config E w2")
    have "z \<noteq> Ok () \<Longrightarrow> w_disk_config w3 = w_disk_config w" "w_config w3 = d"
      using failed_save_keeps_file save movesD [OF same_config_save save] w2
      by (auto simp: save_live_config_def bnd_apply act_simps same_config_def)
    then show ?thesis
      using assms ident d chk save identity_schedule [OF ident [unfolded d]] w2
      by (auto simp: api_bnd_run api_call_run bnd_apply act_simps put_config_def schedule_of_def
          split: res.splits sum.splits)
  qed
qed

lemma store_request_run:
  assumes "store_request E req tip c w = (Ok r, v)"
  shows "(case r of
       Inl e \<Rightarrow> w_disk_config v = w_disk_config w
     | Inr u \<Rightarrow> arm_virtual_block req tip (sc_virtual_block (requested_schedule req (cf_schedule c)))
         = (Inr (), sc_virtual_block (schedule_of v)))"
proof -
  obtain verdict vb where arm:
    "arm_virtual_block req tip (sc_virtual_block (requested_schedule req (cf_schedule c))) = (verdict, vb)"
    by (cases "arm_virtual_block req tip (sc_virtual_block (requested_schedule req (cf_schedule c)))")
  show ?thesis
  proof (cases verdict)
    case (Inl msg)
    then show ?thesis
      using assms arm by (auto simp: store_request_def Let_def bnd_apply act_simps put_config_def reject_def)
  next
    case (Inr u)
    let ?c1 = "c\<lparr>cf_schedule := requested_schedule req (cf_schedule c)\<rparr>"
    let ?c2 = "(with_virtual_block vb ?c1)\<lparr>cf_notifications := requested_notifications req (cf_notifications ?c1)\<rparr>"
    have "api_bnd (with_identity E ?c2) (\<lambda>d. bnd (put_config d) (\<lambda>_.
        api_bnd (check_recipient E (notif_nostr (cf_notifications d))) (\<lambda>_.
        api_call (\<lambda>e. (500, ''File write error: '' @ err_to_string e)) (save_live_config E))))
        (w\<lparr>w_config := ?c2\<rparr>) = (Ok r, v)"
      using assms arm Inr by (simp add: store_request_def Let_def bnd_apply act_simps put_config_def)
    from finish_request [OF this] show ?thesis
      using arm Inr by (auto simp: with_virtual_block_def split: sum.splits)
  qed
qed

text \<open>
  C21: The height at which Liana is shown a virtual block is checked when it is armed.  A request that
  arms it and is accepted had a known tip; the height stored is above that tip, by at most one
  hundred thousand blocks, and the tip is recorded as the height it was armed at.  A request that
  is refused does not write the configuration file.
\<close>
theorem arming_is_checked:
  assumes "api_save_config E req w = (Ok r, v)" "sv_vb_enabled req = Some True"
  shows "case r of
      Inl e \<Rightarrow> w_disk_config v = w_disk_config w
    | Inr answered \<Rightarrow> (\<exists>h. ch_height (w_health w) = Some h
        \<and> vb_enabled (sc_virtual_block (schedule_of v))
        \<and> vb_armed_at_height (sc_virtual_block (schedule_of v)) = h
        \<and> uint h < uint (vb_target_height (sc_virtual_block (schedule_of v)))
        \<and> uint (vb_target_height (sc_virtual_block (schedule_of v))) \<le> uint h + 100000)"
proof -
  let ?tip = "ch_height (w_health w)"
  obtain changed c1 where net: "requested_network E req (w_config w) = (changed, c1)"
    by (cases "requested_network E req (w_config w)")
  let ?disc = "if changed then apply_indexer_discovery E c1 else ret (False, c1)"
  have quiet: "moves keeps_schedule ?disc"
    by (auto intro!: steady.rules steady_calls [OF calls_apply_discovery])
  obtain found c2 w1 where disc: "?disc w = (Ok (found, c2), w1)"
    and rest: "api_bnd (store_request E req ?tip c2) (\<lambda>_. bnd (gets w_config) (\<lambda>c.
      bnd (config_to_response E c changed) (\<lambda>response.
      bnd (run_if (changed \<and> found \<and> cf_indexer c2 \<noteq> None) (reconnect_or_log E)) (\<lambda>_. answer response)))) w1 = (Ok r, v)"
    using assms(1) net by (auto simp: api_save_config_def Let_def bnd_Ok_iff act_simps split: prod.splits)
  have w1: "w_disk_config w1 = w_disk_config w"
    using movesD [OF quiet disc] by (simp add: keeps_schedule_def)
  obtain s w2 where st: "store_request E req ?tip c2 w1 = (Ok s, w2)"
    using rest by (cases "store_request E req ?tip c2 w1") (auto simp: api_bnd_run split: res.splits)
  note ran = store_request_run [OF st]
  show ?thesis
  proof (cases s)
    case (Inl e)
    then show ?thesis using ran rest st w1 by (auto simp: api_bnd_run)
  next
    case (Inr u)
    let ?answer = "bnd (gets w_config) (\<lambda>c.
      bnd (config_to_response E c changed) (\<lambda>response.
      bnd (run_if (changed \<and> found \<and> cf_indexer c2 \<noteq> None) (reconnect_or_log E)) (\<lambda>_. answer response)))"
    have "moves keeps_schedule ?answer"
      unfolding answer_def by (intro steady.rules steady_response steady_reconnect)
    moreover have ended: "?answer w2 = (Ok r, v)"
      using rest st Inr by (simp add: api_bnd_run)
    ultimately have "keeps_schedule w2 v" by (rule movesD)
    moreover have "\<exists>x. r = Inr x" using ended by (auto simp: bnd_Ok_iff answer_run)
    ultimately have "schedule_of v = schedule_of w2" "\<exists>x. r = Inr x" by (simp_all add: keeps_schedule_def)
    then show ?thesis
      using arm_checked [OF _ assms(2)] ran Inr by fastforce
  qed
qed

definition plain_request :: save_config_request where
  "plain_request = \<lparr>sv_network = None, sv_broadcast_mode = None, sv_default_delay_hours = None,
     sv_scheduled_datetime = None, sv_min_delay_hours = None, sv_max_delay_hours = None,
     sv_min_fee_rate = None, sv_max_fee_rate = None, sv_vb_enabled = None, sv_vb_target_height = None,
     sv_notifications_enabled = None, sv_notifications_language = None, sv_nostr_enabled = None,
     sv_nostr_recipient_npub = None, sv_nostr_relays = None, sv_nostr_tor_socks = None\<rparr>"

definition world_tip :: "u64 \<Rightarrow> world" where
  "world_tip h = world0\<lparr>w_health := (w_health world0)\<lparr>ch_height := Some h\<rparr>\<rparr>"

theorem arming_is_checked_witness:
  "let req = plain_request\<lparr>sv_vb_enabled := Some True, sv_vb_target_height := Some 9\<rparr>;
       v = snd (api_save_config env0 req (world_tip 5))
   in is_ok (fst (api_save_config env0 req (world_tip 5)))
      \<and> vb_enabled (sc_virtual_block (schedule_of v)) \<and> w_disk_config v \<noteq> None"
proof -
  let ?req = "plain_request\<lparr>sv_vb_enabled := Some True, sv_vb_target_height := Some 9\<rparr>"
  let ?run = "api_save_config env0 ?req (world_tip 5)"
  have "case ?run of (r, v) \<Rightarrow> is_ok r \<and> \<not> (case r of Ok (Inl e) \<Rightarrow> True | _ \<Rightarrow> False) \<and> w_disk_config v \<noteq> None"
    by code_simp
  then have ok: "is_ok (fst ?run)" "\<not> (case fst ?run of Ok (Inl e) \<Rightarrow> True | _ \<Rightarrow> False)" "w_disk_config (snd ?run) \<noteq> None"
    unfolding case_prod_beta by blast+
  then obtain a where run: "?run = (Ok (Inr a), snd ?run)"
    by (cases ?run) (auto simp: is_ok_iff split: sum.splits)
  have "sv_vb_enabled ?req = Some True" by (simp add: plain_request_def)
  from arming_is_checked [OF run this] show ?thesis
    using ok by (auto simp: Let_def)
qed

text \<open>The height alone is not checked: a request that only moves it is accepted while it is armed.\<close>
lemma moved_target_unchecked:
  "let w = (world_tip 5)\<lparr>w_config := with_virtual_block
         \<lparr>vb_enabled = True, vb_target_height = 9, vb_armed_at_height = 5\<rparr> (w_config world0)\<rparr>;
       req = plain_request\<lparr>sv_vb_target_height := Some 9000000000\<rparr>
   in case api_save_config env0 req w of (r, v) \<Rightarrow>
      w_disk_config v \<noteq> None \<and> vb_enabled (sc_virtual_block (schedule_of v))
      \<and> vb_target_height (sc_virtual_block (schedule_of v)) = 9000000000"
  by code_simp

text \<open>What a refused request asked for stays in the configuration in use.\<close>
lemma refused_request_applies:
  "let w = world_tip 5; req = plain_request\<lparr>sv_vb_enabled := Some True, sv_vb_target_height := Some 3,
         sv_min_delay_hours := Some 77\<rparr>
   in case api_save_config env0 req w of (r, v) \<Rightarrow>
      (case r of Ok (Inl e) \<Rightarrow> fst e = 400 | _ \<Rightarrow> False) \<and> min_delay_hours (schedule_of v) = 77 \<and> w_disk_config v = None"
  by code_simp

section \<open>No secret in the answer\<close>

definition with_secrets :: "string \<Rightarrow> string \<Rightarrow> config \<Rightarrow> config" where
  "with_secrets nsec password c = c\<lparr>
     cf_notifications := (cf_notifications c)\<lparr>notif_nostr := (notif_nostr (cf_notifications c))\<lparr>app_nsec := nsec\<rparr>\<rparr>,
     cf_bitcoin_rpc := map_option (\<lambda>r. r\<lparr>rpc_password := password\<rparr>) (cf_bitcoin_rpc c)\<rparr>"

text \<open>
  C36: The configuration the dashboard is given carries no secret.  Two configurations that differ
  only in the password of Bitcoin Core and in the secret key notifications are sent with give the
  same answer, as long as the public identity of the key is the same.
\<close>
theorem answers_carry_no_secret:
  assumes "npub_from_nsec E s = npub_from_nsec E t" "s = [] \<longleftrightarrow> t = []"
  shows "config_to_response E (with_secrets s p c) changed = config_to_response E (with_secrets t q c) changed"
proof -
  let ?x = "with_secrets s p c" and ?y = "with_secrets t q c"
  have rest: "cf_indexer ?x = cf_indexer ?y" "cf_network ?x = cf_network ?y" "cf_schedule ?x = cf_schedule ?y"
    "cf_web ?x = cf_web ?y" "cf_electrum ?x = cf_electrum ?y"
    "notif_enabled (cf_notifications ?x) = notif_enabled (cf_notifications ?y)"
    "notif_language (cf_notifications ?x) = notif_language (cf_notifications ?y)"
    by (simp_all add: with_secrets_def)
  have nostr: "nostr_enabled (notif_nostr (cf_notifications ?x)) = nostr_enabled (notif_nostr (cf_notifications ?y))"
    "recipient_npub (notif_nostr (cf_notifications ?x)) = recipient_npub (notif_nostr (cf_notifications ?y))"
    "relays (notif_nostr (cf_notifications ?x)) = relays (notif_nostr (cf_notifications ?y))"
    "tor_socks (notif_nostr (cf_notifications ?x)) = tor_socks (notif_nostr (cf_notifications ?y))"
    "app_npub E (notif_nostr (cf_notifications ?x)) = app_npub E (notif_nostr (cf_notifications ?y))"
    using assms by (simp_all add: with_secrets_def app_npub_def)
  show ?thesis
    by (simp only: config_to_response_def Let_def wallet_connect_url_def resolve_lan_host_def
        resolved_tor_socks_def resolve_tor_socks_with_def is_manual_def rest nostr)
qed

theorem answers_carry_no_secret_witness:
  "let E = env0\<lparr>npub_of := \<lambda>s. ''npub''\<rparr>;
       c = w_config world_ix\<lparr>cf_bitcoin_rpc := Some \<lparr>rpc_url = ''u'', rpc_user = ''v'', rpc_password = ''p''\<rparr>\<rparr>
   in with_secrets ''a'' ''p'' c \<noteq> with_secrets ''b'' ''q'' c
      \<and> config_to_response E (with_secrets ''a'' ''p'' c) False = config_to_response E (with_secrets ''b'' ''q'' c) False"
proof -
  let ?E = "env0\<lparr>npub_of := \<lambda>s. ''npub''\<rparr>"
  let ?c = "w_config world_ix\<lparr>cf_bitcoin_rpc := Some \<lparr>rpc_url = ''u'', rpc_user = ''v'', rpc_password = ''p''\<rparr>\<rparr>"
  have "app_nsec (notif_nostr (cf_notifications (with_secrets ''a'' ''p'' ?c)))
      \<noteq> app_nsec (notif_nostr (cf_notifications (with_secrets ''b'' ''q'' ?c)))"
    by (simp add: with_secrets_def)
  moreover have "npub_from_nsec ?E ''a'' = npub_from_nsec ?E ''b''"
    by (simp add: npub_from_nsec_def parse_keys_def env0_def)
  ultimately show ?thesis
    unfolding Let_def using answers_carry_no_secret [of ?E "''a''" "''b''"] by fastforce
qed

section \<open>An archived transaction is read back\<close>

definition keeps_archive_ids :: "world \<Rightarrow> world \<Rightarrow> bool" where
  "keeps_archive_ids w v \<longleftrightarrow> (distinct (map ar_id (w_archive w)) \<longrightarrow> distinct (map ar_id (w_archive v)))"

interpretation filed: act_rel keeps_archive_ids
  by unfold_locales (auto simp: keeps_archive_ids_def)

lemma filed_quiet: "moves only_clock m \<Longrightarrow> moves keeps_archive_ids m"
  by (rule movesI) (drule (1) movesD, simp add: keeps_archive_ids_def only_clock_proj)

lemma filed_archive: "moves keeps_archive_ids (archive_terminal_older_than E key net cutoff)"
proof -
  have sql: "moves keeps_archive_ids (sql E (ret ()))"
    by (intro filed_quiet quiet_rules)
  have ins: "moves keeps_archive_ids (sql_insert_archive E r)" for r
    unfolding sql_insert_archive_def sql_def
    by (intro movesI) (auto simp: keeps_archive_ids_def tick_def split: option.splits if_splits)
  have del: "moves keeps_archive_ids (sql_delete E p)" for p
    unfolding sql_delete_def sql_def
    by (intro movesI) (auto simp: keeps_archive_ids_def tick_def act_simps
        split: option.splits prod.splits if_splits)
  have tr: "moves keeps_archive_ids (transaction E c1 c2 body)" if body: "moves keeps_archive_ids body" for c1 c2 body
  proof -
    have all: "moves keeps_archive_ids (seq body (with_ctx c2 (sql E (ret ()))))"
      by (intro filed.rules body sql)
    have "moves keeps_archive_ids (\<lambda>w. case seq body (with_ctx c2 (sql E (ret ()))) w of
       (Ok u, v) \<Rightarrow> (Ok u, v) | (Err e, v) \<Rightarrow> (Err e, rollback_to w v) | (Panic p, v) \<Rightarrow> (Panic p, rollback_to w v))"
      by (intro movesI) (auto dest!: movesD [OF all] simp: keeps_archive_ids_def rollback_to_def
          split: prod.splits res.splits)
    then show ?thesis unfolding transaction_def by (intro filed.rules sql)
  qed
  have "moves keeps_archive_ids (archive_one E key net tx n)" for tx n
    unfolding archive_one_def
    by (auto intro!: filed.rules tr ins del filed_quiet [OF quiet_draw] filed_quiet [OF quiet_seal])
  then show ?thesis
    unfolding archive_terminal_older_than_def select_terminal_older_than_def
    by (auto intro!: filed.rules filed_quiet [OF quiet_query_txs])
qed

lemma find_by_key: "distinct (map f xs) \<Longrightarrow> a \<in> set xs \<Longrightarrow> find (\<lambda>x. f x = f a) xs = Some a"
  by (induction xs) (auto simp: image_iff)

lemma archive_key_live:
  assumes "w_archive_key w = Some (k, t)" "instant_at E (w_clock w) < t"
  shows "\<exists>x. archive_key E w = (Ok (Some k), w\<lparr>w_clock := w_clock w + 2, w_archive_key := x\<rparr>)"
  using assms by (auto simp: archive_key_def bnd_apply act_simps tick_def)

text \<open>
  C10: An archived transaction is read back as it was.  After a flush, a row that has left the pool
  was intact and finished, and there is an id under which the archive answers, as long as the key
  that locked it is in memory, with the JSON of exactly that transaction.
\<close>
theorem archived_item_reads_back:
  assumes laws: "aead_inverts E" "nonce_fits E" "\<And>tx. json_parse E (tx_to_json E tx) = Some (J tx)"
    and w: "ids_unique w" "distinct (map ar_id (w_archive w))"
    and open_: "w_archive_key w = Some (k, t)" "instant_at E (w_clock w) < t"
    and flush: "api_archive_flush E w = (Ok (Inr n), v)"
    and r: "r \<in> set (w_pool w)" "r \<notin> set (w_pool v)"
    and later: "w_archive u = w_archive v" "w_archive_key u = Some (k, t')"
      "instant_at E (w_clock u) < t'" "sql_fault_at E (w_clock u + 2) = None"
  shows "row_sealed E (w_db_key w) r \<and> c_status r \<in> {''confirmed'', ''failed'', ''broadcast''}
    \<and> (\<exists>tx i. tx_of_row E (w_db_key w) r tx \<and> fst (api_archive_item E i u) = Ok (Inr (J tx)))"
proof -
  obtain x where key: "archive_key E w = (Ok (Some k), w\<lparr>w_clock := w_clock w + 2, w_archive_key := x\<rparr>)"
    using archive_key_live [OF open_] by blast
  let ?s = "w\<lparr>w_archive_key := x, w_clock := Suc (Suc (Suc (w_clock w)))\<rparr>"
  obtain s where s: "w_pool s = w_pool w" "w_archive s = w_archive w" "w_db_key s = w_db_key w"
    and run: "archive_terminal_older_than E k (network_name w) (to_rfc3339 E (now_at E (w_clock w + 2))) s = (Ok n, v)"
    using flush key that [of ?s]
    by (auto simp: api_archive_flush_def with_archive_key_def bnd_apply act_simps api_call_run tick_def
        network_name_def split: prod.splits res.splits)
  have "ids_unique s" using w(1) s(1) by (simp add: ids_unique_def)
  from archive_run_inv [OF laws(1,2) this run] have "moved_to_archive E k s v r"
    using r s(1) by (auto simp: archive_inv_def)
  then obtain tx a where m: "row_sealed E (w_db_key w) r" "c_status r \<in> {''confirmed'', ''failed'', ''broadcast''}"
    "tx_of_row E (w_db_key w) r tx" "a \<in> set (w_archive v)"
    "open_blob E k (ar_blob a) (ar_id a) = Ok (tx_to_json E tx)"
    unfolding moved_to_archive_def s by (meson in_set_dropD)
  have "distinct (map ar_id (w_archive v))"
    using movesD [OF filed_archive run] w(2) s(2) by (simp add: keeps_archive_ids_def)
  then have found: "find (\<lambda>r. ar_id r = ar_id a) (w_archive u) = Some a"
    using find_by_key [of ar_id] m(4) later(1) by simp
  obtain y where "archive_key E u = (Ok (Some k), u\<lparr>w_clock := w_clock u + 2, w_archive_key := y\<rparr>)"
    using archive_key_live [OF later(2,3)] by blast
  then have "fst (api_archive_item E (ar_id a) u) = Ok (Inr (J tx))"
    using found later(4) m(5) laws(3) [of tx]
    by (simp add: api_archive_item_def with_archive_key_def bnd_apply api_runs get_archive_blob_def
        with_ctx_def sql_def act_simps tick_def)
  then show ?thesis using m by blast
qed

definition env_archive :: env where
  "env_archive = env0\<lparr>json_parse := \<lambda>s. Some (JStr s)\<rparr>"

theorem archived_item_reads_back_witness:
  "let w = world0\<lparr>w_pool := [seal0 (row0 ''a'' ''confirmed'' None)], w_archive_key := Some (''x'', 9)\<rparr>;
       v = snd (api_archive_flush env_archive w)
   in w_pool v = [] \<and> (\<exists>tx i. fst (api_archive_item env_archive i v) = Ok (Inr (JStr (tx_to_json env_archive tx))))"
proof -
  let ?a = "seal0 (row0 ''a'' ''confirmed'' None)"
  let ?w = "world0\<lparr>w_pool := [?a], w_archive_key := Some (''x'', 9)\<rparr>"
  let ?run = "api_archive_flush env_archive ?w"
  have "case ?run of (r, v) \<Rightarrow> w_pool v = [] \<and> (case r of Ok (Inr n) \<Rightarrow> True | _ \<Rightarrow> False)
      \<and> map_option fst (w_archive_key v) = Some ''x''
      \<and> instant_at env_archive (w_clock v) < snd (the (w_archive_key v))"
    by code_simp
  then have st: "w_pool (snd ?run) = []" "(case fst ?run of Ok (Inr n) \<Rightarrow> True | _ \<Rightarrow> False)"
    "map_option fst (w_archive_key (snd ?run)) = Some ''x''"
    "instant_at env_archive (w_clock (snd ?run)) < snd (the (w_archive_key (snd ?run)))"
    unfolding case_prod_beta by blast+
  obtain n where run: "?run = (Ok (Inr n), snd ?run)"
    using st(2) by (cases ?run) (auto split: res.splits sum.splits)
  obtain t' where key: "w_archive_key (snd ?run) = Some (''x'', t')" "instant_at env_archive (w_clock (snd ?run)) < t'"
    using st(3,4) by auto
  have laws: "aead_inverts env_archive" "nonce_fits env_archive"
    using env0_laws(1,4) by (simp_all add: env_archive_def aead_inverts_def nonce_fits_def)
  have w: "ids_unique ?w" "distinct (map ar_id (w_archive ?w))" "?a \<in> set (w_pool ?w)"
    "instant_at env_archive (w_clock ?w) < 9" "sql_fault_at env_archive n = None" for n
    by (simp_all add: ids_unique_def world0_def env_archive_def env0_def)
  have "\<exists>tx i. tx_of_row env_archive (w_db_key ?w) ?a tx
      \<and> fst (api_archive_item env_archive i (snd ?run)) = Ok (Inr (JStr (tx_to_json env_archive tx)))"
    by (rule archived_item_reads_back [OF laws _ w(1,2) _ w(4) run w(3) _ refl key w(5), THEN conjunct2, THEN conjunct2])
      (simp_all add: env_archive_def st(1) [unfolded env_archive_def])
  then show ?thesis unfolding Let_def using st(1) by blast
qed

end
