(* ===== verification/Api_Routes.thy ===== *)
theory Api_Routes
  imports Daemon_Halt
begin

text \<open>
  \<open>router\<close> of \<open>src/src/api/mod.rs\<close>: which handler a method and a path reach, the
  dashboard page, and one request served.  The last sections show what a GET may change, and which
  request alone ends safe mode.
\<close>

section \<open>Routes\<close>

datatype http_method = GET | POST

datatype handler =
    Dashboard | GetStats | GetMempoolStatus | ListTransactions | ImportTransaction | ScheduleTransaction
  | GetTransaction | RemoveTransaction | RetryTransaction | BroadcastNow | GetStatus | SecurityAcknowledge
  | GetConfig | SaveConfig | TestNotification | RestartDaemon | EstimateFee | GetIndexerDebug | GetBtcPrice
  | ArchiveSetPassword | ArchiveUnlock | ArchiveLock | ListArchive | ArchiveFlush | GetArchiveItem

definition router :: "(string \<times> http_method \<times> handler) list" where
  "router = [
    (''/'', GET, Dashboard),
    (''/api/stats'', GET, GetStats),
    (''/api/mempool-status'', GET, GetMempoolStatus),
    (''/api/transactions'', GET, ListTransactions),
    (''/api/transactions/import'', POST, ImportTransaction),
    (''/api/transactions/{id}/schedule'', POST, ScheduleTransaction),
    (''/api/transactions/{id}'', GET, GetTransaction),
    (''/api/transactions/{id}/remove'', POST, RemoveTransaction),
    (''/api/transactions/{id}/retry'', POST, RetryTransaction),
    (''/api/transactions/{id}/broadcast-now'', POST, BroadcastNow),
    (''/api/status'', GET, GetStatus),
    (''/api/security/acknowledge'', POST, SecurityAcknowledge),
    (''/api/config'', GET, GetConfig),
    (''/api/config'', POST, SaveConfig),
    (''/api/notifications/test'', POST, TestNotification),
    (''/api/restart'', POST, RestartDaemon),
    (''/api/estimate-fee'', POST, EstimateFee),
    (''/api/indexer-debug'', GET, GetIndexerDebug),
    (''/api/btc-price'', GET, GetBtcPrice),
    (''/api/archive/set-password'', POST, ArchiveSetPassword),
    (''/api/archive/unlock'', POST, ArchiveUnlock),
    (''/api/archive/lock'', POST, ArchiveLock),
    (''/api/archive'', GET, ListArchive),
    (''/api/archive/flush'', POST, ArchiveFlush),
    (''/api/archive/{id}'', GET, GetArchiveItem)]"

datatype routed = NotFound | MethodNotAllowed | Reached handler string

text \<open>
  Matching is done by the axum crate, a parameter \<open>R\<close> of what follows.  The code relies on its
  documented rule: a handler is reached only by its method and by a path that its template
  matches, segment by segment, where a parameter stands for one segment that is not empty.
\<close>
fun match_segments :: "string list \<Rightarrow> string list \<Rightarrow> string list option" where
  "match_segments [] [] = Some []"
| "match_segments (t # ts) (s # ss) =
     (if starts_with t ''{'' then (if s = [] then None else map_option ((#) s) (match_segments ts ss))
      else if t = s then match_segments ts ss else None)"
| "match_segments _ _ = None"

definition match_path :: "string \<Rightarrow> string \<Rightarrow> string list option" where
  "match_path template path = match_segments (split_on (CHR ''/'') template) (split_on (CHR ''/'') path)"

definition dispatches :: "(http_method \<Rightarrow> string \<Rightarrow> routed) \<Rightarrow> bool" where
  "dispatches R \<longleftrightarrow> (\<forall>m path h i. R m path = Reached h i \<longrightarrow>
     (\<exists>t. (t, m, h) \<in> set router \<and> match_path t path \<noteq> None))"

text \<open>A dispatcher that keeps the rule: the first template that matches and takes the method.\<close>
definition first_route :: "http_method \<Rightarrow> string \<Rightarrow> routed" where
  "first_route m path = (let ts = filter (\<lambda>(t, _, _). match_path t path \<noteq> None) router in
     case List.find (\<lambda>(_, m', _). m' = m) ts of
       None \<Rightarrow> if ts = [] then NotFound else MethodNotAllowed
     | Some (t, _, h) \<Rightarrow> Reached h (concat (the (match_path t path))))"

lemma found: "List.find P xs = Some x \<Longrightarrow> x \<in> set xs" "List.find P xs = Some x \<Longrightarrow> P x"
  by (induction xs) (auto split: if_splits)

lemma first_route_dispatches: "dispatches first_route"
proof -
  have "\<exists>t. (t, m, h) \<in> set router \<and> match_path t path \<noteq> None" if reached: "first_route m path = Reached h i" for m path h i
  proof -
    define ts where "ts = filter (\<lambda>(t, _, _). match_path t path \<noteq> None) router"
    obtain t m' where t: "List.find (\<lambda>(_, m', _). m' = m) ts = Some (t, m', h)"
      using reached by (auto simp: first_route_def Let_def ts_def split: option.splits if_splits)
    have "(t, m, h) \<in> set ts" using found(1) [OF t] found(2) [OF t] by simp
    then show ?thesis by (auto simp: ts_def)
  qed
  then show ?thesis by (auto simp: dispatches_def)
qed

section \<open>The dashboard page\<close>

text \<open>The file that the environment names, else the one in the source tree, else the built-in page.\<close>
definition load_dashboard_html :: "env \<Rightarrow> string \<Rightarrow> string \<Rightarrow> string wact" where
  "load_dashboard_html E embedded source_tree = (case env_var E ''BROADCAST_POOL_DASHBOARD'' of
       Some path \<Rightarrow> draw (\<lambda>n. unwrap_or embedded (res_ok (read_file_at E n path)))
     | None \<Rightarrow> draw (\<lambda>n. unwrap_or embedded (res_ok (read_file_at E n source_tree))))"

section \<open>Serving\<close>

text \<open>What the framework decoded of the body or the query, as far as the handler takes one.\<close>
datatype body = NoBody | ImportBody import_request | ScheduleBody schedule_request
  | ConfigBody save_config_request | FeeBody string | PasswordBody string | PageQuery "int option" "int option"

text \<open>
  The state after the handler; a body it does not take is refused before.  Two constants of the
  build, the built-in page and the path of its source, do not reach the state.  \<open>restart_daemon\<close> waits
  for a task that ends the process after 200 ms and changes nothing before; its answer is never sent.
\<close>
definition run_handler :: "env \<Rightarrow> handler \<Rightarrow> string \<Rightarrow> body \<Rightarrow> world \<Rightarrow> world" where
  "run_handler E h i b w = (case h of
       Dashboard \<Rightarrow> snd (load_dashboard_html E [] [] w)
     | GetStats \<Rightarrow> snd (api_get_stats E w)
     | GetMempoolStatus \<Rightarrow> snd (api_mempool_status E w)
     | ListTransactions \<Rightarrow> snd (api_list_transactions E w)
     | ImportTransaction \<Rightarrow> (case b of ImportBody r \<Rightarrow> snd (api_import E r w) | _ \<Rightarrow> w)
     | ScheduleTransaction \<Rightarrow> (case b of ScheduleBody r \<Rightarrow> snd (api_schedule E i r w) | _ \<Rightarrow> w)
     | GetTransaction \<Rightarrow> snd (api_get_transaction E i w)
     | RemoveTransaction \<Rightarrow> snd (api_remove E i w)
     | RetryTransaction \<Rightarrow> snd (api_retry E i w)
     | BroadcastNow \<Rightarrow> snd (api_broadcast_now E i w)
     | GetStatus \<Rightarrow> snd (api_status E w)
     | SecurityAcknowledge \<Rightarrow> snd (api_acknowledge w)
     | GetConfig \<Rightarrow> snd (api_get_config E w)
     | SaveConfig \<Rightarrow> (case b of ConfigBody r \<Rightarrow> snd (api_save_config E r w) | _ \<Rightarrow> w)
     | TestNotification \<Rightarrow> snd (api_test_notification E w)
     | RestartDaemon \<Rightarrow> w
     | EstimateFee \<Rightarrow> (case b of FeeBody hex \<Rightarrow> snd (api_estimate_fee E hex w) | _ \<Rightarrow> w)
     | GetIndexerDebug \<Rightarrow> snd (api_indexer_debug E w)
     | GetBtcPrice \<Rightarrow> snd (api_btc_price E w)
     | ArchiveSetPassword \<Rightarrow> (case b of PasswordBody p \<Rightarrow> snd (api_archive_set_password E p w) | _ \<Rightarrow> w)
     | ArchiveUnlock \<Rightarrow> (case b of PasswordBody p \<Rightarrow> snd (api_archive_unlock E p w) | _ \<Rightarrow> w)
     | ArchiveLock \<Rightarrow> snd (api_archive_lock w)
     | ListArchive \<Rightarrow> (case b of PageQuery m n \<Rightarrow> snd (api_list_archive E m n w) | _ \<Rightarrow> w)
     | ArchiveFlush \<Rightarrow> snd (api_archive_flush E w)
     | GetArchiveItem \<Rightarrow> snd (api_archive_item E i w))"

definition serve :: "env \<Rightarrow> (http_method \<Rightarrow> string \<Rightarrow> routed) \<Rightarrow> http_method \<Rightarrow> string \<Rightarrow> body \<Rightarrow> world \<Rightarrow> world" where
  "serve E R m path b w = (case R m path of Reached h i \<Rightarrow> run_handler E h i b w | _ \<Rightarrow> w)"

section \<open>What a GET may change\<close>

definition looks :: "world \<Rightarrow> world \<Rightarrow> bool" where
  "looks w v \<longleftrightarrow> w_pool v = w_pool w \<and> w_archive v = w_archive w \<and> w_pending v = w_pending w
     \<and> w_safe_mode v = w_safe_mode w \<and> w_bcast_events v = w_bcast_events w \<and> sends no_send w v"

interpretation looks: act_rel looks
  by unfold_locales (auto simp: looks_def sends_refl intro: sends_trans)

lemma looks_modify:
  "(\<And>w. w_pool (f w) = w_pool w \<and> w_archive (f w) = w_archive w \<and> w_pending (f w) = w_pending w
     \<and> w_safe_mode (f w) = w_safe_mode w \<and> w_bcast_events (f w) = w_bcast_events w \<and> w_outbox (f w) = w_outbox w)
   \<Longrightarrow> moves looks (modify f)"
  by (rule looks.step_modify) (simp add: looks_def sends_same)

lemma looks_reads: "moves (reads_chain no_send) m \<Longrightarrow> moves looks m"
  by (rule movesI) (drule (1) movesD, auto simp: looks_def reads_proj sends_reads)

lemma looks_calls: "moves (calls_out no_send) m \<Longrightarrow> moves looks m"
  by (intro looks_reads reads_moves_calls)

lemma looks_quiet: "moves only_clock m \<Longrightarrow> moves looks m"
  by (rule movesI) (drule (1) movesD, simp add: looks_def only_clock_proj sends_same)

lemma looks_spawn: "moves looks m \<Longrightarrow> moves looks (spawn_blocking m)"
  by (intro movesI) (auto dest: movesD simp: spawn_blocking_def split: prod.splits)

lemma looks_api_bnd: "moves looks m \<Longrightarrow> (\<And>x. moves looks (f x)) \<Longrightarrow> moves looks (api_bnd m f)"
  unfolding api_bnd_def by (auto intro!: looks.rules split: sum.split)

lemma looks_api: "moves looks (reject code msg)" "moves looks (answer x)"
  "moves looks m \<Longrightarrow> moves looks (api_call g m)" "moves looks m \<Longrightarrow> moves looks (api_blocking g m)"
  unfolding reject_def answer_def api_call_def api_blocking_def
  by (auto intro!: looks.rules looks_spawn split: res.split)

lemmas looks_rules = looks.rules looks_modify looks_quiet [OF quiet_draw] looks_quiet [OF quiet_draw_res]
  looks_spawn looks_api_bnd looks_api looks_quiet [OF quiet_get_broadcast_tx_by_id]
  looks_quiet [OF quiet_list_broadcast_txs] looks_quiet [OF quiet_get_pool_stats]

lemma looks_prices: "moves looks (fetch_snapshot E)"
  unfolding fetch_snapshot_def refetch_def lkg_snapshot_def Let_def fetch_fresh_def
  by (auto intro!: looks_rules looks_quiet [OF quiet_first_complete [OF providers_quiet]]
      split: option.split res.split prod.split)

lemma looks_enrich: "moves looks (enrich_tx_locktime E tx)"
  unfolding enrich_tx_locktime_def Let_def by (auto intro!: looks_rules looks_reads [OF reads_mtp_cached])

lemma looks_save: "moves looks (save_config_to_disk E c key)"
proof -
  have "moves only_clock (sealed_for_disk E key c)" "moves only_clock (disk_step E)"
    unfolding sealed_for_disk_def disk_step_def Let_def encrypt_rpc_password_def encrypt_nostr_nsec_def encrypt_secret_def
    by (auto intro!: quiet_rules quiet_encode_field split: option.split)
  then show ?thesis
    unfolding save_config_to_disk_def by (auto intro!: looks_rules intro: looks_quiet)
qed

lemma looks_health: "moves looks (refresh_chain_health E)"
proof -
  have reads: "moves looks (core_status_or_none E)" "moves looks (indexer_height_or_none E)"
    "moves looks (software_or_none E h)" for h
    unfolding core_status_or_none_def indexer_height_or_none_def software_or_none_def
    by (auto intro!: looks.rules looks_calls [OF calls_block_height]
        looks_calls [OF calls_server_software] looks_quiet [OF quiet_core(3)])
  have "moves looks (maybe_disarm_virtual_block E)"
    unfolding maybe_disarm_virtual_block_def Let_def
    by (auto intro!: looks_rules looks_save split: option.split)
  moreover have "moves looks (warm_mtp_cache E m)" for m
    unfolding warm_mtp_cache_def by (auto intro!: looks_rules looks_reads [OF reads_mtp_cached] split: option.split)
  moreover have "moves looks (write_chain_health f)" for f
    unfolding write_chain_health_def by (rule looks_modify) (simp_all add: Let_def)
  ultimately show ?thesis
    unfolding refresh_chain_health_def by (auto intro!: looks_rules reads)
qed

lemma looks_config: "moves looks (put_config c)" "moves looks (reconnect_or_log E)" "moves looks (sanitize_live_config E)"
  unfolding put_config_def reconnect_or_log_def sanitize_live_config_def save_live_config_def
    reconnect_indexer_from_config_def set_indexer_def Let_def
  by (auto intro!: looks_rules looks_save looks_calls [OF calls_resolve_url] split: prod.split)

lemma looks_view: "moves looks (wallet_connect_url E c port)" "moves looks (config_to_response E c changed)"
  "moves looks (umbrel_indexer_status_hint E c up)"
  unfolding wallet_connect_url_def resolve_lan_host_def config_to_response_def umbrel_indexer_status_hint_def
    umbrel_electrs_probe_failure_def Let_def
  by (auto intro!: looks_rules looks_calls [OF calls_lan_ip] looks_calls [OF calls_try_host]
      split: option.split prod.split)

lemma looks_archive: "moves looks (archive_key E)" "moves looks (password_is_set E)" "moves looks (is_unlocked E)"
  unfolding archive_key_def password_is_set_def is_unlocked_def get_config_value_def
  by (auto intro!: looks_rules looks_quiet [OF quiet_sql] quiet_rules split: option.split prod.split)

lemma looks_with_key: "(\<And>k. moves looks (f k)) \<Longrightarrow> moves looks (with_archive_key E f)"
  unfolding with_archive_key_def by (auto intro!: looks_rules looks_archive split: option.split)

lemma looks_archive_reads: "moves looks (list_archive E net m n)" "moves looks (get_archive_blob E i)"
  unfolding list_archive_def get_archive_blob_def
  by (auto intro!: looks_rules looks_quiet [OF quiet_sql] quiet_rules)

lemma looks_handlers:
  "moves looks (load_dashboard_html E a s)" "moves looks (api_get_stats E)" "moves looks (api_mempool_status E)"
  "moves looks (api_list_transactions E)" "moves looks (api_get_transaction E i)" "moves looks (api_status E)"
  "moves looks (api_get_config E)" "moves looks (api_indexer_debug E)" "moves looks (api_btc_price E)"
  "moves looks (api_list_archive E m n)" "moves looks (api_archive_item E i)"
proof -
  show "moves looks (load_dashboard_html E a s)"
    unfolding load_dashboard_html_def by (auto intro!: looks_rules split: option.split)
  have stats: "moves looks (get_stats E)"
    unfolding get_stats_def by (intro looks_rules)
  show "moves looks (api_get_stats E)" "moves looks (api_btc_price E)"
    "moves looks (api_list_transactions E)" "moves looks (api_get_transaction E i)"
    unfolding api_get_stats_def api_list_transactions_def api_get_transaction_def api_btc_price_def
      list_transactions_def get_transaction_def
    by (intro looks_rules looks_prices looks_enrich stats)+
  show "moves looks (api_mempool_status E)"
    unfolding api_mempool_status_def get_mempool_status_def Let_def get_node_status_def
      estimate_smart_fee_def get_mempool_floor_def core_blockchain_info_def
    by (auto intro!: looks_rules split: option.split)
  show "moves looks (api_status E)"
    unfolding api_status_def by (intro looks_rules looks_config stats looks_view looks_archive)
  show "moves looks (api_get_config E)"
    unfolding api_get_config_def by (intro looks_rules looks_config looks_view)
  show "moves looks (api_indexer_debug E)"
    unfolding api_indexer_debug_def indexer_diagnostics_def configured_reachable_def read_boot_log_tail_def
    by (auto intro!: looks_rules looks_health looks_view looks_calls [OF calls_resolve_url] split: option.split)
  show "moves looks (api_list_archive E m n)" "moves looks (api_archive_item E i)"
    unfolding api_list_archive_def api_archive_item_def
    by (auto intro!: looks_rules looks_with_key looks_archive_reads split: option.split)
qed

definition looking :: "handler \<Rightarrow> bool" where
  "looking h \<longleftrightarrow> h \<in> {Dashboard, GetStats, GetMempoolStatus, ListTransactions, GetTransaction, GetStatus, GetConfig,
     GetIndexerDebug, GetBtcPrice, ListArchive, GetArchiveItem}"

lemma get_routes: "list_all (\<lambda>(t, m, h). m = GET \<longrightarrow> looking h) router"
  by (simp add: router_def looking_def)

lemma looks_run: "looking h \<Longrightarrow> looks w (run_handler E h i b w)"
  by (cases h; cases b) (simp_all add: looking_def run_handler_def looks.refl moves_snd [OF looks_handlers(1)]
     moves_snd [OF looks_handlers(2)] moves_snd [OF looks_handlers(3)] moves_snd [OF looks_handlers(4)]
     moves_snd [OF looks_handlers(5)] moves_snd [OF looks_handlers(6)] moves_snd [OF looks_handlers(7)]
     moves_snd [OF looks_handlers(8)] moves_snd [OF looks_handlers(9)] moves_snd [OF looks_handlers(10)]
     moves_snd [OF looks_handlers(11)])

text \<open>
  C17: Looking changes nothing that matters: whatever path a GET names, and whatever is sent with
  it, the pool, the archive, the waiting transactions and safe mode stay as they are, no
  notification is queued and no transaction leaves the process.
\<close>
theorem get_is_safe:
  assumes "dispatches R"
  shows "let v = serve E R GET path b w in
     w_pool v = w_pool w \<and> w_archive v = w_archive w \<and> w_pending v = w_pending w
     \<and> w_safe_mode v = w_safe_mode w \<and> w_bcast_events v = w_bcast_events w \<and> sends no_send w v"
proof -
  have "looks w (serve E R GET path b w)"
  proof (cases "R GET path")
    case (Reached h i)
    then obtain t where "(t, GET, h) \<in> set router" using assms unfolding dispatches_def by blast
    then have "looking h" using get_routes by (auto simp: list_all_iff)
    then show ?thesis using Reached looks_run by (simp add: serve_def)
  qed (simp_all add: serve_def looks.refl)
  then show ?thesis by (simp add: looks_def Let_def)
qed

theorem get_is_safe_witness:
  "let v = serve env0 first_route GET ''/api/transactions/a'' NoBody world0 in
     first_route GET ''/api/transactions/a'' = Reached GetTransaction ''a''
     \<and> w_pool v = w_pool world0 \<and> sends no_send world0 v"
proof -
  have "first_route GET ''/api/transactions/a'' = Reached GetTransaction ''a''" by code_simp
  then show ?thesis
    using get_is_safe [OF first_route_dispatches, of env0 "''/api/transactions/a''" NoBody world0]
    by (simp add: Let_def)
qed

section \<open>What ends safe mode\<close>

lemma match_literal:
  "match_segments ts ss = Some xs \<Longrightarrow> list_all (\<lambda>t. \<not> starts_with t ''{'') ts \<Longrightarrow> ss = ts"
  by (induction ts ss arbitrary: xs rule: match_segments.induct) (auto split: if_splits)

lemma acknowledge_entry:
  "list_all (\<lambda>(t, m, h). h = SecurityAcknowledge \<longrightarrow> t = ''/api/security/acknowledge'' \<and> m = POST) router"
  by (simp add: router_def)

lemma acknowledge_literal: "list_all (\<lambda>t. \<not> starts_with t ''{'') (split_on (CHR ''/'') ''/api/security/acknowledge'')"
  by code_simp

lemma acknowledge_route:
  assumes "dispatches R" "R m path = Reached SecurityAcknowledge i"
  shows "m = POST \<and> path = ''/api/security/acknowledge''"
proof -
  obtain t xs where "(t, m, SecurityAcknowledge) \<in> set router"
    and xs: "match_segments (split_on (CHR ''/'') t) (split_on (CHR ''/'') path) = Some xs"
    using assms unfolding dispatches_def match_path_def by blast
  then have ack: "t = ''/api/security/acknowledge''" "m = POST"
    using acknowledge_entry by (auto simp: list_all_iff)
  have "split_on (CHR ''/'') path = split_on (CHR ''/'') t"
    using xs by (rule match_literal) (unfold ack(1), rule acknowledge_literal)
  then have "path = t" by (metis split_on_join)
  then show ?thesis using ack by simp
qed

lemma api_step_run: "h \<noteq> SecurityAcknowledge \<Longrightarrow> run_handler E h i b w = w \<or> h = Dashboard \<or> api_step E w (run_handler E h i b w)"
  by (cases h; cases b) (simp_all add: run_handler_def, (blast intro: api_step.intros surjective_pairing)+)

lemma halted_run:
  assumes "h \<noteq> SecurityAcknowledge"
  shows "halted w (run_handler E h i b w)"
  using api_step_run [OF assms, of E i b w] looks_run [of h w E i b]
  by (auto simp: halted.refl looking_def looks_def halted_def sends_refl dest: api_step_halted)

text \<open>
  C15: Only the acknowledgement ends safe mode over HTTP: while it is on, no request of any method
  to any path, with any body, makes a transaction leave the process, and the only one after which
  it may be off is a POST to \<open>/api/security/acknowledge\<close>.
\<close>
theorem only_acknowledge_resumes:
  assumes "dispatches R" "w_safe_mode w"
  shows "let v = serve E R m path b w in sends no_send w v
    \<and> (w_safe_mode v \<or> m = POST \<and> path = ''/api/security/acknowledge'')"
proof (cases "R m path")
  case (Reached h i)
  show ?thesis
  proof (cases "h = SecurityAcknowledge")
    case True
    then have "sends no_send w (serve E R m path b w)"
      using Reached by (simp add: serve_def run_handler_def api_acknowledge_def clear_safe_mode_def act_simps sends_def)
    then show ?thesis using acknowledge_route [OF assms(1) Reached [unfolded True]] by (simp add: Let_def)
  next
    case False
    from halted_run [OF this, of w E i b] show ?thesis
      using Reached assms by (simp add: serve_def halted_def Let_def)
  qed
qed (use assms in \<open>simp_all add: serve_def sends_refl\<close>)

theorem only_acknowledge_resumes_witness:
  "let w = world0\<lparr>w_safe_mode := True\<rparr>; p = ''/api/transactions/a/broadcast-now'';
       v = serve env0 first_route POST p NoBody w
   in first_route POST p = Reached BroadcastNow ''a'' \<and> w_safe_mode v \<and> sends no_send w v"
proof -
  let ?w = "world0\<lparr>w_safe_mode := True\<rparr>"
  have "first_route POST ''/api/transactions/a/broadcast-now'' = Reached BroadcastNow ''a''" by code_simp
  moreover have "w_safe_mode ?w" by simp
  ultimately show ?thesis
    using only_acknowledge_resumes [OF first_route_dispatches, of ?w env0 POST "''/api/transactions/a/broadcast-now''" NoBody]
    by (simp add: Let_def)
qed

end
