(* ===== verification/Importer.thy ===== *)
theory Importer
  imports Pool_Schedule
begin

text \<open>
  \<open>src/src/migration/importer.rs\<close>: reading the exports of the Sparrow wallet, and a raw
  transaction; and the estimates of \<open>src/src/utils/privacy.rs\<close>.  Decoding JSON into the two
  record types is the serde crate's: it is a parameter, as is where the user keeps data.
\<close>

section \<open>The exports of Sparrow\<close>

record sparrow_utxo_export =
  su_txid :: string
  su_vout :: u32
  su_value :: "f64 option"
  su_value_sat :: "u64 option"
  su_address :: "string option"
  su_label :: "string option"
  su_path :: "string option"
  su_confirmations :: "u64 option"
  su_output :: "string option"

record sparrow_tx_export =
  st_txid :: string
  st_hex :: "string option"
  st_fee :: "f64 option"
  st_height :: "u64 option"
  st_label :: "string option"

text \<open>What the crates around the command line provide.\<close>
record host =
  utxos_of_json :: "string \<Rightarrow> sparrow_utxo_export list option"
  txs_of_json :: "string \<Rightarrow> sparrow_tx_export list option"
  tx_of_json :: "string \<Rightarrow> sparrow_tx_export option"
  user_data_dir :: "string option"
  user_home_dir :: "string option"
  stdin_at :: "nat \<Rightarrow> string res"
  rpc_client_ok :: "bitcoin_rpc_config \<Rightarrow> bool"
  new_key_at :: "nat \<Rightarrow> bytes"
  key_file :: "string \<Rightarrow> bytes res option"

definition read_to_string :: "env \<Rightarrow> string \<Rightarrow> string wact" where
  "read_to_string E path = with_ctx (''Failed to read file: '' @ path) (draw_res (\<lambda>n. read_file_at E n path))"

definition export_value :: "sparrow_utxo_export \<Rightarrow> f64" where
  "export_value u = (case su_value u of
       Some v \<Rightarrow> v
     | None \<Rightarrow> (case su_value_sat u of
         Some s \<Rightarrow> f64_div (f64_of_int (uint s)) (f64_of_int 100000000)
       | None \<Rightarrow> 0))"

text \<open>\<open>vout as i32\<close> reinterprets the 32 bits.\<close>
definition exported_utxo :: "sparrow_utxo_export \<Rightarrow> new_migration_utxo" where
  "exported_utxo u = \<lparr>nu_txid = su_txid u, nu_vout = sint (su_vout u), nu_value_btc = export_value u,
     nu_address = su_address u, nu_label = su_label u, nu_source_label = su_label u\<rparr>"

definition import_utxos_from_json :: "env \<Rightarrow> host \<Rightarrow> string \<Rightarrow> new_migration_utxo list wact" where
  "import_utxos_from_json E H path =
     bnd (read_to_string E path) (\<lambda>content.
     bnd (lift_res (with_context (''Failed to parse JSON: '' @ path) (some_or ''json'' (utxos_of_json H content)))) (\<lambda>utxos.
     ret (map exported_utxo utxos)))"

definition file_tx :: "string \<Rightarrow> string \<Rightarrow> f64 option \<Rightarrow> string option \<Rightarrow> new_broadcast_tx" where
  "file_tx hex net worth label = \<lparr>n_tx_hex = hex, n_network = net, n_nlocktime = None,
     n_broadcast_mode = None, n_scheduled_time = None, n_target_fee_rate = None, n_source_label = label,
     n_destination_address = None, n_utxo_count = Some 1, n_total_value_btc = worth,
     n_replacement_of = None\<rparr>"

text \<open>The fee goes where the value belongs.\<close>
definition exported_tx :: "string \<Rightarrow> sparrow_tx_export \<Rightarrow> new_broadcast_tx option" where
  "exported_tx net t = map_option (\<lambda>hex. file_tx hex net (st_fee t) (st_label t)) (st_hex t)"

text \<open>A list of transactions, of which those without a hex are left out, or a single one.\<close>
definition import_signed_tx_from_json :: "env \<Rightarrow> host \<Rightarrow> string \<Rightarrow> string \<Rightarrow> new_broadcast_tx list wact" where
  "import_signed_tx_from_json E H path net =
     bnd (read_to_string E path) (\<lambda>content. case txs_of_json H content of
         Some txs \<Rightarrow> ret (List.map_filter (exported_tx net) txs)
       | None \<Rightarrow>
           bnd (lift_res (with_context (''Failed to parse transaction JSON: '' @ path)
                  (some_or ''json'' (tx_of_json H content)))) (\<lambda>t.
           case exported_tx net t of
             Some tx \<Rightarrow> ret [tx]
           | None \<Rightarrow> bail ''Transaction JSON does not contain hex data''))"

definition import_raw_tx_hex :: "env \<Rightarrow> string \<Rightarrow> string \<Rightarrow> string option \<Rightarrow> new_broadcast_tx res" where
  "import_raw_tx_hex E hex net label = (case hex_decode E hex of
       None \<Rightarrow> Err [''Invalid hex data'', ''hex'']
     | Some raw \<Rightarrow> Ok (file_tx hex net None label))"

section \<open>Estimates\<close>

definition validate_tx_hex :: "env \<Rightarrow> string \<Rightarrow> bool res" where
  "validate_tx_hex E hex = (case hex_decode E hex of
       None \<Rightarrow> Err [''hex'']
     | Some raw \<Rightarrow> if length raw < 10 then Err [''Transaction too short to be valid''] else Ok True)"

text \<open>The sizes are machine words; the sum wraps.\<close>
definition estimate_tx_size :: "u64 \<Rightarrow> u64 \<Rightarrow> u64" where
  "estimate_tx_size vin_count vout_count = 10 + vin_count * 148 + vout_count * 34"

definition calculate_fee_rate :: "u64 \<Rightarrow> u64 \<Rightarrow> f64" where
  "calculate_fee_rate fee_sat size_bytes =
     (if size_bytes = 0 then 0 else f64_div (f64_of_int (uint fee_sat)) (f64_of_int (uint size_bytes)))"

end
