(* ===== verification/Command_Line.thy ===== *)
theory Command_Line
  imports Importer Client_Lines Indexer_Hints Scheduler_Loops
begin

text \<open>
  \<open>src/src/main.rs\<close>: what the options change, how the process starts, and its commands.
  Parsing the arguments, what is printed and the servers themselves are not modelled; a command
  that ends the process with status 1 is an error, and a slice in what it prints that can panic
  is kept.
\<close>

section \<open>Options and commands\<close>

record cli =
  cli_network :: "string option"
  cli_rpc_url :: "string option"
  cli_rpc_user :: "string option"
  cli_rpc_password :: "string option"

datatype pool_command =
    PoolList "string option" int
  | PoolShow string
  | PoolBroadcast string
  | PoolSchedule string "u64 option" "u64 option" "f64 option" "f64 option"
  | PoolRemove string bool
  | PoolScheduleAll "u64 option" "u64 option"
  | PoolStats

datatype migrate_command =
    PlanCreate string "string option" "string option"
  | PlanList
  | PlanShow string
  | PlanImportUtxos string string
  | PlanSchedule string "u64 option" "u64 option" "f64 option" "f64 option"
  | PlanActivate string
  | PlanPause string

datatype command =
    Start bool
  | Import "string option" "string option" "string option" "string option" "string option"
  | Pool pool_command
  | Migrate migrate_command
  | Status bool
  | TestRpc
  | BroadcastAll bool

definition cli_named_network :: "string \<Rightarrow> network_type \<Rightarrow> network_type" where
  "cli_named_network name old =
     (if name = ''mainnet'' then Mainnet
      else if name = ''testnet'' \<or> name = ''testnet3'' \<or> name = ''testnet4'' then Testnet4
      else if name = ''signet'' then Signet else old)"

text \<open>A URL replaces the section, a user or a password only changes one that is there.\<close>
definition apply_overrides :: "cli \<Rightarrow> config \<Rightarrow> config" where
  "apply_overrides opts c =
     (let c = (case cli_network opts of
          None \<Rightarrow> c
        | Some n \<Rightarrow> c\<lparr>cf_network := (cf_network c)\<lparr>network_type := cli_named_network (to_lower n) (network_type (cf_network c))\<rparr>\<rparr>);
          c = (case cli_rpc_url opts of
          None \<Rightarrow> c
        | Some url \<Rightarrow> c\<lparr>cf_bitcoin_rpc := Some \<lparr>rpc_url = url,
            rpc_user = unwrap_or [] (map_option rpc_user (cf_bitcoin_rpc c)),
            rpc_password = unwrap_or [] (map_option rpc_password (cf_bitcoin_rpc c))\<rparr>\<rparr>);
          c = (case cli_rpc_user opts of
          None \<Rightarrow> c | Some u \<Rightarrow> c\<lparr>cf_bitcoin_rpc := map_option (\<lambda>r. r\<lparr>rpc_user := u\<rparr>) (cf_bitcoin_rpc c)\<rparr>)
      in case cli_rpc_password opts of
          None \<Rightarrow> c
        | Some p \<Rightarrow> c\<lparr>cf_bitcoin_rpc := map_option (\<lambda>r. r\<lparr>rpc_password := p\<rparr>) (cf_bitcoin_rpc c)\<rparr>)"

section \<open>Start-up\<close>

definition get_data_dir :: "env \<Rightarrow> host \<Rightarrow> config \<Rightarrow> string" where
  "get_data_dir E H c = (case env_var E ''BROADCAST_POOL_DATA_DIR'' of
       Some dir \<Rightarrow> dir
     | None \<Rightarrow> path_join (path_join (unwrap_or ''.'' (or_else (user_data_dir H) (user_home_dir H))) ''broadcast-pool'')
         (data_dir_name (network_type (cf_network c))))"

definition key_path :: "env \<Rightarrow> host \<Rightarrow> config \<Rightarrow> string" where
  "key_path E H c = path_join (get_data_dir E H c) ''pool.key''"

definition load_key :: "env \<Rightarrow> host \<Rightarrow> string \<Rightarrow> bytes wact" where
  "load_key E H path = load_or_create E (new_key_at H) (key_file H path)"

definition rpc_pass_needs_decrypt :: "env \<Rightarrow> config \<Rightarrow> bool" where
  "rpc_pass_needs_decrypt E c \<longleftrightarrow> env_var E ''BROADCAST_POOL_RPC_PASS'' = None
     \<and> (case cf_bitcoin_rpc c of None \<Rightarrow> False | Some r \<Rightarrow> rpc_password r \<noteq> [])"

definition with_plain_password :: "env \<Rightarrow> bytes \<Rightarrow> config \<Rightarrow> config" where
  "with_plain_password E key c = c\<lparr>cf_bitcoin_rpc :=
     map_option (\<lambda>r. r\<lparr>rpc_password := decrypt_rpc_password E key (rpc_password r)\<rparr>) (cf_bitcoin_rpc c)\<rparr>"

definition with_plain_nsec :: "env \<Rightarrow> bytes \<Rightarrow> config \<Rightarrow> config" where
  "with_plain_nsec E key c = (let n = notif_nostr (cf_notifications c) in
     c\<lparr>cf_notifications := (cf_notifications c)\<lparr>notif_nostr := n\<lparr>app_nsec := decrypt_nostr_nsec E key (app_nsec n)\<rparr>\<rparr>\<rparr>)"

text \<open>
  The secrets are needed before the database is open, so the key is read from the directory the
  configuration implies so far.  Without it they stay encrypted.  The file this creates is what
  \<open>H\<close> answers with from then on.
\<close>
definition decrypt_secrets :: "env \<Rightarrow> host \<Rightarrow> config \<Rightarrow> (config \<times> host) wact" where
  "decrypt_secrets E H c =
     (let pass = rpc_pass_needs_decrypt E c; nsec = (app_nsec (notif_nostr (cf_notifications c)) \<noteq> []) in
      if \<not> pass \<and> \<not> nsec then ret (c, H)
      else bnd (disk_step E) (\<lambda>_.
        bnd (attempt (load_key E H (key_path E H c))) (\<lambda>r. case r of
            Ok key \<Rightarrow>
              (let c = (if pass then with_plain_password E key c else c);
                   c' = (if nsec then with_plain_nsec E key c else c)
               in ret (c', H\<lparr>key_file := (key_file H)(key_path E H c \<mapsto> Ok key)\<rparr>))
          | Err e \<Rightarrow> ret (c, H)
          | Panic p \<Rightarrow> lift_res (Panic p))))"

primrec rpc_needed :: "command \<Rightarrow> bool" where
  "rpc_needed (Start fg) = True"
| "rpc_needed TestRpc = True"
| "rpc_needed (BroadcastAll yes) = True"
| "rpc_needed (Import tx file net label at_time) = False"
| "rpc_needed (Pool c) = False"
| "rpc_needed (Migrate c) = False"
| "rpc_needed (Status detailed) = False"

definition create_rpc :: "host \<Rightarrow> command \<Rightarrow> config \<Rightarrow> bool" where
  "create_rpc H cmd c \<longleftrightarrow> rpc_needed cmd \<and> (case cf_bitcoin_rpc c of None \<Rightarrow> False | Some r \<Rightarrow> rpc_client_ok H r)"

text \<open>The network is what the genesis block says; an unknown genesis falls back to the chain's name.\<close>
definition detect_network :: "env \<Rightarrow> config \<Rightarrow> config wact" where
  "detect_network E c =
     bnd (expected_genesis_hash E (network_type (cf_network c))) (\<lambda>genesis.
     bnd (case from_genesis_hash genesis of
         Some net \<Rightarrow> ret (c\<lparr>cf_network := (cf_network c)\<lparr>network_type := net\<rparr>\<rparr>)
       | None \<Rightarrow> apply_network_from_rpc E c) (\<lambda>c.
     ret (c\<lparr>cf_network := (cf_network c)\<lparr>resolved_genesis := Some genesis\<rparr>\<rparr>)))"

definition find_indexer :: "env \<Rightarrow> config \<Rightarrow> (bool \<times> config) wact" where
  "find_indexer E c =
     (if is_umbrel_mode E
      then bnd (heal_umbrel_indexer_config E c) (\<lambda>(changed, c'). ret (cf_indexer c' \<noteq> None, c'))
      else apply_indexer_discovery E c)"

definition locate_indexer :: "env \<Rightarrow> config \<Rightarrow> config wact" where
  "locate_indexer E before =
     bnd (find_indexer E before) (\<lambda>(found, c).
     bnd (apply_lan_ip E c) (\<lambda>c.
     bnd (run_if (found \<or> is_umbrel_mode E \<and> cf_indexer before \<noteq> cf_indexer c)
       (bnd (gets w_db_key) (\<lambda>key. bnd (attempt (save_config_to_disk E c key)) (\<lambda>_. ret ())))) (\<lambda>_.
     ret c)))"

text \<open>The pool manager is made, polls its backends, fills the map of waiting transactions and requeues.\<close>
definition start_pool :: "env \<Rightarrow> config \<Rightarrow> unit wact" where
  "start_pool E c =
     bnd (modify (\<lambda>w. w\<lparr>w_config := c,
       w_indexer := map_option (\<lambda>i. \<lparr>ec_server = ix_url i, ec_resolved = None\<rparr>) (cf_indexer c)\<rparr>)) (\<lambda>_.
     bnd (refresh_chain_health E) (\<lambda>_.
     bnd (attempt (load_pending_from_db E)) (\<lambda>_.
     bnd (attempt (requeue_retriable_failures E)) (\<lambda>_. ret ()))))"

definition start_up :: "env \<Rightarrow> host \<Rightarrow> cli \<Rightarrow> string res option \<Rightarrow> command \<Rightarrow> config wact" where
  "start_up E H opts file cmd =
     bnd (lift_res (load_config E file)) (\<lambda>loaded.
     bnd (decrypt_secrets E H (apply_overrides opts loaded)) (\<lambda>(c, H).
     bnd (modify (\<lambda>w. w\<lparr>w_rpc := create_rpc H cmd c\<rparr>)) (\<lambda>_.
     bnd (detect_network E c) (\<lambda>c.
     bnd (disk_step E) (\<lambda>_.
     bnd (load_key E H (key_path E H c)) (\<lambda>key.
     bnd (open_database E key) (\<lambda>_.
     bnd (locate_indexer E c) (\<lambda>c.
     bnd (start_pool E c) (\<lambda>_. ret c)))))))))"

text \<open>One attempt of the task that looks for the indexer of an Umbrel node after a start without one.\<close>
definition retry_umbrel :: "env \<Rightarrow> bool wact" where
  "retry_umbrel E =
     bnd (gets w_config) (\<lambda>c.
     if cf_indexer c \<noteq> None then ret False
     else bnd (discover_umbrel_if_needed E c True) (\<lambda>(changed, c').
       bnd (modify (\<lambda>w. w\<lparr>w_config := c'\<rparr>)) (\<lambda>_.
       if \<not> changed \<or> cf_indexer c' = None then ret False
       else
         bnd (gets w_db_key) (\<lambda>key.
         bnd (attempt (save_config_to_disk E c' key)) (\<lambda>_.
         bnd (attempt (reconnect_indexer_from_config E)) (\<lambda>r. case r of
             Ok u \<Rightarrow>
               bnd (gets (\<lambda>w. cf_indexer (w_config w))) (\<lambda>i.
               bnd (case i of None \<Rightarrow> ret () | Some ix \<Rightarrow> warm_chain_tip_cache E (ix_url ix)) (\<lambda>_.
               ret True))
           | Err e \<Rightarrow> ret False
           | Panic p \<Rightarrow> lift_res (Panic p)))))))"

definition umbrel_retry_loop :: "env \<Rightarrow> unit wact" where
  "umbrel_retry_loop E = for_loop (\<lambda>k _.
     bnd (gets w_indexer) (\<lambda>ix.
     if ix \<noteq> None then ret (Break ())
     else bnd (spawn_blocking (retry_umbrel E)) (\<lambda>r.
       ret (if r = Ok True then Break () else Continue ())))) [1 ..< 41 :: nat] ()"

section \<open>Import\<close>

definition schedule_argument :: "env \<Rightarrow> string option \<Rightarrow> datetime option res" where
  "schedule_argument E s = (case s of
       None \<Rightarrow> Ok None
     | Some text \<Rightarrow> (case parse_rfc3339 E text of
         None \<Rightarrow> Err [''Invalid schedule time format'', ''time'']
       | Some t \<Rightarrow> Ok (Some t)))"

definition argument_txs :: "env \<Rightarrow> host \<Rightarrow> string option \<Rightarrow> string option \<Rightarrow> string \<Rightarrow> string option
    \<Rightarrow> new_broadcast_tx list wact" where
  "argument_txs E H tx file net label = (case tx of
       Some hex \<Rightarrow> bnd (lift_res (import_raw_tx_hex E hex net label)) (\<lambda>t. ret [t])
     | None \<Rightarrow> (case file of
         Some path \<Rightarrow> bnd (import_signed_tx_from_json E H path net) (\<lambda>txs.
           ret (map (\<lambda>t. t\<lparr>n_source_label := or_else label (n_source_label t)\<rparr>) txs))
       | None \<Rightarrow> bail ''Either --tx or --file must be provided''))"

definition import_one :: "env \<Rightarrow> datetime option \<Rightarrow> new_broadcast_tx \<Rightarrow> broadcast_tx list \<Rightarrow> broadcast_tx list wact" where
  "import_one E at_time new out =
     bnd (import_transaction E (new\<lparr>n_scheduled_time := at_time\<rparr>)) (\<lambda>tx.
     if at_time = None then ret (out @ [tx])
     else bnd (schedule_transaction E (t_id tx) None None None None None) (\<lambda>tx'. ret (out @ [tx'])))"

definition run_import :: "env \<Rightarrow> host \<Rightarrow> string option \<Rightarrow> string option \<Rightarrow> string option \<Rightarrow> string option
    \<Rightarrow> string option \<Rightarrow> broadcast_tx list wact" where
  "run_import E H tx file net label at_text =
     bnd (gets network_name) (\<lambda>current.
     bnd (lift_res (schedule_argument E at_text)) (\<lambda>at_time.
     bnd (argument_txs E H tx file (unwrap_or current net) label) (\<lambda>txs.
     for_each (import_one E at_time) txs [])))"

section \<open>The pool\<close>

text \<open>\<open>&s[..n.min(s.len())]\<close>\<close>
definition shown :: "nat \<Rightarrow> string \<Rightarrow> unit res" where
  "shown n s = (if char_boundary s (min n (length s)) then Ok () else Panic ''byte index is not a char boundary'')"

definition show_all :: "nat \<Rightarrow> ('a \<Rightarrow> string) \<Rightarrow> 'a list \<Rightarrow> unit wact" where
  "show_all n f xs = for_each (\<lambda>x _. lift_res (shown n (f x))) xs ()"

text \<open>Whether the user agreed, on the terminal unless told so.\<close>
definition confirmed_by :: "host \<Rightarrow> bool \<Rightarrow> bool wact" where
  "confirmed_by H yes =
     (if yes then ret True
      else bnd (draw_res (stdin_at H)) (\<lambda>input. ret (to_lower (trim input) = ''y'')))"

definition show_tx :: "env \<Rightarrow> string \<Rightarrow> unit wact" where
  "show_tx E i =
     bnd (attempt (get_transaction E i)) (\<lambda>r. case r of
         Ok tx \<Rightarrow> lift_res (shown 80 (t_tx_hex tx))
       | Err e \<Rightarrow> bail (''Transaction not found: '' @ err_to_string e)
       | Panic p \<Rightarrow> lift_res (Panic p))"

definition exit_on_error :: "string \<Rightarrow> 'a wact \<Rightarrow> unit wact" where
  "exit_on_error msg m = bnd (attempt m) (\<lambda>r. case r of
       Ok x \<Rightarrow> ret ()
     | Err e \<Rightarrow> bail (msg @ '': '' @ err_to_string e)
     | Panic p \<Rightarrow> lift_res (Panic p))"

primrec run_pool :: "env \<Rightarrow> host \<Rightarrow> pool_command \<Rightarrow> unit wact" where
  "run_pool E H (PoolList st n) = bnd (list_transactions E st n) (show_all 8 t_id)"
| "run_pool E H (PoolShow i) = show_tx E i"
| "run_pool E H (PoolBroadcast i) = exit_on_error ''Failed to broadcast'' (broadcast_single E i)"
| "run_pool E H (PoolSchedule i lo hi fee_lo fee_hi) =
     exit_on_error ''Failed to schedule'' (schedule_transaction E i lo hi fee_lo fee_hi None)"
| "run_pool E H (PoolRemove i yes) =
     bnd (confirmed_by H yes) (\<lambda>ok. if ok then remove_transaction E i else ret ())"
| "run_pool E H (PoolScheduleAll lo hi) =
     bnd (gets network_name) (\<lambda>net. bnd (schedule_all_pending E net) (show_all 8 t_id))"
| "run_pool E H PoolStats = bnd (get_stats E) (\<lambda>_. ret ())"

section \<open>Migration plans\<close>

definition plan_of_arguments :: "string \<Rightarrow> string option \<Rightarrow> string option \<Rightarrow> string \<Rightarrow> new_migration_plan" where
  "plan_of_arguments name source dest net = \<lparr>np_name = name, np_source_wallet = source,
     np_destination_wallet = dest, np_network = net, np_min_delay_hours = None,
     np_max_delay_hours = None, np_min_fee_rate = None, np_max_fee_rate = None\<rparr>"

definition list_plans :: "env \<Rightarrow> unit wact" where
  "list_plans E =
     bnd (gets network_name) (\<lambda>net.
     bnd (list_migration_plans E net) (\<lambda>plans.
     for_each (\<lambda>p _. bnd (lift_res (shown 8 (p_id p))) (\<lambda>_. lift_res (shown 20 (p_name p)))) plans ()))"

definition show_plan :: "env \<Rightarrow> string \<Rightarrow> unit wact" where
  "show_plan E i =
     bnd (attempt (get_migration_plan_by_id E i)) (\<lambda>r. case r of
         Ok plan \<Rightarrow> bnd (list_migration_utxos E i) (show_all 8 u_txid)
       | Err e \<Rightarrow> bail (''Plan not found: '' @ err_to_string e)
       | Panic p \<Rightarrow> lift_res (Panic p))"

definition plan_import :: "env \<Rightarrow> host \<Rightarrow> string \<Rightarrow> string \<Rightarrow> nat wact" where
  "plan_import E H plan path =
     bnd (get_migration_plan_by_id E plan) (\<lambda>_.
     bnd (import_utxos_from_json E H path) (\<lambda>utxos.
     bnd (for_each (\<lambda>u n. bnd (insert_migration_utxo E plan u) (\<lambda>_. ret (n + 1))) utxos 0) (\<lambda>imported.
     bnd (get_migration_plan_by_id E plan) (\<lambda>p.
     bnd (update_plan_total E plan (p_total_transactions p + int imported)) (\<lambda>_.
     ret imported)))))"

text \<open>The transaction is a placeholder without a hex.\<close>
definition planned_tx :: "migration_plan \<Rightarrow> migration_utxo \<Rightarrow> datetime option \<Rightarrow> f64 \<Rightarrow> new_broadcast_tx" where
  "planned_tx plan u t fee = \<lparr>n_tx_hex = [], n_network = p_network plan, n_nlocktime = None,
     n_broadcast_mode = None, n_scheduled_time = t, n_target_fee_rate = Some fee,
     n_source_label = u_source_label u, n_destination_address = u_address u, n_utxo_count = Some 1,
     n_total_value_btc = Some (u_value_btc u), n_replacement_of = None\<rparr>"

definition plan_one :: "env \<Rightarrow> migration_plan \<Rightarrow> u64 \<Rightarrow> u64 \<Rightarrow> f64 \<Rightarrow> f64 \<Rightarrow> migration_utxo \<Rightarrow> unit \<Rightarrow> unit wact" where
  "plan_one E plan lo hi fee_lo fee_hi u _ =
     bnd (draw (\<lambda>n. rand_u64_at E n lo (max hi lo))) (\<lambda>delay.
     bnd (gen_range_f64 E fee_lo (f64_max fee_hi fee_lo)) (\<lambda>fee.
     bnd (draw (now_at E)) (\<lambda>now.
     bnd (lift_res (duration_hours delay)) (\<lambda>d.
     bnd (import_transaction E (planned_tx plan u (if datetime_ok E (now + d) then Some (now + d) else None) fee)) (\<lambda>tx.
     bnd (link_utxo_to_pool E (u_id u) (t_id tx)) (\<lambda>_.
     bnd (lift_res (shown 8 (u_txid u))) (\<lambda>_.
     lift_res (shown 8 (t_id tx)))))))))"

definition plan_schedule :: "env \<Rightarrow> string \<Rightarrow> u64 option \<Rightarrow> u64 option \<Rightarrow> f64 option \<Rightarrow> f64 option \<Rightarrow> unit wact" where
  "plan_schedule E i lo hi fee_lo fee_hi =
     bnd (get_migration_plan_by_id E i) (\<lambda>plan.
     bnd (list_migration_utxos E i) (\<lambda>utxos.
     for_each (plan_one E plan (unwrap_or (of_int (p_min_delay_hours plan)) lo)
       (unwrap_or (of_int (p_max_delay_hours plan)) hi) (unwrap_or (p_min_fee_rate plan) fee_lo)
       (unwrap_or (p_max_fee_rate plan) fee_hi)) utxos ()))"

primrec run_migrate :: "env \<Rightarrow> host \<Rightarrow> migrate_command \<Rightarrow> unit wact" where
  "run_migrate E H (PlanCreate name source dest) =
     bnd (gets network_name) (\<lambda>net.
     bnd (insert_migration_plan E (plan_of_arguments name source dest net)) (\<lambda>_. ret ()))"
| "run_migrate E H PlanList = list_plans E"
| "run_migrate E H (PlanShow i) = show_plan E i"
| "run_migrate E H (PlanImportUtxos plan path) = bnd (plan_import E H plan path) (\<lambda>_. ret ())"
| "run_migrate E H (PlanSchedule i lo hi fee_lo fee_hi) = plan_schedule E i lo hi fee_lo fee_hi"
| "run_migrate E H (PlanActivate i) = update_plan_status E i Active"
| "run_migrate E H (PlanPause i) = update_plan_status E i Paused"

section \<open>Status, the test of the connection, and broadcasting everything\<close>

datatype rpc_line = RpcConnected | RpcDisconnected | RpcNotConfigured

definition run_status :: "env \<Rightarrow> bool \<Rightarrow> (rpc_line \<times> pool_stats) wact" where
  "run_status E detailed =
     bnd (gets w_rpc) (\<lambda>rpc.
     bnd (if \<not> rpc then ret RpcNotConfigured
          else bnd (attempt (core_test_connection E)) (\<lambda>r.
            if r \<noteq> Ok True then ret RpcDisconnected
            else bnd (if detailed then bnd (get_node_status E) (\<lambda>_. ret ()) else ret ()) (\<lambda>_.
              ret RpcConnected))) (\<lambda>line.
     bnd (get_stats E) (\<lambda>stats. ret (line, stats))))"

text \<open>The indexer, or else Bitcoin Core.\<close>
definition run_test_rpc :: "env \<Rightarrow> unit wact" where
  "run_test_rpc E =
     bnd (gets w_indexer) (\<lambda>ix.
     bnd (gets w_rpc) (\<lambda>rpc.
     if ix \<noteq> None then
       bnd (attempt (indexer_test_connection E)) (\<lambda>r. case r of
           Ok ok \<Rightarrow> if ok then bnd (attempt (indexer_block_height E)) (\<lambda>_. ret ()) else bail ''Connection failed.''
         | Err e \<Rightarrow> bail (''Error: '' @ err_to_string e)
         | Panic p \<Rightarrow> lift_res (Panic p))
     else if rpc then
       bnd (attempt (core_test_connection E)) (\<lambda>r. case r of
           Ok ok \<Rightarrow> if ok then bnd (get_node_status E) (\<lambda>_. ret ()) else bail ''Connection failed.''
         | Err e \<Rightarrow> bail (''Error: '' @ err_to_string e)
         | Panic p \<Rightarrow> lift_res (Panic p))
     else bail ''No backend configured. Configure indexer or bitcoin_rpc in config.toml''))"

definition run_broadcast_all :: "env \<Rightarrow> host \<Rightarrow> bool \<Rightarrow> unit wact" where
  "run_broadcast_all E H yes =
     bnd (confirmed_by H yes) (\<lambda>ok.
     if \<not> ok then ret ()
     else bnd (gets network_name) (\<lambda>net.
       bnd (broadcast_all_pending E net) (show_all 8 fst)))"

text \<open>\<open>start\<close> tries the backends, looks for a missing Umbrel indexer, and then serves until it is stopped.\<close>
primrec run_command :: "env \<Rightarrow> host \<Rightarrow> command \<Rightarrow> unit wact" where
  "run_command E H (Start fg) =
     bnd (attempt (broadcaster_test_connection E)) (\<lambda>_.
     bnd (gets (\<lambda>w. cf_indexer (w_config w))) (\<lambda>i.
     run_if (is_umbrel_mode E \<and> i = None) (umbrel_retry_loop E)))"
| "run_command E H (Import tx file net label at_text) = bnd (run_import E H tx file net label at_text) (\<lambda>_. ret ())"
| "run_command E H (Pool c) = run_pool E H c"
| "run_command E H (Migrate c) = run_migrate E H c"
| "run_command E H (Status detailed) = bnd (run_status E detailed) (\<lambda>_. ret ())"
| "run_command E H TestRpc = run_test_rpc E"
| "run_command E H (BroadcastAll yes) = run_broadcast_all E H yes"

end
