(* ===== verification/Command_Properties.thy ===== *)
theory Command_Properties
  imports Command_Line Database_Properties
begin

text \<open>
  What the commands do to the pool: a schedule drawn at random leaves the row without a valid
  seal, whether it is asked for on the command line or over HTTP.
\<close>

section \<open>A schedule drawn at random\<close>

lemma changed_fields_unsealed:
  assumes "mac_collision_free E" "hex_inverts E" "fields_clean r" "row_sealed E key r"
    and "c_row_mac q = c_row_mac r" "mac_fields q \<noteq> mac_fields r"
  shows "\<not> row_sealed E key q"
  using assms expected_mac_inject [OF assms(1-3), of key q] by (auto simp: row_sealed_def)

definition drawn_schedule :: "string \<Rightarrow> f64 \<Rightarrow> string \<Rightarrow> pool_row \<Rightarrow> pool_row" where
  "drawn_schedule t fee upd q = q\<lparr>c_status := ''scheduled'', c_scheduled_time := Some t,
     c_target_fee_rate := Some fee, c_updated_at := upd\<rparr>"

lemma schedule_transaction_Ok:
  assumes "schedule_transaction E i lo hi fee_lo fee_hi fixed w = (Ok tx, v)"
  shows "\<exists>t fee upd u. get_broadcast_tx_by_id E i u = (Ok tx, v) \<and> w_db_key u = w_db_key w
    \<and> w_pool u = update_where (by_id i) (drawn_schedule t fee upd) (w_pool w)"
proof -
  let ?sc = "cf_schedule (w_config w)"
  let ?lo = "unwrap_or (min_fee_rate ?sc) fee_lo" and ?hi = "unwrap_or (max_fee_rate ?sc) fee_hi"
  let ?fee = "case fixed of Some f \<Rightarrow> ret f | None \<Rightarrow> gen_range_f64 E ?lo (f64_max ?hi ?lo)"
  have quiet: "moves only_clock ?fee"
    unfolding gen_range_f64_def by (auto intro!: quiet_rules split: option.split)
  obtain fee s where fee: "?fee (tick w) = (Ok fee, s)"
    and rest: "bnd (draw (now_at E)) (\<lambda>now.
       bnd (lift_res (duration_hours (rand_u64_at E (w_clock w) (unwrap_or (min_delay_hours ?sc) lo)
         (max (unwrap_or (max_delay_hours ?sc) hi) (unwrap_or (min_delay_hours ?sc) lo))))) (\<lambda>d.
       if \<not> datetime_ok E (now + d) then bail ''Failed to calculate scheduled time''
       else bnd (draw (\<lambda>n. to_rfc3339 E (now_at E n))) (\<lambda>updated.
         bnd (execute_raw E (by_id i) (\<lambda>q. q\<lparr>c_status := ''scheduled'',
           c_scheduled_time := Some (to_rfc3339 E (now + d)),
           c_target_fee_rate := Some (sql_real_of_text E (show_f64 fee)), c_updated_at := updated\<rparr>)) (\<lambda>_.
         get_broadcast_tx_by_id E i)))) s = (Ok tx, v)"
    using assms
    by (cases "?fee (tick w)") (auto simp: schedule_transaction_def Let_def bnd_apply act_simps tick_def
        split: res.splits)
  have s: "w_pool s = w_pool w" "w_db_key s = w_db_key w"
    using movesD [OF quiet fee] by (simp_all add: only_clock_proj tick_def)
  let ?set = "\<lambda>d. drawn_schedule (to_rfc3339 E (now_at E (w_clock s) + d)) (sql_real_of_text E (show_f64 fee))
      (to_rfc3339 E (now_at E (Suc (w_clock s))))"
  obtain d where "get_broadcast_tx_by_id E i (s\<lparr>w_clock := Suc (Suc (Suc (w_clock s))),
      w_pool := update_where (by_id i) (?set d) (w_pool w)\<rparr>) = (Ok tx, v)"
    using rest s
    by (auto simp: ok_iffs act_simps execute_raw_def drawn_schedule_def [abs_def] tick_def
        dest!: sql_update_Ok split: if_splits)
  then show ?thesis
    using s by (intro exI [of _ "to_rfc3339 E (now_at E (w_clock s) + d)"] exI [of _ "sql_real_of_text E (show_f64 fee)"]
        exI [of _ "to_rfc3339 E (now_at E (Suc (w_clock s)))"]) auto
qed

text \<open>
  C7: A schedule drawn at random breaks the seal of its row.  When a sealed row that is not scheduled
  yet is scheduled at random, on the command line, over HTTP or for all pending rows, and the call
  returns, the transaction it returns is flagged as tampered, and so is the row in the pool: the
  next broadcast step that finds it due goes into safe mode.
\<close>
theorem random_schedule_tampers:
  assumes "mac_collision_free E" "hex_inverts E" "ids_unique w"
    and r: "r \<in> set (w_pool w)" "c_id r = i" "row_sealed E (w_db_key w) r" "fields_clean r"
    and "c_status r \<noteq> ''scheduled''"
    and run: "schedule_transaction E i lo hi fee_lo fee_hi fixed w = (Ok tx, v)"
  shows "t_tampered tx = Some True \<and> t_status tx = Scheduled \<and> \<not> all_sealed E v"
proof -
  obtain t fee upd u where g: "get_broadcast_tx_by_id E i u = (Ok tx, v)" and key: "w_db_key u = w_db_key w"
    and pool: "w_pool u = update_where (by_id i) (drawn_schedule t fee upd) (w_pool w)"
    using schedule_transaction_Ok [OF run] by blast
  obtain q qs where q: "filter (by_id i) (w_pool u) = q # qs" "tx_of_row E (w_db_key u) q tx"
    using get_by_id_Ok [OF g] .
  then have mem: "q \<in> set (w_pool u)" "c_id q = i" by (auto simp: by_id_def dest: filter_eq_ConsD)
  then obtain r0 where r0: "r0 \<in> set (w_pool w)" "by_id i r0" "q = drawn_schedule t fee upd r0"
    using pool by (auto simp: update_where_def by_id_def split: if_splits)
  then have "r0 = r"
    using assms(3) r(1,2) by (auto simp: ids_unique_def by_id_def inj_on_def distinct_map)
  then have same: "c_row_mac q = c_row_mac r" "mac_fields q \<noteq> mac_fields r" "c_status q = ''scheduled''"
    using r0(3) assms(8) by (auto simp: drawn_schedule_def mac_fields_def)
  have "\<not> row_sealed E (w_db_key w) q"
    by (rule changed_fields_unsealed [OF assms(1,2) r(4,3) same(1,2)])
  moreover have "w_pool v = w_pool u" "w_db_key v = w_db_key u"
    using movesD [OF quiet_get_broadcast_tx_by_id g] by (simp_all add: only_clock_proj)
  ultimately show ?thesis
    using q(2) mem(1) key same(3) by (auto simp: tx_of_row_def all_sealed_def tx_status_from_str_def)
qed

theorem random_schedule_tampers_witness:
  "let w = world0\<lparr>w_pool := [seal0 (row0 ''a'' ''pending'' None)]\<rparr>;
       tx = schedule_transaction env0 ''a'' None None None None (Some 0) w
   in is_ok (fst tx) \<and> t_tampered (the (res_ok (fst tx))) = Some True"
proof -
  let ?r = "seal0 (row0 ''a'' ''pending'' None)"
  let ?w = "world0\<lparr>w_pool := [?r]\<rparr>"
  let ?run = "schedule_transaction env0 ''a'' None None None None (Some 0) ?w"
  have ok: "is_ok (fst ?run)" by code_simp
  from ran_Ok [OF ok] obtain tx where run: "?run = (Ok tx, snd ?run)" ..
  have w: "ids_unique ?w" "?r \<in> set (w_pool ?w)" "c_id ?r = ''a''" "row_sealed env0 (w_db_key ?w) ?r"
    "c_status ?r \<noteq> ''scheduled''"
    by (simp_all add: ids_unique_def seal0_def row0_def row_sealed_def world0_def expected_mac_def)
  have "fields_clean ?r" by code_simp
  from random_schedule_tampers [OF env0_laws(5,3) w(1-4) this w(5) run] show ?thesis
    using ok run by (simp add: Let_def) (metis fst_conv option.sel res_ok.simps(1))
qed

section \<open>The time given to an import\<close>

text \<open>
  \<open>import --schedule T\<close> stores the time asked for and then replaces it by one drawn at random:
  with the default delays the row does not wait for \<open>T\<close>, and its seal is broken.
\<close>
lemma import_time_is_lost:
  "case run_import env0 H (Some ''00'') None None None (Some ''7'') world0 of (r, v) \<Rightarrow>
     is_ok r \<and> map c_scheduled_time (w_pool v) \<noteq> [Some (to_rfc3339 env0 7)]
     \<and> parse_rfc3339 env0 ''7'' = Some 7 \<and> \<not> list_all (row_sealed env0 ''k'') (w_pool v)"
  by code_simp

end
