(* ===== verification/Request_Properties.thy ===== *)
theory Request_Properties
  imports Schedule_Properties
begin

text \<open>
  The requests of the user: a broadcast now, a date, a random delay, a removal.  For each, what
  a request that succeeds has checked and what it leaves.
\<close>

section \<open>Reading does not write\<close>

text \<open>The rows, the waiting transactions and the events are as they were.\<close>
definition still :: "world \<Rightarrow> world \<Rightarrow> bool" where
  "still w v \<longleftrightarrow> w_pool v = w_pool w \<and> w_db_key v = w_db_key w \<and> w_pending v = w_pending w
     \<and> w_bcast_events v = w_bcast_events w \<and> w_utxos v = w_utxos w"

interpretation still: act_rel still
  by unfold_locales (auto simp: still_def)

lemma still_quiet: "moves only_clock m \<Longrightarrow> moves still m"
  by (rule movesI, drule (1) movesD) (simp add: still_def only_clock_proj)

lemma still_reads: "moves (reads_chain P) m \<Longrightarrow> moves still m"
  by (rule movesI, drule (1) movesD) (simp add: still_def reads_proj)

lemma still_calls: "moves (calls_out P) m \<Longrightarrow> moves still m"
  by (intro still_reads reads_moves_calls)

lemma still_core_broadcast: "moves still (core_broadcast E hex)"
proof -
  have "moves (calls_out (\<lambda>_. True)) (core_broadcast E hex)"
    unfolding core_broadcast_def by (intro calls_rules calls_put) simp
  then show ?thesis by (rule still_calls)
qed

lemma still_broadcast: "moves still (broadcast_transaction E hex)"
  unfolding broadcast_transaction_def broadcast_via_core_def
  by (auto intro!: still.rules still_core_broadcast still_calls [OF calls_indexer_broadcast]
      split: res.split option.split)

lemma still_locktime_or_refuse: "moves still (locktime_or_refuse E n)"
  using still_reads [OF reads_locktime]
  unfolding locktime_or_refuse_def by (auto intro!: still.rules split: res.split)

lemma still_enrich: "moves still (enrich_tx_locktime E tx)"
  unfolding enrich_tx_locktime_def Let_def
  by (auto intro!: still.rules still_reads [OF reads_mtp_cached])

lemma lookup_unique:
  assumes "ids_unique w" "r \<in> set (w_pool w)" "c_id r = i"
  shows "filter (by_id i) (w_pool w) = [r]"
proof -
  have "distinct (map c_id (filter (by_id i) (w_pool w)))"
    using assms(1) by (simp add: ids_unique_def distinct_map_filter)
  moreover have "set (map c_id (filter (by_id i) (w_pool w))) \<subseteq> {i}" by (auto simp: by_id_def)
  ultimately have "length (filter (by_id i) (w_pool w)) \<le> 1"
    by (metis card_mono distinct_card finite.emptyI finite.insertI is_singletonI is_singleton_altdef length_map)
  moreover have "r \<in> set (filter (by_id i) (w_pool w))" using assms by (simp add: by_id_def)
  ultimately show ?thesis by (cases "filter (by_id i) (w_pool w)") auto
qed

section \<open>Broadcast on request\<close>

definition sent_row :: "string \<Rightarrow> f64 \<Rightarrow> string \<Rightarrow> pool_row \<Rightarrow> pool_row" where
  "sent_row txid fee now q = q\<lparr>c_status := ''broadcast'', c_txid := Some txid,
     c_actual_fee_rate := Some fee, c_broadcast_at := Some now, c_updated_at := now,
     c_broadcast_missed_at := None, c_defer_until := None\<rparr>"

lemma db_mark_broadcast_Ok:
  assumes "ids_unique w" "db_mark_broadcast E i txid fee w = (Ok u, v)"
  shows "wrote_row E i (sent_row txid fee (to_rfc3339 E (now_at E (w_clock w)))) w v"
proof -
  have "db_mark_broadcast E i txid fee = bnd (draw (\<lambda>n. to_rfc3339 E (now_at E n))) (\<lambda>now.
      bnd (with_ctx ''Failed to mark as broadcast'' (sql_update E (by_id i) (sent_row txid fee now)))
        (\<lambda>_. reseal_row_mac E i))"
    unfolding db_mark_broadcast_def sent_row_def ..
  from mutator_Ok [where f = "sent_row txid fee", OF assms(1) _ assms(2) [unfolded this]] show ?thesis
    by (simp add: sent_row_def)
qed

lemma send_if_final_Ok:
  assumes "send_if_final E tx s = (Ok txid, v)"
  obtains a b c where "locktime_or_refuse E (t_nlocktime tx) s = (Ok True, a)"
    "broadcast_transaction E (t_tx_hex tx) a = (Ok txid, b)"
    "mark_broadcast E (t_id tx) txid (unwrap_or 0 (t_target_fee_rate tx)) b = (Ok (), c)"
    "emit_event E tx txid c = (Ok (), v)"
proof -
  obtain ok a where l: "locktime_or_refuse E (t_nlocktime tx) s = (Ok ok, a)"
    and k: "(if \<not> ok then refuse_locked E (unwrap_or 0 (t_nlocktime tx)) else send_and_record E tx) a = (Ok txid, v)"
    using assms by (auto simp: send_if_final_def bnd_Ok_iff)
  have "refuse_locked E n a \<noteq> (Ok txid, v)" for n
    by (auto simp: refuse_locked_def ok_iffs bail_def)
  then have "ok" "send_and_record E tx a = (Ok txid, v)" using k by (auto split: if_splits)
  then show thesis using that l by (auto simp: send_and_record_def bnd_Ok_iff act_simps)
qed

lemma mark_broadcast_Ok:
  assumes "ids_unique w" "mark_broadcast E i txid fee w = (Ok u, v)" "r \<in> set (w_pool w)" "c_id r = i"
  shows "\<exists>now. filter (by_id i) (w_pool v) = [resealed E (w_db_key w) (sent_row txid fee now r)]"
    and "pending_of v txid = None" "w_bcast_events v = w_bcast_events w"
proof -
  obtain x s where db: "db_mark_broadcast E i txid fee w = (Ok x, s)"
    and rem: "v = snd (remove_pending_tx txid s)"
    using assms(2) by (auto simp: mark_broadcast_def ok_iffs act_simps)
  let ?now = "to_rfc3339 E (now_at E (w_clock w))"
  have s: "wrote_row E i (sent_row txid fee ?now) w s" using db_mark_broadcast_Ok [OF assms(1) db] .
  have "filter (by_id i) (w_pool s) = [resealed E (w_db_key w) (sent_row txid fee ?now r)]"
    using wrote_row_lookup [OF s] lookup_unique [OF assms(1,3,4)] by (simp add: sent_row_def)
  moreover have "w_pool v = w_pool s" "w_bcast_events v = w_bcast_events s"
    unfolding rem remove_run by (auto simp: del_pending_def split: option.split)
  moreover have "w_bcast_events s = w_bcast_events w" using s by (auto simp: wrote_row_def)
  ultimately show "\<exists>now. filter (by_id i) (w_pool v) = [resealed E (w_db_key w) (sent_row txid fee now r)]"
    "w_bcast_events v = w_bcast_events w" by auto
  show "pending_of v txid = None"
    unfolding rem remove_run by (auto simp: pmap.look_del_same split: option.split)
qed

text \<open>
  C6: A broadcast on request that succeeds was allowed, and is recorded.  Safe mode was off, the
  row's MAC was right, it had not been broadcast or confirmed, and its locktime was reached;
  afterwards the row is broadcast with the id the backend returned and a fresh MAC, the
  transaction no longer waits in the virtual mempool, and one notification is queued.
\<close>
theorem broadcast_now_checks_and_records:
  assumes "clock_ok E w" "ids_unique w" and run: "broadcast_now E i w = (Ok txid, v)"
  shows "\<not> w_safe_mode w \<and> pending_of v txid = None
    \<and> (\<exists>ev. w_bcast_events v = w_bcast_events w @ [ev] \<and> be_txid ev = txid)
    \<and> (\<exists>q \<in> set (w_pool w). c_id q = i \<and> row_sealed E (w_db_key w) q
        \<and> c_status q \<notin> {''broadcast'', ''confirmed''}
        \<and> locktime_reached E (map_option of_int (c_nlocktime q))
        \<and> (\<exists>fee now. filter (by_id i) (w_pool v) = [resealed E (w_db_key w) (sent_row txid fee now q)]))"
proof -
  have safe: "\<not> w_safe_mode w"
    using run by (auto simp: broadcast_now_def ok_iffs act_simps split: if_splits)
  obtain tx s where g: "get_broadcast_tx_by_id E i w = (Ok tx, s)"
    and tamper: "t_tampered tx \<noteq> Some True" and st: "t_status tx \<noteq> Broadcast" "t_status tx \<noteq> Confirmed"
    and rest: "send_if_final E tx s = (Ok txid, v)"
    using run safe by (auto simp: broadcast_now_def ok_iffs act_simps split: if_splits)
  obtain q qs where q: "filter (by_id i) (w_pool w) = q # qs" "tx_of_row E (w_db_key w) q tx"
    using get_by_id_Ok [OF g] .
  then have qin: "q \<in> set (w_pool w)" "c_id q = i" by (auto simp: by_id_def dest: filter_eq_ConsD)
  obtain a b c where lock: "locktime_or_refuse E (t_nlocktime tx) s = (Ok True, a)"
    and send: "broadcast_transaction E (t_tx_hex tx) a = (Ok txid, b)"
    and mark: "mark_broadcast E (t_id tx) txid (unwrap_or 0 (t_target_fee_rate tx)) b = (Ok (), c)"
    and ev: "emit_event E tx txid c = (Ok (), v)"
    using send_if_final_Ok [OF rest] .
  have ws: "still w s" by (rule movesD [OF still_quiet [OF quiet_get_broadcast_tx_by_id] g])
  have "still w b"
    by (rule still.trans [OF ws still.trans [OF movesD [OF still_locktime_or_refuse lock] movesD [OF still_broadcast send]]])
  then have b: "w_pool b = w_pool w" "w_db_key b = w_db_key w" "w_bcast_events b = w_bcast_events w"
    by (simp_all add: still_def)
  have "clock_ok E s"
    using movesD [OF guards_calm [OF calm_quiet [OF quiet_get_broadcast_tx_by_id]] g, of E "\<lambda>_. True"] assms(1)
    by (simp add: guards_def)
  then have lr: "locktime_reached E (t_nlocktime tx)" using locktime_or_refuse_Ok lock by blast
  have id: "t_id tx = i" using q(2) qin by (simp add: tx_of_row_def)
  have ub: "ids_unique b" using assms(2) b by (simp add: ids_unique_def)
  note mk = mark_broadcast_Ok [OF ub mark [unfolded id]]
  have vc: "w_pool v = w_pool c" "pending_of v = pending_of c"
    "\<exists>e. w_bcast_events v = w_bcast_events c @ [e] \<and> be_txid e = txid"
    using ev by (auto simp: emit_event_def ok_iffs act_simps tick_def pending_of_def fun_eq_iff)
  have rec: "\<exists>now. filter (by_id i) (w_pool v)
      = [resealed E (w_db_key w) (sent_row txid (unwrap_or 0 (t_target_fee_rate tx)) now q)]"
    using mk(1) qin b vc(1) by simp
  have pv: "pending_of v txid = None" "w_bcast_events c = w_bcast_events w"
    using mk(2,3) qin b vc(2) by simp_all
  have "row_sealed E (w_db_key w) q" "c_status q \<notin> {''broadcast'', ''confirmed''}"
    "locktime_reached E (map_option of_int (c_nlocktime q))"
    using q(2) tamper st lr by (auto simp: tx_of_row_def tx_status_from_str_def)
  then show ?thesis using safe pv vc(3) qin rec by auto
qed

theorem broadcast_now_checks_and_records_witness:
  "let v = snd (broadcast_now env_chain ''a'' world_due)
   in fst (broadcast_now env_chain ''a'' world_due) = Ok ''id''
      \<and> (\<exists>ev. w_bcast_events v = w_bcast_events world_due @ [ev] \<and> be_txid ev = ''id'')"
proof -
  have ok: "fst (broadcast_now env_chain ''a'' world_due) = Ok ''id''" by code_simp
  then have run: "broadcast_now env_chain ''a'' world_due = (Ok ''id'', snd (broadcast_now env_chain ''a'' world_due))"
    by (metis prod.collapse)
  have "ids_unique world_due" by (simp add: ids_unique_def world_due_def seal_chain_def row0_def)
  moreover have "clock_ok env_chain world_due" unfolding world_due_def by (rule clock_ok_ix)
  ultimately show ?thesis using broadcast_now_checks_and_records [OF _ _ run] ok by (simp add: Let_def)
qed

end
