(* ===== verification/Startup.thy ===== *)
theory Startup
  imports Command_Line Electrum_Listener Safe_Mode Pool_Properties
begin

text \<open>
  What a start of the process makes anew: the state of the pool manager (\<open>PoolManager::new\<close>), the
  path of the configuration, and the tasks that \<open>start\<close> leaves running (\<open>src/src/main.rs\<close>,
  \<open>start_all_loops\<close> of \<open>src/src/pool/scheduler.rs\<close>).
\<close>

section \<open>The pool manager\<close>

text \<open>
  The fields of the manager, of its price feed and of the key store; the tables, the file of the
  configuration and what has left the process stay.
\<close>
definition new_manager :: "bool \<Rightarrow> electrum_client option \<Rightarrow> config \<Rightarrow> world \<Rightarrow> world" where
  "new_manager rpc indexer c w = w\<lparr>w_rpc := rpc, w_indexer := indexer, w_config := c, w_pending := [],
     w_mtp_cache := None, w_chain_tip := None, w_health := default_chain_health,
     w_refresh_in_flight := False, w_price_cache := None, w_price_lkg := None, w_safe_mode := False,
     w_tampered_ids := [], w_watched := [], w_archive_key := None, w_sh_events := [], w_tip_events := [],
     w_bcast_events := []\<rparr>"

lemma new_manager_clock: "clock_ok E (new_manager rpc indexer c w)"
  by (simp add: new_manager_def clock_ok_def default_chain_health_def decide_chain_source_def)

lemma new_manager_keeps:
  "w_pool (new_manager rpc indexer c w) = w_pool w" "w_archive (new_manager rpc indexer c w) = w_archive w"
  "w_outbox (new_manager rpc indexer c w) = w_outbox w" "w_clock (new_manager rpc indexer c w) = w_clock w"
  "w_db_key (new_manager rpc indexer c w) = w_db_key w"
  by (simp_all add: new_manager_def)

text \<open>\<open>resolved_config_path\<close>: the data directory if it is named, else the user's.\<close>
definition resolved_config_path :: "env \<Rightarrow> string option \<Rightarrow> string option \<Rightarrow> string" where
  "resolved_config_path E config_dir home_dir =
     (let users = path_join (path_join (unwrap_or ''.'' (or_else config_dir
        (map_option (\<lambda>h. path_join h ''.config'') home_dir))) ''broadcast-pool'') ''config.toml''
      in case env_var E ''BROADCAST_POOL_DATA_DIR'' of
          None \<Rightarrow> users
        | Some dir \<Rightarrow> (let dir = trim dir in if dir \<noteq> [] then path_join dir ''config.toml'' else users))"

section \<open>The tasks of the daemon\<close>

datatype daemon_task = ConnectionTest | UmbrelRetry | ElectrumListeners | HealthPoller | BroadcastLoop | HeightMonitor
  | RebroadcastLoop | ConfirmationChecker | PriceMonitor | RetentionLoop | NotificationDispatcher
  | SubscriptionRelay | HttpServer

text \<open>The tasks spawned so far; \<open>tokio::spawn\<close> does not wait.\<close>
definition spawn :: "daemon_task \<Rightarrow> (daemon_task list, unit) act" where
  "spawn t = modify (\<lambda>ts. ts @ [t])"

definition spawn_all :: "daemon_task list \<Rightarrow> (daemon_task list, unit) act" where
  "spawn_all new = for_each (\<lambda>t _. spawn t) new ()"

definition start_all_loops :: "(daemon_task list, unit) act" where
  "start_all_loops = spawn_all [HealthPoller, BroadcastLoop, HeightMonitor, RebroadcastLoop, ConfirmationChecker,
     PriceMonitor, RetentionLoop, NotificationDispatcher, SubscriptionRelay]"

text \<open>
  The end of \<open>start\<close>: the connection test runs before the port of the dashboard is bound, the
  rest after; \<open>bound\<close> is what binding answers.
\<close>
definition run_daemon :: "env \<Rightarrow> config \<Rightarrow> unit res \<Rightarrow> (daemon_task list, unit) act" where
  "run_daemon E c bound =
     bnd (spawn ConnectionTest) (\<lambda>_.
     bnd (lift_res bound) (\<lambda>_.
     bnd (run_if (is_umbrel_mode E \<and> cf_indexer c = None) (spawn UmbrelRetry)) (\<lambda>_.
     bnd (spawn ElectrumListeners) (\<lambda>_.
     bnd start_all_loops (\<lambda>_.
     spawn HttpServer)))))"

text \<open>The address of the dashboard.\<close>
definition bind_addr :: "config \<Rightarrow> string" where
  "bind_addr c = web_host (cf_web c) @ '':'' @ show_u16 (web_port (cf_web c))"

lemma spawn_all_run: "spawn_all new ts = (Ok (), ts @ new)"
  unfolding spawn_all_def spawn_def by (induction new arbitrary: ts) (simp_all add: act_simps bnd_apply)

text \<open>All or nothing: without the port of the dashboard neither the loops nor the Electrum server run.\<close>
lemma loops_all_or_none:
  "run_daemon E c bound [] = (case bound of
       Ok u \<Rightarrow> (Ok (), ConnectionTest # (if is_umbrel_mode E \<and> cf_indexer c = None then [UmbrelRetry] else [])
         @ [ElectrumListeners, HealthPoller, BroadcastLoop, HeightMonitor, RebroadcastLoop, ConfirmationChecker,
            PriceMonitor, RetentionLoop, NotificationDispatcher, SubscriptionRelay, HttpServer])
     | Err e \<Rightarrow> (Err e, [ConnectionTest])
     | Panic p \<Rightarrow> (Panic p, [ConnectionTest]))"
  unfolding run_daemon_def start_all_loops_def run_if_def
  by (cases bound) (simp_all add: spawn_def act_simps bnd_apply spawn_all_run)

section \<open>A restart forgets safe mode\<close>

text \<open>
  Safe mode is in memory only: a new process has it off, with the rows that tripped it as
  they were, and nobody acknowledged.
\<close>
lemma restart_forgets_safe_mode:
  "w_safe_mode w \<Longrightarrow> \<not> w_safe_mode (new_manager rpc indexer c w) \<and> w_pool (new_manager rpc indexer c w) = w_pool w"
  by (simp add: new_manager_def)

text \<open>
  So a restart ends the halt: with a tampered row in the pool nothing is sent while safe mode is
  on, and after a restart the row before it is.
\<close>
definition world_halted :: world where
  "world_halted = world_due\<lparr>w_pool := w_pool world_due @ [row0 ''b'' ''scheduled'' (Some ''0'')], w_safe_mode := True\<rparr>"

definition world_restarted :: world where
  "world_restarted = snd (refresh_chain_health env_chain
     (new_manager (w_rpc world_halted) (w_indexer world_halted) (w_config world_halted) world_halted))"

lemma restart_ends_halt:
  "\<not> list_ex is_tx_send (w_outbox (snd (broadcast_due_transactions env_chain world_halted)))"
  "list_ex is_tx_send (w_outbox (snd (broadcast_due_transactions env_chain world_restarted)))"
  "w_safe_mode (snd (broadcast_due_transactions env_chain world_restarted))"
  by code_simp+

end
