(* ===== verification/Row_Types.thy ===== *)
theory Row_Types
  imports Daemon_Halt Startup
begin

text \<open>
  Invariants of single rows of the pool over the whole daemon.  The locale states what a
  predicate on rows must allow: the rows the code inserts and the assignments of its UPDATE
  statements.  Inside it every operation of the daemon is shown to keep the predicate on all
  rows, whatever it returns.  The types of the columns are one such predicate.
\<close>

section \<open>A predicate on every row\<close>

definition all_rows :: "(pool_row \<Rightarrow> bool) \<Rightarrow> world \<Rightarrow> bool" where
  "all_rows P w \<longleftrightarrow> (\<forall>r \<in> set (w_pool w). P r)"

definition keeps_rows :: "(pool_row \<Rightarrow> bool) \<Rightarrow> world \<Rightarrow> world \<Rightarrow> bool" where
  "keeps_rows P w v \<longleftrightarrow> (all_rows P w \<longrightarrow> all_rows P v)"

interpretation rows: act_rel "keeps_rows P" for P
  by unfold_locales (auto simp: keeps_rows_def)

lemma rows_same: "w_pool v = w_pool w \<Longrightarrow> keeps_rows P w v"
  by (simp add: keeps_rows_def all_rows_def)

lemma rows_modify: "(\<And>w. w_pool (f w) = w_pool w) \<Longrightarrow> moves (keeps_rows P) (modify f)"
  by (rule rows.step_modify) (rule rows_same)

lemma rows_quiet: "moves only_clock m \<Longrightarrow> moves (keeps_rows P) m"
  by (rule movesI) (drule (1) movesD, simp add: rows_same only_clock_proj)

lemma rows_calls: "moves (calls_out Q) m \<Longrightarrow> moves (keeps_rows P) m"
  by (rule movesI) (drule (1) movesD, simp add: rows_same calls_proj)

lemma rows_reads: "moves (reads_chain Q) m \<Longrightarrow> moves (keeps_rows P) m"
  by (rule movesI) (drule (1) movesD, simp add: rows_same reads_proj)

lemma rows_update: "(\<And>r. P r \<Longrightarrow> P (f r)) \<Longrightarrow> moves (keeps_rows P) (sql_update E p f)"
  by (auto simp: moves_def sql_update_def sql_def tick_def keeps_rows_def all_rows_def set_update_where
      split: option.split)

lemma rows_delete: "moves (keeps_rows P) (sql_delete E p)"
  by (auto simp: moves_def sql_delete_def sql_def tick_def keeps_rows_def all_rows_def split: option.split)

lemma rows_insert: "P r \<Longrightarrow> moves (keeps_rows P) (sql_insert E r)"
  by (auto simp: moves_def sql_insert_def sql_def tick_def keeps_rows_def all_rows_def split: option.split)

lemma rows_outbox: "moves (keeps_rows P) (put_outbox m)"
  unfolding put_outbox_def by (rule rows_modify) simp

lemma rows_sql:
  assumes "moves (keeps_rows P) m"
  shows "moves (keeps_rows P) (sql E m)"
proof (rule movesI)
  fix w x v
  assume "sql E m w = (x, v)"
  then have "v = tick w \<or> m (tick w) = (x, v)" by (auto simp: sql_def split: option.splits)
  moreover have "keeps_rows P w (tick w)" by (rule rows_same) (simp add: tick_def)
  ultimately show "keeps_rows P w v" using movesD [OF assms] rows.trans by blast
qed

lemma rows_spawn: "moves (keeps_rows P) m \<Longrightarrow> moves (keeps_rows P) (spawn_blocking m)"
  by (intro movesI) (auto dest: movesD simp: spawn_blocking_def split: prod.splits)

lemma rows_api_bnd:
  "moves (keeps_rows P) m \<Longrightarrow> (\<And>x. moves (keeps_rows P) (f x)) \<Longrightarrow> moves (keeps_rows P) (api_bnd m f)"
  unfolding api_bnd_def by (auto intro!: rows.rules split: sum.split)

lemma rows_api_simple: "moves (keeps_rows P) (reject code msg)" "moves (keeps_rows P) (answer x)"
  unfolding reject_def answer_def by (intro rows.rules)+

lemma rows_api_call: "moves (keeps_rows P) m \<Longrightarrow> moves (keeps_rows P) (api_call g m)"
  unfolding api_call_def by (auto intro!: rows.rules split: res.split)

lemma rows_api_blocking: "moves (keeps_rows P) m \<Longrightarrow> moves (keeps_rows P) (api_blocking g m)"
  unfolding api_blocking_def by (auto intro!: rows.rules rows_spawn split: res.split)

lemmas rows_rules = rows.rules rows_modify rows_quiet [OF quiet_draw] rows_quiet [OF quiet_draw_res]
  rows_delete rows_outbox rows_spawn rows_api_bnd rows_api_simple rows_api_call rows_api_blocking

lemmas rows_queries = rows_quiet [OF quiet_get_broadcast_tx_by_id] rows_quiet [OF quiet_list_broadcast_txs]
  rows_quiet [OF quiet_get_due_transactions] rows_quiet [OF quiet_get_price_triggered_pending]
  rows_quiet [OF quiet_get_pending_by_block_height] rows_quiet [OF quiet_get_pending_by_scheduled_time]
  rows_quiet [OF quiet_get_pending_rebroadcast] rows_quiet [OF quiet_get_pool_stats]
  rows_quiet [OF quiet_get_tx_hex_by_txid]

section \<open>Operations that leave the rows alone\<close>

lemma rows_chain:
  "moves (keeps_rows P) (get_median_time_past_cached E)" "moves (keeps_rows P) (is_locktime_satisfied E n)"
  "moves (keeps_rows P) (check_block_height E)" "moves (keeps_rows P) (locktime_or_refuse E n)"
  unfolding locktime_or_refuse_def
  by (auto intro!: rows_reads [OF reads_mtp_cached] rows_reads [OF reads_locktime]
      rows_reads [OF reads_check_block_height] rows.rules split: res.split)

lemma rows_memory:
  "moves (keeps_rows P) (enter_safe_mode i)" "moves (keeps_rows P) (announce_all shs)"
  "moves (keeps_rows P) (emit_event E tx txid)" "moves (keeps_rows P) (remove_pending_tx txid)"
  "moves (keeps_rows P) (cache_chain_tip h x)" "moves (keeps_rows P) (watch_scripthash sh)"
  "moves (keeps_rows P) (store_pending_tx txid hex shs outs)"
  "moves (keeps_rows P) (merge_pending_scripthashes txid shs)"
proof -
  have a: "moves (keeps_rows P) (announce_all shs)" for shs
    by (simp add: moves_def announce_all_run rows_same)
  then show "moves (keeps_rows P) (announce_all shs)" .
  show "moves (keeps_rows P) (enter_safe_mode i)" "moves (keeps_rows P) (emit_event E tx txid)"
    "moves (keeps_rows P) (remove_pending_tx txid)" "moves (keeps_rows P) (cache_chain_tip h x)"
    "moves (keeps_rows P) (watch_scripthash sh)" "moves (keeps_rows P) (store_pending_tx txid hex shs outs)"
    "moves (keeps_rows P) (merge_pending_scripthashes txid shs)"
    unfolding enter_safe_mode_def emit_event_def remove_pending_tx_def cache_chain_tip_def watch_scripthash_def
      store_pending_tx_def merge_pending_scripthashes_def Let_def
    by (auto intro!: rows_rules a split: option.split)
qed

lemma rows_send: "moves (keeps_rows P) (broadcast_transaction E hex)"
  unfolding broadcast_transaction_def broadcast_via_core_def core_broadcast_def
  by (auto intro!: rows_rules rows_calls [OF calls_indexer_broadcast] split: res.split option.split)

lemma rows_enrich: "moves (keeps_rows P) (enrich_tx_locktime E tx)"
  unfolding enrich_tx_locktime_def Let_def by (auto intro!: rows_rules rows_chain)

lemma rows_save: "moves (keeps_rows P) (save_config_to_disk E c key)"
proof -
  have "moves only_clock (sealed_for_disk E key c)" "moves only_clock (disk_step E)"
    unfolding sealed_for_disk_def disk_step_def Let_def encrypt_rpc_password_def encrypt_nostr_nsec_def encrypt_secret_def
    by (auto intro!: quiet_rules quiet_encode_field split: option.split)
  then show ?thesis
    unfolding save_config_to_disk_def by (auto intro!: rows_rules intro: rows_quiet)
qed

lemma rows_health: "moves (keeps_rows P) (refresh_chain_health E)"
proof -
  have reads: "moves (keeps_rows P) (core_status_or_none E)" "moves (keeps_rows P) (indexer_height_or_none E)"
    "moves (keeps_rows P) (software_or_none E h)" for h
    unfolding core_status_or_none_def indexer_height_or_none_def software_or_none_def
    by (auto intro!: rows.rules rows_calls [OF calls_block_height]
        rows_calls [OF calls_server_software] rows_quiet [OF quiet_core(3)])
  have "moves (keeps_rows P) (maybe_disarm_virtual_block E)"
    unfolding maybe_disarm_virtual_block_def Let_def
    by (auto intro!: rows_rules rows_save split: option.split)
  moreover have "moves (keeps_rows P) (warm_mtp_cache E m)" for m
    unfolding warm_mtp_cache_def by (auto intro!: rows_rules rows_chain split: option.split)
  moreover have "moves (keeps_rows P) (write_chain_health f)" for f
    unfolding write_chain_health_def by (rule rows_modify) (simp_all add: Let_def)
  ultimately show ?thesis
    unfolding refresh_chain_health_def by (auto intro!: rows_rules reads)
qed

lemma rows_extract: "moves (keeps_rows P) (extract_affected_scripthashes E hex addr)"
proof -
  have "moves (keeps_rows P) (fetch_prev_tx E txid addr)" for txid
    unfolding fetch_prev_tx_def Let_def by (auto intro!: rows_rules)
  then show ?thesis
    unfolding extract_affected_scripthashes_def extract_affected_scripthashes_opts_def Let_def
    by (auto intro!: rows_rules)
qed

lemma rows_reconnect: "moves (keeps_rows P) (reconnect_indexer_from_config E)"
  unfolding reconnect_indexer_from_config_def set_indexer_def Let_def
  by (auto intro!: rows_rules rows_calls [OF calls_resolve_url])

lemma rows_prices: "moves (keeps_rows P) (fetch_snapshot E)"
  unfolding fetch_snapshot_def refetch_def lkg_snapshot_def Let_def fetch_fresh_def
  by (auto intro!: rows_rules rows_quiet [OF quiet_first_complete [OF providers_quiet]]
      split: option.split res.split prod.split)

lemma rows_archive_key: "moves (keeps_rows P) (archive_key E)"
  unfolding archive_key_def by (auto intro!: rows_rules split: option.split prod.split)

lemma rows_unlocked: "moves (keeps_rows P) (password_is_set E)" "moves (keeps_rows P) (set_password E p)"
  "moves (keeps_rows P) (unlock E p)" "moves (keeps_rows P) (is_unlocked E)" "moves (keeps_rows P) lock_archive"
proof -
  have "moves (keeps_rows P) (get_config_value E key)" "moves (keeps_rows P) (set_config_value E key v)" for key v
    unfolding get_config_value_def set_config_value_def by (intro rows_rules rows_sql; simp)+
  then show "moves (keeps_rows P) (password_is_set E)" "moves (keeps_rows P) (set_password E p)"
    "moves (keeps_rows P) (unlock E p)" "moves (keeps_rows P) (is_unlocked E)" "moves (keeps_rows P) lock_archive"
    unfolding password_is_set_def set_password_def unlock_def is_unlocked_def lock_archive_def
    by (auto intro!: rows_rules split: option.split prod.split)
qed

lemma rows_transaction:
  assumes body: "moves (keeps_rows P) body"
  shows "moves (keeps_rows P) (transaction E c1 c2 body)"
proof -
  have inner: "moves (keeps_rows P) (seq body (with_ctx c2 (sql E (ret ()))))"
    by (intro rows_rules body rows_sql)
  have "moves (keeps_rows P) (\<lambda>w. case seq body (with_ctx c2 (sql E (ret ()))) w of
       (Ok u, v) \<Rightarrow> (Ok u, v) | (Err e, v) \<Rightarrow> (Err e, rollback_to w v) | (Panic p, v) \<Rightarrow> (Panic p, rollback_to w v))"
    by (intro movesI)
       (auto dest!: movesD [OF inner] intro: rows_same simp: rollback_to_def split: prod.splits res.splits)
  then show ?thesis
    unfolding transaction_def by (intro rows_rules rows_sql)
qed

lemma rows_archive: "moves (keeps_rows P) (archive_terminal_older_than E key net cutoff)"
proof -
  have ins: "moves (keeps_rows P) (sql_insert_archive E r)" for r
    unfolding sql_insert_archive_def sql_def
    by (intro movesI) (auto intro!: rows_same simp: tick_def split: option.splits if_splits)
  show ?thesis
    unfolding archive_terminal_older_than_def select_terminal_older_than_def archive_one_def
    by (auto intro!: rows_rules rows_transaction rows_quiet [OF quiet_seal] rows_quiet [OF quiet_query_txs] ins)
qed

lemma rows_with_key: "(\<And>k. moves (keeps_rows P) (f k)) \<Longrightarrow> moves (keeps_rows P) (with_archive_key E f)"
  unfolding with_archive_key_def by (auto intro!: rows_rules rows_archive_key split: option.split)

lemma rows_archive_reads: "moves (keeps_rows P) (list_archive E net m n)" "moves (keeps_rows P) (get_archive_blob E i)"
  unfolding list_archive_def get_archive_blob_def
  by (auto intro!: rows_rules rows_quiet [OF quiet_sql] quiet_rules)

lemma rows_nostr: "moves (keeps_rows P) (send_nostr E cfg ev lang)"
  by (rule rows_calls [OF calls_send_nostr])

lemma rows_forward: "moves (keeps_rows P) (forward_to_indexer_sync E r url)"
  unfolding forward_to_indexer_sync_def by (intro rows_rules)

lemma rows_tip: "moves (keeps_rows P) (refresh_chain_tip_cache E url)" "moves (keeps_rows P) (fetch_scripthash_history E url sh)"
  unfolding refresh_chain_tip_cache_def fetch_scripthash_history_def
  by (auto intro!: rows_rules rows_forward rows_memory split: option.split)

lemma rows_config: "moves (keeps_rows P) (put_config c)" "moves (keeps_rows P) (save_live_config E)"
  "moves (keeps_rows P) (reconnect_or_log E)" "moves (keeps_rows P) (sanitize_live_config E)"
  unfolding put_config_def save_live_config_def reconnect_or_log_def sanitize_live_config_def
  by (auto intro!: rows_rules rows_save rows_reconnect split: prod.split)

lemma rows_view: "moves (keeps_rows P) (wallet_connect_url E c port)" "moves (keeps_rows P) (config_to_response E c changed)"
  "moves (keeps_rows P) (umbrel_indexer_status_hint E c up)"
proof -
  have url: "moves (keeps_rows P) (wallet_connect_url E c port)" for c port
    unfolding wallet_connect_url_def resolve_lan_host_def
    by (auto intro!: rows_rules rows_calls [OF calls_lan_ip] split: option.split)
  then show "moves (keeps_rows P) (wallet_connect_url E c port)" .
  show "moves (keeps_rows P) (config_to_response E c changed)" "moves (keeps_rows P) (umbrel_indexer_status_hint E c up)"
    unfolding config_to_response_def umbrel_indexer_status_hint_def umbrel_electrs_probe_failure_def Let_def
    by (auto intro!: rows_rules url rows_calls [OF calls_try_host] split: prod.split)
qed

lemma rows_save_config: "moves (keeps_rows P) (api_save_config E req)"
proof -
  have "moves (keeps_rows P) (with_identity E d)" "moves (keeps_rows P) (check_recipient E n)" for d n
    unfolding with_identity_def check_recipient_def Let_def generate_nsec_def by (auto intro!: rows_rules)
  then have "moves (keeps_rows P) (store_request E req h c)" for req h c
    unfolding store_request_def Let_def by (auto intro!: rows_rules rows_config split: prod.split sum.split)
  then show ?thesis
    unfolding api_save_config_def Let_def
    by (auto intro!: rows_rules rows_config rows_view rows_calls [OF calls_apply_discovery] split: prod.split)
qed

lemma rows_own_client: "moves (keeps_rows P) m \<Longrightarrow> moves (keeps_rows P) (with_own_client url m)"
proof (intro movesI)
  fix w x v
  assume m: "moves (keeps_rows P) m" and run: "with_own_client url m w = (x, v)"
  then obtain u where u: "m (w\<lparr>w_indexer := Some \<lparr>ec_server = url, ec_resolved = None\<rparr>\<rparr>) = (x, u)"
    "v = u\<lparr>w_indexer := w_indexer w\<rparr>"
    by (auto simp: with_own_client_def split: prod.splits)
  from movesD [OF m u(1)] show "keeps_rows P w v" by (simp add: keeps_rows_def all_rows_def u(2))
qed

lemma rows_estimate_fee: "moves (keeps_rows P) (api_estimate_fee E hex)"
proof -
  have "moves (calls_out no_send) (calculate_tx_fee E hex)"
    unfolding calculate_tx_fee_def Let_def by (auto intro!: calls_rules calls_indexer_rpc split: prod.split)
  then show ?thesis
    unfolding api_estimate_fee_def estimate_fee_work_def
    by (auto intro!: rows_rules rows_own_client dest: rows_calls split: option.split res.split prod.split)
qed

lemma rows_answers:
  "moves (keeps_rows P) (api_mempool_status E)" "moves (keeps_rows P) (api_indexer_debug E)"
  "moves (keeps_rows P) (api_test_notification E)" "moves (keeps_rows P) (api_get_config E)"
  "moves (keeps_rows P) (api_btc_price E)" "moves (keeps_rows P) (api_archive_set_password E p)"
  "moves (keeps_rows P) (api_archive_unlock E p)" "moves (keeps_rows P) api_archive_lock"
  "moves (keeps_rows P) (api_list_archive E m n)" "moves (keeps_rows P) (api_archive_item E i)"
  "moves (keeps_rows P) (api_archive_flush E)"
proof -
  show "moves (keeps_rows P) (api_mempool_status E)"
    unfolding api_mempool_status_def get_mempool_status_def Let_def get_node_status_def
      estimate_smart_fee_def get_mempool_floor_def core_blockchain_info_def
    by (auto intro!: rows_rules split: option.split)
  show "moves (keeps_rows P) (api_indexer_debug E)"
    unfolding api_indexer_debug_def indexer_diagnostics_def configured_reachable_def read_boot_log_tail_def
    by (auto intro!: rows_rules rows_health rows_view rows_calls [OF calls_resolve_url] split: option.split)
  show "moves (keeps_rows P) (api_test_notification E)"
    unfolding api_test_notification_def by (auto intro!: rows_rules rows_nostr split: res.split)
  show "moves (keeps_rows P) (api_get_config E)" "moves (keeps_rows P) (api_btc_price E)"
    unfolding api_get_config_def api_btc_price_def by (intro rows_rules rows_config rows_view rows_prices)+
  show "moves (keeps_rows P) (api_archive_set_password E p)" "moves (keeps_rows P) (api_archive_unlock E p)"
    "moves (keeps_rows P) api_archive_lock" "moves (keeps_rows P) (api_list_archive E m n)"
    "moves (keeps_rows P) (api_archive_item E i)" "moves (keeps_rows P) (api_archive_flush E)"
    unfolding api_archive_set_password_def api_archive_unlock_def api_archive_lock_def api_list_archive_def
      api_archive_item_def api_archive_flush_def
    by (auto intro!: rows_rules rows_unlocked rows_with_key rows_archive_reads rows_archive split: option.split)
qed

lemma rows_store_outputs: "moves (keeps_rows P) (store_pending_outputs E txid hex)"
  unfolding store_pending_outputs_def extract_affected_scripthashes_opts_def Let_def
  by (auto intro!: rows_rules rows_memory)

lemma rows_input_hashes: "moves (keeps_rows P) (enrich_pending_input_scripthashes E txid hex url)"
proof -
  have prev: "moves (keeps_rows P) (fetch_prev_tx E t addr)" for t addr
    unfolding fetch_prev_tx_def Let_def by (auto intro!: rows_rules)
  have look: "moves (keeps_rows P) (lookup_tx_hex E t)" for t
    unfolding lookup_tx_hex_def or_try_def with_alt_def lookup_in_db_def get_pending_tx_hex_def Let_def
    by (auto intro!: rows_rules rows_queries split: option.split)
  show ?thesis
    unfolding enrich_pending_input_scripthashes_def enrich_input_scripthashes_def resolve_prev_tx_def
      lookup_prev_tx_hex_def Let_def
    by (auto intro!: rows_rules prev look rows_memory split: option.split)
qed

section \<open>Sessions of wallets\<close>

text \<open>Lines, tips and notifications leave the pool to the ingest of a broadcast.\<close>
definition conn_rows :: "(pool_row \<Rightarrow> bool) \<Rightarrow> conn \<Rightarrow> conn \<Rightarrow> bool" where
  "conn_rows P c d \<longleftrightarrow> keeps_rows P (cn_world c) (cn_world d)"

interpretation conn_rows: act_rel "conn_rows P" for P
  by unfold_locales (auto simp: conn_rows_def rows.refl intro: rows.trans)

lemma conn_world: "moves (keeps_rows P) m \<Longrightarrow> moves (conn_rows P) (on_world m)"
  by (rule movesI) (auto simp: conn_rows_def on_world_def dest: movesD split: prod.splits)

lemma conn_modify: "(\<And>c. cn_world (f c) = cn_world c) \<Longrightarrow> moves (conn_rows P) (modify f)"
  by (simp add: moves_def act_simps conn_rows_def rows.refl)

lemma conn_lookup: "moves (keeps_rows P) (lookup_tx_hex E t)"
  unfolding lookup_tx_hex_def or_try_def with_alt_def lookup_in_db_def get_pending_tx_hex_def Let_def
  by (auto intro!: rows_rules rows_queries split: option.split)

lemma conn_write:
  "moves (conn_rows P) (write_bytes E b)" "moves (conn_rows P) (write_json_rpc_response E v)"
  "moves (conn_rows P) (write_client_responses E vs batch)" "moves (conn_rows P) (check_slice n s)"
  "moves (conn_rows P) (upd_session g)" "moves (conn_rows P) (session_of h)" "moves (conn_rows P) (spawn_task t)"
  unfolding write_bytes_def write_json_rpc_response_def write_client_responses_def check_slice_def
    upd_session_def session_of_def spawn_task_def
  by (auto intro!: conn_rows.rules conn_world conn_modify rows_rules split: option.split list.split)

lemmas conn_rules = conn_rows.rules conn_write conn_world rows_forward rows_tip rows_memory rows_store_outputs
  conn_lookup rows_quiet [OF quiet_draw]

lemma conn_or_ask: "moves (conn_rows P) m \<Longrightarrow> moves (conn_rows P) (k ()) \<Longrightarrow> moves (conn_rows P) (or_ask m k)"
  unfolding or_ask_def by (auto intro!: conn_rules split: option.split)

lemma conn_interest: "moves (conn_rows P) (track_scripthash_interest sh)"
  unfolding track_scripthash_interest_def by (auto intro!: conn_rules)

lemma conn_forward: "moves (conn_rows P) (forward_subrequest_sync E r url)"
  unfolding forward_subrequest_sync_def add_waiting_def take_pending_method_def
  by (auto intro!: conn_rules split: option.split prod.split)

lemma conn_headers: "moves (conn_rows P) (handle_headers_subscribe E r url vtip)"
  unfolding handle_headers_subscribe_def virtual_tip_reply_def cached_tip_reply_def upstream_tip_def
    spawn_chain_tip_refresh_def Let_def
  by (auto intro!: conn_rules conn_or_ask split: option.split prod.split)

lemma conn_parts:
  "moves (conn_rows P) (fast_history r)" "moves (conn_rows P) (fast_subscribe E r)"
  "moves (conn_rows P) (known_transaction E r)" "moves (conn_rows P) (virtual_header_reply E r source)"
  unfolding fast_history_def fast_subscribe_def known_transaction_def virtual_header_reply_def
    serve_virtual_block_header_def session_virtual_tip_def
  by (auto intro!: conn_rules conn_interest split: option.split prod.split)

lemma conn_one: "moves (conn_rows P) (handle_one_subrequest E r url source)"
  unfolding handle_one_subrequest_def session_virtual_tip_def
  by (auto intro!: conn_rules conn_or_ask conn_parts conn_headers conn_forward)

lemma conn_take: "moves (conn_rows P) (take_broadcast E i hex source)"
  unfolding take_broadcast_def intercept_and_handle_broadcast_def accept_broadcast_def
  by (auto intro!: conn_rules split: res.split)

lemma conn_handshake: "moves (conn_rows P) (answer_handshake E line)"
  unfolding answer_handshake_def by (auto intro!: conn_rules split: option.split)

lemma conn_instant: "moves (conn_rows P) (answer_instant_tip E line url source)"
  unfolding answer_instant_tip_def cached_tip_reply_def session_virtual_tip_def spawn_chain_tip_refresh_def
  by (auto intro!: conn_rules split: option.split list.split)

lemma conn_broadcast: "moves (conn_rows P) (answer_broadcast E line source)"
  unfolding answer_broadcast_def invalid_broadcast_def
  by (auto intro!: conn_rules conn_take split: option.split prod.split)

lemma conn_requests: "moves (conn_rows P) (answer_requests E rs batch url source)"
  unfolding answer_requests_def answer_request_def flush_deferred_indexer_out_def
  by (auto intro!: conn_rules conn_one split: res.split)

lemma conn_parsed: "moves (conn_rows P) (answer_parsed E line url source)"
  unfolding answer_parsed_def invalid_broadcast_def
  by (auto intro!: conn_rules conn_take conn_requests split: res.split list.split option.split)

lemma conn_line: "moves (conn_rows P) (process_client_line E line url source)"
  unfolding process_client_line_def unless_done_def log_incoming_client_line_def
  by (auto intro!: conn_rules conn_handshake conn_instant conn_broadcast conn_parsed)

lemma conn_lines: "moves (conn_rows P) (serve_lines E source n buf)"
  by (induction n arbitrary: buf) (auto intro!: conn_rules conn_line split: option.split)

lemma conn_pushes: "moves (conn_rows P) (on_chain_tip E source height hex)" "moves (conn_rows P) (on_scripthash E sh)"
  unfolding on_chain_tip_def on_scripthash_def session_virtual_tip_def push_json_def forget_sent_txid_def Let_def
  by (auto intro!: conn_rules split: option.split)

section \<open>The subscription relay\<close>

definition relay_rows :: "(pool_row \<Rightarrow> bool) \<Rightarrow> relay \<Rightarrow> relay \<Rightarrow> bool" where
  "relay_rows P r s \<longleftrightarrow> keeps_rows P (rl_world r) (rl_world s)"

interpretation relay_rows: act_rel "relay_rows P" for P
  by unfold_locales (auto simp: relay_rows_def rows.refl intro: rows.trans)

lemma relay_rows_in: "moves (keeps_rows P) m \<Longrightarrow> moves (relay_rows P) (in_relay m)"
  by (rule movesI) (auto simp: in_relay_def relay_rows_def dest: movesD split: prod.splits)

lemma relay_rows_modify: "(\<And>r. rl_world (f r) = rl_world r) \<Longrightarrow> moves (relay_rows P) (modify f)"
  by (simp add: moves_def act_simps relay_rows_def rows.refl)

lemma rows_relay:
  "moves (relay_rows P) (relay_dial N)" "moves (relay_rows P) (relay_tick E N l)" "moves (relay_rows P) (relay_line E line)"
  unfolding relay_dial_def relay_tick_def relay_line_def subscribe_one_def relay_hang_up_def set_link_def
    sleep_secs_def write_line_def announce_scripthash_change_def Let_def
  by (auto intro!: relay_rows.rules relay_rows_modify relay_rows_in rows_rules split: prod.split res.split option.split)

lemma rows_warm_up: "moves (keeps_rows P) (warm_up E)"
  unfolding warm_up_def warm_up_attempt_def warm_chain_tip_cache_def
  by (auto intro!: rows_rules rows_tip)

section \<open>The statements, and all that is built on them\<close>

text \<open>What a predicate must allow: the row of an INSERT, and each assignment of an UPDATE.\<close>
locale row_invariant =
  fixes E :: env and P :: "pool_row \<Rightarrow> bool"
  assumes new_row: "0 \<le> k \<Longrightarrow> k < 2 ^ 63 \<Longrightarrow> P (new_pool_row E key tx i now a b c k)"
    and sealed: "P r \<Longrightarrow> P (r\<lparr>c_row_mac := m\<rparr>)"
    and status: "P r \<Longrightarrow> P (r\<lparr>c_status := tx_status_as_str st, c_error_message := e, c_updated_at := now\<rparr>)"
    and reset: "P r \<Longrightarrow> P (r\<lparr>c_status := ''scheduled'', c_error_message := None, c_updated_at := now\<rparr>)"
    and broadcast: "P r \<Longrightarrow> P (r\<lparr>c_status := ''broadcast'', c_txid := Some txid, c_actual_fee_rate := Some fee,
      c_broadcast_at := Some now, c_updated_at := now, c_broadcast_missed_at := None, c_defer_until := None\<rparr>)"
    and confirmed: "P r \<Longrightarrow> 0 \<le> h \<Longrightarrow> h < 2 ^ 63 \<Longrightarrow>
      P (r\<lparr>c_status := ''confirmed'', c_block_height := Some h, c_confirmed_at := Some now, c_updated_at := now\<rparr>)"
    and missed: "P r \<Longrightarrow> P (r\<lparr>c_broadcast_missed_at := Some now, c_original_scheduled_time := original, c_updated_at := u\<rparr>)"
      "P r \<Longrightarrow> P (r\<lparr>c_broadcast_missed_at := Some now, c_updated_at := u\<rparr>)"
    and rescheduled: "P r \<Longrightarrow> P (r\<lparr>c_status := ''scheduled'', c_scheduled_time := Some s, c_defer_until := d,
      c_target_fee_rate := Some fee, c_error_message := None, c_schedule_trigger := Some ''datetime'',
      c_target_price := None, c_price_currency := None, c_price_condition := None, c_updated_at := now\<rparr>)"
    and priced: "P r \<Longrightarrow> \<not> f64_le target 0 \<Longrightarrow> cur \<in> {''eur'', ''usd''} \<Longrightarrow> cond \<in> {''above'', ''below''} \<Longrightarrow>
      P (r\<lparr>c_status := ''pending'', c_scheduled_time := None, c_defer_until := None, c_target_fee_rate := Some fee,
        c_error_message := None, c_schedule_trigger := Some ''price'', c_target_price := Some target,
        c_price_currency := Some cur, c_price_condition := Some cond, c_updated_at := now\<rparr>)"
    and due: "P r \<Longrightarrow> P (r\<lparr>c_status := ''scheduled'', c_scheduled_time := Some s, c_updated_at := now\<rparr>)"
    and price_due: "P r \<Longrightarrow> P (r\<lparr>c_status := ''scheduled'', c_scheduled_time := Some s,
      c_schedule_trigger := Some ''datetime'', c_updated_at := now\<rparr>)"
    and drawn: "P r \<Longrightarrow> P (r\<lparr>c_status := ''scheduled'', c_scheduled_time := Some s,
      c_target_fee_rate := Some fee, c_updated_at := now\<rparr>)"
    and resent: "P r \<Longrightarrow> P (r\<lparr>c_broadcast_at := Some now, c_updated_at := now\<rparr>)"
    and valued: "P r \<Longrightarrow> P (r\<lparr>c_total_value_btc := Some v\<rparr>)"
    and encrypted: "P r \<Longrightarrow> P (r\<lparr>c_tx_hex := hex, c_destination_address := dest, c_source_label := source\<rparr>)"
    and migrated: "P r \<Longrightarrow> P (r\<lparr>c_broadcast_mode := Some ''imported''\<rparr>)"
begin

lemma reseal: "moves (keeps_rows P) (reseal_row_mac E i)"
  unfolding reseal_row_mac_def
  by (auto intro!: rows_rules rows_update sealed rows_quiet [OF quiet_sql_select] rows_quiet [OF quiet_first_row])

lemma small_param: "yields (\<lambda>k. 0 \<le> k \<and> k < 2 ^ 63) (lift_res (param_u64 n))"
  by (rule yieldsI) (auto simp: act_simps param_u64_def split: if_splits)

lemma insert_op: "moves (keeps_rows P) (insert_broadcast_tx E tx)"
  unfolding insert_broadcast_tx_def
  by (auto intro!: rows_rules rows_quiet [OF quiet_encode_field] rows_quiet [OF quiet_encode_optional] rows_queries
      rows.step_bnd_yields [OF rows.pure_lift small_param] rows_insert new_row)

lemma confirm_op: "moves (keeps_rows P) (mark_confirmed E i h)"
  unfolding mark_confirmed_def
  by (auto intro!: rows_rules reseal rows.step_bnd_yields [OF rows.pure_lift small_param] rows_update confirmed)

lemma price_op:
  assumes "\<not> f64_le target 0" "cur \<in> {''eur'', ''usd''}" "cond \<in> {''above'', ''below''}"
  shows "moves (keeps_rows P) (update_price_schedule E i target cur cond fee)"
  unfolding update_price_schedule_def
  by (intro rows_rules reseal rows_update priced assms)

lemma write_ops:
  "moves (keeps_rows P) (update_tx_status E i st e)" "moves (keeps_rows P) (reset_failed_to_scheduled E i)"
  "moves (keeps_rows P) (db_mark_broadcast E i txid fee)" "moves (keeps_rows P) (record_broadcast_miss E i a s)"
  "moves (keeps_rows P) (update_reschedule E i sch d fee)" "moves (keeps_rows P) (mark_due E i)"
  "moves (keeps_rows P) (mark_due_from_price_trigger E i)" "moves (keeps_rows P) (mark_due_with_schedule E i t)"
  "moves (keeps_rows P) (remove_broadcast_tx E i)" "moves (keeps_rows P) (delete_broadcast_tx E i)"
  unfolding update_tx_status_def reset_failed_to_scheduled_def db_mark_broadcast_def record_broadcast_miss_def
    update_reschedule_def mark_due_def mark_due_from_price_trigger_def mark_due_with_schedule_def
    remove_broadcast_tx_def delete_broadcast_tx_def
  by (auto intro!: rows_rules reseal rows_update status reset broadcast missed rescheduled due price_due
      split: option.split)

lemma open_op: "moves (keeps_rows P) (open_database E key)"
proof -
  have encode: "moves (keeps_rows P) (encode_if_plain E key i s)" "moves (keeps_rows P) (encode_optional_if_plain E key i x)"
    for key i s x
    unfolding encode_optional_if_plain_def encode_if_plain_def
    by (auto intro!: rows_rules rows_quiet [OF quiet_encode_field] split: option.split)
  show ?thesis
    unfolding open_database_def run_migrations_def backfill_output_values_def encrypt_legacy_rows_def Let_def
      migration_007_def
    by (auto intro!: rows_rules rows_sql rows_update reseal encode valued encrypted migrated
        rows_quiet [OF quiet_sql_select] split: option.split)
qed

text \<open>The pool manager.\<close>

lemmas ops = rows_rules rows_queries rows_chain rows_memory rows_send rows_enrich insert_op confirm_op write_ops

lemma mark_broadcast_op: "moves (keeps_rows P) (mark_broadcast E i txid fee)"
  unfolding mark_broadcast_def by (auto intro!: ops)

lemma due_op: "moves (keeps_rows P) (broadcast_due_transactions E)"
  unfolding broadcast_due_transactions_def filter_due_def keep_due_def is_tx_due_for_broadcast_def due_step_def
    note_miss_def broadcast_due_one_def
  by (auto intro!: ops mark_broadcast_op split: option.split res.split)

lemma requeue_op: "moves (keeps_rows P) (requeue_retriable_failures E)"
  unfolding requeue_retriable_failures_def requeue_one_def Let_def by (auto intro!: ops)

lemma tick_op: "moves (keeps_rows P) (run_scheduler_tick E)"
  unfolding run_scheduler_tick_def advance_pending_def mark_as_due_def
  by (auto intro!: ops due_op requeue_op)

lemma request_op: "moves (keeps_rows P) (broadcast_now E i)"
  unfolding broadcast_now_def send_if_final_def send_and_record_def refuse_locked_def
  by (auto intro!: ops mark_broadcast_op)

lemma rebroadcast_op: "moves (keeps_rows P) (rebroadcast_pending E)"
  unfolding rebroadcast_pending_def rebroadcast_one_def execute_raw_def
  by (auto intro!: ops rows_update resent split: res.split)

lemma trigger_op: "moves (keeps_rows P) (check_price_triggers E prices)"
  unfolding check_price_triggers_def by (auto intro!: ops)

lemma confirmations_op: "moves (keeps_rows P) (check_confirmations E)"
proof -
  have core: "moves (keeps_rows P) (core_get_transaction E t)" "moves (keeps_rows P) (core_get_block_count E)"
    "moves (keeps_rows P) (core_test_connection E)" for t
    by (intro rows_quiet quiet_core)+
  have "moves (keeps_rows P) (notify_tx_confirmed E hex)" for hex
    unfolding notify_tx_confirmed_def by (auto intro!: ops rows_extract split: option.split list.split)
  then show ?thesis
    unfolding check_confirmations_def confirm_one_def core_alive_def indexer_alive_def
    by (auto intro!: ops core rows_calls [OF calls_test_connection] split: option.split res.split)
qed

lemma schedule_price_op: "moves (keeps_rows P) (schedule_by_price E i target cur cond fee)"
  unfolding schedule_by_price_def by (auto intro!: ops price_op)

lemma schedule_ops:
  "moves (keeps_rows P) (schedule_at E i t fee)" "moves (keeps_rows P) (schedule_transaction E i a b c d f)"
  "moves (keeps_rows P) (retry_failed_transaction E i)" "moves (keeps_rows P) (remove_transaction E i)"
  "moves (keeps_rows P) (get_transaction E i)" "moves (keeps_rows P) (list_transactions E filt n)"
  "moves (keeps_rows P) (import_transaction E tx)" "moves (keeps_rows P) (get_stats E)"
  unfolding schedule_at_def schedule_transaction_def gen_range_f64_def retry_failed_transaction_def
    remove_transaction_def get_transaction_def list_transactions_def import_transaction_def get_stats_def
    execute_raw_def Let_def
  by (auto intro!: ops rows_update drawn split: option.split)

lemma pool_step_op: "pool_step E w v \<Longrightarrow> keeps_rows P w v"
  by (induction rule: pool_step.induct)
     (erule movesD [rotated], rule tick_op due_op request_op trigger_op requeue_op confirmations_op rows_health
       schedule_ops schedule_price_op)+

text \<open>The loops and the HTTP API.\<close>

lemma loop_step_op: "loop_step E w v \<Longrightarrow> keeps_rows P w v"
proof -
  have ticks: "moves (keeps_rows P) (broadcast_loop_tick E b)" "moves (keeps_rows P) (height_monitor_tick E)"
    "moves (keeps_rows P) (confirmation_tick E)" "moves (keeps_rows P) (price_tick E)"
    "moves (keeps_rows P) (health_tick E)" "moves (keeps_rows P) (retention_tick E)"
    "moves (keeps_rows P) (dispatch_notification E ev)" for b ev
    unfolding broadcast_loop_tick_def height_monitor_tick_def height_monitor_work_def mark_block_due_def
      confirmation_tick_def price_tick_def fetch_and_check_def health_tick_def retention_tick_def retention_work_def
      retention_cutoff_def dispatch_notification_def deliver_def with_retries_def mark_as_due_def when_clock_def
    by (auto intro!: ops tick_op confirmations_op rows_prices trigger_op rows_health rows_tip rows_archive_key
        rows_archive rows_nostr split: option.split res.split)
  show "loop_step E w v \<Longrightarrow> keeps_rows P w v"
    by (induction rule: loop_step.induct) (erule movesD [rotated], rule ticks)+
qed

lemma api_step_op: "api_step E w v \<Longrightarrow> keeps_rows P w v"
proof -
  have changes: "moves (keeps_rows P) (api_get_stats E)" "moves (keeps_rows P) (api_list_transactions E)"
    "moves (keeps_rows P) (api_get_transaction E i)" "moves (keeps_rows P) (api_import E new)"
    "moves (keeps_rows P) (api_schedule E i plan)" "moves (keeps_rows P) (api_remove E i)"
    "moves (keeps_rows P) (api_retry E i)" "moves (keeps_rows P) (api_broadcast_now E i)" for i new plan
    unfolding api_get_stats_def api_list_transactions_def api_get_transaction_def api_import_def api_schedule_def
      api_remove_def api_retry_def api_broadcast_now_def
    by (auto intro!: rows_rules schedule_ops schedule_price_op request_op rows_prices
        split: option.split res.split bool.split)
  have status: "moves (keeps_rows P) (api_status E)"
    unfolding api_status_def by (intro rows_rules rows_config schedule_ops rows_view rows_unlocked)
  show "api_step E w v \<Longrightarrow> keeps_rows P w v"
    by (induction rule: api_step.induct)
       (erule movesD [rotated], rule changes status rows_answers rows_save_config rows_estimate_fee)+
qed

text \<open>The Electrum server.\<close>

lemma ingest_op: "moves (keeps_rows P) (handle_broadcast E hex source)"
proof -
  have "moves (keeps_rows P) (capture_virtual_target E source mode)" for mode
    unfolding capture_virtual_target_def Let_def by (auto intro!: rows_rules rows_save)
  moreover have "moves (keeps_rows P) (resolve_ingest_plan E source n c tip)" for n c tip
    unfolding resolve_ingest_plan_def resolve_broadcast_plan_def delayed_plan_def Let_def
    by (auto intro!: rows_rules split: bcast_mode.split option.split)
  ultimately show ?thesis
    unfolding handle_broadcast_def mark_as_due_def Let_def
    by (auto intro!: ops schedule_ops rows_store_outputs)
qed

lemma session_step_op: "session_step E source (buf, c) (buf', d) \<Longrightarrow> conn_rows P c d"
proof (induction rule: session_step.cases)
  case (received buf new c r d)
  then show ?case
    unfolding on_client_bytes_def Let_def by (auto dest: movesD [OF conn_lines])
next
  case (task_ran t c r d buf)
  have "moves (conn_rows P) (run_task E t)"
    unfolding run_task_def
    by (auto intro!: conn_rules ingest_op rows_input_hashes split: task.split option.split)
  from movesD [OF this task_ran(4)] show ?case using task_ran by (simp add: conn_rows_def)
qed (auto dest: movesD [OF conn_pushes(1)] movesD [OF conn_pushes(2)])

text \<open>The daemon.\<close>

lemma process_step_op: "process_step E w v \<Longrightarrow> keeps_rows P w v"
  by (induction rule: process_step.induct)
     (auto intro: pool_step_op loop_step_op api_step_op dest!: session_step_op movesD [OF rows_warm_up]
       movesD [OF rows_relay(1)] movesD [OF rows_relay(2)] movesD [OF rows_relay(3)]
       simp: conn_rows_def relay_rows_def)

end

text \<open>
  The daemon with nothing left out: its end and its next start, with whatever backends and
  configuration, the rebroadcast loop and the acknowledgement too.
\<close>
inductive daemon_step :: "env \<Rightarrow> world \<Rightarrow> world \<Rightarrow> bool" for E where
  opened: "open_database E key w = (x, v) \<Longrightarrow> daemon_step E w v"
| restarted: "daemon_step E w (new_manager rpc indexer c w)"
| started: "start_pool E c w = (x, v) \<Longrightarrow> daemon_step E w v"
| stepped: "process_step E w v \<Longrightarrow> daemon_step E w v"
| resent: "rebroadcast_tick E w = (u, v) \<Longrightarrow> daemon_step E w v"
| acknowledged: "api_acknowledge w = (y, v) \<Longrightarrow> daemon_step E w v"

context row_invariant
begin

lemma daemon_step_op: "daemon_step E w v \<Longrightarrow> keeps_rows P w v"
proof (induction rule: daemon_step.induct)
  case (resent w u v)
  have "moves (keeps_rows P) (rebroadcast_tick E)"
    unfolding rebroadcast_tick_def when_clock_def by (auto intro!: rows_rules rebroadcast_op)
  then show ?case using resent by (rule movesD)
next
  case (acknowledged w y v)
  have "moves (keeps_rows P) api_acknowledge"
    unfolding api_acknowledge_def clear_safe_mode_def by (auto intro!: rows_rules)
  then show ?case using acknowledged by (rule movesD)
next
  case (started c w x v)
  have "moves (keeps_rows P) (load_pending_from_db E)"
    unfolding load_pending_from_db_def rehydrate_one_def
    by (auto intro!: rows_rules rows_memory rows_extract rows_queries split: option.split)
  then have "moves (keeps_rows P) (start_pool E c)"
    unfolding start_pool_def by (auto intro!: rows_rules rows_health requeue_op)
  then show ?case using started by (rule movesD)
qed (auto intro: process_step_op rows_same simp: new_manager_keeps dest: movesD [OF open_op])

lemma daemon_run:
  assumes "(daemon_step E)\<^sup>*\<^sup>* w v" "all_rows P w"
  shows "all_rows P v"
  using assms
  by (induction rule: rtranclp_induct) (auto dest: daemon_step_op simp: keeps_rows_def)

end

section \<open>The types of the columns\<close>

text \<open>
  SQLite does not enforce the types the code relies on: a status it knows, locktime and block
  height that fit 63 bits, a value and a mode, and the price columns of a price-triggered row.
\<close>
definition row_typed :: "pool_row \<Rightarrow> bool" where
  "row_typed r \<longleftrightarrow> (\<exists>st. c_status r = tx_status_as_str st)
     \<and> (\<exists>n. c_nlocktime r = Some n \<and> 0 \<le> n \<and> n < 2 ^ 63)
     \<and> (\<forall>h. c_block_height r = Some h \<longrightarrow> 0 \<le> h \<and> h < 2 ^ 63)
     \<and> c_total_value_btc r \<noteq> None \<and> c_broadcast_mode r \<noteq> None
     \<and> c_schedule_trigger r \<in> {Some ''datetime'', Some ''price''}
     \<and> (c_schedule_trigger r = Some ''price'' \<longrightarrow> (\<exists>p. c_target_price r = Some p \<and> \<not> f64_le p 0)
          \<and> c_price_currency r \<in> {Some ''eur'', Some ''usd''}
          \<and> c_price_condition r \<in> {Some ''above'', Some ''below''})"

lemma known_statuses: "\<exists>st. ''pending'' = tx_status_as_str st" "\<exists>st. ''scheduled'' = tx_status_as_str st"
  "\<exists>st. ''broadcast'' = tx_status_as_str st" "\<exists>st. ''confirmed'' = tx_status_as_str st"
  by (metis tx_status_as_str.simps)+

interpretation typed: row_invariant E row_typed for E
  by unfold_locales (auto simp: row_typed_def new_pool_row_def Let_def known_statuses)

text \<open>No operation counts a retry: the column keeps the zero it is inserted with.\<close>
interpretation untried: row_invariant E "\<lambda>r. c_retry_count r = 0" for E
  by unfold_locales (simp_all add: new_pool_row_def Let_def)

lemma retries_never_counted:
  "(daemon_step E)\<^sup>*\<^sup>* w v \<Longrightarrow> all_rows (\<lambda>r. c_retry_count r = 0) w \<Longrightarrow> all_rows (\<lambda>r. c_retry_count r = 0) v"
  by (rule untried.daemon_run)

text \<open>A well-typed row is read without an error, and its status is the one stored.\<close>
definition always :: "('s, 'a) act \<Rightarrow> bool" where
  "always m \<longleftrightarrow> (\<forall>s. is_ok (fst (m s)))"

lemma always_bnd:
  assumes "always m" "\<And>x. always (f x)"
  shows "always (bnd m f)"
  unfolding always_def
proof
  fix s
  obtain x t where "m s = (Ok x, t)" using assms(1) unfolding always_def is_ok_iff by (metis prod.collapse)
  then show "is_ok (fst (bnd m f s))" using assms(2) by (simp add: bnd_apply always_def)
qed

lemma bnd_value: "bnd (lift_res (Ok x)) f = f x"
  by (rule ext) (simp add: bnd_apply act_simps)

lemma always_ok: "always (ret x)" "always (lift_res (Ok x))" "always (draw f)"
  by (simp_all add: always_def act_simps)

lemma always_times: "always (parse_datetime E s)" "always (parse_optional_datetime E x)"
  unfolding parse_optional_datetime_def parse_datetime_def
  by (auto intro!: always_bnd always_ok split: option.split)

lemma typed_row_reads:
  assumes "row_typed r"
  shows "\<exists>tx z. map_broadcast_row E key r u = (Ok tx, z) \<and> tx_status_as_str (t_status tx) = c_status r"
proof -
  obtain st n where st: "c_status r = tx_status_as_str st" and n: "c_nlocktime r = Some n" "0 \<le> n"
    using assms by (auto simp: row_typed_def)
  obtain y where y: "c_total_value_btc r = Some y" using assms by (auto simp: row_typed_def)
  obtain h where h: "get_opt_u64 10 (c_block_height r) = Ok h"
    using assms by (cases "c_block_height r") (auto simp: row_typed_def get_opt_u64_def)
  have cols: "get_not_null 5 ''nlocktime'' (c_nlocktime r) = Ok n" "get_opt_u64 5 (Some n) = Ok (Some (of_int n))"
    "get_not_null 16 ''total_value_btc'' (c_total_value_btc r) = Ok y"
    using n y by (simp_all add: get_not_null_def get_opt_u64_def)
  have "always (map_broadcast_row E key r)"
    unfolding map_broadcast_row_def cols h bnd_value by (intro always_bnd always_ok always_times)
  then obtain tx z where run: "map_broadcast_row E key r u = (Ok tx, z)"
    unfolding always_def is_ok_iff by (metis prod.collapse)
  moreover have "tx_status_as_str (t_status tx) = c_status r"
    using map_broadcast_row_Ok [OF run] st by (simp add: tx_of_row_def)
  ultimately show ?thesis by blast
qed

text \<open>
  C16: The rows of the pool stay well typed, whatever the daemon does.  From the opening of the
  database on, across restarts and any interleaving of loops, requests, wallet sessions, the relay and the
  rebroadcast, and whichever statements fail, every row keeps a known status, a locktime and a
  height that fit, a value, a mode and, if a price triggers it, all its price columns; so it is
  always read without an error, with the status that was stored.
\<close>
theorem rows_stay_typed:
  assumes "(daemon_step E)\<^sup>*\<^sup>* w v" "all_rows row_typed w" "r \<in> set (w_pool v)"
  shows "row_typed r \<and> (\<exists>tx z. map_broadcast_row E (w_db_key v) r u = (Ok tx, z)
    \<and> tx_status_as_str (t_status tx) = c_status r)"
proof -
  have "row_typed r" using typed.daemon_run [OF assms(1,2)] assms(3) by (simp add: all_rows_def)
  then show ?thesis using typed_row_reads by blast
qed

definition sample_new :: new_broadcast_tx where
  "sample_new = \<lparr>n_tx_hex = ''zz'', n_network = ''testnet4'', n_nlocktime = None,
     n_broadcast_mode = Some ''manual'', n_scheduled_time = None, n_target_fee_rate = None,
     n_source_label = None, n_destination_address = None, n_utxo_count = None,
     n_total_value_btc = Some 0, n_replacement_of = None\<rparr>"

definition sample_plan :: schedule_request where
  "sample_plan = \<lparr>sr_scheduled_time = None, sr_min_delay = None, sr_max_delay = None, sr_min_fee = None,
     sr_max_fee = None, sr_fixed_fee = None, sr_target_price = Some (f64_of_int 90), sr_price_currency = None,
     sr_price_condition = None\<rparr>"

theorem rows_stay_typed_witness:
  "let w = snd (import_transaction env0 sample_new world0); v = snd (api_schedule env0 ''u0'' sample_plan w)
   in map c_status (w_pool v) = [''pending''] \<and> map c_schedule_trigger (w_pool v) = [Some ''price'']
      \<and> row_typed (hd (w_pool v))"
proof -
  let ?w = "snd (import_transaction env0 sample_new world0)"
  let ?v = "snd (api_schedule env0 ''u0'' sample_plan ?w)"
  have cols: "map c_status (w_pool ?v) = [''pending'']" "map c_schedule_trigger (w_pool ?v) = [Some ''price'']"
  proof -
    have "case import_transaction env0 sample_new world0 of (x, w) \<Rightarrow>
        (case api_schedule env0 ''u0'' sample_plan w of (y, v) \<Rightarrow>
          map c_status (w_pool v) = [''pending''] \<and> map c_schedule_trigger (w_pool v) = [Some ''price''])"
      by code_simp
    then show "map c_status (w_pool ?v) = [''pending'']" "map c_schedule_trigger (w_pool ?v) = [Some ''price'']"
      unfolding case_prod_beta by blast+
  qed
  have "daemon_step env0 world0 ?w"
    by (intro stepped process_step.pool imported [OF surjective_pairing])
  moreover have "daemon_step env0 ?w ?v"
    by (intro stepped requested schedule_tx [OF surjective_pairing])
  ultimately have run: "(daemon_step env0)\<^sup>*\<^sup>* world0 ?v" by simp
  have "all_rows row_typed world0" by (simp add: all_rows_def world0_def)
  moreover have "hd (w_pool ?v) \<in> set (w_pool ?v)"
    using cols(1) by (cases "w_pool ?v") simp_all
  ultimately have "row_typed (hd (w_pool ?v))" using rows_stay_typed [OF run] by blast
  then show ?thesis using cols by (simp add: Let_def)
qed

end
