(* ===== verification/Schema.thy ===== *)
theory Schema
  imports Sample
begin

text \<open>
  The tables as \<open>src/src/db/schema.rs\<close> makes them, and \<open>run_migrations\<close> of \<open>src/src/db/mod.rs\<close> on
  the catalogue of a database file of any age: which statement runs, which fails, what is logged.
  What the migrations do to the rows is in \<open>Database\<close>, on the current schema.
\<close>

section \<open>Statements\<close>

datatype col_type = TEXT | INTEGER | REAL | BLOB
datatype col_default = NoDefault | DefText string | DefInt int | DefReal string | DefNow

record column =
  cl_name :: string
  cl_type :: col_type
  cl_primary :: bool
  cl_not_null :: bool
  cl_default :: col_default
  cl_references :: "(string \<times> string \<times> bool) option"

definition col :: "string \<Rightarrow> col_type \<Rightarrow> column" where
  "col n t = \<lparr>cl_name = n, cl_type = t, cl_primary = False, cl_not_null = False, cl_default = NoDefault,
     cl_references = None\<rparr>"

definition primary_key :: "string \<Rightarrow> column" where
  "primary_key n = (col n TEXT)\<lparr>cl_primary := True\<rparr>"

definition not_null :: "string \<Rightarrow> col_type \<Rightarrow> column" where
  "not_null n t = (col n t)\<lparr>cl_not_null := True\<rparr>"

definition dflt :: "col_default \<Rightarrow> column \<Rightarrow> column" where
  "dflt d c = c\<lparr>cl_default := d\<rparr>"

text \<open>A foreign key: table, column, and whether a delete cascades.\<close>
definition foreign_key :: "string \<Rightarrow> string \<Rightarrow> bool \<Rightarrow> column \<Rightarrow> column" where
  "foreign_key t c cascades k = k\<lparr>cl_references := Some (t, c, cascades)\<rparr>"

datatype stmt =
    CreateTable string "column list"
  | CreateIndex string string "string list"
  | AddColumn string column
  | UpdateWhere string "(string \<times> string) list" "(string \<times> string) list"

section \<open>The migrations\<close>

definition pool_columns_001 :: "column list" where
  "pool_columns_001 = [
    primary_key ''id'', not_null ''tx_hex'' TEXT, col ''txid'' TEXT,
    dflt (DefText ''pending'') (not_null ''status'' TEXT), not_null ''network'' TEXT,
    dflt (DefInt 0) (col ''nlocktime'' INTEGER), dflt (DefText ''immediate'') (col ''broadcast_mode'' TEXT),
    col ''scheduled_time'' TEXT, col ''broadcast_at'' TEXT, col ''confirmed_at'' TEXT,
    col ''block_height'' INTEGER, col ''target_fee_rate'' REAL, col ''actual_fee_rate'' REAL,
    col ''source_label'' TEXT, col ''destination_address'' TEXT, dflt (DefInt 1) (col ''utxo_count'' INTEGER),
    dflt (DefReal ''0.0'') (col ''total_value_btc'' REAL), col ''replacement_of'' TEXT, col ''error_message'' TEXT,
    dflt (DefInt 0) (col ''retry_count'' INTEGER),
    dflt DefNow (not_null ''created_at'' TEXT), dflt DefNow (not_null ''updated_at'' TEXT)]"

definition migration_001_sql :: "stmt list" where
  "migration_001_sql = [
    CreateTable ''broadcast_pool'' pool_columns_001,
    CreateIndex ''idx_pool_status'' ''broadcast_pool'' [''status''],
    CreateIndex ''idx_pool_scheduled'' ''broadcast_pool'' [''scheduled_time''],
    CreateIndex ''idx_pool_network'' ''broadcast_pool'' [''network''],
    CreateIndex ''idx_pool_txid'' ''broadcast_pool'' [''txid''],
    CreateTable ''migration_plans'' [
      primary_key ''id'', not_null ''name'' TEXT, col ''source_wallet'' TEXT, col ''destination_wallet'' TEXT,
      not_null ''network'' TEXT, dflt (DefText ''draft'') (not_null ''status'' TEXT),
      dflt (DefInt 2) (col ''min_delay_hours'' INTEGER), dflt (DefInt 72) (col ''max_delay_hours'' INTEGER),
      dflt (DefReal ''1.0'') (col ''min_fee_rate'' REAL), dflt (DefReal ''50.0'') (col ''max_fee_rate'' REAL),
      dflt (DefInt 0) (col ''total_transactions'' INTEGER),
      dflt (DefInt 0) (col ''completed_transactions'' INTEGER),
      dflt (DefReal ''0.0'') (col ''total_value_migrated_btc'' REAL),
      dflt DefNow (not_null ''created_at'' TEXT), dflt DefNow (not_null ''updated_at'' TEXT)],
    CreateIndex ''idx_plans_status'' ''migration_plans'' [''status''],
    CreateIndex ''idx_plans_network'' ''migration_plans'' [''network''],
    CreateTable ''migration_utxos'' [
      primary_key ''id'', foreign_key ''migration_plans'' ''id'' True (not_null ''plan_id'' TEXT),
      not_null ''txid'' TEXT, not_null ''vout'' INTEGER, not_null ''value_btc'' REAL, col ''address'' TEXT,
      col ''label'' TEXT, col ''source_label'' TEXT,
      foreign_key ''broadcast_pool'' ''id'' False (col ''broadcast_pool_id'' TEXT),
      dflt DefNow (not_null ''created_at'' TEXT)],
    CreateIndex ''idx_utxos_plan'' ''migration_utxos'' [''plan_id''],
    CreateIndex ''idx_utxos_pool_id'' ''migration_utxos'' [''broadcast_pool_id''],
    CreateTable ''config_store'' [
      primary_key ''key'', not_null ''value'' TEXT, dflt DefNow (not_null ''updated_at'' TEXT)]]"

definition columns_002 :: "column list" where
  "columns_002 = [dflt (DefInt 0) (col ''nlocktime'' INTEGER)]"

definition migration_003_sql :: "stmt list" where
  "migration_003_sql = [CreateIndex ''idx_pool_nlocktime'' ''broadcast_pool'' [''nlocktime'']]"

definition columns_004 :: "column list" where
  "columns_004 = [dflt (DefText ''immediate'') (col ''broadcast_mode'' TEXT)]"

definition columns_005 :: "column list" where
  "columns_005 = [col ''broadcast_missed_at'' TEXT, col ''original_scheduled_time'' TEXT, col ''defer_until'' TEXT]"

definition columns_006 :: "column list" where
  "columns_006 = [dflt (DefText ''datetime'') (col ''schedule_trigger'' TEXT), col ''target_price'' REAL,
     col ''price_currency'' TEXT, col ''price_condition'' TEXT]"

definition migration_007_sql :: "stmt list" where
  "migration_007_sql = [UpdateWhere ''broadcast_pool'' [(''broadcast_mode'', ''imported'')]
     [(''broadcast_mode'', ''immediate''), (''status'', ''pending'')]]"

definition columns_008 :: "column list" where
  "columns_008 = [col ''row_mac'' TEXT]"

definition migration_009_sql :: "stmt list" where
  "migration_009_sql = [
    CreateTable ''archive_pool'' [primary_key ''id'', not_null ''network'' TEXT, not_null ''archived_at'' TEXT,
      not_null ''blob'' BLOB, dflt DefNow (not_null ''created_at'' TEXT)],
    CreateIndex ''idx_archive_network_archived_at'' ''archive_pool'' [''network'', ''archived_at'']]"

text \<open>A migration that only adds columns to the pool, one statement each.\<close>
definition alter_pool :: "column list \<Rightarrow> stmt list" where
  "alter_pool cs = map (AddColumn ''broadcast_pool'') cs"

section \<open>A database file\<close>

datatype log_line = Debug string | Warn string

record dbfile =
  df_tables :: "(string \<times> column list) list"
  df_indexes :: "(string \<times> string \<times> string list) list"
  df_clock :: nat
  df_log :: "log_line list"

type_synonym 'a dact = "(dbfile, 'a) act"

definition has_column :: "column list \<Rightarrow> string \<Rightarrow> bool" where
  "has_column cs c \<longleftrightarrow> c \<in> cl_name ` set cs"

definition need :: "bool \<Rightarrow> string \<Rightarrow> unit dact \<Rightarrow> unit dact" where
  "need b e m = (if b then m else bail e)"

text \<open>What SQLite does for a statement when the disk allows it.\<close>
definition obey :: "stmt \<Rightarrow> unit dact" where
  "obey st = (\<lambda>s. (case st of
       CreateTable t cs \<Rightarrow>
         if map_of (df_tables s) t \<noteq> None then ret ()
         else need (map_of (df_indexes s) t = None) ''there is already an index of that name''
           (modify (\<lambda>s. s\<lparr>df_tables := df_tables s @ [(t, cs)]\<rparr>))
     | CreateIndex i t cs \<Rightarrow>
         if map_of (df_indexes s) i \<noteq> None then ret ()
         else (case map_of (df_tables s) t of
             None \<Rightarrow> bail ''no such table''
           | Some have_cols \<Rightarrow>
               need (map_of (df_tables s) i = None) ''there is already a table of that name''
               (need (list_all (has_column have_cols) cs) ''no such column''
                 (modify (\<lambda>s. s\<lparr>df_indexes := df_indexes s @ [(i, t, cs)]\<rparr>))))
     | AddColumn t c \<Rightarrow> (case map_of (df_tables s) t of
           None \<Rightarrow> bail ''no such table''
         | Some have_cols \<Rightarrow>
             need (\<not> has_column have_cols (cl_name c)) (''duplicate column name: '' @ cl_name c)
               (modify (\<lambda>s. s\<lparr>df_tables := AList.update t (have_cols @ [c]) (df_tables s)\<rparr>)))
     | UpdateWhere t sets conds \<Rightarrow> (case map_of (df_tables s) t of
           None \<Rightarrow> bail ''no such table''
         | Some have_cols \<Rightarrow>
             need (list_all (has_column have_cols) (map fst sets @ map fst conds)) ''no such column'' (ret ()))) s)"

definition exec_stmt :: "env \<Rightarrow> stmt \<Rightarrow> unit dact" where
  "exec_stmt E st = (\<lambda>s. let t = s\<lparr>df_clock := Suc (df_clock s)\<rparr> in
     case sql_fault_at E (df_clock s) of Some e \<Rightarrow> (Err [e], t) | None \<Rightarrow> obey st t)"

text \<open>The statements in order, each committed on its own, up to the first that fails.\<close>
definition execute_batch :: "env \<Rightarrow> stmt list \<Rightarrow> unit dact" where
  "execute_batch E sts = for_each (\<lambda>st _. exec_stmt E st) sts ()"

definition log_db :: "log_line \<Rightarrow> unit dact" where
  "log_db l = modify (\<lambda>s. s\<lparr>df_log := df_log s @ [l]\<rparr>)"

text \<open>
  A migration that may fail: the test looks at \<open>e.to_string()\<close>, which is the context that was
  just put on the error.
\<close>
definition try_migration :: "env \<Rightarrow> string \<Rightarrow> string list \<Rightarrow> log_line option \<Rightarrow> stmt list \<Rightarrow> unit dact" where
  "try_migration E name benign skipped sts =
     bnd (attempt (with_ctx name (execute_batch E sts))) (\<lambda>r. case r of
         Err e \<Rightarrow>
           (let err_str = err_to_string e in
            if list_all (\<lambda>b. \<not> str_contains err_str b) benign
            then log_db (Warn (name @ '' warning (non-fatal): '' @ err_str))
            else (case skipped of None \<Rightarrow> ret () | Some l \<Rightarrow> log_db l))
       | _ \<Rightarrow> ret ())"

definition try_plain :: "env \<Rightarrow> string \<Rightarrow> stmt list \<Rightarrow> unit dact" where
  "try_plain E name sts = bnd (attempt (execute_batch E sts)) (\<lambda>r. case r of
       Err e \<Rightarrow> log_db (Warn (name @ '' warning (non-fatal): '' @ err_to_string e))
     | _ \<Rightarrow> ret ())"

definition migrate_schema :: "env \<Rightarrow> unit dact" where
  "migrate_schema E =
     bnd (with_ctx ''Failed to run migrations'' (execute_batch E migration_001_sql)) (\<lambda>_.
     bnd (try_migration E ''Migration 002'' [''duplicate column'', ''already exists'']
       (Some (Debug ''nlocktime column already exists, skipping migration 002'')) (alter_pool columns_002)) (\<lambda>_.
     bnd (try_migration E ''Migration 003'' [''already exists''] None migration_003_sql) (\<lambda>_.
     bnd (try_migration E ''Migration 004'' [''duplicate column'', ''already exists'']
       (Some (Debug ''broadcast_mode column already exists, skipping migration 004'')) (alter_pool columns_004)) (\<lambda>_.
     bnd (try_migration E ''Migration 005'' [''duplicate column'', ''already exists'']
       (Some (Debug ''defer columns already exist, skipping migration 005'')) (alter_pool columns_005)) (\<lambda>_.
     bnd (try_migration E ''Migration 006'' [''duplicate column'', ''already exists'']
       (Some (Debug ''price trigger columns already exist, skipping migration 006'')) (alter_pool columns_006)) (\<lambda>_.
     bnd (try_plain E ''Migration 007'' migration_007_sql) (\<lambda>_.
     bnd (try_plain E ''Migration 008'' (alter_pool columns_008)) (\<lambda>_.
     try_plain E ''Migration 009'' migration_009_sql))))))))"

text \<open>The columns every read of the pool names.\<close>
definition broadcast_select :: "string list" where
  "broadcast_select = [''id'', ''tx_hex'', ''txid'', ''status'', ''network'', ''nlocktime'', ''broadcast_mode'',
     ''scheduled_time'', ''broadcast_at'', ''confirmed_at'', ''block_height'', ''target_fee_rate'',
     ''actual_fee_rate'', ''source_label'', ''destination_address'', ''utxo_count'', ''total_value_btc'',
     ''replacement_of'', ''error_message'', ''retry_count'', ''broadcast_missed_at'',
     ''original_scheduled_time'', ''defer_until'', ''schedule_trigger'', ''target_price'', ''price_currency'',
     ''price_condition'', ''created_at'', ''updated_at'', ''row_mac'']"

definition pool_columns :: "dbfile \<Rightarrow> string list" where
  "pool_columns s = (case map_of (df_tables s) ''broadcast_pool'' of None \<Rightarrow> [] | Some cs \<Rightarrow> map cl_name cs)"

definition readable :: "dbfile \<Rightarrow> bool" where
  "readable s \<longleftrightarrow> list_all (\<lambda>c. c \<in> set (pool_columns s)) broadcast_select"

definition new_file :: dbfile where
  "new_file = \<lparr>df_tables = [], df_indexes = [], df_clock = 0, df_log = []\<rparr>"

lemma new_file_readable: "let (r, t) = migrate_schema env0 new_file in r = Ok () \<and> readable t \<and> length (pool_columns t) = 30"
  by code_simp

lemma every_start_warns:
  "let s = snd (migrate_schema env0 new_file); t = snd (migrate_schema env0 (s\<lparr>df_log := []\<rparr>)) in
   df_tables t = df_tables s \<and> df_log t = map (\<lambda>n. Warn (''Migration 00'' @ n @ '' warning (non-fatal): '' @
     (if n = ''8'' then ''duplicate column name: row_mac'' else ''Migration 00'' @ n))) [''2'', ''4'', ''5'', ''6'', ''8'']"
  by code_simp

section \<open>Which columns an upgrade adds\<close>

text \<open>The \<open>skipping\<close> branches are dead: the error's text is the context, never the reason.\<close>
lemma never_skips:
  assumes "\<forall>b \<in> set benign. \<not> str_contains name b"
  shows "try_migration E name benign skipped sts = bnd (attempt (execute_batch E sts)) (\<lambda>r. case r of
     Err e \<Rightarrow> log_db (Warn (name @ '' warning (non-fatal): '' @ name)) | _ \<Rightarrow> ret ())"
  using assms
  by (intro ext) (auto simp: try_migration_def act_simps run_simps list_all_iff err_to_string_def with_context_def
      split: prod.split res.split)

text \<open>A relation on database files that every statement but an added column keeps.\<close>
definition same_pool :: "dbfile \<Rightarrow> dbfile \<Rightarrow> bool" where
  "same_pool s t \<longleftrightarrow> (map_of (df_tables s) ''broadcast_pool'' \<noteq> None \<longrightarrow>
     map_of (df_tables t) ''broadcast_pool'' = map_of (df_tables s) ''broadcast_pool'')"

interpretation pools: act_rel same_pool
  by unfold_locales (auto simp: same_pool_def)

definition adds_column :: "stmt \<Rightarrow> bool" where
  "adds_column st \<longleftrightarrow> (case st of AddColumn t c \<Rightarrow> True | _ \<Rightarrow> False)"

lemma same_pool_obey: "\<not> adds_column st \<Longrightarrow> moves same_pool (obey st)"
  by (intro movesI)
     (auto simp: adds_column_def obey_def need_def same_pool_def act_simps map_add_def
       split: stmt.splits if_splits option.splits)

lemma same_pool_exec: "\<not> adds_column st \<Longrightarrow> moves same_pool (exec_stmt E st)"
  by (intro movesI)
     (auto simp: exec_stmt_def Let_def same_pool_def split: option.splits dest: movesD [OF same_pool_obey])

lemma same_pool_log: "moves same_pool (log_db l)"
  unfolding log_db_def by (rule pools.step_modify) (simp add: same_pool_def)

lemma same_pool_batch: "list_all (\<lambda>st. \<not> adds_column st) sts \<Longrightarrow> moves same_pool (execute_batch E sts)"
  unfolding execute_batch_def by (rule pools.step_for_each) (simp add: same_pool_exec list_all_iff)

lemma same_pool_plain: "moves same_pool (execute_batch E sts) \<Longrightarrow> moves same_pool (try_plain E name sts)"
  "moves same_pool (execute_batch E sts) \<Longrightarrow> moves same_pool (try_migration E name benign skipped sts)"
  unfolding try_plain_def try_migration_def Let_def
  by (auto intro!: pools.rules same_pool_log split: res.split option.split)

text \<open>The columns of the pool, as its table has them.\<close>
definition pool_of :: "dbfile \<Rightarrow> column list option" where
  "pool_of s = map_of (df_tables s) ''broadcast_pool''"

lemma same_pool_of: "same_pool s t \<Longrightarrow> pool_of s = Some cs \<Longrightarrow> pool_of t = Some cs"
  by (simp add: same_pool_def pool_of_def)

lemma batch_no_panic: "fst (execute_batch E sts s) \<noteq> Panic p"
proof -
  have obeyed: "fst (obey st s) \<noteq> Panic p" for st s
    by (auto simp: obey_def need_def act_simps split: stmt.split option.split)
  then have "fst (exec_stmt E st s) \<noteq> Panic p" for st s
    by (auto simp: exec_stmt_def Let_def split: option.split)
  then show ?thesis
    unfolding execute_batch_def
    by (induction sts arbitrary: s) (auto simp: act_simps bnd_apply split: prod.split res.split, metis fst_conv)
qed

text \<open>A migration that may fail goes on, and leaves the tables as its statements do.\<close>
lemma try_goes_on:
  "fst (try_plain E name sts s) = Ok () \<and> pool_of (snd (try_plain E name sts s)) = pool_of (snd (execute_batch E sts s))"
  "fst (try_migration E name benign skipped sts s) = Ok ()
     \<and> pool_of (snd (try_migration E name benign skipped sts s)) = pool_of (snd (execute_batch E sts s))"
proof -
  obtain r t where x: "execute_batch E sts s = (r, t)" by fastforce
  then have "r \<noteq> Panic p" for p using batch_no_panic [of E sts s p] by simp
  with x show "fst (try_plain E name sts s) = Ok () \<and> pool_of (snd (try_plain E name sts s)) = pool_of (snd (execute_batch E sts s))"
    "fst (try_migration E name benign skipped sts s) = Ok ()
     \<and> pool_of (snd (try_migration E name benign skipped sts s)) = pool_of (snd (execute_batch E sts s))"
    unfolding try_plain_def try_migration_def log_db_def pool_of_def
    by (cases r; cases skipped; simp add: act_simps run_simps Let_def)+
qed

lemma bnd_goes_on: "fst (m s) = Ok () \<Longrightarrow> bnd m f s = f () (snd (m s))"
  by (cases "m s") (simp add: bnd_apply)

lemma alter_stops:
  assumes "pool_of s = Some cs" "has_column cs (cl_name c)"
  shows "pool_of (snd (execute_batch E (alter_pool (c # new)) s)) = Some cs"
  using assms
  by (simp add: execute_batch_def alter_pool_def exec_stmt_def Let_def obey_def need_def act_simps bnd_apply pool_of_def
      split: option.split)

lemma alter_adds:
  assumes "\<forall>n. sql_fault_at E n = None" "pool_of s = Some cs" "distinct (map cl_name new)"
  shows "pool_of (snd (execute_batch E (alter_pool new) s))
    = Some (cs @ takeWhile (\<lambda>c. \<not> has_column cs (cl_name c)) new)"
  using assms
proof (induction new arbitrary: s cs)
  case (Cons c new)
  show ?case
  proof (cases "has_column cs (cl_name c)")
    case True
    then show ?thesis using alter_stops [OF Cons.prems(2) True] by simp
  next
    case False
    define t where "t = s\<lparr>df_clock := Suc (df_clock s),
      df_tables := AList.update ''broadcast_pool'' (cs @ [c]) (df_tables s)\<rparr>"
    have t: "execute_batch E (alter_pool (c # new)) s = execute_batch E (alter_pool new) t"
      using Cons.prems False
      by (simp add: execute_batch_def alter_pool_def exec_stmt_def Let_def obey_def need_def act_simps bnd_apply
          pool_of_def t_def)
    have "pool_of t = Some (cs @ [c])" by (simp add: pool_of_def t_def update_conv)
    from Cons.IH [OF Cons.prems(1) this]
    have "pool_of (snd (execute_batch E (alter_pool new) t))
        = Some ((cs @ [c]) @ takeWhile (\<lambda>d. \<not> has_column (cs @ [c]) (cl_name d)) new)"
      using Cons.prems(3) by simp
    moreover have "takeWhile (\<lambda>d. \<not> has_column (cs @ [c]) (cl_name d)) new = takeWhile (\<lambda>d. \<not> has_column cs (cl_name d)) new"
      by (rule takeWhile_cong) (use Cons.prems(3) in \<open>auto simp: has_column_def rev_image_eqI\<close>)
    ultimately show ?thesis using False t by simp
  qed
qed (simp add: execute_batch_def alter_pool_def act_simps)

definition added_batches :: "column list list" where
  "added_batches = [columns_002, columns_004, columns_005, columns_006, columns_008]"

lemmas batches = added_batches_def columns_002_def columns_004_def columns_005_def columns_006_def columns_008_def

text \<open>Of each migration the columns before the first that the table already has.\<close>
definition gap :: "column list \<Rightarrow> column list \<Rightarrow> column list" where
  "gap cs new = takeWhile (\<lambda>c. \<not> has_column cs (cl_name c)) new"

definition upgraded :: "column list \<Rightarrow> column list" where
  "upgraded cs = cs @ concat (map (gap cs) added_batches)"

lemma names_apart: "distinct (map cl_name (concat added_batches))"
  by (simp add: batches col_def dflt_def)

lemma gap_extended:
  assumes "set (map cl_name new) \<inter> set (map cl_name extra) = {}"
  shows "gap (cs @ extra) new = gap cs new"
  unfolding gap_def by (rule takeWhile_cong) (use assms in \<open>auto simp: has_column_def\<close>)

lemma gap_within: "set (gap cs new) \<subseteq> set new"
  unfolding gap_def by (auto dest: set_takeWhileD)

lemma fill_gaps:
  "distinct (map cl_name (concat bs)) \<Longrightarrow>
     foldl (\<lambda>cs new. cs @ gap cs new) cs bs = cs @ concat (map (gap cs) bs)"
proof (induction bs arbitrary: cs)
  case (Cons new bs)
  have "gap (cs @ gap cs new) b = gap cs b" if "b \<in> set bs" for b
  proof (rule gap_extended)
    have "set (map cl_name new) \<inter> set (map cl_name b) = {}" using Cons.prems that by auto
    moreover have "set (map cl_name (gap cs new)) \<subseteq> set (map cl_name new)"
      using gap_within [of cs new] by auto
    ultimately show "set (map cl_name b) \<inter> set (map cl_name (gap cs new)) = {}" by blast
  qed
  then show ?case using Cons by (simp cong: map_cong)
qed simp

text \<open>The first column of every migration is there: nothing is ever added again.\<close>
definition settled :: "column list \<Rightarrow> bool" where
  "settled cs \<longleftrightarrow> list_all (\<lambda>new. has_column cs (cl_name (hd new))) added_batches"

lemma upgraded_settled: "settled (upgraded cs)"
proof -
  have "has_column (upgraded cs) (cl_name (hd new))" if new: "new \<in> set added_batches" for new
  proof (cases "has_column cs (cl_name (hd new))")
    case False
    moreover obtain c extra where "new = c # extra" using new by (cases new) (auto simp: batches)
    ultimately have "hd new \<in> set (gap cs new)" by (simp add: gap_def)
    then show ?thesis using new by (auto simp: upgraded_def has_column_def)
  qed (auto simp: upgraded_def has_column_def)
  then show ?thesis by (simp add: settled_def list_all_iff)
qed

definition keeps_settled :: "dbfile \<Rightarrow> dbfile \<Rightarrow> bool" where
  "keeps_settled s t \<longleftrightarrow> (\<forall>cs. pool_of s = Some cs \<and> settled cs \<longrightarrow> pool_of t = Some cs)"

interpretation settles: act_rel keeps_settled
  by unfold_locales (auto simp: keeps_settled_def)

lemma settled_same: "moves same_pool m \<Longrightarrow> moves keeps_settled m"
  by (rule movesI) (auto simp: keeps_settled_def dest: movesD same_pool_of)

lemma settled_alter:
  assumes "new \<in> set added_batches"
  shows "moves keeps_settled (execute_batch E (alter_pool new))"
proof (rule movesI)
  fix s r t
  assume run: "execute_batch E (alter_pool new) s = (r, t)"
  obtain c extra where "new = c # extra" using assms by (cases new) (auto simp: batches)
  then show "keeps_settled s t"
    using assms run alter_stops [of s _ c E extra] by (fastforce simp: keeps_settled_def settled_def list_all_iff)
qed

lemma no_column_added: "list_all (\<lambda>st. \<not> adds_column st) migration_001_sql"
  "list_all (\<lambda>st. \<not> adds_column st) migration_003_sql" "list_all (\<lambda>st. \<not> adds_column st) migration_007_sql"
  "list_all (\<lambda>st. \<not> adds_column st) migration_009_sql"
  by (simp_all add: adds_column_def migration_001_sql_def migration_003_sql_def migration_007_sql_def
      migration_009_sql_def)

lemma settled_migration:
  assumes "moves keeps_settled (execute_batch E sts)"
  shows "moves keeps_settled (try_plain E name sts)" "moves keeps_settled (try_migration E name benign skipped sts)"
  unfolding try_plain_def try_migration_def Let_def
  by (auto intro!: settles.rules assms settled_same [OF same_pool_log] split: res.split option.split)

lemma settled_migrate: "moves keeps_settled (migrate_schema E)"
  unfolding migrate_schema_def
  by (intro settles.rules settled_migration settled_alter settled_same [OF same_pool_batch] no_column_added)
     (simp_all add: added_batches_def)

lemma pool_after_001:
  assumes "\<forall>n. sql_fault_at E n = None" "execute_batch E migration_001_sql s = (Ok u, t)"
  shows "pool_of t = Some (case pool_of s of None \<Rightarrow> pool_columns_001 | Some cs \<Rightarrow> cs)"
proof -
  define st where "st = CreateTable ''broadcast_pool'' pool_columns_001"
  obtain sts where sts: "migration_001_sql = st # sts" "list_all (\<lambda>st. \<not> adds_column st) sts"
    using no_column_added(1) by (simp add: migration_001_sql_def st_def)
  have batch: "execute_batch E (st # sts) s = bnd (exec_stmt E st) (\<lambda>_. execute_batch E sts) s"
    by (simp add: execute_batch_def)
  obtain x v where v: "exec_stmt E st s = (Ok x, v)" "execute_batch E sts v = (Ok u, t)"
    using assms(2) unfolding sts(1) batch bnd_Ok_iff by blast
  have "pool_of v = Some (case pool_of s of None \<Rightarrow> pool_columns_001 | Some cs \<Rightarrow> cs)"
    using v(1) assms(1)
    by (auto simp: exec_stmt_def Let_def st_def obey_def need_def act_simps pool_of_def map_add_def
        split: if_splits option.splits)
  moreover have "same_pool v t" using same_pool_batch [OF sts(2)] v(2) by (rule movesD)
  ultimately show ?thesis by (rule same_pool_of [rotated])
qed

text \<open>A migration that may fail, as a function of the columns it finds.\<close>
definition turns :: "unit dact \<Rightarrow> (column list \<Rightarrow> column list) \<Rightarrow> bool" where
  "turns m f \<longleftrightarrow> (\<forall>s cs. pool_of s = Some cs \<longrightarrow> (\<exists>t. m s = (Ok (), t) \<and> pool_of t = Some (f cs)))"

lemma turns_bnd: "turns m f \<Longrightarrow> turns k g \<Longrightarrow> turns (bnd m (\<lambda>_. k)) (g \<circ> f)"
  unfolding turns_def by (fastforce simp: bnd_apply)

lemma turns_try:
  assumes "\<And>s cs. pool_of s = Some cs \<Longrightarrow> pool_of (snd (execute_batch E sts s)) = Some (f cs)"
  shows "turns (try_plain E name sts) f" "turns (try_migration E name benign skipped sts) f"
  unfolding turns_def using assms try_goes_on(1) [of E name sts] try_goes_on(2) [of E name benign skipped sts]
  by (metis prod.collapse)+

lemma turns_others:
  assumes "list_all (\<lambda>st. \<not> adds_column st) sts"
  shows "turns (try_plain E name sts) id" "turns (try_migration E name benign skipped sts) id"
proof -
  have "pool_of (snd (execute_batch E sts s)) = Some (id cs)" if "pool_of s = Some cs" for s cs
    using same_pool_of [OF moves_snd [OF same_pool_batch [OF assms]] that] by simp
  then show "turns (try_plain E name sts) id" "turns (try_migration E name benign skipped sts) id"
    by (intro turns_try; simp)+
qed

lemma turns_alter:
  assumes "\<forall>n. sql_fault_at E n = None" "distinct (map cl_name new)"
  shows "turns (try_plain E name (alter_pool new)) (\<lambda>cs. cs @ gap cs new)"
    "turns (try_migration E name benign skipped (alter_pool new)) (\<lambda>cs. cs @ gap cs new)"
  using alter_adds [OF assms(1) _ assms(2)] by (intro turns_try; simp add: gap_def)+

lemma distinct_batches: "list_all (\<lambda>new. distinct (map cl_name new)) added_batches"
  by (simp add: batches col_def dflt_def)

lemma migrate_pool:
  assumes "\<forall>n. sql_fault_at E n = None" "migrate_schema E s = (Ok u, t)"
  shows "pool_of t = Some (upgraded (case pool_of s of None \<Rightarrow> pool_columns_001 | Some cs \<Rightarrow> cs))"
proof -
  define cs where "cs = (case pool_of s of None \<Rightarrow> pool_columns_001 | Some cs \<Rightarrow> cs)"
  note alter = turns_alter [OF assms(1) bspec [OF distinct_batches [unfolded list_all_iff]]]
  have "\<exists>k f. migrate_schema E = bnd (with_ctx ''Failed to run migrations'' (execute_batch E migration_001_sql)) (\<lambda>_. k)
      \<and> turns k f \<and> f cs = foldl (\<lambda>cs new. cs @ gap cs new) cs added_batches"
    by (intro exI conjI, rule migrate_schema_def,
        (rule turns_bnd turns_others no_column_added alter | simp add: added_batches_def)+)
  then obtain k f where k: "turns k f" "f cs = foldl (\<lambda>cs new. cs @ gap cs new) cs added_batches"
      "migrate_schema E = bnd (with_ctx ''Failed to run migrations'' (execute_batch E migration_001_sql)) (\<lambda>_. k)"
    by blast
  obtain x s1 where s1: "execute_batch E migration_001_sql s = (Ok x, s1)" "k s1 = (Ok u, t)"
    using assms(2) unfolding k(3) bnd_Ok_iff with_ctx_Ok_iff by blast
  have "pool_of s1 = Some cs" using pool_after_001 [OF assms(1) s1(1)] by (simp add: cs_def)
  then have "pool_of t = Some (foldl (\<lambda>cs new. cs @ gap cs new) cs added_batches)"
    using k(1,2) s1(2) by (metis turns_def prod.inject)
  then show ?thesis
    using fill_gaps [OF names_apart, of cs] by (simp add: upgraded_def cs_def)
qed

text \<open>
  Starts of the daemon on a file: any number, each with its own faults.  A start that is
  killed half way is one whose later statements all fail.
\<close>
definition start_step :: "dbfile \<Rightarrow> dbfile \<Rightarrow> bool" where
  "start_step s t \<longleftrightarrow> (\<exists>E r. migrate_schema E s = (r, t))"

lemma settled_starts: "start_step\<^sup>*\<^sup>* s t \<Longrightarrow> keeps_settled s t"
  by (induction rule: rtranclp_induct)
     (auto simp: start_step_def intro: settles.refl settles.trans dest: movesD [OF settled_migrate])

text \<open>
  C35: What an upgrade adds, and what it never adds.  A start without faults leaves the pool table
  with the columns it had (those of migration 001, if there was none) and, of each later migration,
  the columns before the first that was there already.  Nothing that follows changes them: if a
  migration was stopped half way, no later start adds what is missing.
\<close>
theorem upgrade_fills_gaps:
  assumes "\<forall>n. sql_fault_at E n = None" "migrate_schema E s = (Ok u, t)" "start_step\<^sup>*\<^sup>* t v"
  shows "pool_of v = Some (upgraded (case pool_of s of None \<Rightarrow> pool_columns_001 | Some cs \<Rightarrow> cs))"
  using settled_starts [OF assms(3)] migrate_pool [OF assms(1,2)] upgraded_settled
  unfolding keeps_settled_def by blast

text \<open>
  A file of the version before migration 005 whose upgrade is killed after the first statement: it
  is never readable again.
\<close>
definition old_file :: dbfile where
  "old_file = new_file\<lparr>df_tables := [(''broadcast_pool'', pool_columns_001)]\<rparr>"

definition killed_after :: "nat \<Rightarrow> env" where
  "killed_after k = env0\<lparr>sql_fault_at := \<lambda>n. if n < k then None else Some ''killed''\<rparr>"

definition half_file :: dbfile where
  "half_file = snd (migrate_schema (killed_after 16) old_file)"

lemma half_pool: "map_option (map cl_name) (pool_of half_file) = Some (map cl_name pool_columns_001 @ [''broadcast_missed_at''])"
  by code_simp

theorem upgrade_fills_gaps_witness:
  "let t = snd (migrate_schema env0 half_file); v = snd (migrate_schema (killed_after 20) t) in
     pool_of v = Some (upgraded (the (pool_of half_file))) \<and> \<not> readable v"
proof -
  let ?t = "snd (migrate_schema env0 half_file)" and ?v = "snd (migrate_schema (killed_after 20) (snd (migrate_schema env0 half_file)))"
  have "fst (migrate_schema env0 half_file) = Ok ()" by code_simp
  then have "migrate_schema env0 half_file = (Ok (), ?t)" by (metis prod.collapse)
  moreover have "\<forall>n. sql_fault_at env0 n = None" by (simp add: env0_def)
  moreover have "start_step\<^sup>*\<^sup>* ?t ?v"
    by (rule r_into_rtranclp) (metis start_step_def prod.collapse)
  ultimately have "pool_of ?v = Some (upgraded (case pool_of half_file of None \<Rightarrow> pool_columns_001 | Some cs \<Rightarrow> cs))"
    using upgrade_fills_gaps by blast
  moreover obtain cs where cs: "pool_of half_file = Some cs" "map cl_name cs = map cl_name pool_columns_001 @ [''broadcast_missed_at'']"
    using half_pool by auto
  moreover have "\<not> has_column (upgraded cs) ''defer_until''"
  proof -
    have "\<not> has_column cs ''defer_until''" "has_column cs ''broadcast_missed_at''"
      using arg_cong [OF cs(2), of set] by (auto simp: has_column_def pool_columns_001_def col_def primary_key_def
          not_null_def dflt_def)
    then show ?thesis
      unfolding upgraded_def gap_def has_column_def batches by (auto simp: col_def dflt_def)
  qed
  ultimately show ?thesis
    by (auto simp: readable_def broadcast_select_def pool_columns_def pool_of_def has_column_def Let_def)
qed

end
