(* ===== verification/Wallet_Broadcast.thy ===== *)
theory Wallet_Broadcast
  imports Electrum_Replies Electrum_Properties
begin

text \<open>
  The path of a transaction a wallet broadcasts: it is kept, then acknowledged, and later taken
  into the pool with a schedule that does not run ahead of its locktime.
\<close>

section \<open>What is stored\<close>

lemma trim_trim [simp]: "trim (trim s) = trim s"
proof -
  have drop: "dropWhile P (dropWhile P xs) = dropWhile P xs" for P and xs :: string
    by (induction xs) auto
  have head: "dropWhile P xs = xs \<or> P (hd xs) \<and> xs \<noteq> []" for P and xs :: string
    by (cases xs) auto
  have last: "\<not> P (hd (dropWhile P xs))" if "dropWhile P xs \<noteq> []" for P and xs :: string
    using that by (rule hd_dropWhile)
  let ?t = "trim_start s"
  have "hd (trim_end ?t) = hd ?t" if "trim_end ?t \<noteq> []"
  proof -
    have "suffix (dropWhile is_ws (rev ?t)) (rev ?t)" by (rule suffix_dropWhile)
    then obtain u where "rev ?t = u @ dropWhile is_ws (rev ?t)" by (auto simp: suffix_def)
    then have "?t = trim_end ?t @ rev u"
      unfolding trim_end_def by (metis rev_append rev_rev_ident)
    then show ?thesis using that by (metis hd_append2)
  qed
  note same = this
  have "trim_start (trim_end ?t) = trim_end ?t"
  proof (cases "trim_end ?t = []")
    case False
    then have "?t \<noteq> []" by (auto simp: trim_end_def)
    then have "\<not> is_ws (hd ?t)" using last [of is_ws s] by (simp add: trim_start_def)
    then show ?thesis
      using same [OF False] head [of is_ws "trim_end ?t"]
      by (simp add: trim_start_def)
  qed (simp add: trim_start_def)
  then show ?thesis by (simp add: trim_def) (simp add: trim_end_def drop)
qed

lemma set_insert_set [simp]: "set (set_insert x xs) = insert x (set xs)"
  by (auto simp: set_insert_def)

lemma output_scripthashes:
  "set (output_scripthash_set E tx) = (\<lambda>out. compute_scripthash E (out_script out)) ` set (bt_outputs tx)"
proof -
  have "set (foldl (\<lambda>s out. set_insert (compute_scripthash E (out_script out)) s) acc outs)
      = set acc \<union> (\<lambda>out. compute_scripthash E (out_script out)) ` set outs" for acc outs
    by (induction outs arbitrary: acc) auto
  from this [of "[]"] show ?thesis by (simp add: output_scripthash_set_def)
qed

lemma store_outputs_run:
  assumes "decode_tx E hex = Ok tx"
  shows "store_pending_outputs E txid hex w = (Ok (output_scripthash_set E tx),
    (put_pending txid \<lparr>pi_tx_hex = hex, pi_scripthashes = output_scripthash_set E tx,
       pi_outputs = outputs_or_none E hex\<rparr> w)\<lparr>w_sh_events := w_sh_events w @ output_scripthash_set E tx\<rparr>)"
  by (simp add: store_pending_outputs_def extract_affected_scripthashes_opts_def assms Let_def
      run_simps act_simps store_run)

text \<open>The transaction \<open>tx\<close> waits under \<open>txid\<close>, visible under the script hash of every output.\<close>
definition waits_visibly :: "env \<Rightarrow> world \<Rightarrow> string \<Rightarrow> string \<Rightarrow> btc_tx \<Rightarrow> bool" where
  "waits_visibly E w txid hex tx \<longleftrightarrow> map_option pi_tx_hex (pending_of w txid) = Some hex
     \<and> (\<forall>out \<in> set (bt_outputs tx).
          txid \<in> set (pending_txids_for w (compute_scripthash E (out_script out))))"

lemma waits_stored:
  assumes "w_pending v = w_pending (put_pending txid
     \<lparr>pi_tx_hex = hex, pi_scripthashes = output_scripthash_set E tx, pi_outputs = outs\<rparr> w)"
  shows "waits_visibly E v txid hex tx"
proof -
  let ?i = "\<lparr>pi_tx_hex = hex, pi_scripthashes = output_scripthash_set E tx, pi_outputs = outs\<rparr>"
  have "pending_of v txid = Some ?i"
    using assms pmap.look_put_same [of txid ?i w] by (simp add: pending_of_def)
  then have "(txid, ?i) \<in> set (w_pending v)" unfolding pending_of_def by (rule map_of_SomeD)
  then have "txid \<in> set (pending_txids_for v (compute_scripthash E (out_script out)))"
    if "out \<in> set (bt_outputs tx)" for out
    using that unfolding pending_txids_for_def
    by (force simp: output_scripthashes image_iff intro!: rev_image_eqI [of "(txid, ?i)"])
  then show ?thesis
    using \<open>pending_of v txid = Some ?i\<close> by (simp add: waits_visibly_def)
qed

lemma compute_txid_decodes: "compute_txid E hex = Ok txid \<Longrightarrow> \<exists>tx. decode_tx E hex = Ok tx"
  by (auto simp: compute_txid_def res_bind_Ok_iff)

section \<open>Kept, then acknowledged\<close>

lemma preview_Ok: "quick_broadcast_preview E hex = Ok txid \<Longrightarrow> compute_txid E (trim hex) = Ok txid"
  by (simp add: quick_broadcast_preview_def split: option.splits)

lemma decode_trim: "decode_tx E (trim hex) = decode_tx E hex"
  by (simp add: decode_tx_def)

lemma request_names_method:
  assumes "extract_broadcast_from_value v = Some x" "request_of_json v = Some r"
  shows "is_broadcast_method (rq_method r)"
  using assms
  by (auto simp: extract_broadcast_from_value_def request_of_json_def request_of_fields_def opt_bind_def
      jget_def split: json.splits option.splits if_splits list.splits)

lemma those_Some: "those xs = Some ys \<Longrightarrow> xs = map Some ys"
  by (induction xs arbitrary: ys) (auto split: option.splits)

lemma broadcast_in_batch:
  assumes "extract_broadcast_hex E line = Some x" "parse_subrequests E line = Ok rs"
  shows "\<exists>r \<in> set rs. is_broadcast_method (rq_method r)"
proof -
  obtain v where v: "json_parse E (trim line) = Some v"
    using assms(1) by (auto simp: extract_broadcast_hex_def opt_bind_def split: option.splits)
  show ?thesis
  proof (cases "as_array v")
    case None
    then show ?thesis
      using assms v by (auto simp: extract_broadcast_hex_def parse_subrequests_def split: option.splits
          dest: request_names_method)
  next
    case (Some items)
    then have "find_broadcast items = Some x" "those (map request_of_json items) = Some rs"
      using assms v by (auto simp: extract_broadcast_hex_def parse_subrequests_def some_or_def split: option.splits)
    then obtain item where item: "item \<in> set items" "extract_broadcast_from_value item \<noteq> None"
      by (induction items arbitrary: rs)
         (auto simp: find_broadcast_def List.map_filter_simps split: option.splits list.splits)
    moreover have "map request_of_json items = map Some rs"
      using \<open>those _ = _\<close> by (rule those_Some)
    then obtain r where "r \<in> set rs" "request_of_json item = Some r"
      using item(1) by (metis (no_types, lifting) image_eqI image_iff list.set_map)
    ultimately show ?thesis using request_names_method by blast
  qed
qed

lemma handshake_passes:
  assumes "extract_broadcast_hex E line = Some x"
  shows "answer_handshake E line c = (Ok False, c)"
proof (cases "parse_subrequests E line")
  case (Ok rs)
  then obtain r where "r \<in> set rs" "is_broadcast_method (rq_method r)"
    using broadcast_in_batch [OF assms] by blast
  moreover from this have "\<not> is_local_handshake_method (rq_method r)"
    by (auto simp: is_local_handshake_method_def is_broadcast_method_def broadcast_methods_def
        local_electrum_methods_def)
  ultimately have "\<not> batch_is_handshake rs"
    unfolding batch_is_handshake_def list_all_iff by blast
  then show ?thesis using Ok by (simp add: answer_handshake_def act_simps)
qed (simp_all add: answer_handshake_def act_simps)

lemma instant_passes:
  assumes "extract_broadcast_hex E line = Some x"
  shows "answer_instant_tip E line url source c = (Ok False, c)"
proof (cases "parse_subrequests E line")
  case (Ok rs)
  then obtain r where "r \<in> set rs" "is_broadcast_method (rq_method r)"
    using broadcast_in_batch [OF assms] by blast
  then show ?thesis using Ok
    by (cases rs rule: list.exhaust [case_names Nil Cons])
       (auto simp: answer_instant_tip_def act_simps is_broadcast_method_def broadcast_methods_def
         split: list.splits)
qed (simp_all add: answer_instant_tip_def act_simps)


lemma write_run:
  assumes "client_takes_all E"
  shows "write_json_rpc_response E v c =
    (Ok (), c\<lparr>cn_world := tick (cn_world c), cn_out := cn_out c @ reply_line E v\<rparr>)"
  using assms
  by (simp add: write_json_rpc_response_def write_bytes_def bnd_apply on_world_def act_simps
      client_takes_all_def reply_line_def)

lemma effective_source_rest [simp]:
  "effective_source (s\<lparr>se_intercepted := b\<rparr>) l = effective_source s l"
  "effective_source (s\<lparr>se_recent_txid := t\<rparr>) l = effective_source s l"
  by (simp_all add: effective_source_def)

lemma pending_tick [simp]: "waits_visibly E (tick w) txid hex tx = waits_visibly E w txid hex tx"
  by (simp add: waits_visibly_def pending_of_def pending_txids_for_def tick_def)

lemma intercept_run:
  assumes "client_takes_all E" "quick_broadcast_preview E hex = Ok txid" "decode_tx E hex = Ok tx"
    and late: "\<not> task_late_at E (w_clock (cn_world c))"
    and run: "intercept_and_handle_broadcast E i hex source c = (r, d)"
  shows "r = Ok () \<and> cn_out d = cn_out c @ reply_line E (ok_reply i (JStr txid))
    \<and> waits_visibly E (cn_world d) txid hex tx \<and> w_pool (cn_world d) = w_pool (cn_world c)
    \<and> se_recent_txid (cn_session d) = Some txid
    \<and> cn_tasks d = cn_tasks c @ [Ingest hex (effective_source (cn_session c) source)]"
proof -
  let ?w = "tick (cn_world c)"
  let ?v = "(put_pending txid \<lparr>pi_tx_hex = hex, pi_scripthashes = output_scripthash_set E tx,
       pi_outputs = outputs_or_none E hex\<rparr> ?w)\<lparr>w_sh_events := w_sh_events ?w @ output_scripthash_set E tx\<rparr>"
  have "r = Ok () \<and> d = c\<lparr>cn_session := (cn_session c)\<lparr>se_intercepted := True, se_recent_txid := Some txid\<rparr>,
      cn_world := tick ?v,
      cn_out := cn_out c @ reply_line E (ok_reply i (JStr txid)),
      cn_tasks := cn_tasks c @ [Ingest hex (effective_source (cn_session c) source)]\<rparr>"
    using run assms(2) late store_outputs_run [OF assms(3), of txid ?w] write_run [OF assms(1)]
    by (auto simp: intercept_and_handle_broadcast_def accept_broadcast_def upd_session_def session_of_def
        spawn_task_def bnd_apply on_world_def act_simps)
  moreover have "waits_visibly E ?v txid hex tx" by (rule waits_stored) simp
  moreover have "w_pool (tick ?v) = w_pool (cn_world c)" by (simp add: tick_def put_pending_def)
  ultimately show ?thesis by simp
qed

text \<open>
  C18: What is acknowledged has been kept.  A line that broadcasts a valid transaction is answered
  with its txid; by then the transaction waits under that txid and under the script hash of each
  of its outputs, so the polls that follow find it; the pool has not changed yet, and the task
  that takes the transaction in, as the wallet it came from, is queued.
\<close>
theorem kept_then_acknowledged:
  assumes "client_takes_all E"
    and line: "extract_broadcast_hex E line = Some (i, hex)" "trim line \<noteq> []"
    and tx: "quick_broadcast_preview E hex = Ok txid" "decode_tx E hex = Ok tx"
    and late: "\<not> task_late_at E (w_clock (cn_world c))"
    and run: "process_client_line E line url source c = (r, d)" "\<forall>p. r \<noteq> Panic p"
  shows "r = Ok () \<and> cn_out d = cn_out c @ json_print E (ok_reply i (JStr txid)) @ [nl]
    \<and> waits_visibly E (cn_world d) txid hex tx \<and> w_pool (cn_world d) = w_pool (cn_world c)
    \<and> cn_tasks d = cn_tasks c
        @ [Ingest hex (effective_source (capture_wallet_fingerprint E line (cn_session c)) source)]"
proof -
  define s where "s = capture_wallet_fingerprint E line
    ((cn_session c)\<lparr>se_rpc_lines := se_rpc_lines (cn_session c) + 1\<rparr>)"
  let ?c = "c\<lparr>cn_session := s\<rparr>"
  have log: "log_incoming_client_line line ?c = (Ok (), ?c)"
    using run handshake_passes [OF line(1)] instant_passes [OF line(1)] line(2)
    by (auto simp: process_client_line_def unless_done_def upd_session_def bnd_apply act_simps s_def
        log_incoming_client_line_def check_slice_def split: if_splits)
  obtain r1 d1 where i: "intercept_and_handle_broadcast E i hex source ?c = (r1, d1)"
    by (cases "intercept_and_handle_broadcast E i hex source ?c")
  note kept = intercept_run [OF assms(1) tx _ i]
  have "r = Ok () \<and> d = d1"
    using run(1) handshake_passes [OF line(1)] instant_passes [OF line(1)] line log i kept late
    by (simp add: process_client_line_def unless_done_def upd_session_def bnd_apply act_simps
        flip: s_def) (simp add: answer_broadcast_def take_broadcast_def run_simps act_simps)
  moreover have "effective_source s source
      = effective_source (capture_wallet_fingerprint E line (cn_session c)) source"
  proof -
    have "capture_wallet_fingerprint E line (x\<lparr>se_rpc_lines := n\<rparr>)
        = (capture_wallet_fingerprint E line x)\<lparr>se_rpc_lines := n\<rparr>" for x n
    proof -
      have one: "note_version item (x\<lparr>se_rpc_lines := n\<rparr>) = (note_version item x)\<lparr>se_rpc_lines := n\<rparr>" for item x
        by (auto simp: note_version_def Let_def split: option.split list.split)
      have "foldl (\<lambda>s item. note_version item s) (x\<lparr>se_rpc_lines := n\<rparr>) items
          = (foldl (\<lambda>s item. note_version item s) x items)\<lparr>se_rpc_lines := n\<rparr>" for items
        by (induction items arbitrary: x) (simp_all add: one)
      then show ?thesis by (simp add: capture_wallet_fingerprint_def split: option.split)
    qed
    then show ?thesis by (simp add: s_def effective_source_def)
  qed
  ultimately show ?thesis using kept late by (simp add: reply_line_def)
qed

theorem kept_then_acknowledged_witness:
  "let d = snd (process_client_line env_wallet ''B'' '''' ''sparrow'' (conn0 world_ix));
       txid = replicate 32 (CHR 0x05)
   in cn_out d = txid @ [nl] \<and> waits_visibly env_wallet (cn_world d) txid ''00'' wallet_tx"
proof -
  let ?run = "process_client_line env_wallet ''B'' '''' ''sparrow'' (conn0 world_ix)"
  let ?txid = "replicate 32 (CHR 0x05)"
  have "is_ok (fst ?run)" by code_simp
  then have ok: "\<forall>p. fst ?run \<noteq> Panic p" by (auto simp: is_ok_iff)
  have E: "client_takes_all env_wallet" "\<not> task_late_at env_wallet n" for n
    by (simp_all add: client_takes_all_def env_wallet_def env_chain_def env0_def)
  have line: "extract_broadcast_hex env_wallet ''B'' = Some (JInt 7, ''00'')" "trim ''B'' \<noteq> []"
    by code_simp+
  have tx: "quick_broadcast_preview env_wallet ''00'' = Ok ?txid" "decode_tx env_wallet ''00'' = Ok wallet_tx"
    by (code_simp, simp add: decode_tx_def env_wallet_def env_chain_def)
  have out: "json_print env_wallet (ok_reply (JInt 7) (JStr ?txid)) = ?txid" "cn_out (conn0 world_ix) = []"
    by (simp_all add: env_wallet_def wallet_print_def ok_reply_def conn0_def)
  show ?thesis
    using kept_then_acknowledged [OF E(1) line tx E(2) surjective_pairing ok] out by (simp add: Let_def)
qed

section \<open>Taken into the pool\<close>

text \<open>
  What the plan of an ingested transaction says of its locktime: only a final or unlocked
  transaction goes out at once, and a locktime that is a date is the time it is scheduled for.
\<close>
definition plan_respects ::
  "string \<Rightarrow> u32 \<Rightarrow> config \<Rightarrow> u64 option \<Rightarrow> bcast_mode \<times> datetime option \<Rightarrow> bool" where
  "plan_respects source n c tip plan \<longleftrightarrow>
     (source = ''liana'' \<longrightarrow> fst plan \<in> {ByBlock, Manual} \<and> snd plan = None)
     \<and> (source = ''sparrow'' \<and> n = 0 \<longrightarrow> plan = (Manual, None))
     \<and> (source \<noteq> ''liana'' \<and> 500000000 < n \<longrightarrow> plan = (BmScheduled, Some (secs (uint n))))
     \<and> (fst plan = Immediate \<longrightarrow>
          (n < 500000000 \<and> n \<noteq> 0 \<and> (\<exists>t. tip = Some t \<and> uint n \<le> uint t))
          \<or> (n = 0 \<or> n = 500000000) \<and> sc_broadcast_mode (cf_schedule c) = Immediate)"

lemma plan_Ok:
  assumes "resolve_ingest_plan E source n c tip w = (Ok plan, v)"
  shows "plan_respects source n c tip plan"
proof -
  have cfg: "sc_broadcast_mode (cf_schedule c) = Immediate"
    if "resolve_broadcast_plan E c w = (Ok plan, v)" "fst plan = Immediate"
    using that by (auto simp: resolve_broadcast_plan_def delayed_plan_def Let_def ok_iffs act_simps
        split: bcast_mode.splits option.splits)
  have u: "uint (ucast n :: u64) = uint n"
    by (rule uint_up_ucast) (simp add: is_up)
  have eq: "n = 500000000" if "uint n = 500000000"
    using that by (simp add: word_uint_eq_iff)
  show ?thesis
    using assms cfg u eq
    by (auto simp: resolve_ingest_plan_def plan_respects_def already_final_def ok_iffs act_simps word_le_def
        word_less_def word_neq_0_conv split: if_splits option.splits)
qed

definition untouched :: "world \<Rightarrow> world \<Rightarrow> bool" where
  "untouched w v \<longleftrightarrow> w_pool v = w_pool w \<and> w_db_key v = w_db_key w"

interpretation untouched: act_rel untouched
  by unfold_locales (auto simp: untouched_def)

lemma untouched_quiet: "moves only_clock m \<Longrightarrow> moves untouched m"
  by (simp add: moves_def untouched_def only_clock_proj)

lemma quiet_plan: "moves only_clock (resolve_ingest_plan E source n c tip)"
  unfolding resolve_ingest_plan_def resolve_broadcast_plan_def delayed_plan_def Let_def
  by (auto intro!: quiet_rules split: bcast_mode.split option.split)

lemma untouched_modify:
  "(\<And>w. w_pool (f w) = w_pool w \<and> w_db_key (f w) = w_db_key w) \<Longrightarrow> moves untouched (modify f)"
  by (rule untouched.step_modify) (simp add: untouched_def)

lemma untouched_capture: "moves untouched (capture_virtual_target E source mode)"
proof -
  have seal: "moves only_clock (sealed_for_disk E key c)" and disk: "moves only_clock (disk_step E)" for key c
    unfolding sealed_for_disk_def disk_step_def encrypt_rpc_password_def encrypt_nostr_nsec_def
      encrypt_secret_def Let_def
    by (auto intro!: quiet_rules quiet_encode_field split: option.split)
  then show ?thesis
    unfolding capture_virtual_target_def save_config_to_disk_def Let_def
    by (auto intro!: untouched.rules untouched_modify untouched_quiet [OF seal] untouched_quiet [OF disk])
qed

lemma capture_target:
  assumes "capture_virtual_target E source mode w = (Ok target, v)"
  shows "target = (if mode = ByBlock \<and> source = ''liana'' \<and> vb_enabled (sc_virtual_block (cf_schedule (w_config w)))
     then Some (vb_target_height (sc_virtual_block (cf_schedule (w_config w)))) else None)"
  using assms
  by (auto simp: capture_virtual_target_def Let_def ok_iffs act_simps split: if_splits)


lemma new_row_from_wallet:
  assumes "import_transaction E (ingested_tx hex tx net source plan target) w = (Ok out, v)"
  shows "\<exists>r. w_pool v = w_pool w @ [r] \<and> c_id r \<notin> set (map c_id (w_pool w)) \<and> t_id out = c_id r
    \<and> c_status r = ''pending'' \<and> c_network r = net
    \<and> c_nlocktime r = Some (case target of None \<Rightarrow> uint (bt_lock_time tx) | Some h \<Rightarrow> uint h)
    \<and> row_sealed E (w_db_key w) r"
proof -
  have "uint (unwrap_or 0 (or_else target
      (if 0 < bt_lock_time tx then Some (ucast (bt_lock_time tx) :: u64) else None)))
    = (case target of None \<Rightarrow> uint (bt_lock_time tx) | Some h \<Rightarrow> uint h)"
    by (auto simp: uint_up_ucast is_up word_gt_0 split: option.split)
  then show ?thesis
    using insert_broadcast_tx_Ok [OF assms [unfolded import_transaction_def]]
    by (auto simp: ingested_tx_def tx_of_row_def)
qed

lemma marked_due_pool:
  assumes "attempt (mark_as_due E i) w = (x, v)" "w_pool w = rows @ [r]" "c_id r = i"
    "i \<notin> set (map c_id rows)"
  shows "\<exists>q. w_pool v = rows @ [q] \<and> c_id q = i \<and> w_pending v = w_pending w"
proof -
  have "moves (touches_row i) (attempt (mark_as_due E i))"
    unfolding mark_as_due_def by (intro touch.rules mark_due.touches)
  then have "touches_row i w v" using assms(1) by (rule movesD)
  then obtain n qs where v: "v = w\<lparr>w_clock := n, w_pool := qs\<rparr>" and k: "rows_kept i (rows @ [r]) qs"
    using assms(2) unfolding touches_row_def by auto
  obtain ps q where qs: "qs = ps @ [q]" "rows_kept i rows ps" "c_id q = i"
    using k assms(3) by (auto simp: rows_kept_def list_all2_append1 list_all2_Cons1)
  have "ps = rows"
    using qs(2) assms(4) unfolding rows_kept_def by (induction rule: list_all2_induct) auto
  then show ?thesis using qs v by simp
qed



section \<open>A line it does not answer\<close>

text \<open>
  C40: A line that mentions a transaction is logged first, cut after 200 bytes; when the cut falls
  inside a character the handler panics.  A transaction broadcast in such a line is neither kept
  nor answered, and nor is a line that is not JSON.
\<close>
theorem long_line_panics:
  assumes "extract_broadcast_hex E line = Some x \<or> json_parse E (trim line) = None" "trim line \<noteq> []"
    and "line_mentions_tx_rpc line" "\<not> char_boundary line (min 200 (length line))"
  shows "\<exists>d. process_client_line E line url source c = (Panic ''byte index is not a char boundary'', d)
    \<and> cn_out d = cn_out c \<and> cn_tasks d = cn_tasks c \<and> cn_world d = cn_world c"
proof -
  have none: "answer_handshake E line c' = (Ok False, c')" "answer_instant_tip E line url source c' = (Ok False, c')"
    if "json_parse E (trim line) = None" for c'
    using that by (simp_all add: answer_handshake_def answer_instant_tip_def parse_subrequests_def act_simps)
  have "answer_handshake E line c' = (Ok False, c')" "answer_instant_tip E line url source c' = (Ok False, c')" for c'
    using assms(1) handshake_passes instant_passes none by blast+
  then show ?thesis
    using assms(2-)
    by (simp add: process_client_line_def unless_done_def upd_session_def bnd_apply act_simps
        log_incoming_client_line_def check_slice_def)
qed

theorem long_line_panics_witness:
  "let line = ''transaction'' @ replicate 188 (CHR ''x'') @ map char_of [0xC3, 0xA9 :: nat]
   in \<exists>d. process_client_line env0 line [] ''sparrow'' (conn0 world0) = (Panic ''byte index is not a char boundary'', d)"
proof -
  let ?line = "''transaction'' @ replicate 188 (CHR ''x'') @ map char_of [0xC3, 0xA9 :: nat]"
  have "json_parse env0 (trim ?line) = None" by (simp add: env0_def)
  moreover have "trim ?line \<noteq> []" "line_mentions_tx_rpc ?line" "\<not> char_boundary ?line (min 200 (length ?line))"
    by code_simp+
  ultimately show ?thesis
    using long_line_panics [of env0 ?line undefined "[]" "''sparrow''" "conn0 world0"] unfolding Let_def by blast
qed

end
