(* ===== verification/Wallet_View.thy ===== *)
theory Wallet_View
  imports Pending_Map "HOL-Library.Multiset"
begin

text \<open>
  What a wallet session is shown of the waiting transactions: lemmas on the status hash, on the
  injection into histories and unspent lists, and on looking up a waiting transaction.
\<close>

section \<open>The status hash\<close>

text \<open>The text that is hashed depends on the keys of the entries only.\<close>

definition key_entry :: "int \<times> string \<Rightarrow> string" where
  "key_entry k = snd k @ '':'' @ show_int (fst k) @ '':''"

lemma status_entry_key: "status_entry v = key_entry (hist_key v)"
  by (simp add: status_entry_def key_entry_def hist_key_def)

lemma map_sort_key: "map hist_key (sort_key hist_key h) = sort (map hist_key h)"
  by (rule sym, rule properties_for_sort) simp_all

lemma status_text: "map status_entry (sort_key hist_key h) = map key_entry (sort (map hist_key h))"
proof -
  have "map status_entry (sort_key hist_key h) = map key_entry (map hist_key (sort_key hist_key h))"
    by (simp add: status_entry_key)
  then show ?thesis by (simp only: map_sort_key)
qed

lemma status_hash_keys:
  assumes "mset (map hist_key a) = mset (map hist_key b)"
  shows "compute_status_hash E a = compute_status_hash E b"
proof -
  have "sort (map hist_key a) = sort (map hist_key b)"
    using assms by (intro properties_for_sort) simp_all
  moreover have "a = [] \<longleftrightarrow> b = []" using assms by (metis mset_zero_iff map_is_Nil_conv)
  ultimately show ?thesis by (simp add: compute_status_hash_def status_text)
qed

section \<open>Injection into a history\<close>

definition txids_of :: "json list \<Rightarrow> string list" where
  "txids_of h = List.map_filter history_txid h"

lemma history_txid_entry [simp]: "history_txid (history_entry t) = Some t"
  by (simp add: history_txid_def history_entry_def)

lemma hist_key_entry: "hist_key (history_entry t) = (0, t)"
  by (simp add: hist_key_def hist_height_def hist_txid_def history_entry_def as_i64_def)

lemma txids_of_append [simp]: "txids_of (a @ b) = txids_of a @ txids_of b"
  by (simp add: txids_of_def List.map_filter_def)

lemma txids_of_entries [simp]: "txids_of (map history_entry ts) = ts"
  by (induction ts) (simp_all add: txids_of_def List.map_filter_def)

lemma inject_in_history_alt:
  "inject_in_history h ps = h @ map history_entry (filter (\<lambda>t. t \<notin> set (txids_of h)) ps)"
  by (simp add: inject_in_history_def txids_of_def)

lemma inject_keys:
  "image_mset hist_key (mset (inject_in_history h ps))
     = image_mset hist_key (mset h) + image_mset (Pair 0) (filter_mset (\<lambda>t. t \<notin> set (txids_of h)) (mset ps))"
  by (simp add: inject_in_history_alt multiset.map_comp o_def hist_key_entry flip: mset_filter)

text \<open>
  C32: The status hash pushed to a wallet does not depend on the order in which the map of
  waiting transactions is walked, nor on the order of the indexer's history: permuting either
  gives the same hash.
\<close>
theorem status_hash_order_free:
  assumes "mset a = mset b" "mset ps = mset qs"
  shows "compute_modified_status_hash E a ps = compute_modified_status_hash E b qs"
proof -
  have "set (txids_of a) = set (txids_of b)"
    using mset_eq_setD [OF assms(1)] by (auto simp: txids_of_def List.map_filter_def)
  then have "mset (map hist_key (inject_in_history a ps)) = mset (map hist_key (inject_in_history b qs))"
    unfolding mset_map inject_keys using assms by simp
  then show ?thesis unfolding compute_modified_status_hash_def by (rule status_hash_keys)
qed

theorem status_hash_order_free_witness:
  "compute_modified_status_hash env0 [history_entry ''b'', history_entry ''a''] [''d'', ''c'']
     = Some (hex_enc ''a:0:b:0:c:0:d:0:'')"
proof -
  have "compute_modified_status_hash env0 [history_entry ''b'', history_entry ''a''] [''d'', ''c'']
      = compute_modified_status_hash env0 [history_entry ''a'', history_entry ''b''] [''c'', ''d'']"
    by (rule status_hash_order_free) simp_all
  also have "\<dots> = Some (hex_enc ''a:0:b:0:c:0:d:0:'')" by code_simp
  finally show ?thesis .
qed

text \<open>
  C33: Injection shows a wallet exactly what it is missing: the indexer's history comes first
  and unchanged, the transactions in the result are the indexer's and the waiting ones, a
  waiting transaction that the indexer already lists is not listed twice, and injecting again
  adds nothing.
\<close>
theorem history_injection:
  "take (length h) (inject_in_history h ps) = h
   \<and> set (txids_of (inject_in_history h ps)) = set (txids_of h) \<union> set ps
   \<and> (distinct (txids_of h) \<longrightarrow> distinct ps \<longrightarrow> distinct (txids_of (inject_in_history h ps)))
   \<and> inject_in_history (inject_in_history h ps) ps = inject_in_history h ps"
  by (auto simp: inject_in_history_alt filter_empty_conv)

theorem history_injection_witness:
  "let h = [history_entry ''a'']; r = inject_in_history h [''a'', ''b'']
   in txids_of r = [''a'', ''b''] \<and> inject_in_history r [''a'', ''b''] = r \<and> distinct (txids_of r)"
proof -
  have "distinct (txids_of [history_entry ''a''])" "distinct [''a'', ''b'']"
    by (simp_all add: txids_of_def List.map_filter_def)
  then have "distinct (txids_of (inject_in_history [history_entry ''a''] [''a'', ''b'']))"
    using history_injection [of "[history_entry ''a'']" "[''a'', ''b'']"] by blast
  moreover have "txids_of (inject_in_history [history_entry ''a''] [''a'', ''b'']) = [''a'', ''b'']"
    by code_simp
  ultimately show ?thesis
    using history_injection [of "[history_entry ''a'']" "[''a'', ''b'']"] by (simp add: Let_def)
qed

section \<open>Unspent outputs\<close>

lemma utxo_key_pending [simp]: "utxo_key (pending_utxo (t, pos, v)) = Some (t, pos)"
proof -
  have "uint pos < 2 ^ 32" using uint_lt2p [of pos] by simp
  then have lt: "uint pos < 18446744073709551616" by simp
  have "ucast (ucast pos :: u64) = pos"
    by (rule word_uint_eqI) (use lt in \<open>simp add: unsigned_ucast_eq take_bit_word_eq_self\<close>)
  with lt show ?thesis by (simp add: utxo_key_def pending_utxo_def as_u64_def)
qed

definition keys_of :: "json list \<Rightarrow> (string \<times> u32) list" where
  "keys_of us = List.map_filter utxo_key us"

text \<open>The outpoint of a waiting output.\<close>
definition outpoint :: "string \<times> u32 \<times> u64 \<Rightarrow> string \<times> u32" where
  "outpoint p = (fst p, fst (snd p))"

lemma outpoint_simps [simp]: "outpoint (t, pos, v) = (t, pos)"
  by (simp add: outpoint_def)

lemma keys_of_append [simp]: "keys_of (a @ b) = keys_of a @ keys_of b"
  by (simp add: keys_of_def List.map_filter_def)

lemma keys_of_pending [simp]: "keys_of (map pending_utxo ps) = map outpoint ps"
  by (induction ps) (auto simp: keys_of_def List.map_filter_def)

lemma inject_listunspent_alt:
  "inject_listunspent us ps = us @ map pending_utxo (filter (\<lambda>p. outpoint p \<notin> set (keys_of us)) ps)"
proof -
  have "(\<lambda>(t, pos, v). (t, pos) \<notin> A) = (\<lambda>p. outpoint p \<notin> A)" for A
    by (auto simp: outpoint_def fun_eq_iff)
  then show ?thesis by (simp add: inject_listunspent_def keys_of_def)
qed

text \<open>
  The unspent list shown to a wallet is the indexer's list followed by the outputs of
  waiting transactions that the indexer does not list: every outpoint of either is in it, and
  if neither list repeats an outpoint, the result does not.
\<close>
theorem unspent_injection:
  "take (length us) (inject_listunspent us ps) = us
   \<and> set (keys_of (inject_listunspent us ps)) = set (keys_of us) \<union> outpoint ` set ps
   \<and> (distinct (keys_of us) \<longrightarrow> distinct (map outpoint ps)
       \<longrightarrow> distinct (keys_of (inject_listunspent us ps)))"
  by (auto simp: inject_listunspent_alt distinct_map_filter)

theorem unspent_injection_witness:
  "let us = [pending_utxo (''a'', 0, 5)]; ps = [(''a'', 0, 5), (''a'', 1, 6 :: u64)]
   in keys_of (inject_listunspent us ps) = [(''a'', 0), (''a'', 1)]
      \<and> distinct (keys_of (inject_listunspent us ps))"
proof -
  let ?us = "[pending_utxo (''a'', 0, 5)]" and ?ps = "[(''a'', 0, 5), (''a'', 1, 6)] :: (string \<times> u32 \<times> u64) list"
  have "distinct (keys_of ?us)" "distinct (map outpoint ?ps)"
    by code_simp+
  then have "distinct (keys_of (inject_listunspent ?us ?ps))"
    using unspent_injection [of ?us ?ps] by blast
  moreover have "keys_of (inject_listunspent ?us ?ps) = [(''a'', 0), (''a'', 1)]" by code_simp
  ultimately show ?thesis by (simp add: Let_def)
qed

section \<open>Finding a waiting transaction\<close>

lemma alternate_of_hex:
  assumes "hex_inverts E" "hex_canonical E" "length b = 32"
  shows "alternate_txid_format E (hex_encode E b) = Some (hex_encode E (rev b))"
proof -
  have "hex_decode E (hex_encode E b) = Some b" using assms(1) by (simp add: hex_inverts_def)
  then show ?thesis using assms by (simp add: alternate_txid_format_def hex_canonical_def)
qed

text \<open>
  A waiting transaction is found under its id in either byte order, in any case and with
  white space around it, from the moment it is stored: the lookup returns its hex and changes
  nothing, unless another transaction waits under the reversed id.
\<close>
theorem stored_tx_is_found:
  assumes "hex_inverts E" "hex_canonical E" "length b = 32"
    and q: "to_lower (trim q) \<in> {hex_encode E b, hex_encode E (rev b)}"
    and "pending_of w (hex_encode E (rev b)) = None"
    and v: "v = snd (store_pending_tx (hex_encode E b) hex shs outs w)"
  shows "lookup_tx_hex E q v = (Ok (Some hex), v)"
proof -
  let ?p = "pending_of v"
  obtain i where own: "?p (hex_encode E b) = Some i" "pi_tx_hex i = hex"
    by (simp add: v store_run pmap.look_put)
  show ?thesis
  proof (cases "to_lower (trim q) = hex_encode E b")
    case True
    then show ?thesis using own
      by (simp add: lookup_tx_hex_def or_try_def get_pending_tx_hex_def act_simps run_simps Let_def)
  next
    case False
    then have t: "to_lower (trim q) = hex_encode E (rev b)" "hex_encode E (rev b) \<noteq> hex_encode E b"
      using q by auto
    have "?p (hex_encode E (rev b)) = None"
      using assms(5) t(2) by (simp add: v store_run pmap.look_put)
    moreover have "alternate_txid_format E (hex_encode E (rev b)) = Some (hex_encode E b)"
      using alternate_of_hex [OF assms(1,2), of "rev b"] assms(3) by simp
    ultimately show ?thesis using own t(1)
      by (simp add: lookup_tx_hex_def or_try_def get_pending_tx_hex_def with_alt_def act_simps
          run_simps Let_def)
  qed
qed

theorem stored_tx_is_found_witness:
  "let b = CHR 0xAB # replicate 31 (CHR 0x01);
       v = snd (store_pending_tx (hex_enc b) ''00ff'' [''s''] [] world0)
   in lookup_tx_hex env0 ('' '' @ to_upper (hex_enc (rev b))) v = (Ok (Some ''00ff''), v)"
proof -
  let ?b = "CHR 0xAB # replicate 31 (CHR 0x01)"
  have enc: "hex_encode env0 = hex_enc" by (simp add: env0_def)
  have "to_lower (trim ('' '' @ to_upper (hex_enc (rev ?b)))) = hex_enc (rev ?b)" by code_simp
  moreover have "pending_of world0 (hex_encode env0 (rev ?b)) = None"
    by (simp add: pending_of_def world0_def)
  moreover have "length ?b = 32" by simp
  ultimately show ?thesis
    unfolding Let_def
    by (intro stored_tx_is_found [OF env0_laws(3) env0_canonical, where b = ?b]) (simp_all add: enc)
qed

end
